(* ===== verification/Prelude.thy ===== *)
theory Prelude
  imports Main "HOL-Library.Word" "HOL-Library.List_Lexorder" "HOL-Library.Char_ord"
    "HOL-Library.Multiset" "HOL-Library.Sublist"
begin

text \<open>
  Shared vocabulary of the development: Go strings (byte lists), the operations of the
  packages strings, sort, fmt and time that the repository uses, the machine integers, results
  with an error, maps whose iteration order is not fixed, and a locale for invariants of the runs
  of a deterministic step function.

  Go strings are byte sequences, so string is the list of their bytes. Case folding and white
  space are those of the ASCII range; Go also folds letters beyond ASCII, which is not modelled.
\<close>

named_theorems model_simps \<open>unfolding rules of small definitions of the model\<close>

section \<open>Results\<close>

type_synonym 'a result = "string + 'a"

abbreviation Err :: "string \<Rightarrow> 'a result" where
  "Err m \<equiv> Inl m"

abbreviation Ok :: "'a \<Rightarrow> 'a result" where
  "Ok x \<equiv> Inr x"

definition is_ok :: "'a result \<Rightarrow> bool" where
  "is_ok r = (case r of Inl _ \<Rightarrow> False | Inr _ \<Rightarrow> True)"

lemma is_ok_simps [simp]: "is_ok (Inr x)" "\<not> is_ok (Inl m)"
  by (simp_all add: is_ok_def)

section \<open>Machine integers\<close>

type_synonym int64 = "64 word"

definition wrap_int64 :: "int \<Rightarrow> int" where
  "wrap_int64 n = sint (word_of_int n :: 64 word)"

definition wrap_int32 :: "int \<Rightarrow> int" where
  "wrap_int32 n = sint (word_of_int n :: 32 word)"

lemma wrap_int32_id: "- (2 ^ 31) \<le> n \<Longrightarrow> n < 2 ^ 31 \<Longrightarrow> wrap_int32 n = n"
  by (simp add: wrap_int32_def sint_sbintrunc' signed_take_bit_int_eq_self)

lemma wrap_int64_id: "- (2 ^ 63) \<le> n \<Longrightarrow> n < 2 ^ 63 \<Longrightarrow> wrap_int64 n = n"
  by (simp add: wrap_int64_def sint_sbintrunc' signed_take_bit_int_eq_self)

section \<open>Strings\<close>

definition has_prefix :: "string \<Rightarrow> string \<Rightarrow> bool" where
  "has_prefix s p = (take (length p) s = p)"

definition has_suffix :: "string \<Rightarrow> string \<Rightarrow> bool" where
  "has_suffix s p = (length p \<le> length s \<and> drop (length s - length p) s = p)"

definition trim_prefix :: "string \<Rightarrow> string \<Rightarrow> string" where
  "trim_prefix s p = (if has_prefix s p then drop (length p) s else s)"

definition trim_suffix :: "string \<Rightarrow> string \<Rightarrow> string" where
  "trim_suffix s p = (if has_suffix s p then take (length s - length p) s else s)"

fun str_contains :: "string \<Rightarrow> string \<Rightarrow> bool" where
  "str_contains [] p = (p = [])"
| "str_contains (c # s) p = (has_prefix (c # s) p \<or> str_contains s p)"

definition trim_char :: "char \<Rightarrow> string \<Rightarrow> string" where
  "trim_char c s = rev (dropWhile (\<lambda>x. x = c) (rev (dropWhile (\<lambda>x. x = c) s)))"

definition is_space :: "char \<Rightarrow> bool" where
  "is_space c = (c \<in> set [CHR 0x09, CHR 0x0A, CHR 0x0B, CHR 0x0C, CHR 0x0D, CHR 0x20])"

definition trim_space :: "string \<Rightarrow> string" where
  "trim_space s = rev (dropWhile is_space (rev (dropWhile is_space s)))"

definition lower_char :: "char \<Rightarrow> char" where
  "lower_char c =
     (let n = of_char c :: nat in if 65 \<le> n \<and> n \<le> 90 then char_of (n + 32) else c)"

definition upper_char :: "char \<Rightarrow> char" where
  "upper_char c =
     (let n = of_char c :: nat in if 97 \<le> n \<and> n \<le> 122 then char_of (n - 32) else c)"

definition to_lower :: "string \<Rightarrow> string" where
  "to_lower s = map lower_char s"

definition to_upper :: "string \<Rightarrow> string" where
  "to_upper s = map upper_char s"

definition equal_fold :: "string \<Rightarrow> string \<Rightarrow> bool" where
  "equal_fold a b = (to_lower a = to_lower b)"

definition replace_char :: "char \<Rightarrow> char \<Rightarrow> string \<Rightarrow> string" where
  "replace_char a b s = map (\<lambda>c. if c = a then b else c) s"

fun split_on :: "char \<Rightarrow> string \<Rightarrow> string list" where
  "split_on d [] = [[]]"
| "split_on d (c # s) =
     (if c = d then [] # split_on d s
      else (case split_on d s of [] \<Rightarrow> [[c]] | w # ws \<Rightarrow> (c # w) # ws))"

text \<open>The text before and after the first occurrence of a separator (strings.SplitN with 2).\<close>

fun split_first :: "string \<Rightarrow> string \<Rightarrow> (string \<times> string) option" where
  "split_first [] sep = (if sep = [] then Some ([], []) else None)"
| "split_first (c # s) sep =
     (if has_prefix (c # s) sep then Some ([], drop (length sep) (c # s))
      else map_option (\<lambda>(a, b). (c # a, b)) (split_first s sep))"

fun join_str :: "string \<Rightarrow> string list \<Rightarrow> string" where
  "join_str sep [] = []"
| "join_str sep [x] = x"
| "join_str sep (x # y # xs) = x @ sep @ join_str sep (y # xs)"

definition sort_strings :: "string list \<Rightarrow> string list" where
  "sort_strings xs = sort xs"

abbreviation nl :: string where
  "nl \<equiv> [CHR 0x0A]"

abbreviation quote1 :: string where
  "quote1 \<equiv> [CHR 0x27]"

lemma split_on_nonempty: "split_on d s \<noteq> []"
  by (induction s) (auto split: list.splits)

lemma split_on_no_sep: "w \<in> set (split_on d s) \<Longrightarrow> d \<notin> set w"
  by (induction s arbitrary: w) (auto split: list.splits if_splits)

lemma join_split_on: "join_str [d] (split_on d s) = s"
proof (induction s)
  case (Cons c s)
  then show ?case
    by (cases "split_on d s" rule: list.exhaust; cases "tl (split_on d s)" rule: list.exhaust)
      (auto simp: split_on_nonempty)
qed simp

lemma has_prefix_append [simp]: "has_prefix (p @ s) p"
  by (simp add: has_prefix_def)

lemma has_prefixE: "has_prefix s p \<Longrightarrow> \<exists>t. s = p @ t"
  by (metis append_take_drop_id has_prefix_def)

lemma has_suffix_append [simp]: "has_suffix (s @ p) p"
  by (simp add: has_suffix_def)

lemma has_suffixE: "has_suffix s p \<Longrightarrow> \<exists>t. s = t @ p"
  by (metis append_take_drop_id has_suffix_def)

lemma trim_prefix_append [simp]: "trim_prefix (p @ s) p = s"
  by (simp add: trim_prefix_def)

lemma trim_suffix_append [simp]: "trim_suffix (s @ p) p = s"
  by (simp add: trim_suffix_def)

lemma lower_char_idem [simp]: "lower_char (lower_char c) = lower_char c"
proof -
  have "(of_char c :: nat) + 32 < 256" if "of_char c \<le> (90 :: nat)"
    using that by simp
  then show ?thesis by (auto simp: lower_char_def Let_def)
qed

lemma to_lower_idem [simp]: "to_lower (to_lower s) = to_lower s"
  by (simp add: to_lower_def)

lemma is_space_code: "is_space c \<longleftrightarrow> (of_char c :: nat) \<in> {9, 10, 11, 12, 13, 32}"
proof -
  have "c = d \<longleftrightarrow> (of_char c :: nat) = of_char d" for d by simp
  from this[of "CHR 0x09"] this[of "CHR 0x0A"] this[of "CHR 0x0B"] this[of "CHR 0x0C"] this[of "CHR 0x0D"] this[of "CHR 0x20"]
  show ?thesis by (simp add: is_space_def)
qed

lemma is_space_lower [simp]: "is_space (lower_char c) = is_space c"
proof (cases "65 \<le> (of_char c :: nat) \<and> (of_char c :: nat) \<le> 90")
  case True
  then have "(of_char (lower_char c) :: nat) = of_char c + 32" by (simp add: lower_char_def)
  with True show ?thesis by (simp add: is_space_code)
qed (auto simp: lower_char_def)

lemma trim_space_lower: "trim_space (to_lower s) = to_lower (trim_space s)"
proof -
  have "dropWhile is_space (map lower_char t) = map lower_char (dropWhile is_space t)" for t
    by (simp add: dropWhile_map o_def)
  then show ?thesis by (simp add: to_lower_def trim_space_def rev_map)
qed

lemma equal_fold_refl [simp]: "equal_fold s s"
  by (simp add: equal_fold_def)

lemma trim_char_ends:
  assumes "trim_char c s \<noteq> []"
  shows "hd (trim_char c s) \<noteq> c \<and> last (trim_char c s) \<noteq> c"
proof -
  define t where "t = dropWhile (\<lambda>x. x = c) s"
  define u where "u = dropWhile (\<lambda>x. x = c) (rev t)"
  have trim: "trim_char c s = rev u" by (simp add: trim_char_def t_def u_def)
  then have u: "u \<noteq> []" using assms by auto
  then have last: "hd u \<noteq> c" unfolding u_def by (rule hd_dropWhile)
  have t: "t \<noteq> []" using u unfolding u_def by auto
  then have "hd t \<noteq> c" unfolding t_def by (rule hd_dropWhile)
  moreover have "last u = last (rev t)" using u unfolding u_def by (metis last_appendR takeWhile_dropWhile_id)
  ultimately have "last u \<noteq> c" using t by (simp add: last_rev)
  with last show ?thesis unfolding trim using u by (simp add: hd_rev last_rev)
qed

lemma set_trim_char: "set (trim_char c s) \<subseteq> set s"
  by (auto simp: trim_char_def dest!: set_dropWhileD)

lemma has_prefix_prefix: "has_prefix s p \<longleftrightarrow> prefix p s"
  by (metis has_prefixE has_prefix_append prefix_def)

lemma str_contains_sublist: "str_contains s p \<longleftrightarrow> sublist p s"
  by (induction s) (auto simp: has_prefix_prefix sublist_Cons_right)

lemma sort_strings_perm: "mset xs = mset ys \<Longrightarrow> sort_strings xs = sort_strings ys"
  by (simp add: sort_strings_def) (metis properties_for_sort sorted_sort mset_sort)

lemma mset_sort_strings [simp]: "mset (sort_strings xs) = mset xs"
  by (simp add: sort_strings_def)

lemma set_sort_strings [simp]: "set (sort_strings xs) = set xs"
  by (simp add: sort_strings_def)

lemma length_sort_strings [simp]: "length (sort_strings xs) = length xs"
  by (simp add: sort_strings_def)

subsection \<open>Decimal numbers\<close>

fun show_nat :: "nat \<Rightarrow> string" where
  "show_nat n = (if n < 10 then [char_of (48 + n)] else show_nat (n div 10) @ [char_of (48 + n mod 10)])"

declare show_nat.simps [simp del]

definition show_int :: "int \<Rightarrow> string" where
  "show_int n = (if n < 0 then CHR ''-'' # show_nat (nat (- n)) else show_nat (nat n))"

definition is_digit :: "char \<Rightarrow> bool" where
  "is_digit c = (48 \<le> (of_char c :: nat) \<and> of_char c \<le> (57 :: nat))"

definition read_nat :: "string \<Rightarrow> nat" where
  "read_nat s = foldl (\<lambda>a c. 10 * a + (of_char c - 48)) 0 s"

lemma show_nat_digits: "c \<in> set (show_nat n) \<Longrightarrow> is_digit c"
proof (induction n rule: show_nat.induct)
  case (1 n)
  then show ?case
    by (auto simp: is_digit_def show_nat.simps[of n] split: if_splits)
qed

lemma read_show_nat: "read_nat (show_nat n) = n"
proof (induction n rule: show_nat.induct)
  case (1 n)
  show ?case
  proof (cases "n < 10")
    case True
    then show ?thesis by (subst show_nat.simps) (simp add: read_nat_def)
  next
    case False
    with 1 show ?thesis by (subst show_nat.simps) (simp add: read_nat_def)
  qed
qed

lemma show_nat_inj: "show_nat m = show_nat n \<longleftrightarrow> m = n"
  by (metis read_show_nat)

lemma show_int_digits: "c \<in> set (show_int n) \<Longrightarrow> is_digit c \<or> c = CHR ''-''"
  by (auto simp: show_int_def dest: show_nat_digits split: if_splits)

lemma show_nat_hd: "hd (show_nat n) \<noteq> CHR ''-''" "show_nat n \<noteq> []"
proof -
  show ne: "show_nat n \<noteq> []" by (subst show_nat.simps) simp
  then have "is_digit (hd (show_nat n))" by (metis hd_in_set show_nat_digits)
  then show "hd (show_nat n) \<noteq> CHR ''-''" by (auto simp: is_digit_def)
qed

lemma show_int_inj: "show_int m = show_int n \<longleftrightarrow> m = n"
proof
  assume eq: "show_int m = show_int n"
  have neg: "show_int k = CHR ''-'' # s \<longleftrightarrow> k < 0 \<and> s = show_nat (nat (- k))" for k s
    using show_nat_hd[of "nat k"] by (auto simp: show_int_def)
  show "m = n"
  proof (cases "m < 0")
    case True
    with eq neg[of m "show_nat (nat (- m))"] neg[of n "show_nat (nat (- m))"]
    show ?thesis by (auto simp: show_nat_inj)
  next
    case False
    moreover have "\<not> n < 0"
      using False eq neg[of n "show_nat (nat (- n))"] neg[of m "show_nat (nat (- n))"] by auto
    ultimately show ?thesis using eq by (auto simp: show_int_def show_nat_inj)
  qed
qed simp

subsection \<open>Joining with a separator that does not occur\<close>

lemma append_sep_inj:
  assumes "a @ d # b = a' @ d # b'" and "d \<notin> set a" and "d \<notin> set a'"
  shows "a = a' \<and> b = b'"
  using assms by (induction a arbitrary: a') (auto simp: Cons_eq_append_conv append_eq_Cons_conv)

lemma join_sep_inj:
  assumes "length xs = length ys" and "\<forall>x\<in>set xs. d \<notin> set x" and "\<forall>y\<in>set ys. d \<notin> set y"
    and "join_str [d] xs = join_str [d] ys"
  shows "xs = ys"
  using assms
proof (induction xs arbitrary: ys rule: induct_list012)
  case (3 x y zs)
  then obtain x' y' zs' where ys: "ys = x' # y' # zs'"
    by (metis length_Suc_conv)
  from 3 ys have "x @ d # join_str [d] (y # zs) = x' @ d # join_str [d] (y' # zs')" by simp
  then have "x = x' \<and> join_str [d] (y # zs) = join_str [d] (y' # zs')"
    using 3(4,5) ys by (intro append_sep_inj) auto
  with 3(2)[of "y' # zs'"] 3(3-5) ys show ?case by simp
next
  case (2 x)
  then obtain x' where "ys = [x']" by (metis length_Cons list.size(3) length_0_conv length_Suc_conv)
  with 2 show ?case by simp
qed simp

section \<open>Time\<close>

text \<open>
  A time is its number of nanoseconds since the Unix epoch, a duration its number of
  nanoseconds. The zero time of Go is the first of January of the year 1. UnixNano wraps at 64
  bits, Sub saturates, Unix rounds down to seconds.
\<close>

type_synonym time = int
type_synonym duration = int

definition zero_time :: time where
  "zero_time = - 62135596800000000000"

abbreviation is_zero_time :: "time \<Rightarrow> bool" where
  "is_zero_time t \<equiv> t = zero_time"

definition unix_nano :: "time \<Rightarrow> int" where
  "unix_nano t = wrap_int64 t"

definition unix_sec :: "time \<Rightarrow> int" where
  "unix_sec t = t div 1000000000"

definition time_sub :: "time \<Rightarrow> time \<Rightarrow> duration" where
  "time_sub t u = max (- (2 ^ 63)) (min (2 ^ 63 - 1) (t - u))"

definition second :: duration where "second = 1000000000"
definition minute :: duration where "minute = 60 * second"
definition hour :: duration where "hour = 60 * minute"

lemmas time_units = second_def minute_def hour_def

section \<open>Maps\<close>

text \<open>
  A small map of strings is the list of its entries in the order in which a range loop meets
  them, with distinct keys; Go does not fix that order, so results that do not depend on it are
  stated for any permutation. A store is a HOL map, and a loop over it takes an enumeration of
  its keys as an argument.
\<close>

type_synonym smap = "(string \<times> string) list"

definition smap_get :: "smap \<Rightarrow> string \<Rightarrow> string" where
  "smap_get m k = (case map_of m k of None \<Rightarrow> [] | Some v \<Rightarrow> v)"

definition smap_put :: "smap \<Rightarrow> string \<Rightarrow> string \<Rightarrow> smap" where
  "smap_put m k v = filter (\<lambda>e. fst e \<noteq> k) m @ [(k, v)]"

definition wf_smap :: "smap \<Rightarrow> bool" where
  "wf_smap m = distinct (map fst m)"

lemma smap_get_perm:
  assumes "mset m = mset m'" and "wf_smap m"
  shows "smap_get m = smap_get m'"
proof -
  have "distinct (map fst m')"
    using assms by (metis mset_eq_imp_distinct_iff mset_map wf_smap_def)
  then have "map_of m = map_of m'"
    using assms by (auto simp: wf_smap_def dest: mset_eq_setD intro: map_of_inject_set[THEN iffD2])
  then show ?thesis by (auto simp: smap_get_def)
qed

lemma smap_get_put: "smap_get (smap_put m k v) j = (if j = k then v else smap_get m j)"
proof -
  have "map_of (filter (\<lambda>e. fst e \<noteq> k) m) j = (if j = k then None else map_of m j)"
    by (induction m) auto
  then show ?thesis by (auto simp: smap_get_def smap_put_def map_add_def split: option.splits)
qed

lemma wf_smap_put: "wf_smap m \<Longrightarrow> wf_smap (smap_put m k v)"
  by (auto simp: wf_smap_def smap_put_def distinct_map_filter)

definition enumerates :: "'k list \<Rightarrow> ('k \<rightharpoonup> 'v) \<Rightarrow> bool" where
  "enumerates ks m = (distinct ks \<and> set ks = dom m)"

lemma enumerates_length: "enumerates ks m \<Longrightarrow> length ks = card (dom m)"
  by (metis distinct_card enumerates_def)

section \<open>Lists with their indices\<close>

abbreviation indexed :: "'a list \<Rightarrow> (nat \<times> 'a) list" where
  "indexed xs \<equiv> zip [0..<length xs] xs"

section \<open>Runs of deterministic step functions\<close>

text \<open>
  A run that ends in a state either started there and never left it, or entered it a last time;
  from then on every event kept it there.
\<close>

lemma last_entry:
  assumes "foldl f s es = t"
  shows "s = t \<and> (\<forall>x\<in>set es. f t x = t) \<or>
    (\<exists>c e d. es = c @ e # d \<and> foldl f s c \<noteq> t \<and> f (foldl f s c) e = t \<and> (\<forall>x\<in>set d. f t x = t))"
  using assms
proof (induction es rule: rev_induct)
  case (snoc x es)
  show ?case
  proof (cases "foldl f s es = t")
    case True
    with snoc have fx: "f t x = t" by simp
    from snoc.IH[OF True] show ?thesis
    proof
      assume "s = t \<and> (\<forall>x\<in>set es. f t x = t)"
      with fx show ?thesis by auto
    next
      assume "\<exists>c e d. es = c @ e # d \<and> foldl f s c \<noteq> t \<and> f (foldl f s c) e = t \<and> (\<forall>x\<in>set d. f t x = t)"
      then obtain c e d where "es = c @ e # d" "foldl f s c \<noteq> t" "f (foldl f s c) e = t"
        "\<forall>x\<in>set d. f t x = t" by blast
      with fx show ?thesis by (intro disjI2 exI[of _ c] exI[of _ e] exI[of _ "d @ [x]"]) auto
    qed
  next
    case False
    with snoc.prems show ?thesis by (intro disjI2 exI[of _ es] exI[of _ x] exI[of _ "[]"]) auto
  qed
qed simp

locale step_invariant =
  fixes step :: "'s \<Rightarrow> 'e \<Rightarrow> 's" and inv :: "'s \<Rightarrow> bool"
  assumes step_inv: "inv s \<Longrightarrow> inv (step s e)"
begin

lemma run_inv: "inv s \<Longrightarrow> inv (foldl step s es)"
  by (induction es arbitrary: s) (auto intro: step_inv)

lemma run_prefix_inv: "inv s \<Longrightarrow> prefix es es' \<Longrightarrow> inv (foldl step s es)"
  by (rule run_inv)

end

end
