(* ===== verification/Sha256.thy ===== *)
theory Sha256
  imports Prelude
begin

text \<open>
  The digest functions of crypto/sha256 and encoding/hex that every component of the repository
  uses: SHA-256 as FIPS 180-4 states it, on byte strings, hexadecimal encoding and decoding, and
  the canonical digests ``sha256:...'' of core/assurance/epoch.go.
\<close>

unbundle bit_operations_syntax

type_synonym u32 = "32 word"

section \<open>SHA-256\<close>

definition sha_k :: "u32 list" where
  "sha_k =
    [1116352408, 1899447441, 3049323471, 3921009573, 961987163, 1508970993, 2453635748, 2870763221,
     3624381080, 310598401, 607225278, 1426881987, 1925078388, 2162078206, 2614888103, 3248222580,
     3835390401, 4022224774, 264347078, 604807628, 770255983, 1249150122, 1555081692, 1996064986,
     2554220882, 2821834349, 2952996808, 3210313671, 3336571891, 3584528711, 113926993, 338241895,
     666307205, 773529912, 1294757372, 1396182291, 1695183700, 1986661051, 2177026350, 2456956037,
     2730485921, 2820302411, 3259730800, 3345764771, 3516065817, 3600352804, 4094571909, 275423344,
     430227734, 506948616, 659060556, 883997877, 958139571, 1322822218, 1537002063, 1747873779,
     1955562222, 2024104815, 2227730452, 2361852424, 2428436474, 2756734187, 3204031479, 3329325298]"

type_synonym sha_state = "u32 \<times> u32 \<times> u32 \<times> u32 \<times> u32 \<times> u32 \<times> u32 \<times> u32"

definition sha_init :: sha_state where
  "sha_init = (1779033703, 3144134277, 1013904242, 2773480762,
               1359893119, 2600822924, 528734635, 1541459225)"

definition rotr32 :: "nat \<Rightarrow> u32 \<Rightarrow> u32" where
  "rotr32 n x = drop_bit n x OR push_bit (32 - n) x"

definition sched_step :: "u32 list \<Rightarrow> u32 list" where
  "sched_step w =
     (let t = length w; a = w ! (t - 15); b = w ! (t - 2);
          s0 = rotr32 7 a XOR rotr32 18 a XOR drop_bit 3 a;
          s1 = rotr32 17 b XOR rotr32 19 b XOR drop_bit 10 b
      in w @ [w ! (t - 16) + s0 + w ! (t - 7) + s1])"

definition sched :: "u32 list \<Rightarrow> u32 list" where
  "sched blk = (sched_step ^^ 48) blk"

definition sha_round :: "sha_state \<Rightarrow> u32 \<times> u32 \<Rightarrow> sha_state" where
  "sha_round st kw =
     (case st of (a, b, c, d, e, f, g, h) \<Rightarrow>
       let s1 = rotr32 6 e XOR rotr32 11 e XOR rotr32 25 e;
           ch = (e AND f) XOR (NOT e AND g);
           t1 = h + s1 + ch + fst kw + snd kw;
           s0 = rotr32 2 a XOR rotr32 13 a XOR rotr32 22 a;
           mj = (a AND b) XOR (a AND c) XOR (b AND c);
           t2 = s0 + mj
       in (t1 + t2, a, b, c, d + t1, e, f, g))"

definition sha_add :: "sha_state \<Rightarrow> sha_state \<Rightarrow> sha_state" where
  "sha_add st st' =
     (case st of (a, b, c, d, e, f, g, h) \<Rightarrow> case st' of (a', b', c', d', e', f', g', h') \<Rightarrow>
       (a + a', b + b', c + c', d + d', e + e', f + f', g + g', h + h'))"

definition compress :: "sha_state \<Rightarrow> u32 list \<Rightarrow> sha_state" where
  "compress st blk = sha_add st (foldl sha_round st (zip sha_k (sched blk)))"

fun compress_all :: "sha_state \<Rightarrow> u32 list \<Rightarrow> sha_state" where
  "compress_all st ws =
     (if length ws < 16 then st else compress_all (compress st (take 16 ws)) (drop 16 ws))"

declare compress_all.simps [simp del]

definition pack4 :: "char \<Rightarrow> char \<Rightarrow> char \<Rightarrow> char \<Rightarrow> u32" where
  "pack4 a b c d =
     push_bit 24 (of_char a) OR push_bit 16 (of_char b) OR push_bit 8 (of_char c) OR of_char d"

fun words_of :: "string \<Rightarrow> u32 list" where
  "words_of (a # b # c # d # s) = pack4 a b c d # words_of s"
| "words_of _ = []"

definition unpack4 :: "u32 \<Rightarrow> string" where
  "unpack4 w = map (\<lambda>n. char_of (uint (drop_bit n w) mod 256)) [24, 16, 8, 0]"

definition be64 :: "nat \<Rightarrow> string" where
  "be64 n = map (\<lambda>k. char_of (int n div 256 ^ k mod 256)) [7, 6, 5, 4, 3, 2, 1, 0]"

definition sha_pad :: "string \<Rightarrow> string" where
  "sha_pad s =
     (let n = length s; z = (119 - n mod 64) mod 64
      in s @ [char_of (128 :: nat)] @ replicate z (char_of (0 :: nat)) @ be64 (8 * n))"

definition sha256 :: "string \<Rightarrow> string" where
  "sha256 s =
     (case compress_all sha_init (words_of (sha_pad s)) of (a, b, c, d, e, f, g, h) \<Rightarrow>
       concat (map unpack4 [a, b, c, d, e, f, g, h]))"

lemma length_unpack4 [simp]: "length (unpack4 w) = 4"
  by (simp add: unpack4_def)

lemma length_sha256 [simp]: "length (sha256 s) = 32"
  by (simp add: sha256_def split: prod.split)

section \<open>Hexadecimal\<close>

definition hex_digit :: "nat \<Rightarrow> char" where
  "hex_digit n = (if n < 10 then char_of (48 + n) else char_of (87 + n))"

definition hex_value :: "char \<Rightarrow> nat option" where
  "hex_value c =
     (let n = of_char c :: nat
      in if 48 \<le> n \<and> n \<le> 57 then Some (n - 48)
         else if 97 \<le> n \<and> n \<le> 102 then Some (n - 87)
         else if 65 \<le> n \<and> n \<le> 70 then Some (n - 55)
         else None)"

fun hex_encode :: "string \<Rightarrow> string" where
  "hex_encode [] = []"
| "hex_encode (c # s) = hex_digit (of_char c div 16) # hex_digit (of_char c mod 16) # hex_encode s"

fun hex_decode :: "string \<Rightarrow> string option" where
  "hex_decode [] = Some []"
| "hex_decode [c] = None"
| "hex_decode (c # d # s) =
     (case (hex_value c, hex_value d, hex_decode s) of
       (Some x, Some y, Some r) \<Rightarrow> Some (char_of (16 * x + y) # r)
     | _ \<Rightarrow> None)"

lemma hex_value_digit: "n < 16 \<Longrightarrow> hex_value (hex_digit n) = Some n"
  by (auto simp: hex_value_def hex_digit_def Let_def)

lemma hex_decode_encode [simp]: "hex_decode (hex_encode s) = Some s"
proof (induction s)
  case (Cons c s)
  have "(of_char c :: nat) div 16 < 16" by (simp add: less_mult_imp_div_less)
  moreover have "16 * ((of_char c :: nat) div 16) + of_char c mod 16 = of_char c" by simp
  ultimately show ?case
    using Cons by (simp add: hex_value_digit)
qed simp

lemma hex_encode_inj: "hex_encode s = hex_encode t \<longleftrightarrow> s = t"
  by (metis hex_decode_encode option.inject)

lemma length_hex_encode [simp]: "length (hex_encode s) = 2 * length s"
  by (induction s) auto

definition is_hex :: "char \<Rightarrow> bool" where
  "is_hex c = (\<exists>n < 16. c = hex_digit n)"

lemma hex_encode_hex: "c \<in> set (hex_encode s) \<Longrightarrow> is_hex c"
proof (induction s)
  case (Cons a s)
  have "(of_char a :: nat) div 16 < 16" "(of_char a :: nat) mod 16 < 16"
    by (simp_all add: less_mult_imp_div_less)
  then have "is_hex (hex_digit (of_char a div 16))" "is_hex (hex_digit (of_char a mod 16))"
    unfolding is_hex_def by blast+
  with Cons show ?case by auto
qed simp

lemma is_hex_range: "is_hex c \<Longrightarrow> (48 \<le> (of_char c :: nat) \<and> of_char c \<le> (57 :: nat)) \<or>
    (97 \<le> (of_char c :: nat) \<and> of_char c \<le> (102 :: nat))"
  by (auto simp: is_hex_def hex_digit_def split: if_splits)

section \<open>Canonical digests\<close>

definition sha_prefix :: string where
  "sha_prefix = ''sha256:''"

definition compute_digest :: "string \<Rightarrow> string" where
  "compute_digest payload = sha_prefix @ hex_encode (sha256 payload)"

definition compute_string_digest :: "string \<Rightarrow> string" where
  "compute_string_digest s = compute_digest s"

text \<open>
  Two inputs collide when they differ and hash alike. That some pair collides is a fact of any
  hash function; the lemmas below always name the pair.
\<close>

definition collides :: "string \<Rightarrow> string \<Rightarrow> bool" where
  "collides a b = (a \<noteq> b \<and> sha256 a = sha256 b)"

lemma compute_digest_eq: "compute_digest a = compute_digest b \<longleftrightarrow> sha256 a = sha256 b"
  by (simp add: compute_digest_def hex_encode_inj)

lemma compute_digest_cases: "compute_digest a = compute_digest b \<Longrightarrow> a = b \<or> collides a b"
  by (auto simp: compute_digest_eq collides_def)

lemma length_compute_digest [simp]: "length (compute_digest s) = 71"
  by (simp add: compute_digest_def sha_prefix_def)

lemma compute_digest_nonempty [simp]: "compute_digest s \<noteq> []"
  by (simp add: compute_digest_def sha_prefix_def)

lemma compute_string_digest_simps [simp]:
  "length (compute_string_digest s) = 71" "compute_string_digest s \<noteq> []"
  by (simp_all add: compute_string_digest_def)

lemma compute_digest_chars:
  "c \<in> set (compute_digest s) \<Longrightarrow> c \<in> set sha_prefix \<or> is_hex c"
  by (auto simp: compute_digest_def dest: hex_encode_hex)

lemma compute_digest_no_bar: "CHR ''|'' \<notin> set (compute_digest s)"
  by (auto simp: sha_prefix_def dest!: compute_digest_chars is_hex_range)

locale content_addressed =
  fixes canon :: "'a \<Rightarrow> string" and dig :: "'a \<Rightarrow> string"
  assumes dig_canon: "dig x = compute_digest (canon x)"
begin

lemma dig_cong: "canon x = canon y \<Longrightarrow> dig x = dig y"
  by (simp add: dig_canon)

lemma dig_binds: "dig x = dig y \<Longrightarrow> canon x = canon y \<or> collides (canon x) (canon y)"
  by (auto simp: dig_canon dest: compute_digest_cases)

lemma dig_detects: "canon x \<noteq> canon y \<Longrightarrow> \<not> collides (canon x) (canon y) \<Longrightarrow> dig x \<noteq> dig y"
  using dig_binds by blast

lemma dig_length: "length (dig x) = 71"
  by (simp add: dig_canon)

end

end
