(* ===== verification/Epoch.thy ===== *)
theory Epoch
  imports Sha256
begin

text \<open>
  core/assurance/epoch.go: the epoch of an evaluation (five digests), its composite digest, the
  match and the difference of two epochs, and the digests of maps and of lists of digests.
\<close>

section \<open>Epochs\<close>

datatype drift_reason =
  SubjectDrift | ImplementationDrift | PolicyDrift | AuthorityDrift | EnvironmentDrift

record epoch =
  subject_digest :: string
  implementation_digest :: string
  policy_digest :: string
  authority_digest :: string
  environment_digest :: string

definition empty_epoch :: epoch where
  "empty_epoch = \<lparr>subject_digest = [], implementation_digest = [], policy_digest = [],
                  authority_digest = [], environment_digest = []\<rparr>"

definition epoch_parts :: "epoch \<Rightarrow> string list" where
  "epoch_parts e =
     [subject_digest e, implementation_digest e, policy_digest e, authority_digest e,
      environment_digest e]"

definition epoch_raw :: "epoch \<Rightarrow> string" where
  "epoch_raw e = join_str '':'' (epoch_parts e)"

definition composite_digest :: "epoch \<Rightarrow> string" where
  "composite_digest e = ''sha256:'' @ hex_encode (sha256 (epoch_raw e))"

definition epoch_matches :: "epoch \<Rightarrow> epoch \<Rightarrow> bool" where
  "epoch_matches e other =
     (if subject_digest other \<noteq> [] \<and> subject_digest e \<noteq> subject_digest other then False
      else if implementation_digest other \<noteq> [] \<and> implementation_digest e \<noteq> implementation_digest other then False
      else if policy_digest other \<noteq> [] \<and> policy_digest e \<noteq> policy_digest other then False
      else if authority_digest other \<noteq> [] \<and> authority_digest e \<noteq> authority_digest other then False
      else if environment_digest other \<noteq> [] \<and> environment_digest e \<noteq> environment_digest other then False
      else True)"

definition epoch_diff :: "epoch \<Rightarrow> epoch \<Rightarrow> drift_reason list" where
  "epoch_diff e other =
     (if subject_digest e \<noteq> subject_digest other then [SubjectDrift] else []) @
     (if implementation_digest e \<noteq> implementation_digest other then [ImplementationDrift] else []) @
     (if policy_digest e \<noteq> policy_digest other then [PolicyDrift] else []) @
     (if authority_digest e \<noteq> authority_digest other then [AuthorityDrift] else []) @
     (if environment_digest e \<noteq> environment_digest other then [EnvironmentDrift] else [])"

lemma epoch_matches_parts:
  "epoch_matches e t \<longleftrightarrow> (\<forall>(a, b)\<in>set (zip (epoch_parts e) (epoch_parts t)). b \<noteq> [] \<longrightarrow> a = b)"
  by (auto simp: epoch_matches_def epoch_parts_def)

lemma epoch_matches_refl [simp]: "epoch_matches e e"
  by (simp add: epoch_matches_def)

lemma epoch_matches_empty [simp]: "epoch_matches e empty_epoch"
  by (simp add: epoch_matches_def empty_epoch_def)

lemma epoch_matches_full:
  assumes "\<forall>d\<in>set (epoch_parts t). d \<noteq> []" and "epoch_matches e t"
  shows "e = t"
  using assms by (auto simp: epoch_matches_def epoch_parts_def split: if_splits)

lemma epoch_diff_empty: "epoch_diff e t = [] \<longleftrightarrow> e = t"
  by (auto simp: epoch_diff_def)

lemma epoch_diff_sym: "epoch_diff e t = epoch_diff t e"
  by (simp add: epoch_diff_def eq_commute)

lemma distinct_epoch_diff: "distinct (epoch_diff e t)"
  by (simp add: epoch_diff_def)

lemma no_match_diff: "\<not> epoch_matches e t \<Longrightarrow> epoch_diff e t \<noteq> []"
  by (auto simp: epoch_diff_empty)

lemma composite_digest_alt: "composite_digest e = compute_digest (epoch_raw e)"
  by (simp add: composite_digest_def compute_digest_def sha_prefix_def)

interpretation epoch_digest: content_addressed epoch_raw composite_digest
  by unfold_locales (rule composite_digest_alt)

text \<open>
  The separator of the composite digest occurs in every digest, so the raw string determines the
  epoch only where each dimension is empty or has the length and the first letter of a digest.
\<close>

definition wf_dim :: "string \<Rightarrow> bool" where
  "wf_dim d = (d = [] \<or> (length d = 71 \<and> hd d = CHR ''s''))"

definition wf_epoch :: "epoch \<Rightarrow> bool" where
  "wf_epoch e = list_all wf_dim (epoch_parts e)"

lemma wf_dim_digest [simp]: "wf_dim (compute_digest s)"
  by (simp add: wf_dim_def) (simp add: compute_digest_def sha_prefix_def)

lemma wf_dim_string_digest [simp]: "wf_dim (compute_string_digest s)"
  by (simp add: compute_string_digest_def)

lemma wf_dim_empty [simp]: "wf_dim []"
  by (simp add: wf_dim_def)

lemma wf_dim_cons:
  assumes "wf_dim a" and "wf_dim b" and "a @ CHR '':'' # r = b @ CHR '':'' # s"
  shows "a = b \<and> r = s"
  using assms by (cases a; cases b) (auto simp: wf_dim_def)

lemma epoch_raw_inj:
  assumes "wf_epoch e" and "wf_epoch t" and "epoch_raw e = epoch_raw t"
  shows "e = t"
proof -
  obtain a1 a2 a3 a4 a5 b1 b2 b3 b4 b5
    where e: "epoch_parts e = [a1, a2, a3, a4, a5]" and t: "epoch_parts t = [b1, b2, b3, b4, b5]"
    by (simp add: epoch_parts_def)
  from assms e t have wf: "wf_dim a1" "wf_dim a2" "wf_dim a3" "wf_dim a4"
    "wf_dim b1" "wf_dim b2" "wf_dim b3" "wf_dim b4"
    by (simp_all add: wf_epoch_def)
  from assms(3) e t
  have 1: "a1 @ CHR '':'' # a2 @ CHR '':'' # a3 @ CHR '':'' # a4 @ CHR '':'' # a5 =
      b1 @ CHR '':'' # b2 @ CHR '':'' # b3 @ CHR '':'' # b4 @ CHR '':'' # b5"
    by (simp add: epoch_raw_def)
  note 2 = wf_dim_cons[OF wf(1) wf(5) 1]
  note 3 = wf_dim_cons[OF wf(2) wf(6) 2[THEN conjunct2]]
  note 4 = wf_dim_cons[OF wf(3) wf(7) 3[THEN conjunct2]]
  note 5 = wf_dim_cons[OF wf(4) wf(8) 4[THEN conjunct2]]
  from 2 3 4 5 have "epoch_parts e = epoch_parts t" by (simp add: e t)
  then show ?thesis by (simp add: epoch_parts_def)
qed

section \<open>Digests of maps and of digest lists\<close>

definition map_raw :: "smap \<Rightarrow> string" where
  "map_raw m =
     concat (map (\<lambda>k. k @ ''='' @ smap_get m k @ '';'') (sort_strings (map fst m)))"

definition compute_map_digest :: "smap \<Rightarrow> string" where
  "compute_map_digest m =
     (if length m = 0 then compute_digest ''{}'' else compute_digest (map_raw m))"

definition list_raw :: "string list \<Rightarrow> string" where
  "list_raw digests = join_str nl (sort_strings digests)"

definition canonical_digest_list :: "string list \<Rightarrow> string" where
  "canonical_digest_list digests =
     (if length digests = 0 then compute_digest [] else compute_digest (list_raw digests))"

lemma compute_map_digest_perm:
  assumes "mset m = mset m'" and "wf_smap m"
  shows "compute_map_digest m = compute_map_digest m'"
proof -
  have "mset (map fst m) = mset (map fst m')" using assms(1) by (metis mset_map)
  then have "sort_strings (map fst m) = sort_strings (map fst m')" by (rule sort_strings_perm)
  moreover have "length m = length m'" using assms(1) by (metis size_mset)
  ultimately show ?thesis
    by (simp add: compute_map_digest_def map_raw_def smap_get_perm[OF assms])
qed

lemma canonical_digest_list_alt: "canonical_digest_list ds = compute_digest (list_raw ds)"
  by (simp add: canonical_digest_list_def list_raw_def sort_strings_def)

interpretation list_digest: content_addressed list_raw canonical_digest_list
  by unfold_locales (rule canonical_digest_list_alt)

lemma canonical_digest_list_perm:
  "mset ds = mset ds' \<Longrightarrow> canonical_digest_list ds = canonical_digest_list ds'"
  by (rule list_digest.dig_cong) (simp only: list_raw_def, drule sort_strings_perm, simp)

text \<open>Lists of digests without line breaks are determined by their root, up to order.\<close>

lemma list_raw_inj:
  assumes "length xs = length ys" and "\<forall>x\<in>set xs \<union> set ys. CHR 0x0A \<notin> set x"
    and "list_raw xs = list_raw ys"
  shows "mset xs = mset ys"
proof -
  have "sort_strings xs = sort_strings ys"
  proof (rule join_sep_inj[where d = "CHR 0x0A"])
    show "length (sort_strings xs) = length (sort_strings ys)" using assms(1) by simp
    show "\<forall>x\<in>set (sort_strings xs). CHR 0x0A \<notin> set x" using assms(2) by simp
    show "\<forall>x\<in>set (sort_strings ys). CHR 0x0A \<notin> set x" using assms(2) by simp
    show "join_str [CHR 0x0A] (sort_strings xs) = join_str [CHR 0x0A] (sort_strings ys)"
      using assms(3) by (simp only: list_raw_def)
  qed
  then show ?thesis by (metis mset_sort_strings)
qed

section \<open>Properties\<close>

text \<open>
  Further: two epochs whose dimensions are empty or digests have the same composite digest only if they
  are equal or two explicit inputs of SHA-256 collide.
\<close>

lemma composite_digest_binds:
  assumes "wf_epoch e" and "wf_epoch t" and "composite_digest e = composite_digest t"
  shows "e = t \<or> collides (epoch_raw e) (epoch_raw t)"
  using epoch_digest.dig_binds[OF assms(3)] epoch_raw_inj[OF assms(1,2)] by blast

lemma composite_digest_binds_witness:
  "empty_epoch = empty_epoch \<or> collides (epoch_raw empty_epoch) (epoch_raw empty_epoch)"
  by (rule composite_digest_binds) (simp_all add: wf_epoch_def epoch_parts_def empty_epoch_def)

text \<open>
  Further: evidence recorded under one epoch matches another exactly when it agrees with it in every
  dimension the other fixes; against an epoch that fixes all of them only the same epoch matches.
  A failed match always names the drifted dimensions, without repetition, and the difference is
  empty exactly for equal epochs and symmetric.
\<close>

lemma epoch_match_and_diff:
  "(epoch_matches e t \<longleftrightarrow> list_all2 (\<lambda>a b. b = [] \<or> a = b) (epoch_parts e) (epoch_parts t)) \<and>
   (epoch_matches e t \<and> [] \<notin> set (epoch_parts t) \<longleftrightarrow> e = t \<and> [] \<notin> set (epoch_parts t)) \<and>
   (epoch_matches e t \<or> epoch_diff e t \<noteq> []) \<and> distinct (epoch_diff e t) \<and>
   (epoch_diff e t = [] \<longleftrightarrow> e = t) \<and> epoch_diff e t = epoch_diff t e"
proof (intro conjI)
  show "epoch_matches e t \<longleftrightarrow> list_all2 (\<lambda>a b. b = [] \<or> a = b) (epoch_parts e) (epoch_parts t)"
    by (auto simp: epoch_matches_def epoch_parts_def)
  show "epoch_matches e t \<and> [] \<notin> set (epoch_parts t) \<longleftrightarrow> e = t \<and> [] \<notin> set (epoch_parts t)"
    using epoch_matches_full[of t e] by fastforce
  show "epoch_matches e t \<or> epoch_diff e t \<noteq> []" using no_match_diff by blast
  show "distinct (epoch_diff e t)" by (rule distinct_epoch_diff)
  show "epoch_diff e t = [] \<longleftrightarrow> e = t" by (rule epoch_diff_empty)
  show "epoch_diff e t = epoch_diff t e" by (rule epoch_diff_sym)
qed

lemma epoch_match_and_diff_witness:
  "SubjectDrift \<in> set (epoch_diff (empty_epoch\<lparr>subject_digest := ''a''\<rparr>) (empty_epoch\<lparr>subject_digest := ''b''\<rparr>))"
  using epoch_match_and_diff[of "empty_epoch\<lparr>subject_digest := ''a''\<rparr>" "empty_epoch\<lparr>subject_digest := ''b''\<rparr>"]
  by (simp add: epoch_diff_def empty_epoch_def)

text \<open>
  Further: the digest of a map does not depend on the order in which the map is iterated, and the digest
  of a list of digests not on the order of the list; lists of equal length without line breaks that
  share a digest hold the same digests, or two explicit inputs collide.
\<close>

lemma canonical_digests:
  assumes "wf_smap m" and "mset m = mset m'" and "mset ds = mset ds'"
    and "length xs = length ys" and "list_all (\<lambda>x. CHR 0x0A \<notin> set x) (xs @ ys)"
    and "canonical_digest_list xs = canonical_digest_list ys"
  shows "compute_map_digest m = compute_map_digest m' \<and>
    canonical_digest_list ds = canonical_digest_list ds' \<and>
    (mset xs = mset ys \<or> collides (list_raw xs) (list_raw ys))"
proof -
  have "mset xs = mset ys \<or> collides (list_raw xs) (list_raw ys)"
    using list_digest.dig_binds[OF assms(6)] list_raw_inj[OF assms(4)] assms(5) by (auto simp: list_all_iff)
  with compute_map_digest_perm[OF assms(2,1)] canonical_digest_list_perm[OF assms(3)] show ?thesis by blast
qed

lemma canonical_digests_witness:
  "compute_map_digest [(''a'', ''1''), (''b'', ''2'')] = compute_map_digest [(''b'', ''2''), (''a'', ''1'')] \<and>
   canonical_digest_list [''x'', ''y''] = canonical_digest_list [''y'', ''x''] \<and>
   (mset [''x''] = mset [''x''] \<or> collides (list_raw [''x'']) (list_raw [''x'']))"
  by (rule canonical_digests) (simp_all add: wf_smap_def)

end
