(* ===== verification/Assurance_State.thy ===== *)
theory Assurance_State
  imports Prelude
begin

text \<open>
  core/assurance/state.go: the assurance states and their names, the transition function of the
  life cycle, presence, valence and coherence, the assurance vector and its resolution to a
  state. The integer behind a state and the strings behind an event, a valence and a coherence
  are not limited to the declared constants in Go; the Other constructors stand for those values.
\<close>

section \<open>States and their names\<close>

datatype astate =
    Unspecified | Unknown | Observed | Verified | Assured | Stale | Failed
  | OtherState int

definition astate_of_int :: "int \<Rightarrow> astate" where
  "astate_of_int n =
     (if n = 0 then Unspecified else if n = 1 then Unknown else if n = 2 then Observed
      else if n = 3 then Verified else if n = 4 then Assured else if n = 5 then Stale
      else if n = 6 then Failed else OtherState n)"

fun int_of_astate :: "astate \<Rightarrow> int" where
  "int_of_astate Unspecified = 0"
| "int_of_astate Unknown = 1"
| "int_of_astate Observed = 2"
| "int_of_astate Verified = 3"
| "int_of_astate Assured = 4"
| "int_of_astate Stale = 5"
| "int_of_astate Failed = 6"
| "int_of_astate (OtherState n) = n"

text \<open>The values that the integers really denote: OtherState stands only for undeclared ones.\<close>

definition wf_astate :: "astate \<Rightarrow> bool" where
  "wf_astate s = (case s of OtherState n \<Rightarrow> n < 0 \<or> 6 < n | _ \<Rightarrow> True)"

fun state_string :: "astate \<Rightarrow> string" where
  "state_string Unspecified = ''UNSPECIFIED''"
| "state_string Unknown = ''UNKNOWN''"
| "state_string Observed = ''OBSERVED''"
| "state_string Verified = ''VERIFIED''"
| "state_string Assured = ''ASSURED''"
| "state_string Stale = ''STALE''"
| "state_string Failed = ''FAILED''"
| "state_string (OtherState n) = ''AssuranceState('' @ show_int n @ '')''"

definition state_values :: "(string \<times> astate) list" where
  "state_values =
     [(''UNSPECIFIED'', Unspecified), (''UNKNOWN'', Unknown), (''OBSERVED'', Observed),
      (''VERIFIED'', Verified), (''ASSURED'', Assured), (''STALE'', Stale), (''FAILED'', Failed)]"

definition parse_assurance_state :: "string \<Rightarrow> astate \<times> string option" where
  "parse_assurance_state str =
     (case map_of state_values str of
       Some v \<Rightarrow> (v, None)
     | None \<Rightarrow> (Unspecified, Some (''invalid assurance state: '' @ str)))"

text \<open>
  JSON: the encoder of the standard library is the argument enc, the decoder of a JSON string is
  dec; UnmarshalJSON leaves the receiver alone when either step fails.
\<close>

definition marshal_state :: "(string \<Rightarrow> string) \<Rightarrow> astate \<Rightarrow> string" where
  "marshal_state enc s = enc (state_string s)"

definition unmarshal_state :: "(string \<Rightarrow> string result) \<Rightarrow> string \<Rightarrow> astate \<Rightarrow> astate \<times> string option" where
  "unmarshal_state dec data s =
     (case dec data of
       Inl e \<Rightarrow> (s, Some e)
     | Inr str \<Rightarrow>
         (case parse_assurance_state str of
           (_, Some e) \<Rightarrow> (s, Some e)
         | (v, None) \<Rightarrow> (v, None)))"

lemma astate_of_int_of_astate: "wf_astate s \<Longrightarrow> astate_of_int (int_of_astate s) = s"
  by (cases s) (auto simp: wf_astate_def astate_of_int_def)

lemma int_of_astate_of_int [simp]: "int_of_astate (astate_of_int n) = n"
  by (simp add: astate_of_int_def)

lemma wf_astate_of_int [simp]: "wf_astate (astate_of_int n)"
  by (auto simp: astate_of_int_def wf_astate_def)

lemma parse_state_string:
  "parse_assurance_state (state_string s) =
     (case s of OtherState n \<Rightarrow> (Unspecified, Some (''invalid assurance state: '' @ state_string s))
      | _ \<Rightarrow> (s, None))"
  by (cases s) (simp_all add: parse_assurance_state_def state_values_def)

lemma state_string_inj: "state_string s = state_string t \<longleftrightarrow> s = t"
  by (cases s; cases t) (simp_all add: show_int_inj)

text \<open>The order of the integer values, the order that comparisons of states in Go use.\<close>

definition astate_key :: "astate \<Rightarrow> int \<times> nat" where
  "astate_key s = (int_of_astate s, case s of OtherState _ \<Rightarrow> 1 | _ \<Rightarrow> 0)"

lemma astate_key_inj: "astate_key s = astate_key t \<longleftrightarrow> s = t"
  by (cases s; cases t) (simp_all add: astate_key_def)

instantiation astate :: linorder
begin

definition less_eq_astate :: "astate \<Rightarrow> astate \<Rightarrow> bool" where
  "less_eq_astate s t =
     (fst (astate_key s) < fst (astate_key t) \<or>
      (fst (astate_key s) = fst (astate_key t) \<and> snd (astate_key s) \<le> snd (astate_key t)))"

definition less_astate :: "astate \<Rightarrow> astate \<Rightarrow> bool" where
  "less_astate s t = (s \<le> t \<and> \<not> t \<le> s)"

instance
  by intro_classes
    (auto simp: less_eq_astate_def less_astate_def prod_eq_iff simp flip: astate_key_inj)

end

section \<open>The life cycle\<close>

datatype event =
    EvidenceIngested | EvidenceVerified | PolicyAssured | EpochChanged | EvidenceExpired
  | Reevaluated | ViolationConfirmed | EvidenceInvalid | Reset
  | OtherEvent string

fun event_string :: "event \<Rightarrow> string" where
  "event_string EvidenceIngested = ''EVIDENCE_INGESTED''"
| "event_string EvidenceVerified = ''EVIDENCE_VERIFIED''"
| "event_string PolicyAssured = ''POLICY_ASSURED''"
| "event_string EpochChanged = ''EPOCH_CHANGED''"
| "event_string EvidenceExpired = ''EVIDENCE_EXPIRED''"
| "event_string Reevaluated = ''REEVALUATED''"
| "event_string ViolationConfirmed = ''VIOLATION_CONFIRMED''"
| "event_string EvidenceInvalid = ''EVIDENCE_INVALID''"
| "event_string Reset = ''RESET''"
| "event_string (OtherEvent e) = e"

definition invalid_transition :: "astate \<Rightarrow> event \<Rightarrow> astate \<times> string option" where
  "invalid_transition current ev =
     (current, Some (''invalid assurance state transition: cannot transition from '' @
        state_string current @ '' via '' @ event_string ev))"

definition transition :: "astate \<Rightarrow> event \<Rightarrow> astate \<times> string option" where
  "transition current ev =
     (if ev = ViolationConfirmed then (Failed, None)
      else if ev = EvidenceInvalid \<or> ev = Reset then (Unknown, None)
      else
        if (current = Unknown \<or> current = Unspecified) \<and> ev = EvidenceIngested then (Observed, None)
        else if current = Observed \<and> ev = EvidenceVerified then (Verified, None)
        else if current = Verified \<and> ev = PolicyAssured then (Assured, None)
        else if current = Verified \<and> (ev = EpochChanged \<or> ev = EvidenceExpired) then (Stale, None)
        else if current = Assured \<and> (ev = EpochChanged \<or> ev = EvidenceExpired) then (Stale, None)
        else if current = Stale \<and> (ev = Reevaluated \<or> ev = EvidenceIngested) then (Observed, None)
        else if current = Failed \<and> ev = Reevaluated then (Observed, None)
        else invalid_transition current ev)"

text \<open>A caller that keeps the returned state, whether or not an error came with it.\<close>

definition next_state :: "astate \<Rightarrow> event \<Rightarrow> astate" where
  "next_state s e = fst (transition s e)"

abbreviation run_events :: "astate \<Rightarrow> event list \<Rightarrow> astate" where
  "run_events s es \<equiv> foldl next_state s es"

text \<open>
  The machine that the comment above Transition and section 6 of the architecture document
  state, as a relation.
\<close>

inductive documented_step :: "astate \<Rightarrow> event \<Rightarrow> astate \<Rightarrow> bool" where
  ingest: "documented_step Unknown EvidenceIngested Observed"
| verify: "documented_step Observed EvidenceVerified Verified"
| assure: "documented_step Verified PolicyAssured Assured"
| epoch: "documented_step Assured EpochChanged Stale"
| expire: "documented_step Assured EvidenceExpired Stale"
| reeval: "documented_step Stale Reevaluated Observed"
| violate: "documented_step s ViolationConfirmed Failed"
| invalidate: "documented_step s EvidenceInvalid Unknown"
| reset: "documented_step s Reset Unknown"

inductive_simps documented_step_iff: "documented_step s e t"

text \<open>What the code allows beyond it.\<close>

definition extra_steps :: "(astate \<times> event \<times> astate) list" where
  "extra_steps =
     [(Unspecified, EvidenceIngested, Observed), (Verified, EpochChanged, Stale),
      (Verified, EvidenceExpired, Stale), (Stale, EvidenceIngested, Observed),
      (Failed, Reevaluated, Observed)]"

lemma invalid_transition_simps [simp]:
  "invalid_transition s e \<noteq> (t, None)"
  "fst (invalid_transition s e) = s"
  by (simp_all add: invalid_transition_def)

lemma transition_iff:
  "transition s e = (t, None) \<longleftrightarrow> documented_step s e t \<or> (s, e, t) \<in> set extra_steps"
  unfolding transition_def documented_step_iff extra_steps_def
  by (cases e) auto

lemma transition_error:
  assumes "transition s e = (t, Some m)"
  shows "t = s \<and> (\<forall>u. \<not> documented_step s e u)"
proof
  from assms show "t = s"
    by (auto simp: transition_def invalid_transition_def split: if_splits)
  from assms have "transition s e \<noteq> (u, None)" for u by simp
  then show "\<forall>u. \<not> documented_step s e u" by (auto simp: transition_iff)
qed

lemma next_state_wf: "wf_astate s \<Longrightarrow> wf_astate (next_state s e)"
  by (simp add: next_state_def transition_def wf_astate_def)

interpretation fsm: step_invariant next_state wf_astate
  by unfold_locales (rule next_state_wf)

definition invalidating :: "event \<Rightarrow> bool" where
  "invalidating e = (e \<in> {ViolationConfirmed, EvidenceInvalid, Reset, EpochChanged, EvidenceExpired})"

lemma next_state_simps:
  "next_state s ViolationConfirmed = Failed"
  "next_state s EvidenceInvalid = Unknown"
  "next_state s Reset = Unknown"
  by (simp_all add: next_state_def transition_def)

lemma enter_assured: "next_state s e = Assured \<Longrightarrow> s \<noteq> Assured \<Longrightarrow> s = Verified \<and> e = PolicyAssured"
  by (auto simp: next_state_def transition_def split: if_splits)

lemma enter_verified: "next_state s e = Verified \<Longrightarrow> s \<noteq> Verified \<Longrightarrow> s = Observed \<and> e = EvidenceVerified"
  by (auto simp: next_state_def transition_def split: if_splits)

lemma enter_observed:
  "next_state s e = Observed \<Longrightarrow> s \<noteq> Observed \<Longrightarrow> e = EvidenceIngested \<or> e = Reevaluated"
  by (auto simp: next_state_def transition_def split: if_splits)

lemma stay_assured: "next_state Assured e = Assured \<Longrightarrow> \<not> invalidating e"
  by (auto simp: next_state_def transition_def invalidating_def)

lemma stay_verified: "next_state Verified e = Verified \<Longrightarrow> \<not> invalidating e"
  by (auto simp: next_state_def transition_def invalidating_def)

lemma run_to_verified:
  assumes "run_events s es = Verified" and "s \<noteq> Verified" and "s \<noteq> Observed"
  shows "\<exists>a e b c. es = a @ e # b @ EvidenceVerified # c \<and> (e = EvidenceIngested \<or> e = Reevaluated) \<and>
    (\<forall>x\<in>set c. \<not> invalidating x)"
proof -
  obtain c d where es: "es = c @ EvidenceVerified # d" and obs: "run_events s c = Observed"
    and d: "\<forall>x\<in>set d. \<not> invalidating x"
    using last_entry[OF assms(1)] assms(2) by (metis enter_verified stay_verified)
  obtain a e b where "c = a @ e # b" "e = EvidenceIngested \<or> e = Reevaluated"
    using last_entry[OF obs] assms(3) by (metis enter_observed)
  with es d show ?thesis by (metis append.assoc append_Cons)
qed

text \<open>
  C10: an assessment that starts outside OBSERVED, VERIFIED and ASSURED reaches ASSURED only through
  evidence that is ingested or re-evaluated, then verified, then assured by policy, and no violation,
  invalid evidence, reset, epoch change or expiry follows the verification.
\<close>

lemma run_to_assured:
  assumes "run_events s es = Assured" and "s \<noteq> Assured" and "s \<noteq> Verified" and "s \<noteq> Observed"
  shows "\<exists>a e b c d. es = a @ e # b @ EvidenceVerified # c @ PolicyAssured # d \<and>
    (e = EvidenceIngested \<or> e = Reevaluated) \<and> (\<forall>x\<in>set (c @ d). \<not> invalidating x)"
proof -
  obtain c d where es: "es = c @ PolicyAssured # d" and ver: "run_events s c = Verified"
    and d: "\<forall>x\<in>set d. \<not> invalidating x"
    using last_entry[OF assms(1)] assms(2) by (metis enter_assured stay_assured)
  obtain a e b c' where "c = a @ e # b @ EvidenceVerified # c'"
    "e = EvidenceIngested \<or> e = Reevaluated" "\<forall>x\<in>set c'. \<not> invalidating x"
    using run_to_verified[OF ver assms(3,4)] by blast
  with es d show ?thesis
    by (intro exI[of _ a] exI[of _ e] exI[of _ b] exI[of _ c'] exI[of _ d]) auto
qed

lemma run_to_assured_witness:
  "\<exists>a e b c d. [EvidenceIngested, EvidenceVerified, PolicyAssured] = a @ e # b @ EvidenceVerified # c @ PolicyAssured # d \<and>
    (e = EvidenceIngested \<or> e = Reevaluated) \<and> list_all (\<lambda>x. \<not> invalidating x) (c @ d)"
  using run_to_assured[of Unknown "[EvidenceIngested, EvidenceVerified, PolicyAssured]"]
  by (simp add: next_state_def transition_def list_all_iff)

section \<open>Assurance vectors\<close>

datatype presence = PresenceEmpty | PresencePresent | PresenceUnknown | PresenceRedacted | OtherPresence string

datatype valence = Positive | Negative | Neutral | Mixed | Unresolved | OtherValence string

datatype coherence = Coherent | PartiallyCoherent | Decoherent | Reconciling | OtherCoherence string

record avector =
  v_applicability :: valence
  v_conformance :: valence
  v_provenance :: valence
  v_integrity :: valence
  v_authority :: valence
  v_identity :: valence
  v_runtime :: valence
  v_freshness :: valence
  v_completeness :: valence
  v_coherence :: coherence

text \<open>The zero value of a vector.\<close>

definition zero_vector :: avector where
  "zero_vector =
     \<lparr>v_applicability = OtherValence [], v_conformance = OtherValence [], v_provenance = OtherValence [],
      v_integrity = OtherValence [], v_authority = OtherValence [], v_identity = OtherValence [],
      v_runtime = OtherValence [], v_freshness = OtherValence [], v_completeness = OtherValence [],
      v_coherence = OtherCoherence []\<rparr>"

definition new_default_vector :: avector where
  "new_default_vector =
     \<lparr>v_applicability = Unresolved, v_conformance = Unresolved, v_provenance = Unresolved,
      v_integrity = Unresolved, v_authority = Unresolved, v_identity = Unresolved, v_runtime = Unresolved,
      v_freshness = Unresolved, v_completeness = Unresolved, v_coherence = Coherent\<rparr>"

record resolution_policy =
  require_fresh :: bool
  unknown_is_violation :: bool

definition has_unknown :: "avector \<Rightarrow> bool" where
  "has_unknown v =
     (v_applicability v = Unresolved \<or> v_conformance v = Unresolved \<or> v_provenance v = Unresolved \<or>
      v_integrity v = Unresolved \<or> v_authority v = Unresolved \<or> v_identity v = Unresolved \<or>
      v_runtime v = Unresolved \<or> v_freshness v = Unresolved \<or> v_completeness v = Unresolved)"

definition resolve :: "avector \<Rightarrow> resolution_policy \<Rightarrow> astate" where
  "resolve v policy =
     (if v_conformance v = Negative \<or> v_integrity v = Negative \<or> v_authority v = Negative \<or>
         v_identity v = Negative \<or> v_runtime v = Negative then Failed
      else if v_coherence v = Decoherent then Failed
      else if require_fresh policy \<and> v_freshness v = Negative then Stale
      else if has_unknown v
        then (if unknown_is_violation policy then Failed else Unknown)
      else if v_completeness v \<noteq> Positive
        then (if unknown_is_violation policy then Failed else Unknown)
      else if v_applicability v = Positive \<and> v_conformance v = Positive \<and> v_provenance v = Positive \<and>
         v_integrity v = Positive \<and> v_authority v = Positive \<and> v_identity v = Positive \<and>
         v_runtime v = Positive \<and> v_freshness v = Positive \<and> v_completeness v = Positive then Assured
      else Observed)"

definition dimensions :: "avector \<Rightarrow> valence list" where
  "dimensions v =
     [v_applicability v, v_conformance v, v_provenance v, v_integrity v, v_authority v, v_identity v, v_runtime v,
      v_freshness v, v_completeness v]"

definition hard_dimensions :: "avector \<Rightarrow> valence list" where
  "hard_dimensions v = [v_conformance v, v_integrity v, v_authority v, v_identity v, v_runtime v]"

lemma has_unknown_iff: "has_unknown v \<longleftrightarrow> Unresolved \<in> set (dimensions v)"
  unfolding has_unknown_def dimensions_def by (simp only: list.set insert_iff empty_iff) metis

lemma hard_dimensions_negative:
  "Negative \<in> set (hard_dimensions v) \<longleftrightarrow>
     v_conformance v = Negative \<or> v_integrity v = Negative \<or> v_authority v = Negative \<or>
     v_identity v = Negative \<or> v_runtime v = Negative"
  unfolding hard_dimensions_def by (simp only: list.set insert_iff empty_iff) metis

lemma resolve_failed_hard: "Negative \<in> set (hard_dimensions v) \<Longrightarrow> resolve v p = Failed"
  unfolding hard_dimensions_negative resolve_def by (simp only: if_True)

lemma resolve_assured:
  "resolve v p = Assured \<longleftrightarrow> (\<forall>d\<in>set (dimensions v). d = Positive) \<and> v_coherence v \<noteq> Decoherent"
  by (simp add: resolve_def dimensions_def has_unknown_def)

lemma resolve_unresolved:
  "Unresolved \<in> set (dimensions v) \<Longrightarrow>
     resolve v p \<in> {Failed, Stale} \<or> (resolve v p = Unknown \<and> \<not> unknown_is_violation p)"
  by (simp add: resolve_def flip: has_unknown_iff)

lemma resolve_range: "resolve v p \<in> {Unknown, Observed, Assured, Stale, Failed}"
  by (simp add: resolve_def)

section \<open>Properties\<close>

text \<open>
  Further: the transition function is the documented state machine with exactly five further steps;
  where it reports an error the state is unchanged and neither allows a step.
\<close>

lemma transition_refines:
  "case transition s e of
     (t, None) \<Rightarrow> documented_step s e t \<or> (s, e, t) \<in> set extra_steps
   | (t, Some m) \<Rightarrow> t = s \<and> (\<nexists>u. documented_step s e u \<or> (s, e, u) \<in> set extra_steps)"
proof (cases "transition s e")
  case (Pair t err)
  show ?thesis
  proof (cases err)
    case None
    with Pair show ?thesis using transition_iff[of s e t] by simp
  next
    case (Some m)
    with Pair have "t = s" using transition_error[of s e t m] by simp
    moreover have "transition s e \<noteq> (u, None)" for u using Pair Some by simp
    then have "\<nexists>u. documented_step s e u \<or> (s, e, u) \<in> set extra_steps" unfolding transition_iff by blast
    ultimately show ?thesis using Pair Some by simp
  qed
qed

text \<open>
  Further: the names of the declared states parse back to them without an error, and every other string
  is refused with UNSPECIFIED.
\<close>

lemma parse_names:
  "case parse_assurance_state str of
     (s, None) \<Rightarrow> state_string s = str \<and> int_of_astate s \<in> {0..6}
   | (s, Some m) \<Rightarrow> s = Unspecified \<and> (\<nexists>t. state_string t = str \<and> (\<forall>n. t \<noteq> OtherState n))"
proof (cases "\<exists>t. state_string t = str \<and> (\<forall>n. t \<noteq> OtherState n)")
  case True
  then obtain t where "state_string t = str" "\<forall>n. t \<noteq> OtherState n" by blast
  then show ?thesis using parse_state_string[of t] by (cases t) auto
next
  case False
  then have "str \<notin> fst ` set state_values"
    by (auto simp: state_values_def) (metis state_string.simps astate.distinct)+
  then have "map_of state_values str = None" by (simp add: map_of_eq_None_iff)
  with False show ?thesis by (simp add: parse_assurance_state_def)
qed

text \<open>
  Further: a vector resolves to ASSURED exactly when all nine dimensions are positive and the evidence is
  not decoherent; a hard negative always resolves to FAILED, and an unresolved dimension to FAILED
  or STALE, or to UNKNOWN where the policy does not take that for a violation.
\<close>

lemma resolve_decision:
  "(resolve v p = Assured \<longleftrightarrow> dimensions v = replicate 9 Positive \<and> v_coherence v \<noteq> Decoherent) \<and>
   (Negative \<notin> set (hard_dimensions v) \<or> resolve v p = Failed) \<and>
   (Unresolved \<notin> set (dimensions v) \<or>
      resolve v p \<in> {Failed, Stale} \<or> (resolve v p = Unknown \<and> \<not> unknown_is_violation p))"
proof (intro conjI)
  have "(\<forall>d\<in>set (dimensions v). d = Positive) \<longleftrightarrow> dimensions v = replicate 9 Positive"
    by (simp add: dimensions_def eval_nat_numeral)
  then show "resolve v p = Assured \<longleftrightarrow> dimensions v = replicate 9 Positive \<and> v_coherence v \<noteq> Decoherent"
    by (simp add: resolve_assured)
  show "Negative \<notin> set (hard_dimensions v) \<or> resolve v p = Failed"
    using resolve_failed_hard by blast
  show "Unresolved \<notin> set (dimensions v) \<or>
      resolve v p \<in> {Failed, Stale} \<or> (resolve v p = Unknown \<and> \<not> unknown_is_violation p)"
    using resolve_unresolved by blast
qed

lemma resolve_decision_witness:
  "resolve (new_default_vector\<lparr>v_runtime := Negative\<rparr>) \<lparr>require_fresh = True, unknown_is_violation = False\<rparr> = Failed"
  using resolve_decision[of "new_default_vector\<lparr>v_runtime := Negative\<rparr>"
    "\<lparr>require_fresh = True, unknown_is_violation = False\<rparr>"]
  by (simp add: hard_dimensions_def new_default_vector_def)

end
