(* ===== verification/Evidence.thy ===== *)
theory Evidence
  imports Epoch Assurance_State
begin

text \<open>
  core/assurance/evidence.go: references to subjects, controls and authorities, observations and
  evidence envelopes with their digests, evidence requirements (freshness, accepted producers),
  and the evaluation of an evidence contract.
\<close>

section \<open>References\<close>

record subject_ref =
  s_scheme :: string
  s_id :: string
  s_attributes :: smap

definition subject_uri :: "subject_ref \<Rightarrow> string" where
  "subject_uri s = (if s_scheme s = [] then s_id s else s_scheme s @ ''://'' @ s_id s)"

definition subject_raw :: "subject_ref \<Rightarrow> string" where
  "subject_raw s = s_scheme s @ ''|'' @ s_id s @ ''|'' @ compute_map_digest (s_attributes s)"

definition subject_ref_digest :: "subject_ref \<Rightarrow> string" where
  "subject_ref_digest s = compute_digest (subject_raw s)"

record control_ref =
  c_namespace :: string
  c_id :: string
  c_version :: string

definition control_canonical :: "control_ref \<Rightarrow> string" where
  "control_canonical c =
     (if c_version c \<noteq> [] then c_namespace c @ '':'' @ c_id c @ ''@'' @ c_version c
      else c_namespace c @ '':'' @ c_id c)"

abbreviation control :: "string \<Rightarrow> string \<Rightarrow> control_ref" where
  "control ns i \<equiv> \<lparr>c_namespace = ns, c_id = i, c_version = []\<rparr>"

record authority_ref =
  a_scheme :: string
  a_subject :: string
  a_trust_domain :: string

definition empty_authority :: authority_ref where
  "empty_authority = \<lparr>a_scheme = [], a_subject = [], a_trust_domain = []\<rparr>"

definition authority_canonical :: "authority_ref \<Rightarrow> string" where
  "authority_canonical a =
     (if a_scheme a = [] then a_subject a else a_scheme a @ ''://'' @ a_subject a)"

record evidence_ref =
  e_uri :: string
  e_digest :: string
  e_media_type :: string

section \<open>Observations\<close>

record observation =
  o_id :: string
  o_subject :: subject_ref
  o_type :: string
  o_observed_at :: time
  o_observer :: authority_ref
  o_evidence :: "evidence_ref list"
  o_attributes :: smap

definition observation_raw :: "observation \<Rightarrow> string" where
  "observation_raw ob =
     join_str ''|'' [o_id ob, subject_uri (o_subject ob), o_type ob, show_int (unix_nano (o_observed_at ob)),
       authority_canonical (o_observer ob), canonical_digest_list (map e_digest (o_evidence ob)),
       compute_map_digest (o_attributes ob)]"

definition observation_digest :: "observation \<Rightarrow> string" where
  "observation_digest ob = compute_digest (observation_raw ob)"

section \<open>Requirements\<close>

record requirement =
  r_id :: string
  r_evidence_type :: string
  r_required :: bool
  r_max_age :: duration
  r_accepted_producers :: "string list"

definition is_fresh :: "requirement \<Rightarrow> time \<Rightarrow> time \<Rightarrow> bool" where
  "is_fresh r captured_at now =
     (if r_max_age r \<le> 0 then True
      else if now < captured_at then False
      else time_sub now captured_at \<le> r_max_age r)"

definition producer_matches :: "string \<Rightarrow> string \<Rightarrow> bool" where
  "producer_matches accepted producer =
     (accepted = ''*'' \<or> accepted = producer \<or>
      (has_suffix accepted ''*'' \<and> has_prefix producer (trim_suffix accepted ''*'')) \<or>
      has_prefix producer (accepted @ ''://'') \<or>
      equal_fold producer accepted)"

definition is_producer_accepted :: "requirement \<Rightarrow> string \<Rightarrow> bool" where
  "is_producer_accepted r producer =
     (if r_accepted_producers r = [] then True
      else list_ex (\<lambda>accepted. producer_matches accepted producer) (r_accepted_producers r))"

section \<open>Evidence envelopes\<close>

record envelope =
  ev_schema :: string
  ev_id :: string
  ev_subject :: subject_ref
  ev_observation_type :: string
  ev_captured_at :: time
  ev_producer :: authority_ref
  ev_artifact :: evidence_ref
  ev_integrity_digest :: string
  ev_signature_ref :: string
  ev_epoch :: epoch
  ev_control_refs :: "control_ref list"

definition evidence_schema :: string where
  "evidence_schema = ''assurance.ckodex.io/evidence/v1alpha1''"

definition envelope_raw :: "envelope \<Rightarrow> string" where
  "envelope_raw e =
     join_str ''|'' [ev_schema e, ev_id e, subject_uri (ev_subject e), ev_observation_type e,
       show_int (unix_nano (ev_captured_at e)), authority_canonical (ev_producer e),
       e_digest (ev_artifact e), ev_integrity_digest e, ev_signature_ref e,
       composite_digest (ev_epoch e),
       join_str '','' (sort_strings (map control_canonical (ev_control_refs e)))]"

definition envelope_digest :: "envelope \<Rightarrow> string" where
  "envelope_digest e = compute_digest (envelope_raw e)"

definition signing_digest :: "envelope \<Rightarrow> string" where
  "signing_digest e = envelope_digest (e\<lparr>ev_signature_ref := []\<rparr>)"

interpretation subject_dig: content_addressed subject_raw subject_ref_digest
  by unfold_locales (rule subject_ref_digest_def)

interpretation observation_dig: content_addressed observation_raw observation_digest
  by unfold_locales (rule observation_digest_def)

interpretation envelope_dig: content_addressed envelope_raw envelope_digest
  by unfold_locales (rule envelope_digest_def)

lemma signing_digest_unsigned: "signing_digest (e\<lparr>ev_signature_ref := s\<rparr>) = signing_digest e"
  by (simp add: signing_digest_def)

lemma envelope_digest_control_order:
  "mset cs = mset cs' \<Longrightarrow>
     envelope_digest (e\<lparr>ev_control_refs := cs\<rparr>) = envelope_digest (e\<lparr>ev_control_refs := cs'\<rparr>)"
  by (rule envelope_dig.dig_cong)
    (simp add: envelope_raw_def, metis mset_map sort_strings_perm)

section \<open>Matching evidence types\<close>

definition clean_type :: "string \<Rightarrow> string" where
  "clean_type t = replace_char CHR ''-'' CHR ''.'' (to_lower t)"

definition matches_evidence_type :: "string \<Rightarrow> string \<Rightarrow> bool" where
  "matches_evidence_type obs_type req_type =
     (if obs_type = req_type then True
      else if equal_fold obs_type req_type then True
      else if has_suffix obs_type (''.'' @ req_type) \<or> has_suffix req_type (''.'' @ obs_type) then True
      else
        let clean_obs = clean_type obs_type; clean_req = clean_type req_type
        in if clean_obs = clean_req then True
           else has_suffix clean_obs (''.'' @ clean_req) \<or> has_suffix clean_req (''.'' @ clean_obs))"

lemma clean_type_append: "clean_type (a @ b) = clean_type a @ clean_type b"
  by (simp add: clean_type_def to_lower_def replace_char_def)

lemma clean_type_dot: "clean_type ''.'' = ''.''"
  by (simp add: clean_type_def to_lower_def replace_char_def lower_char_def)

text \<open>All its cases amount to a suffix test on the cleaned types.\<close>

lemma matches_evidence_type_clean:
  "matches_evidence_type a b \<longleftrightarrow>
     (clean_type a = clean_type b \<or> has_suffix (clean_type a) (''.'' @ clean_type b) \<or>
      has_suffix (clean_type b) (''.'' @ clean_type a))"
proof -
  have "clean_type a = clean_type b" if "equal_fold a b"
    using that by (simp add: clean_type_def equal_fold_def)
  moreover have "has_suffix (clean_type x) (''.'' @ clean_type y)" if "has_suffix x (''.'' @ y)" for x y
  proof -
    from that obtain t where "x = t @ ''.'' @ y" by (metis has_suffixE)
    then have "clean_type x = clean_type t @ (''.'' @ clean_type y)"
      by (simp only: clean_type_append clean_type_dot)
    then show ?thesis by (metis has_suffix_append)
  qed
  ultimately show ?thesis
    by (auto simp: matches_evidence_type_def Let_def)
qed

lemma matches_evidence_type_refl [simp]: "matches_evidence_type t t"
  by (simp add: matches_evidence_type_def)

lemma matches_evidence_type_sym: "matches_evidence_type a b = matches_evidence_type b a"
  by (auto simp: matches_evidence_type_clean)

end
