(* ===== verification/Contract.thy ===== *)
theory Contract
  imports Evidence
begin

text \<open>
  The second half of core/assurance/evidence.go: completeness counters and the evaluation of an
  evidence contract, with its abstract specification. Counters are Go integers bounded by the
  number of requirements, so they are not given a width.
\<close>

section \<open>Completeness\<close>

record completeness =
  k_required :: int
  k_present :: int
  k_verified :: int
  k_stale :: int
  k_missing :: int

definition zero_completeness :: completeness where
  "zero_completeness = \<lparr>k_required = 0, k_present = 0, k_verified = 0, k_stale = 0, k_missing = 0\<rparr>"

definition completeness_summary :: "completeness \<Rightarrow> string" where
  "completeness_summary c =
     show_int (k_verified c) @ ''/'' @ show_int (k_required c) @ '' verified, '' @
     show_int (k_stale c) @ '' stale, '' @ show_int (k_missing c) @ '' missing''"

definition is_complete :: "completeness \<Rightarrow> bool" where
  "is_complete c =
     (k_required c > 0 \<and> k_verified c \<ge> k_required c \<and> k_missing c = 0 \<and> k_stale c = 0)"

section \<open>Contracts\<close>

record contract_result =
  cr_contract_id :: string
  cr_completeness :: completeness
  cr_verified :: "envelope list"
  cr_stale :: "envelope list"
  cr_missing :: "requirement list"
  cr_state :: astate

record contract =
  ct_id :: string
  ct_name :: string
  ct_requirements :: "requirement list"
  ct_on_missing :: astate

definition candidates :: "requirement \<Rightarrow> envelope list \<Rightarrow> envelope list" where
  "candidates req envs =
     filter (\<lambda>env. matches_evidence_type (ev_observation_type env) (r_evidence_type req)) envs"

text \<open>The loop over the candidates: the match, whether a stale one was met, the stale ones.\<close>

fun scan_candidates ::
  "requirement \<Rightarrow> epoch \<Rightarrow> time \<Rightarrow> bool \<Rightarrow> envelope list \<Rightarrow> envelope list
     \<Rightarrow> envelope option \<times> bool \<times> envelope list" where
  "scan_candidates req ep now stale sts [] = (None, stale, sts)"
| "scan_candidates req ep now stale sts (cand # cs) =
     (if \<not> is_producer_accepted req (authority_canonical (ev_producer cand))
        then scan_candidates req ep now stale sts cs
      else if \<not> epoch_matches (ev_epoch cand) ep
        then scan_candidates req ep now True (sts @ [cand]) cs
      else if \<not> is_fresh req (ev_captured_at cand) now
        then scan_candidates req ep now True (sts @ [cand]) cs
      else (Some cand, stale, sts))"

definition count_required :: "requirement list \<Rightarrow> int" where
  "count_required reqs = foldl (\<lambda>n req. if r_required req then n + 1 else n) 0 reqs"

definition eval_requirement ::
  "envelope list \<Rightarrow> epoch \<Rightarrow> time \<Rightarrow> contract_result \<Rightarrow> requirement \<Rightarrow> contract_result" where
  "eval_requirement envs ep now res req =
     (let (matched, stale, sts) = scan_candidates req ep now False (cr_stale res) (candidates req envs);
          k = cr_completeness res
      in case matched of
           Some env \<Rightarrow>
             res\<lparr>cr_stale := sts, cr_verified := cr_verified res @ [env],
                 cr_completeness :=
                   k\<lparr>k_present := k_present k + 1,
                     k_verified := (if r_required req then k_verified k + 1 else k_verified k)\<rparr>\<rparr>
         | None \<Rightarrow>
             res\<lparr>cr_stale := sts,
                 cr_completeness :=
                   (if stale
                    then (if r_required req then k\<lparr>k_stale := k_stale k + 1\<rparr> else k)
                    else (if r_required req then k\<lparr>k_missing := k_missing k + 1\<rparr> else k)),
                 cr_missing := (if r_required req then cr_missing res @ [req] else cr_missing res)\<rparr>)"

definition contract_state :: "contract \<Rightarrow> completeness \<Rightarrow> astate" where
  "contract_state c k =
     (if is_complete k then Verified
      else if k_stale k > 0 \<and> k_missing k = 0 then Stale
      else if ct_on_missing c \<noteq> Unspecified then ct_on_missing c
      else Unknown)"

definition evaluate_contract :: "contract \<Rightarrow> envelope list \<Rightarrow> epoch \<Rightarrow> time \<Rightarrow> contract_result" where
  "evaluate_contract c envs ep now =
     (let res0 = \<lparr>cr_contract_id = ct_id c,
                  cr_completeness = zero_completeness\<lparr>k_required := count_required (ct_requirements c)\<rparr>,
                  cr_verified = [], cr_stale = [], cr_missing = [], cr_state = Unspecified\<rparr>;
          res = foldl (eval_requirement envs ep now) res0 (ct_requirements c)
      in res\<lparr>cr_state := contract_state c (cr_completeness res)\<rparr>)"

section \<open>Abstract specification\<close>

text \<open>What an envelope has to satisfy to support, or to have once supported, a requirement.\<close>

definition relevant :: "requirement \<Rightarrow> envelope \<Rightarrow> bool" where
  "relevant req env =
     (matches_evidence_type (ev_observation_type env) (r_evidence_type req) \<and>
      is_producer_accepted req (authority_canonical (ev_producer env)))"

definition supports :: "requirement \<Rightarrow> epoch \<Rightarrow> time \<Rightarrow> envelope \<Rightarrow> bool" where
  "supports req ep now env =
     (relevant req env \<and> epoch_matches (ev_epoch env) ep \<and> is_fresh req (ev_captured_at env) now)"

datatype req_status = Satisfied | StaleOnly | Absent

definition req_status :: "envelope set \<Rightarrow> epoch \<Rightarrow> time \<Rightarrow> requirement \<Rightarrow> req_status" where
  "req_status E ep now req =
     (if \<exists>env\<in>E. supports req ep now env then Satisfied
      else if \<exists>env\<in>E. relevant req env then StaleOnly
      else Absent)"

definition spec_count :: "req_status \<Rightarrow> envelope set \<Rightarrow> epoch \<Rightarrow> time \<Rightarrow> requirement list \<Rightarrow> int" where
  "spec_count st E ep now reqs =
     int (length (filter (\<lambda>r. r_required r \<and> req_status E ep now r = st) reqs))"

definition contract_spec :: "contract \<Rightarrow> envelope set \<Rightarrow> epoch \<Rightarrow> time \<Rightarrow> astate" where
  "contract_spec c E ep now =
     (let req = filter r_required (ct_requirements c); st = req_status E ep now in
      if req \<noteq> [] \<and> (\<forall>r\<in>set req. st r = Satisfied) then Verified
      else if (\<exists>r\<in>set req. st r = StaleOnly) \<and> (\<forall>r\<in>set req. st r \<noteq> Absent) then Stale
      else if ct_on_missing c \<noteq> Unspecified then ct_on_missing c
      else Unknown)"

section \<open>The scan\<close>

lemma scan_candidates_spec:
  assumes "\<forall>env\<in>set cs. matches_evidence_type (ev_observation_type env) (r_evidence_type req)"
    and "scan_candidates req ep now stale sts cs = (m, stale', sts')"
  shows "(m = None \<longrightarrow> (\<forall>env\<in>set cs. \<not> supports req ep now env) \<and>
            (stale' \<longleftrightarrow> stale \<or> (\<exists>env\<in>set cs. relevant req env))) \<and>
         (\<forall>env. m = Some env \<longrightarrow> env \<in> set cs \<and> supports req ep now env) \<and>
         (\<exists>new. sts' = sts @ new \<and> (\<forall>env\<in>set new. env \<in> set cs \<and> relevant req env \<and> \<not> supports req ep now env))"
  using assms
proof (induction cs arbitrary: stale sts)
  case (Cons env cs)
  let ?acc = "is_producer_accepted req (authority_canonical (ev_producer env))"
  let ?ok = "epoch_matches (ev_epoch env) ep \<and> is_fresh req (ev_captured_at env) now"
  from Cons.prems have all: "\<forall>e\<in>set cs. matches_evidence_type (ev_observation_type e) (r_evidence_type req)"
    and mt: "matches_evidence_type (ev_observation_type env) (r_evidence_type req)" by auto
  consider "\<not> ?acc" | "?acc" "\<not> ?ok" | "?acc" "?ok" by blast
  then show ?case
  proof cases
    case 1
    with Cons.prems have "scan_candidates req ep now stale sts cs = (m, stale', sts')" by simp
    from Cons.IH[OF all this] 1 show ?thesis by (auto simp: supports_def relevant_def)
  next
    case 2
    with Cons.prems have "scan_candidates req ep now True (sts @ [env]) cs = (m, stale', sts')"
      by (auto split: if_splits)
    from Cons.IH[OF all this] 2 mt show ?thesis by (fastforce simp: supports_def relevant_def)
  next
    case 3
    with Cons.prems mt show ?thesis by (auto simp: supports_def relevant_def)
  qed
qed simp

lemma candidates_match:
  "\<forall>env\<in>set (candidates req envs). matches_evidence_type (ev_observation_type env) (r_evidence_type req)"
  by (simp add: candidates_def)

lemma candidates_supports:
  "(\<exists>env\<in>set (candidates req envs). supports req ep now env) \<longleftrightarrow> (\<exists>env\<in>set envs. supports req ep now env)"
  "(\<exists>env\<in>set (candidates req envs). relevant req env) \<longleftrightarrow> (\<exists>env\<in>set envs. relevant req env)"
  by (auto simp: candidates_def supports_def relevant_def)

lemma scan_status:
  assumes "scan_candidates req ep now False sts (candidates req envs) = (m, stale', sts')"
  shows "req_status (set envs) ep now req =
    (case m of Some _ \<Rightarrow> Satisfied | None \<Rightarrow> if stale' then StaleOnly else Absent)"
proof -
  note spec = scan_candidates_spec[OF candidates_match assms]
  note sup = candidates_supports(1)[of req envs ep now] and rel = candidates_supports(2)[of req envs]
  show ?thesis
  proof (cases m)
    case None
    with spec have no: "\<not> (\<exists>env\<in>set (candidates req envs). supports req ep now env)"
      and st: "stale' = (\<exists>env\<in>set (candidates req envs). relevant req env)" by blast+
    show ?thesis using no st unfolding sup rel by (simp add: None req_status_def)
  next
    case (Some env)
    with spec have "\<exists>env\<in>set (candidates req envs). supports req ep now env" by blast
    then show ?thesis unfolding sup by (simp add: Some req_status_def)
  qed
qed

section \<open>The loop over the requirements\<close>

definition status_int :: "bool \<Rightarrow> int" where
  "status_int b = (if b then 1 else 0)"

lemma eval_requirement_counts:
  fixes envs ep now
  defines "st \<equiv> req_status (set envs) ep now"
  shows
  "cr_completeness (eval_requirement envs ep now res req) =
     (let k = cr_completeness res in
      \<lparr>k_required = k_required k,
       k_present = k_present k + status_int (st req = Satisfied),
       k_verified = k_verified k + status_int (r_required req \<and> st req = Satisfied),
       k_stale = k_stale k + status_int (r_required req \<and> st req = StaleOnly),
       k_missing = k_missing k + status_int (r_required req \<and> st req = Absent)\<rparr>)"
proof -
  obtain m stale sts where sc:
    "scan_candidates req ep now False (cr_stale res) (candidates req envs) = (m, stale, sts)"
    by (cases "scan_candidates req ep now False (cr_stale res) (candidates req envs)")
  show ?thesis
    using scan_status[OF sc]
    by (cases m) (auto simp: eval_requirement_def sc st_def status_int_def Let_def)
qed

lemma eval_requirement_evidence:
  "cr_contract_id (eval_requirement envs ep now res req) = cr_contract_id res"
  "set (cr_verified (eval_requirement envs ep now res req)) \<subseteq>
     set (cr_verified res) \<union> {env \<in> set envs. supports req ep now env}"
  "set (cr_stale (eval_requirement envs ep now res req)) \<subseteq>
     set (cr_stale res) \<union> {env \<in> set envs. relevant req env \<and> \<not> supports req ep now env}"
  "cr_missing (eval_requirement envs ep now res req) =
     cr_missing res @ (if r_required req \<and> req_status (set envs) ep now req \<noteq> Satisfied then [req] else [])"
proof -
  obtain m stale sts where sc:
    "scan_candidates req ep now False (cr_stale res) (candidates req envs) = (m, stale, sts)"
    by (cases "scan_candidates req ep now False (cr_stale res) (candidates req envs)")
  have sub: "set (candidates req envs) \<subseteq> set envs" by (auto simp: candidates_def)
  note spec = scan_candidates_spec[OF candidates_match sc]
  show "cr_contract_id (eval_requirement envs ep now res req) = cr_contract_id res"
    by (cases m) (simp_all add: eval_requirement_def sc Let_def)
  show "set (cr_verified (eval_requirement envs ep now res req)) \<subseteq>
     set (cr_verified res) \<union> {env \<in> set envs. supports req ep now env}"
    using spec sub by (cases m) (auto simp: eval_requirement_def sc Let_def)
  show "set (cr_stale (eval_requirement envs ep now res req)) \<subseteq>
     set (cr_stale res) \<union> {env \<in> set envs. relevant req env \<and> \<not> supports req ep now env}"
    using spec sub by (cases m) (auto simp: eval_requirement_def sc Let_def)
  show "cr_missing (eval_requirement envs ep now res req) =
     cr_missing res @ (if r_required req \<and> req_status (set envs) ep now req \<noteq> Satisfied then [req] else [])"
    using scan_status[OF sc] by (cases m) (auto simp: eval_requirement_def sc Let_def)
qed

lemma spec_count_Cons:
  "spec_count st E ep now (r # rs) =
     status_int (r_required r \<and> req_status E ep now r = st) + spec_count st E ep now rs"
  by (simp add: spec_count_def status_int_def)

lemma fold_requirements_counts:
  "cr_completeness (foldl (eval_requirement envs ep now) res reqs) =
     (let k = cr_completeness res in
      \<lparr>k_required = k_required k,
       k_present = k_present k + int (length (filter (\<lambda>r. req_status (set envs) ep now r = Satisfied) reqs)),
       k_verified = k_verified k + spec_count Satisfied (set envs) ep now reqs,
       k_stale = k_stale k + spec_count StaleOnly (set envs) ep now reqs,
       k_missing = k_missing k + spec_count Absent (set envs) ep now reqs\<rparr>)"
proof (induction reqs arbitrary: res)
  case Nil
  then show ?case by (simp add: spec_count_def Let_def)
next
  case (Cons req reqs)
  then show ?case
    by (simp add: eval_requirement_counts spec_count_Cons Let_def status_int_def)
qed

lemma fold_requirements_evidence:
  "cr_contract_id (foldl (eval_requirement envs ep now) res reqs) = cr_contract_id res"
  "set (cr_verified (foldl (eval_requirement envs ep now) res reqs)) \<subseteq>
     set (cr_verified res) \<union> {env \<in> set envs. \<exists>req\<in>set reqs. supports req ep now env}"
  "set (cr_stale (foldl (eval_requirement envs ep now) res reqs)) \<subseteq>
     set (cr_stale res) \<union> {env \<in> set envs. \<exists>req\<in>set reqs. relevant req env \<and> \<not> supports req ep now env}"
  "cr_missing (foldl (eval_requirement envs ep now) res reqs) =
     cr_missing res @ filter (\<lambda>r. r_required r \<and> req_status (set envs) ep now r \<noteq> Satisfied) reqs"
proof (induction reqs arbitrary: res)
  case (Cons req reqs)
  {
    case 1 then show ?case using Cons(1) by (simp add: eval_requirement_evidence(1))
  next
    case 2 then show ?case
      using Cons(2)[of "eval_requirement envs ep now res req"] eval_requirement_evidence(2)[of envs ep now res req]
      by fastforce
  next
    case 3 then show ?case
      using Cons(3)[of "eval_requirement envs ep now res req"] eval_requirement_evidence(3)[of envs ep now res req]
      by fastforce
  next
    case 4 then show ?case using Cons(4) by (simp add: eval_requirement_evidence(4))
  }
qed simp_all

lemma count_required_filter: "count_required reqs = int (length (filter r_required reqs))"
proof -
  have "foldl (\<lambda>n req. if r_required req then n + 1 else n) (n :: int) reqs =
      n + int (length (filter r_required reqs))" for n
    by (induction reqs arbitrary: n) auto
  then show ?thesis by (simp add: count_required_def)
qed

lemma spec_count_total:
  "spec_count Satisfied E ep now reqs + spec_count StaleOnly E ep now reqs + spec_count Absent E ep now reqs =
     count_required reqs"
proof (induction reqs)
  case (Cons r reqs)
  then show ?case
    by (cases "req_status E ep now r")
      (simp_all add: spec_count_Cons status_int_def count_required_filter)
qed (simp add: spec_count_def count_required_def)

lemma spec_count_zero:
  "spec_count st E ep now reqs = 0 \<longleftrightarrow> (\<forall>r\<in>set reqs. r_required r \<longrightarrow> req_status E ep now r \<noteq> st)"
  by (auto simp: spec_count_def filter_empty_conv)

lemma spec_count_nonneg: "0 \<le> spec_count st E ep now reqs"
  by (simp add: spec_count_def)

section \<open>The evaluation\<close>

lemma evaluate_completeness:
  "cr_completeness (evaluate_contract c envs ep now) =
     \<lparr>k_required = count_required (ct_requirements c),
      k_present = int (length (filter (\<lambda>r. req_status (set envs) ep now r = Satisfied) (ct_requirements c))),
      k_verified = spec_count Satisfied (set envs) ep now (ct_requirements c),
      k_stale = spec_count StaleOnly (set envs) ep now (ct_requirements c),
      k_missing = spec_count Absent (set envs) ep now (ct_requirements c)\<rparr>"
  by (simp add: evaluate_contract_def fold_requirements_counts zero_completeness_def Let_def)

lemma evaluate_state:
  "cr_state (evaluate_contract c envs ep now) =
     contract_state c (cr_completeness (evaluate_contract c envs ep now))"
  by (simp add: evaluate_contract_def Let_def)

lemma evaluate_verified_sound:
  "set (cr_verified (evaluate_contract c envs ep now)) \<subseteq>
     {env \<in> set envs. \<exists>req\<in>set (ct_requirements c). supports req ep now env}"
  using fold_requirements_evidence(2)[of envs ep now
    "\<lparr>cr_contract_id = ct_id c,
      cr_completeness = zero_completeness\<lparr>k_required := count_required (ct_requirements c)\<rparr>,
      cr_verified = [], cr_stale = [], cr_missing = [], cr_state = Unspecified\<rparr>" "ct_requirements c"]
  by (simp add: evaluate_contract_def Let_def)

lemma evaluate_stale_sound:
  "set (cr_stale (evaluate_contract c envs ep now)) \<subseteq>
     {env \<in> set envs. \<exists>req\<in>set (ct_requirements c). relevant req env \<and> \<not> supports req ep now env}"
  using fold_requirements_evidence(3)[of envs ep now
    "\<lparr>cr_contract_id = ct_id c,
      cr_completeness = zero_completeness\<lparr>k_required := count_required (ct_requirements c)\<rparr>,
      cr_verified = [], cr_stale = [], cr_missing = [], cr_state = Unspecified\<rparr>" "ct_requirements c"]
  by (simp add: evaluate_contract_def Let_def)

lemma evaluate_missing:
  "cr_missing (evaluate_contract c envs ep now) =
     filter (\<lambda>r. r_required r \<and> req_status (set envs) ep now r \<noteq> Satisfied) (ct_requirements c)"
  by (simp add: evaluate_contract_def Let_def fold_requirements_evidence(4))

lemma evaluate_accounting:
  "let k = cr_completeness (evaluate_contract c envs ep now)
   in k_verified k + k_stale k + k_missing k = k_required k"
  by (simp add: evaluate_completeness Let_def spec_count_total)

lemma evaluate_complete_iff:
  "is_complete (cr_completeness (evaluate_contract c envs ep now)) \<longleftrightarrow>
     (\<exists>r\<in>set (ct_requirements c). r_required r) \<and>
     (\<forall>r\<in>set (ct_requirements c). r_required r \<longrightarrow> req_status (set envs) ep now r = Satisfied)"
proof -
  let ?n = "\<lambda>st. spec_count st (set envs) ep now (ct_requirements c)"
  have tot: "?n Satisfied + ?n StaleOnly + ?n Absent = count_required (ct_requirements c)"
    by (rule spec_count_total)
  have "is_complete (cr_completeness (evaluate_contract c envs ep now)) \<longleftrightarrow>
      count_required (ct_requirements c) > 0 \<and> ?n StaleOnly = 0 \<and> ?n Absent = 0"
    using tot spec_count_nonneg by (auto simp: is_complete_def evaluate_completeness)
  also have "count_required (ct_requirements c) > 0 \<longleftrightarrow> (\<exists>r\<in>set (ct_requirements c). r_required r)"
    by (auto simp: count_required_filter filter_empty_conv)
  finally have "is_complete (cr_completeness (evaluate_contract c envs ep now)) \<longleftrightarrow>
      (\<exists>r\<in>set (ct_requirements c). r_required r) \<and>
      (\<forall>r\<in>set (ct_requirements c). r_required r \<longrightarrow>
        req_status (set envs) ep now r \<noteq> StaleOnly \<and> req_status (set envs) ep now r \<noteq> Absent)"
    unfolding spec_count_zero by blast
  moreover have "st \<noteq> StaleOnly \<and> st \<noteq> Absent \<longleftrightarrow> st = Satisfied" for st
    by (cases st) simp_all
  ultimately show ?thesis by simp
qed

lemma evaluate_state_spec:
  "cr_state (evaluate_contract c envs ep now) = contract_spec c (set envs) ep now"
proof -
  have stale: "k_stale (cr_completeness (evaluate_contract c envs ep now)) > 0 \<longleftrightarrow>
      (\<exists>r\<in>set (ct_requirements c). r_required r \<and> req_status (set envs) ep now r = StaleOnly)"
  proof -
    have "spec_count StaleOnly (set envs) ep now (ct_requirements c) > 0 \<longleftrightarrow>
        spec_count StaleOnly (set envs) ep now (ct_requirements c) \<noteq> 0"
      using spec_count_nonneg[of StaleOnly "set envs" ep now "ct_requirements c"] by linarith
    then show ?thesis unfolding evaluate_completeness spec_count_zero by simp
  qed
  have missing: "k_missing (cr_completeness (evaluate_contract c envs ep now)) = 0 \<longleftrightarrow>
      (\<forall>r\<in>set (ct_requirements c). r_required r \<longrightarrow> req_status (set envs) ep now r \<noteq> Absent)"
    by (simp add: evaluate_completeness spec_count_zero)
  have req: "filter r_required (ct_requirements c) \<noteq> [] \<longleftrightarrow> (\<exists>r\<in>set (ct_requirements c). r_required r)"
    by (auto simp: filter_empty_conv)
  have ball: "(\<forall>r\<in>set (filter r_required (ct_requirements c)). P r) \<longleftrightarrow>
      (\<forall>r\<in>set (ct_requirements c). r_required r \<longrightarrow> P r)" for P by auto
  have bex: "(\<exists>r\<in>set (filter r_required (ct_requirements c)). P r) \<longleftrightarrow>
      (\<exists>r\<in>set (ct_requirements c). r_required r \<and> P r)" for P by auto
  show ?thesis
    unfolding evaluate_state contract_state_def evaluate_complete_iff stale missing contract_spec_def
      Let_def req ball bex ..
qed

lemma req_status_mono:
  "req_status E ep now r = Satisfied \<Longrightarrow> E \<subseteq> E' \<Longrightarrow> req_status E' ep now r = Satisfied"
  by (auto simp: req_status_def split: if_splits)

lemma evaluate_verified_iff:
  assumes "ct_on_missing c \<noteq> Verified"
  shows "cr_state (evaluate_contract c envs ep now) = Verified \<longleftrightarrow>
     (\<exists>r\<in>set (ct_requirements c). r_required r) \<and>
     (\<forall>r\<in>set (ct_requirements c). r_required r \<longrightarrow> (\<exists>env\<in>set envs. supports r ep now env))"
proof -
  have "req_status E ep now r = Satisfied \<longleftrightarrow> (\<exists>env\<in>E. supports r ep now env)" for E r
    by (simp add: req_status_def)
  then show ?thesis
    using assms unfolding evaluate_state contract_state_def evaluate_complete_iff by simp
qed

section \<open>Properties\<close>

definition example_subject :: subject_ref where
  "example_subject = \<lparr>s_scheme = ''k8s'', s_id = ''payments/Pod/api'', s_attributes = []\<rparr>"

definition example_envelope :: envelope where
  "example_envelope =
     \<lparr>ev_schema = evidence_schema, ev_id = ''ev-1'', ev_subject = example_subject, ev_observation_type = ''admission'',
      ev_captured_at = 0, ev_producer = empty_authority,
      ev_artifact = \<lparr>e_uri = [], e_digest = [], e_media_type = []\<rparr>, ev_integrity_digest = [],
      ev_signature_ref = [], ev_epoch = empty_epoch, ev_control_refs = []\<rparr>"

definition example_contract :: contract where
  "example_contract =
     \<lparr>ct_id = ''c'', ct_name = [],
      ct_requirements = [\<lparr>r_id = ''r'', r_evidence_type = ''admission'', r_required = True, r_max_age = hour,
        r_accepted_producers = []\<rparr>],
      ct_on_missing = Unknown\<rparr>"

lemma example_supports:
  "r \<in> set (ct_requirements example_contract) \<Longrightarrow> supports r empty_epoch 1 example_envelope"
  by (auto simp: example_contract_def supports_def relevant_def is_producer_accepted_def is_fresh_def time_sub_def
      example_envelope_def time_units)

lemma example_verified:
  "example_envelope \<in> set envs \<Longrightarrow> cr_state (evaluate_contract example_contract envs empty_epoch 1) = Verified"
  using example_supports
  by (subst evaluate_verified_iff) (auto simp: example_contract_def)

text \<open>
  C1: the state a contract evaluation yields is that of the specification, which speaks of the set of
  envelopes only: VERIFIED when every required requirement is supported, STALE when each has evidence but
  some only stale evidence, and the configured state (or UNKNOWN) otherwise.
\<close>

lemma evaluate_refines_spec:
  "cr_state (evaluate_contract c envs ep now) = contract_spec c (set envs) ep now"
  by (rule evaluate_state_spec)

text \<open>
  C19: an evaluation accounts for every required requirement as verified, stale or missing; the evidence it
  lists as verified supports a requirement, what it lists as stale is relevant to one but does not
  support it, and the missing requirements are the required ones without support, in order.
\<close>

lemma evaluation_accounts:
  "let res = evaluate_contract c envs ep now; k = cr_completeness res
   in k_verified k + k_stale k + k_missing k = k_required k \<and>
      k_required k = int (length (filter r_required (ct_requirements c))) \<and>
      set (cr_verified res) \<subseteq> {env \<in> set envs. \<exists>req\<in>set (ct_requirements c). supports req ep now env} \<and>
      set (cr_stale res) \<subseteq>
        {env \<in> set envs. \<exists>req\<in>set (ct_requirements c). relevant req env \<and> \<not> supports req ep now env} \<and>
      cr_missing res =
        filter (\<lambda>r. r_required r \<and> \<not> (\<exists>env\<in>set envs. supports r ep now env)) (ct_requirements c)"
proof -
  have "req_status (set envs) ep now r \<noteq> Satisfied \<longleftrightarrow> \<not> (\<exists>env\<in>set envs. supports r ep now env)" for r
    by (simp add: req_status_def)
  then show ?thesis
    using evaluate_accounting[of c envs ep now] evaluate_verified_sound[of c envs ep now]
      evaluate_stale_sound[of c envs ep now] evaluate_missing[of c envs ep now]
    by (simp add: Let_def evaluate_completeness count_required_filter)
qed

text \<open>
  Further: without any evidence a contract that requires something yields exactly the state configured for
  missing evidence, or UNKNOWN where none is; nothing keeps that state from being ASSURED.
\<close>

lemma no_evidence:
  assumes "\<exists>r\<in>set (ct_requirements c). r_required r"
  shows "cr_state (evaluate_contract c [] ep now) = (if ct_on_missing c \<noteq> Unspecified then ct_on_missing c else Unknown)"
proof -
  have "k_missing (cr_completeness (evaluate_contract c [] ep now)) > 0"
    using assms spec_count_zero[of Absent "{}" ep now "ct_requirements c"]
      spec_count_nonneg[of Absent "{}" ep now "ct_requirements c"]
    by (auto simp: evaluate_completeness req_status_def)
  then show ?thesis by (simp add: evaluate_state contract_state_def is_complete_def)
qed

lemma no_evidence_witness:
  "cr_state (evaluate_contract (example_contract\<lparr>ct_on_missing := Assured\<rparr>) [] empty_epoch 1) = Assured"
  using no_evidence[of "example_contract\<lparr>ct_on_missing := Assured\<rparr>" empty_epoch 1]
  by (simp add: example_contract_def)

end
