(* ===== verification/Claim.thy ===== *)
theory Claim
  imports Contract
begin

text \<open>
  core/assurance/claim.go: claims and their evaluations, findings, control exceptions, policies,
  control receipts with the bytes that are signed, and the explanation graph with its rendering.
\<close>

section \<open>Claims\<close>

record claim =
  cl_id :: string
  cl_subject :: subject_ref
  cl_control :: control_ref
  cl_target_state :: astate

record claim_evaluation =
  ce_id :: string
  ce_control :: control_ref
  ce_subject :: subject_ref
  ce_state :: astate
  ce_vector :: avector
  ce_epoch :: epoch
  ce_evidence :: "evidence_ref list"
  ce_completeness :: completeness
  ce_evidence_root :: string
  ce_evaluated_at :: time
  ce_valid_until :: time
  ce_trace :: "string list"

definition evaluation_raw :: "claim_evaluation \<Rightarrow> string" where
  "evaluation_raw e =
     join_str ''|'' [ce_id e, subject_uri (ce_subject e), control_canonical (ce_control e),
       state_string (ce_state e), composite_digest (ce_epoch e), ce_evidence_root e,
       show_int (unix_nano (ce_evaluated_at e))]"

definition evaluation_digest :: "claim_evaluation \<Rightarrow> string" where
  "evaluation_digest e = ''sha256:'' @ hex_encode (sha256 (evaluation_raw e))"

interpretation evaluation_dig: content_addressed evaluation_raw evaluation_digest
  by unfold_locales (simp add: evaluation_digest_def compute_digest_def sha_prefix_def)

record finding =
  f_id :: string
  f_subject :: subject_ref
  f_control :: control_ref
  f_severity :: string
  f_title :: string
  f_description :: string
  f_discovered_at :: time
  f_evidence_refs :: "evidence_ref list"

section \<open>Exceptions and policies\<close>

record control_exception =
  x_id :: string
  x_subject :: subject_ref
  x_controls :: "control_ref list"
  x_justification :: string
  x_required_approvers :: "authority_ref list"
  x_not_before :: time
  x_not_after :: time
  x_compensating_controls :: "control_ref list"

definition is_valid_at :: "control_exception \<Rightarrow> time \<Rightarrow> bool" where
  "is_valid_at e t =
     (if is_zero_time (x_not_after e) \<or> is_zero_time (x_not_before e) then False
      else \<not> t < x_not_before e \<and> \<not> x_not_after e < t)"

definition applies_to :: "control_exception \<Rightarrow> subject_ref \<Rightarrow> control_ref \<Rightarrow> bool" where
  "applies_to e sub ctrl =
     (if subject_uri (x_subject e) \<noteq> subject_uri sub then False
      else list_ex (\<lambda>c. control_canonical c = control_canonical ctrl \<or>
             (c_namespace c = c_namespace ctrl \<and> c_id c = c_id ctrl)) (x_controls e))"

record assurance_policy =
  ap_name :: string
  ap_required_state :: astate
  ap_require_fresh :: bool
  ap_fail_on_confirmed_violation :: bool
  ap_unknown_is_violation :: bool
  ap_max_evaluation_age :: duration

lemma is_valid_at_bounded:
  "is_valid_at e t \<Longrightarrow> x_not_before e \<le> t \<and> t \<le> x_not_after e \<and> x_not_after e \<noteq> zero_time"
  by (auto simp: is_valid_at_def split: if_splits)

lemma is_valid_at_convex:
  "is_valid_at e t \<Longrightarrow> is_valid_at e u \<Longrightarrow> t \<le> w \<Longrightarrow> w \<le> u \<Longrightarrow> is_valid_at e w"
  by (auto simp: is_valid_at_def split: if_splits)

lemma applies_to_version:
  "c \<in> set (x_controls e) \<Longrightarrow> subject_uri sub = subject_uri (x_subject e) \<Longrightarrow>
     applies_to e sub (c\<lparr>c_version := v\<rparr>)"
  by (auto simp: applies_to_def list_ex_iff)

section \<open>Receipts\<close>

record control_receipt =
  rc_subject :: subject_ref
  rc_control :: control_ref
  rc_state :: astate
  rc_epoch :: epoch
  rc_evidence_root :: string
  rc_evaluator :: authority_ref
  rc_evaluated_at :: time
  rc_signature :: string

definition receipt_parts :: "control_receipt \<Rightarrow> string list" where
  "receipt_parts r =
     [subject_uri (rc_subject r), control_canonical (rc_control r), state_string (rc_state r),
      composite_digest (rc_epoch r), rc_evidence_root r, authority_canonical (rc_evaluator r),
      show_int (unix_nano (rc_evaluated_at r))]"

definition canonical_bytes :: "control_receipt \<Rightarrow> string" where
  "canonical_bytes r = join_str nl (receipt_parts r)"

definition receipt_digest :: "control_receipt \<Rightarrow> string" where
  "receipt_digest r = ''sha256:'' @ hex_encode (sha256 (canonical_bytes r))"

interpretation receipt_dig: content_addressed canonical_bytes receipt_digest
  by unfold_locales (simp add: receipt_digest_def compute_digest_def sha_prefix_def)

lemma canonical_bytes_unsigned [simp]: "canonical_bytes (r\<lparr>rc_signature := s\<rparr>) = canonical_bytes r"
  by (simp add: canonical_bytes_def receipt_parts_def)

text \<open>A receipt whose textual fields hold no line break is determined by its signed bytes.\<close>

definition one_line :: "string \<Rightarrow> bool" where
  "one_line s = (CHR 0x0A \<notin> set s)"

definition wf_receipt :: "control_receipt \<Rightarrow> bool" where
  "wf_receipt r = (one_line (subject_uri (rc_subject r)) \<and> one_line (control_canonical (rc_control r)) \<and>
     one_line (rc_evidence_root r) \<and> one_line (authority_canonical (rc_evaluator r)))"

lemma show_int_one_line: "one_line (show_int n)"
  by (auto simp: one_line_def is_digit_def dest!: show_int_digits)

lemma compute_digest_one_line: "one_line (compute_digest s)"
  by (auto simp: one_line_def sha_prefix_def dest!: compute_digest_chars is_hex_range)

lemma state_string_one_line: "one_line (state_string s)"
  using show_int_one_line by (cases s) (auto simp: one_line_def)

lemma receipt_parts_one_line:
  "wf_receipt r \<Longrightarrow> \<forall>p\<in>set (receipt_parts r). CHR 0x0A \<notin> set p"
  using show_int_one_line compute_digest_one_line state_string_one_line
  by (auto simp: receipt_parts_def wf_receipt_def one_line_def composite_digest_alt)

lemma canonical_bytes_inj:
  assumes "wf_receipt r" and "wf_receipt t" and "canonical_bytes r = canonical_bytes t"
  shows "receipt_parts r = receipt_parts t"
proof (rule join_sep_inj[where d = "CHR 0x0A"])
  show "length (receipt_parts r) = length (receipt_parts t)" by (simp add: receipt_parts_def)
  show "join_str [CHR 0x0A] (receipt_parts r) = join_str [CHR 0x0A] (receipt_parts t)"
    using assms(3) by (simp add: canonical_bytes_def)
qed (use assms receipt_parts_one_line in blast)+

lemma receipt_parts_eq:
  "receipt_parts r = receipt_parts t \<longleftrightarrow>
     subject_uri (rc_subject r) = subject_uri (rc_subject t) \<and>
     control_canonical (rc_control r) = control_canonical (rc_control t) \<and>
     rc_state r = rc_state t \<and> composite_digest (rc_epoch r) = composite_digest (rc_epoch t) \<and>
     rc_evidence_root r = rc_evidence_root t \<and>
     authority_canonical (rc_evaluator r) = authority_canonical (rc_evaluator t) \<and>
     unix_nano (rc_evaluated_at r) = unix_nano (rc_evaluated_at t)"
  by (auto simp: receipt_parts_def state_string_inj show_int_inj)

section \<open>Explanations\<close>

record explain_atom =
  xa_id :: string
  xa_satisfied :: bool
  xa_details :: string

record explain_impl =
  xi_requirement :: string
  xi_provider :: string
  xi_digest :: string
  xi_purpose :: string

record explain_evidence =
  xe_type :: string
  xe_captured_at :: time
  xe_producer :: string
  xe_digest :: string
  xe_verified :: bool

record explain_graph =
  g_subject :: subject_ref
  g_control :: control_ref
  g_canonical_control :: string
  g_applicability :: string
  g_atoms :: "explain_atom list"
  g_implementations :: "explain_impl list"
  g_evidence :: "explain_evidence list"
  g_completeness :: completeness
  g_freshness :: string
  g_authority :: string
  g_epoch :: epoch
  g_state :: astate
  g_evidence_root :: string
  g_projections :: smap

definition icon :: "bool \<Rightarrow> string" where
  "icon b = (if \<not> b then ''[FAIL]'' else ''[PASS]'')"

definition block :: "string \<Rightarrow> string \<Rightarrow> string" where
  "block title body = title @ nl @ body @ nl @ nl"

text \<open>The projections are written in the order in which the range loop meets them.\<close>

definition render_text :: "explain_graph \<Rightarrow> string" where
  "render_text g =
     block ''SUBJECT'' (subject_uri (g_subject g)) @
     block ''CONTROL'' (control_canonical (g_control g)) @
     block ''CANONICAL CONTROL'' (g_canonical_control g) @
     ''APPLICABILITY'' @ nl @
     (if g_applicability g = ''applicable'' then ''[PASS] applicable'' @ nl @ nl
      else ''[FAIL] '' @ g_applicability g @ nl @ nl) @
     ''ATOMIC REQUIREMENTS'' @ nl @ nl @
     concat (map (\<lambda>a. icon (xa_satisfied a) @ '' '' @ xa_id a @ nl) (g_atoms g)) @ nl @
     ''IMPLEMENTATIONS'' @ nl @ nl @
     concat (map (\<lambda>i. xi_requirement i @ nl @ ''  '' @ xi_provider i @ nl @ ''  digest '' @ xi_digest i @
       nl @ nl) (g_implementations g)) @
     ''EVIDENCE'' @ nl @ nl @
     concat (map (\<lambda>v. icon (xe_verified v) @ '' '' @ xe_type v @ nl) (g_evidence g)) @ nl @
     ''COMPLETENESS'' @ nl @ show_int (k_verified (g_completeness g)) @ '' / '' @
     show_int (k_required (g_completeness g)) @ '' required'' @ nl @ nl @
     block ''FRESHNESS'' (g_freshness g) @
     block ''AUTHORITY'' (g_authority g) @
     block ''EPOCH'' (composite_digest (g_epoch g)) @
     block ''ASSURANCE'' (state_string (g_state g)) @
     (if length (g_projections g) > 0
      then ''OSCAL PROJECTIONS'' @ nl @ nl @
        concat (map (\<lambda>(k, v). k @ nl @ ''  '' @ v @ nl @ nl) (g_projections g))
      else []) @
     ''EVIDENCE ROOT'' @ nl @ g_evidence_root g @ nl"

section \<open>Properties\<close>

definition example_receipt :: control_receipt where
  "example_receipt =
     \<lparr>rc_subject = example_subject, rc_control = control ''ckodex'' ''c'', rc_state = Assured, rc_epoch = empty_epoch,
      rc_evidence_root = [], rc_evaluator = empty_authority, rc_evaluated_at = 0, rc_signature = []\<rparr>"

lemma wf_example_receipt: "wf_receipt example_receipt"
  by (simp add: example_receipt_def wf_receipt_def one_line_def subject_uri_def control_canonical_def
      authority_canonical_def empty_authority_def example_subject_def)

text \<open>
  Further: two receipts whose textual fields hold no line break have the same digest only if they agree on the
  subject, the control, the state, the epoch digest, the evidence root, the evaluator and the time, or
  two explicit inputs of SHA-256 collide.
\<close>

lemma receipt_digest_binds:
  assumes "wf_receipt r" and "wf_receipt t" and "receipt_digest r = receipt_digest t"
  shows "subject_uri (rc_subject r) = subject_uri (rc_subject t) \<and>
      control_canonical (rc_control r) = control_canonical (rc_control t) \<and> rc_state r = rc_state t \<and>
      composite_digest (rc_epoch r) = composite_digest (rc_epoch t) \<and> rc_evidence_root r = rc_evidence_root t \<and>
      authority_canonical (rc_evaluator r) = authority_canonical (rc_evaluator t) \<and>
      unix_nano (rc_evaluated_at r) = unix_nano (rc_evaluated_at t) \<or>
    collides (canonical_bytes r) (canonical_bytes t)"
  using receipt_dig.dig_binds[OF assms(3)] canonical_bytes_inj[OF assms(1,2)] unfolding receipt_parts_eq by blast

lemma receipt_digest_binds_witness:
  "rc_state example_receipt = rc_state (example_receipt\<lparr>rc_signature := ''s''\<rparr>) \<or>
   collides (canonical_bytes example_receipt) (canonical_bytes (example_receipt\<lparr>rc_signature := ''s''\<rparr>))"
proof -
  have "wf_receipt (example_receipt\<lparr>rc_signature := ''s''\<rparr>)"
    using wf_example_receipt by (simp add: wf_receipt_def)
  then show ?thesis
    using receipt_digest_binds[OF wf_example_receipt, of "example_receipt\<lparr>rc_signature := ''s''\<rparr>"]
    by (simp add: receipt_digest_def)
qed

text \<open>
  Further: an exception is in force at a time exactly when both its bounds are set and enclose the time, so it
  is never permanent; it covers a control exactly when it names the subject and some version of the
  control, or an equal canonical name.
\<close>

lemma exception_scope:
  "(is_valid_at e t \<longleftrightarrow> zero_time \<notin> {x_not_before e, x_not_after e} \<and> x_not_before e \<le> t \<and> t \<le> x_not_after e) \<and>
   \<not> is_valid_at e (x_not_after e + 1) \<and>
   (applies_to e sub ctrl \<longleftrightarrow> subject_uri (x_subject e) = subject_uri sub \<and>
      (\<exists>c\<in>set (x_controls e). control_canonical c = control_canonical ctrl \<or>
         (c_namespace c = c_namespace ctrl \<and> c_id c = c_id ctrl)))"
  by (auto simp: is_valid_at_def applies_to_def list_ex_iff)

end
