(* ===== verification/Explain.thy ===== *)
theory Explain
  imports Claim
begin

text \<open>
  internal/application/explain/explainer.go: the explanation graph of an evaluated claim.
\<close>

definition map_details :: "bool \<Rightarrow> string \<Rightarrow> string \<Rightarrow> string" where
  "map_details ok pass_details fail_details = (if ok then pass_details else fail_details)"

definition map_producer :: "bool \<Rightarrow> string \<Rightarrow> string" where
  "map_producer ok producer = (if ok then producer else ''none'')"

text \<open>The six switches of the graph: admission, artifact, identity, network, process, capability.\<close>

definition explain_flags :: "astate \<Rightarrow> bool \<times> bool \<times> bool \<times> bool \<times> bool \<times> bool" where
  "explain_flags st =
     (let present = (st = Assured \<or> st = Stale)
      in if st = Failed then (False, present, present, present, present, present)
         else if st = Unknown \<or> st = Unspecified then (False, False, False, False, False, False)
         else (present, present, present, present, present, present))"

definition explain_atoms :: "astate \<Rightarrow> explain_atom list" where
  "explain_atoms st =
     (case explain_flags st of (admission, artifact, ident, network, process, cap) \<Rightarrow>
       map (\<lambda>(i, ok, pass_text, fail_text). \<lparr>xa_id = i, xa_satisfied = ok, xa_details = map_details ok pass_text fail_text\<rparr>)
         [(''non-root execution'', admission, ''runAsNonRoot=true verified via CEL'', ''missing or violated non-root admission''),
          (''capability restriction'', cap, ''capabilities dropped via CEL and Tetragon observer'',
            ''missing capability dropped evidence''),
          (''bounded ServiceAccount'', ident, ''least-privilege RBAC role binding'', ''unbounded ServiceAccount''),
          (''network isolation'', network, ''Cilium default-deny egress policy'', ''unrestricted network egress''),
          (''workload identity'', ident, ''SPIFFE X509-SVID verified'', ''missing workload SPIFFE identity''),
          (''approved artifact'', artifact, ''Sigstore cosign signature verified'', ''unapproved or unsigned image digest'')])"

definition explain_implementations :: "epoch \<Rightarrow> explain_impl list" where
  "explain_implementations ep =
     (let impl = (if implementation_digest ep = [] then compute_string_digest ''kubernetes:implementation:v1''
                  else implementation_digest ep);
          pol = (if policy_digest ep = [] then compute_string_digest ''policy:default:v1'' else policy_digest ep);
          auth = (if authority_digest ep = [] then compute_string_digest ''authority:spiffe:v1'' else authority_digest ep)
      in map (\<lambda>(req, provider, base, purpose). \<lparr>xi_requirement = req, xi_provider = provider,
             xi_digest = compute_string_digest base, xi_purpose = purpose\<rparr>)
           [(''non-root'', ''kubernetes ValidatingAdmissionPolicy'', pol @ '':non-root'', ''preventive''),
            (''capabilities'', ''Kubernetes CEL'' @ nl @ ''  Tetragon runtime observer'', impl @ '':capabilities'', ''detective''),
            (''identity'', ''SPIFFE/SPIRE'', auth @ '':identity'', ''preventive''),
            (''network'', ''Cilium'', impl @ '':network'', ''preventive''),
            (''artifact'', ''Sigstore'', auth @ '':artifact'', ''preventive'')])"

definition explain_items :: "astate \<Rightarrow> explain_evidence list" where
  "explain_items st =
     (case explain_flags st of (admission, artifact, ident, network, process, cap) \<Rightarrow>
       map (\<lambda>(ty, ok, producer). \<lparr>xe_type = ty, xe_captured_at = zero_time, xe_producer = map_producer ok producer,
           xe_digest = [], xe_verified = ok\<rparr>)
         [(''admission decision'', admission, ''spiffe://prod/ns/ckodex-assurance/sa/cel-admission-observer''),
          (''signed OCI artifact'', artifact, ''spiffe://prod/ns/ckodex-evidence/sa/sigstore-verifier''),
          (''workload identity'', ident, ''spiffe://prod/ns/ckodex-assurance/sa/spire-server''),
          (''network configuration'', network, ''spiffe://prod/ns/ckodex-evidence/sa/cilium-collector''),
          (''runtime process observation'', process, ''spiffe://prod/ns/ckodex-evidence/sa/tetragon-collector''),
          (''capability observation'', cap, ''spiffe://prod/ns/ckodex-evidence/sa/tetragon-collector'')])"

definition verified_count :: "explain_evidence list \<Rightarrow> int" where
  "verified_count items = foldl (\<lambda>n ev. if xe_verified ev then n + 1 else n) 0 items"

definition build_explain_graph :: "subject_ref \<Rightarrow> control_ref \<Rightarrow> claim_evaluation \<Rightarrow> explain_graph" where
  "build_explain_graph subject ctrl eval =
     (let st = ce_state eval;
          items = explain_items st;
          n = verified_count items
      in \<lparr>g_subject = subject, g_control = ctrl,
          g_canonical_control = (if c_namespace ctrl = ''ckodex'' then control_canonical ctrl else ''ckodex:least-privilege''),
          g_applicability = ''applicable'', g_atoms = explain_atoms st,
          g_implementations = explain_implementations (ce_epoch eval), g_evidence = items,
          g_completeness = \<lparr>k_required = 6, k_present = n, k_verified = n, k_stale = 0, k_missing = 6 - n\<rparr>,
          g_freshness = (if st = Stale then ''stale'' else if st \<noteq> Assured then ''unknown'' else ''current''),
          g_authority = (if st = Stale then ''expired'' else if st \<noteq> Assured then ''unverified'' else ''verified''),
          g_epoch = ce_epoch eval, g_state = st, g_evidence_root = ce_evidence_root eval,
          g_projections = [(''Component Definition'', c_id ctrl @ '' implemented-requirement''),
            (''Assessment Results'', show_int n @ '' observations'' @ nl @ ''  0 findings'')]\<rparr>)"

lemma verified_count_filter: "verified_count items = int (length (filter xe_verified items))"
proof -
  have "foldl (\<lambda>n ev. if xe_verified ev then n + 1 else n) (k :: int) items =
      k + int (length (filter xe_verified items))" for k
    by (induction items arbitrary: k) auto
  then show ?thesis by (simp add: verified_count_def)
qed

lemma explain_flags_shown:
  "explain_flags st = (let p = (st = Assured \<or> st = Stale) in (p, p, p, p, p, p))"
  by (cases st) (simp_all add: explain_flags_def)

lemma explain_completeness:
  "g_completeness (build_explain_graph s c eval) =
     (let n = (if ce_state eval = Assured \<or> ce_state eval = Stale then 6 else 0)
      in \<lparr>k_required = 6, k_present = n, k_verified = n, k_stale = 0, k_missing = 6 - n\<rparr>)"
  by (simp add: build_explain_graph_def explain_items_def explain_flags_shown verified_count_filter Let_def)

text \<open>
  Further: an explanation shows either all of its six pieces of evidence as verified, with all atoms satisfied, or
  none of either; it shows them exactly for the states ASSURED and STALE, so not for VERIFIED, the only
  positive state a contract evaluation yields, and its counters always add up.
\<close>

lemma explanation_is_all_or_nothing:
  "let g = build_explain_graph s c eval; shown = (ce_state eval \<in> {Assured, Stale})
   in list_all (\<lambda>ev. xe_verified ev = shown) (g_evidence g) \<and> list_all (\<lambda>a. xa_satisfied a = shown) (g_atoms g) \<and>
      length (g_evidence g) = 6 \<and> length (g_atoms g) = 6 \<and>
      k_verified (g_completeness g) = (if shown then 6 else 0) \<and>
      k_verified (g_completeness g) + k_missing (g_completeness g) = k_required (g_completeness g) \<and>
      (is_complete (g_completeness g) \<longleftrightarrow> shown) \<and> g_state g = ce_state eval"
  by (cases "ce_state eval \<in> {Assured, Stale}")
    (auto simp: explain_completeness is_complete_def Let_def,
     auto simp: build_explain_graph_def explain_items_def explain_atoms_def explain_flags_shown Let_def)

end
