(* ===== verification/Receipts.thy ===== *)
theory Receipts
  imports Claim
begin

text \<open>
  internal/receipts/receipt.go, pkg/oskal/receipt.go and internal/verifier/verifier.go: evidence
  roots, issuing, signing and verifying control receipts, and the verification of signed evidence.

  Ed25519 is an argument: sign takes the private key and the message, verify the public key, the
  message and the signature. Key generation is the pair it returns, or its error. Where the code
  wraps an error of the hex decoder, the model keeps the text around it.
\<close>

type_synonym sign_fun = "string \<Rightarrow> string \<Rightarrow> string"
type_synonym verify_fun = "string \<Rightarrow> string \<Rightarrow> string \<Rightarrow> bool"

definition public_key_size :: nat where
  "public_key_size = 32"

text \<open>What RFC 8032 promises of a key pair: its public key has 32 bytes and accepts the signatures
  made with its private key.\<close>

definition ed_key_pair :: "sign_fun \<Rightarrow> verify_fun \<Rightarrow> string \<Rightarrow> string \<Rightarrow> bool" where
  "ed_key_pair sign verify pub priv = (length pub = 32 \<and> (\<forall>m. verify pub m (sign priv m)))"

section \<open>Evidence roots\<close>

definition compute_evidence_root :: "evidence_ref list \<Rightarrow> string" where
  "compute_evidence_root evidences =
     (if length evidences = 0 then compute_string_digest ''empty:evidence:root''
      else let digests = sort_strings (map e_digest evidences)
           in compute_string_digest (join_str nl digests))"

lemma compute_evidence_root_perm:
  assumes "mset (map e_digest xs) = mset (map e_digest ys)"
  shows "compute_evidence_root xs = compute_evidence_root ys"
proof -
  have "length xs = length ys" using assms by (metis length_map size_mset)
  with sort_strings_perm[OF assms] show ?thesis by (simp add: compute_evidence_root_def)
qed

lemma compute_evidence_root_list_raw:
  "xs \<noteq> [] \<Longrightarrow> compute_evidence_root xs = compute_digest (list_raw (map e_digest xs))"
  by (simp add: compute_evidence_root_def compute_string_digest_def list_raw_def)

section \<open>The receipt manager\<close>

record receipt_manager =
  m_public_key :: string
  m_private_key :: string
  m_evaluator :: authority_ref

definition default_evaluator :: authority_ref where
  "default_evaluator =
     \<lparr>a_scheme = ''spiffe'', a_subject = ''prod/ns/ckodex-assurance/sa/evaluator'', a_trust_domain = ''prod''\<rparr>"

definition new_receipt_manager :: "(string \<times> string) result \<Rightarrow> authority_ref \<Rightarrow> receipt_manager result" where
  "new_receipt_manager generated evaluator =
     (case generated of
       Inl e \<Rightarrow> Err (''failed to generate receipt signing keypair: '' @ e)
     | Inr (pub, priv) \<Rightarrow>
         Ok \<lparr>m_public_key = pub, m_private_key = priv,
             m_evaluator = (if a_scheme evaluator = [] then default_evaluator else evaluator)\<rparr>)"

definition public_key :: "receipt_manager \<Rightarrow> string" where
  "public_key m = hex_encode (m_public_key m)"

definition issue_receipt ::
  "sign_fun \<Rightarrow> receipt_manager \<Rightarrow> subject_ref \<Rightarrow> control_ref \<Rightarrow> astate \<Rightarrow> epoch \<Rightarrow> evidence_ref list \<Rightarrow> time \<Rightarrow>
     control_receipt" where
  "issue_receipt sign m subject ctrl state ep evidences evaluated_at =
     (let receipt = \<lparr>rc_subject = subject, rc_control = ctrl, rc_state = state, rc_epoch = ep,
            rc_evidence_root = compute_evidence_root evidences, rc_evaluator = m_evaluator m,
            rc_evaluated_at = evaluated_at, rc_signature = []\<rparr>;
          sig = sign (m_private_key m) (canonical_bytes receipt)
      in receipt\<lparr>rc_signature := hex_encode sig\<rparr>)"

definition sign_receipt :: "sign_fun \<Rightarrow> receipt_manager \<Rightarrow> time \<Rightarrow> control_receipt \<Rightarrow> control_receipt" where
  "sign_receipt sign m now receipt =
     (let receipt = (if a_scheme (rc_evaluator receipt) = [] then receipt\<lparr>rc_evaluator := m_evaluator m\<rparr> else receipt);
          receipt = (if is_zero_time (rc_evaluated_at receipt) then receipt\<lparr>rc_evaluated_at := now\<rparr> else receipt);
          sig = sign (m_private_key m) (canonical_bytes receipt)
      in receipt\<lparr>rc_signature := hex_encode sig\<rparr>)"

definition verify_independent_receipt :: "verify_fun \<Rightarrow> control_receipt \<Rightarrow> string \<Rightarrow> bool result" where
  "verify_independent_receipt verify receipt public_key_hex =
     (case hex_decode public_key_hex of
       None \<Rightarrow> Err ''invalid public key hex: ''
     | Some pub \<Rightarrow>
         if length pub \<noteq> public_key_size
         then Err (''invalid public key size: '' @ show_int (int (length pub)) @ '', expected '' @
                show_int (int public_key_size))
         else (case hex_decode (rc_signature receipt) of
             None \<Rightarrow> Err ''invalid signature hex: ''
           | Some sig \<Rightarrow> Ok (verify pub (canonical_bytes receipt) sig)))"

definition verify_receipt :: "verify_fun \<Rightarrow> receipt_manager \<Rightarrow> control_receipt \<Rightarrow> bool result" where
  "verify_receipt verify m receipt =
     verify_independent_receipt verify receipt (hex_encode (m_public_key m))"

text \<open>The public package wraps the manager and drops the error of a verification.\<close>

definition pkg_new_receipt_manager :: "(string \<times> string) result \<Rightarrow> authority_ref \<Rightarrow> receipt_manager result" where
  "pkg_new_receipt_manager generated evaluator =
     (case new_receipt_manager generated evaluator of
       Inl e \<Rightarrow> Err (''failed to create receipt manager: '' @ e)
     | Inr m \<Rightarrow> Ok m)"

definition pkg_verify_receipt :: "verify_fun \<Rightarrow> receipt_manager \<Rightarrow> control_receipt \<Rightarrow> bool" where
  "pkg_verify_receipt verify m rcpt =
     (case verify_independent_receipt verify rcpt (public_key m) of Inl e \<Rightarrow> False | Inr valid \<Rightarrow> valid)"

lemma verify_independent_hex:
  "length pub = 32 \<Longrightarrow> rc_signature r = hex_encode sig \<Longrightarrow>
     verify_independent_receipt verify r (hex_encode pub) = Ok (verify pub (canonical_bytes r) sig)"
  by (simp add: verify_independent_receipt_def public_key_size_def)

lemma verify_independent_ok:
  "verify_independent_receipt verify r key = Ok v \<longleftrightarrow>
     (\<exists>pub sig. hex_decode key = Some pub \<and> length pub = 32 \<and> hex_decode (rc_signature r) = Some sig \<and>
        v = verify pub (canonical_bytes r) sig)"
  by (auto simp: verify_independent_receipt_def public_key_size_def split: option.splits if_splits)

lemma issue_receipt_simps [simp]:
  "canonical_bytes (issue_receipt sign m s c st ep es at) =
     canonical_bytes \<lparr>rc_subject = s, rc_control = c, rc_state = st, rc_epoch = ep,
       rc_evidence_root = compute_evidence_root es, rc_evaluator = m_evaluator m, rc_evaluated_at = at,
       rc_signature = []\<rparr>"
  "rc_signature (issue_receipt sign m s c st ep es at) =
     hex_encode (sign (m_private_key m) (canonical_bytes (issue_receipt sign m s c st ep es at)))"
  by (simp_all add: issue_receipt_def Let_def canonical_bytes_def receipt_parts_def)

lemma sign_receipt_signature:
  "rc_signature (sign_receipt sign m now r) =
     hex_encode (sign (m_private_key m) (canonical_bytes (sign_receipt sign m now r)))"
  by (simp add: sign_receipt_def Let_def canonical_bytes_def receipt_parts_def)

lemma signed_receipt_verifies:
  assumes "ed_key_pair sign verify (m_public_key m) (m_private_key m)"
    and "rc_signature r = hex_encode (sign (m_private_key m) (canonical_bytes r))"
  shows "verify_receipt verify m r = Ok True" "pkg_verify_receipt verify m r"
  using assms by (simp_all add: verify_receipt_def pkg_verify_receipt_def public_key_def
      verify_independent_hex ed_key_pair_def)

text \<open>A receipt that keeps the signature of an issued one is accepted only for the bytes that were signed, or
  for bytes that Ed25519 accepts beside them.\<close>

lemma kept_signature_accepted:
  assumes "rc_signature r' = rc_signature (issue_receipt sign m s c st ep es at)"
    and "verify_receipt verify m r' = Ok True"
  shows "verify (m_public_key m) (canonical_bytes r')
    (sign (m_private_key m) (canonical_bytes (issue_receipt sign m s c st ep es at)))"
proof -
  from assms(1) have "rc_signature r' =
      hex_encode (sign (m_private_key m) (canonical_bytes (issue_receipt sign m s c st ep es at)))"
    using issue_receipt_simps(2)[of sign m s c st ep es at] by (simp only:)
  with assms(2) show ?thesis unfolding verify_receipt_def verify_independent_ok by auto
qed

section \<open>Signed evidence\<close>

type_synonym known_keys = "string \<rightharpoonup> string"

definition register_public_key :: "known_keys \<Rightarrow> string \<Rightarrow> string \<Rightarrow> known_keys" where
  "register_public_key keys producer pub = keys(producer \<mapsto> pub)"

definition verify_signature :: "verify_fun \<Rightarrow> known_keys \<Rightarrow> envelope \<Rightarrow> bool result" where
  "verify_signature verify keys env =
     (if ev_signature_ref env = [] then Ok False
      else case hex_decode (ev_signature_ref env) of
          None \<Rightarrow> Err ''invalid signature hex: ''
        | Some sig \<Rightarrow>
            (case keys (authority_canonical (ev_producer env)) of
               None \<Rightarrow> Ok False
             | Some pub \<Rightarrow> Ok (verify pub (signing_digest env) sig)))"

definition verify_epoch :: "envelope \<Rightarrow> epoch \<Rightarrow> bool" where
  "verify_epoch env current = epoch_matches (ev_epoch env) current"

lemma verify_signature_true:
  "verify_signature verify keys env = Ok True \<longleftrightarrow>
     (\<exists>pub sig. keys (authority_canonical (ev_producer env)) = Some pub \<and> ev_signature_ref env \<noteq> [] \<and>
        hex_decode (ev_signature_ref env) = Some sig \<and> verify pub (signing_digest env) sig)"
  by (auto simp: verify_signature_def split: option.splits)

section \<open>Properties\<close>

text \<open>
  C26: a receipt that is issued or signed with a key pair verifies with its public key, through the manager,
  through the public package and for an independent verifier that holds the key in hexadecimal.
\<close>

lemma signed_receipts_verify:
  assumes "ed_key_pair sign verify (m_public_key m) (m_private_key m)"
  shows "(let r = issue_receipt sign m s c st ep es at
      in verify_receipt verify m r = Ok True \<and> pkg_verify_receipt verify m r \<and>
         verify_independent_receipt verify r (public_key m) = Ok True) \<and>
    verify_receipt verify m (sign_receipt sign m now r0) = Ok True"
  using signed_receipt_verifies[OF assms issue_receipt_simps(2)[of sign m s c st ep es at]]
    signed_receipt_verifies[OF assms sign_receipt_signature[of sign m now r0]]
  by (simp add: verify_receipt_def public_key_def Let_def)

definition example_manager :: receipt_manager where
  "example_manager = \<lparr>m_public_key = replicate 32 CHR ''k'', m_private_key = [], m_evaluator = default_evaluator\<rparr>"

lemma signed_receipts_verify_witness:
  "pkg_verify_receipt (\<lambda>pub m s. s = m) example_manager
     (issue_receipt (\<lambda>priv m. m) example_manager example_subject (control ''ckodex'' ''c'') Assured empty_epoch [] 0)"
  using signed_receipts_verify[of "\<lambda>priv m. m" "\<lambda>pub m s. s = m" example_manager example_subject
    "control ''ckodex'' ''c''" Assured empty_epoch "[]" 0]
  by (simp add: ed_key_pair_def example_manager_def Let_def)

text \<open>
  C11: whoever changes the subject, the control, the state, the epoch digest, the evidence root, the
  evaluator or the time of an issued receipt and keeps its signature is accepted only if Ed25519 accepts
  that signature for bytes other than the signed ones, or if the two receipts have the same signed bytes
  in spite of the change. The latter needs a line break in the subject, the control, the evidence root or
  the evaluator of one of the two, the fields that the code joins with line breaks.
\<close>

lemma altered_receipt_needs_forgery:
  fixes m s c st ep es at sign
  defines "r \<equiv> issue_receipt sign m s c st ep es at"
  assumes "rc_signature r' = rc_signature r"
    and "\<not> (subject_uri (rc_subject r') = subject_uri s \<and> control_canonical (rc_control r') = control_canonical c \<and>
      rc_state r' = st \<and> composite_digest (rc_epoch r') = composite_digest ep \<and>
      rc_evidence_root r' = compute_evidence_root es \<and>
      authority_canonical (rc_evaluator r') = authority_canonical (m_evaluator m) \<and>
      unix_nano (rc_evaluated_at r') = unix_nano at)"
    and "verify_receipt verify m r' = Ok True"
  shows "(canonical_bytes r' \<noteq> canonical_bytes r \<and>
      verify (m_public_key m) (canonical_bytes r') (sign (m_private_key m) (canonical_bytes r))) \<or>
    (canonical_bytes r' = canonical_bytes r \<and>
      (\<exists>q\<in>{r, r'}. list_ex (\<lambda>field. CHR 0x0A \<in> set field)
         [subject_uri (rc_subject q), control_canonical (rc_control q), rc_evidence_root q,
          authority_canonical (rc_evaluator q)]))"
proof (cases "wf_receipt r \<and> wf_receipt r'")
  case True
  have "receipt_parts r' \<noteq> receipt_parts r"
    using assms(3) unfolding receipt_parts_eq by (simp add: r_def issue_receipt_def Let_def)
  then have "canonical_bytes r' \<noteq> canonical_bytes r" using canonical_bytes_inj True by blast
  with kept_signature_accepted[OF assms(2)[unfolded r_def] assms(4)] show ?thesis by (simp add: r_def)
next
  case False
  then have "\<exists>q\<in>{r, r'}. list_ex (\<lambda>field. CHR 0x0A \<in> set field)
      [subject_uri (rc_subject q), control_canonical (rc_control q), rc_evidence_root q,
       authority_canonical (rc_evaluator q)]"
    by (auto simp: wf_receipt_def one_line_def)
  with kept_signature_accepted[OF assms(2)[unfolded r_def] assms(4)] show ?thesis
    by (cases "canonical_bytes r' = canonical_bytes r") (simp_all add: r_def)
qed

lemma altered_receipt_needs_forgery_witness:
  fixes r
  defines "r \<equiv> issue_receipt (\<lambda>priv m. ''s'') example_manager example_subject (control ''ckodex'' ''c'') Failed empty_epoch [] 0"
  shows "canonical_bytes (r\<lparr>rc_state := Assured\<rparr>) \<noteq> canonical_bytes r"
proof -
  have root: "one_line (compute_evidence_root [])"
    using compute_digest_one_line by (simp add: compute_evidence_root_def compute_string_digest_def)
  have wf: "wf_receipt r" "wf_receipt (r\<lparr>rc_state := Assured\<rparr>)"
    using root by (simp_all add: r_def issue_receipt_def wf_receipt_def one_line_def subject_uri_def
        control_canonical_def authority_canonical_def example_manager_def default_evaluator_def example_subject_def Let_def)
  have "verify_receipt (\<lambda>pub m s. True) example_manager (r\<lparr>rc_state := Assured\<rparr>) = Ok True"
    unfolding verify_receipt_def
    by (subst verify_independent_hex[where sig = "''s''"])
      (simp_all add: r_def example_manager_def del: hex_encode.simps)
  then show ?thesis
    using altered_receipt_needs_forgery[where sign = "\<lambda>priv m. ''s''" and m = example_manager and s = example_subject
      and c = "control ''ckodex'' ''c''" and st = Failed and ep = empty_epoch and es = "[]" and at = 0
      and r' = "r\<lparr>rc_state := Assured\<rparr>", folded r_def] wf
    by (auto simp: wf_receipt_def one_line_def)
qed

text \<open>
  C20: the signed bytes of a receipt do not determine it. For every subject, control, epoch and
  evidence there is a subject whose FAILED receipt, issued by the manager for any other control, is at
  the same time a valid ASSURED receipt for the first subject and control: with the signature unchanged
  it verifies, once the line breaks of the crafted subject are read as the separators between the
  fields.
\<close>

lemma line_breaks_forge_receipts:
  fixes sign m s c c' ep es at
  defines "crafted \<equiv> issue_receipt sign m
      (s\<lparr>s_id := join_str nl [s_id s, control_canonical c, state_string Assured, composite_digest ep]\<rparr>) c' Failed ep es at"
  defines "forged \<equiv> crafted\<lparr>rc_subject := s, rc_control := c, rc_state := Assured,
      rc_evidence_root := join_str nl [control_canonical c', state_string Failed, composite_digest ep, compute_evidence_root es]\<rparr>"
  assumes "ed_key_pair sign verify (m_public_key m) (m_private_key m)"
  shows "rc_state crafted = Failed \<and> rc_control crafted = c' \<and> verify_receipt verify m crafted = Ok True \<and>
    rc_state forged = Assured \<and> rc_subject forged = s \<and> rc_control forged = c \<and>
    rc_signature forged = rc_signature crafted \<and> verify_receipt verify m forged = Ok True"
proof -
  have parts: "rc_state crafted = Failed" "rc_control crafted = c'" "rc_signature forged = rc_signature crafted"
    by (simp_all add: crafted_def forged_def issue_receipt_def Let_def)
  have bytes: "canonical_bytes forged = canonical_bytes crafted"
    unfolding forged_def crafted_def canonical_bytes_def receipt_parts_def
    by (simp add: issue_receipt_def Let_def subject_uri_def)
  have "verify_receipt verify m forged = verify_receipt verify m crafted"
    unfolding verify_receipt_def verify_independent_receipt_def parts bytes ..
  moreover have "verify_receipt verify m crafted = Ok True"
    unfolding crafted_def 
    by (rule signed_receipt_verifies(1)[of sign verify m, OF assms(3)]) (rule issue_receipt_simps(2))
  ultimately show ?thesis using parts by (simp add: forged_def)
qed

lemma line_breaks_forge_receipts_witness:
  "\<exists>id'. verify_receipt (\<lambda>pub m s. s = m) example_manager
     ((issue_receipt (\<lambda>priv m. m) example_manager (example_subject\<lparr>s_id := id'\<rparr>) (control ''ckodex'' ''other'') Failed empty_epoch [] 0)
       \<lparr>rc_subject := example_subject, rc_control := control ''ckodex'' ''c'', rc_state := Assured,
        rc_evidence_root := join_str nl [control_canonical (control ''ckodex'' ''other''), state_string Failed,
          composite_digest empty_epoch, compute_evidence_root []]\<rparr>) = Ok True"
proof -
  have "ed_key_pair (\<lambda>priv m. m) (\<lambda>pub m s. s = m) (m_public_key example_manager) (m_private_key example_manager)"
    by (simp add: ed_key_pair_def example_manager_def)
  from line_breaks_forge_receipts[OF this, of example_subject "control ''ckodex'' ''c''" empty_epoch "control ''ckodex'' ''other''" "[]" 0]
  show ?thesis by (intro exI) (elim conjE, assumption)
qed

text \<open>
  Further: the signature of an envelope is accepted exactly when it is present and Ed25519 accepts it under the
  key registered for the producer, for a digest that does not depend on the signature; the evidence of
  an unknown producer is refused without an error.
\<close>

lemma evidence_signature:
  "(verify_signature verify keys env = Ok True \<longleftrightarrow>
     (\<exists>pub sig. keys (authority_canonical (ev_producer env)) = Some pub \<and> ev_signature_ref env \<noteq> [] \<and>
        hex_decode (ev_signature_ref env) = Some sig \<and> verify pub (signing_digest (env\<lparr>ev_signature_ref := []\<rparr>)) sig)) \<and>
   verify_signature verify Map.empty (env\<lparr>ev_signature_ref := hex_encode s\<rparr>) = Ok False"
  by (auto simp: verify_signature_true signing_digest_unsigned) (simp add: verify_signature_def)

end
