(* ===== verification/Cas.thy ===== *)
theory Cas
  imports Evidence
begin

text \<open>
  internal/adapters/storage/cas.go: the content-addressed evidence repository, in memory and on
  disk. The JSON encoder of envelopes is an argument (its text or its error): enc is MarshalIndent,
  which Put uses, and marsh is Marshal, which recovery uses for the envelopes of a list. So is the
  decoder of files, and ok tells which files can be written. A range loop over a map takes an enumeration of
  its keys. Paths are joined as they are: the base directory is assumed to be clean.
\<close>

section \<open>State\<close>

type_synonym encoder = "envelope \<Rightarrow> string result"

record cas =
  base_dir :: string
  blobs :: "string \<rightharpoonup> string"
  envelopes :: "string \<rightharpoonup> envelope"
  subject_index :: "string \<rightharpoonup> string list"
  files :: "string \<rightharpoonup> string"

definition new_memory_repository :: "(string \<rightharpoonup> string) \<Rightarrow> cas" where
  "new_memory_repository fs =
     \<lparr>base_dir = [], blobs = Map.empty, envelopes = Map.empty, subject_index = Map.empty, files = fs\<rparr>"

definition blob_path :: "string \<Rightarrow> string \<Rightarrow> string" where
  "blob_path base name = join_str ''/'' [base, ''blobs'', ''sha256'', name]"

definition index_append :: "(string \<rightharpoonup> string list) \<Rightarrow> string \<Rightarrow> string \<Rightarrow> (string \<rightharpoonup> string list)" where
  "index_append m uri d = m(uri \<mapsto> (case m uri of None \<Rightarrow> [] | Some ds \<Rightarrow> ds) @ [d])"

section \<open>Recovery from disk\<close>

text \<open>A directory is what ReadDir returns: names, whether they are directories, and the content
  where it can be read. A decoder yields None where Unmarshal fails.\<close>

type_synonym dir_listing = "(string \<times> bool \<times> string option) list"

definition load_envelope :: "envelope \<Rightarrow> string \<Rightarrow> cas \<Rightarrow> cas" where
  "load_envelope env raw r =
     (let digest = envelope_digest env
      in case envelopes r digest of
           Some _ \<Rightarrow> r
         | None \<Rightarrow> r\<lparr>envelopes := (envelopes r)(digest \<mapsto> env), blobs := (blobs r)(digest \<mapsto> raw),
                     subject_index := index_append (subject_index r) (subject_uri (ev_subject env)) digest\<rparr>)"

definition load_file ::
  "encoder \<Rightarrow> (string \<Rightarrow> envelope list option) \<Rightarrow> (string \<Rightarrow> envelope option) \<Rightarrow> string \<Rightarrow> cas \<Rightarrow> cas" where
  "load_file marsh dec_list dec_one data r =
     (let single = (case dec_one data of
            Some env \<Rightarrow> if ev_id env \<noteq> [] then load_envelope env data r else r
          | None \<Rightarrow> r)
      in case dec_list data of
           Some (e # es) \<Rightarrow>
             foldl (\<lambda>r env. if ev_id env \<noteq> []
                 then load_envelope env (case marsh env of Inl _ \<Rightarrow> [] | Inr raw \<Rightarrow> raw) r else r) r (e # es)
         | _ \<Rightarrow> single)"

definition load_from_disk ::
  "encoder \<Rightarrow> (string \<Rightarrow> envelope list option) \<Rightarrow> (string \<Rightarrow> envelope option) \<Rightarrow> dir_listing option list \<Rightarrow> cas \<Rightarrow> cas" where
  "load_from_disk marsh dec_list dec_one dirs r =
     foldl (\<lambda>r dir. case dir of
         None \<Rightarrow> r
       | Some entries \<Rightarrow>
           foldl (\<lambda>r (name, is_dir, content).
               if is_dir \<or> \<not> has_suffix name ''.json'' then r
               else case content of None \<Rightarrow> r | Some data \<Rightarrow> load_file marsh dec_list dec_one data r)
             r entries) r dirs"

definition new_filesystem_repository ::
  "encoder \<Rightarrow> (string \<Rightarrow> envelope list option) \<Rightarrow> (string \<Rightarrow> envelope option) \<Rightarrow> (string \<Rightarrow> bool) \<Rightarrow> dir_listing option list \<Rightarrow>
     (string \<rightharpoonup> string) \<Rightarrow> string \<Rightarrow> cas result" where
  "new_filesystem_repository marsh dec_list dec_one mkdir_ok dirs fs base =
     (if \<not> mkdir_ok (join_str ''/'' [base, ''blobs'', ''sha256''])
      then Err ''failed to initialize evidence storage directory: ''
      else Ok (load_from_disk marsh dec_list dec_one dirs
             \<lparr>base_dir = base, blobs = Map.empty, envelopes = Map.empty, subject_index = Map.empty, files = fs\<rparr>))"

section \<open>Storing and reading\<close>

text \<open>The payload is what reading it yields, where one is given.\<close>

definition put ::
  "encoder \<Rightarrow> (string \<Rightarrow> bool) \<Rightarrow> cas \<Rightarrow> envelope \<Rightarrow> string result option \<Rightarrow> cas \<times> evidence_ref result" where
  "put enc ok r env payload =
     (case enc env of
       Inl e \<Rightarrow> (r, Err (''failed to serialize evidence envelope: '' @ e))
     | Inr data \<Rightarrow>
         let hex_hash = hex_encode (sha256 data);
             digest = ''sha256:'' @ hex_hash;
             r1 = r\<lparr>blobs := (blobs r)(digest \<mapsto> data), envelopes := (envelopes r)(digest \<mapsto> env),
                    subject_index := index_append (subject_index r) (subject_uri (ev_subject env)) digest\<rparr>;
             path = blob_path (base_dir r) (hex_hash @ ''.json'');
             ref = \<lparr>e_uri = ''cas://sha256/'' @ hex_hash, e_digest = digest,
                    e_media_type = ''application/vnd.ckodex.evidence+json''\<rparr>
         in if base_dir r \<noteq> [] \<and> \<not> ok path
            then (r1, Err ''failed to write evidence blob to disk: '')
            else let r2 = (if base_dir r \<noteq> [] then r1\<lparr>files := (files r1)(path \<mapsto> data)\<rparr> else r1)
                 in case payload of
                      None \<Rightarrow> (r2, Ok ref)
                    | Some (Inl e) \<Rightarrow> (r2, Err (''failed to read raw evidence payload: '' @ e))
                    | Some (Inr raw) \<Rightarrow>
                        let raw_hash = hex_encode (sha256 raw);
                            r3 = r2\<lparr>blobs := (blobs r2)(''sha256:'' @ raw_hash \<mapsto> raw)\<rparr>;
                            raw_path = blob_path (base_dir r) (raw_hash @ ''.bin'')
                        in (if base_dir r \<noteq> [] \<and> ok raw_path
                            then r3\<lparr>files := (files r3)(raw_path \<mapsto> raw)\<rparr> else r3, Ok ref))"

definition get :: "cas \<Rightarrow> evidence_ref \<Rightarrow> string result" where
  "get r ref =
     (case blobs r (e_digest ref) of
       Some data \<Rightarrow> Ok data
     | None \<Rightarrow>
         let not_found = Err (''evidence blob not found for digest: '' @ e_digest ref)
         in if base_dir r \<noteq> []
            then (case files r (blob_path (base_dir r) (trim_prefix (e_digest ref) ''sha256:'' @ ''.json'')) of
                Some disk_data \<Rightarrow> Ok disk_data
              | None \<Rightarrow> not_found)
            else not_found)"

definition verify :: "cas \<Rightarrow> evidence_ref \<Rightarrow> bool result" where
  "verify r ref =
     (case get r ref of
       Inl e \<Rightarrow> Err e
     | Inr data \<Rightarrow>
         let computed = ''sha256:'' @ hex_encode (sha256 data)
         in if computed \<noteq> e_digest ref
            then Err (''digest mismatch: expected '' @ e_digest ref @ '', computed '' @ computed)
            else Ok True)"

section \<open>Listing\<close>

definition leaf :: "string \<Rightarrow> string" where
  "leaf i = last (split_on CHR ''/'' (trim_char CHR ''/'' i))"

definition match_subject :: "subject_ref \<Rightarrow> subject_ref \<Rightarrow> string \<Rightarrow> bool" where
  "match_subject env_sub target target_leaf =
     (if subject_uri env_sub = subject_uri target \<or> s_id env_sub = s_id target then True
      else let clean_target = trim_suffix (trim_suffix target_leaf ''-binding'') ''-contract'';
               env_leaf = leaf (s_id env_sub)
           in if env_leaf = target_leaf \<or> has_prefix env_leaf (target_leaf @ ''-'') then True
              else if clean_target \<noteq> [] \<and>
                (env_leaf = clean_target \<or> has_prefix env_leaf (clean_target @ ''-'')) then True
              else False)"

definition collect :: "cas \<Rightarrow> (envelope \<Rightarrow> bool) \<Rightarrow> envelope list \<Rightarrow> string list \<Rightarrow> envelope list" where
  "collect r p = foldl (\<lambda>acc d. case envelopes r d of
       Some env \<Rightarrow> if ev_id env \<notin> set (map ev_id acc) \<and> p env then acc @ [env] else acc
     | None \<Rightarrow> acc)"

definition list_by_subject :: "string list \<Rightarrow> cas \<Rightarrow> subject_ref \<Rightarrow> envelope list result" where
  "list_by_subject ks r subject =
     (if s_id subject = [] \<and> s_scheme subject = [] then Err ''subject reference cannot be empty''
      else let direct = (case subject_index r (subject_uri subject) of
                 Some digests \<Rightarrow> collect r (\<lambda>_. True) [] digests | None \<Rightarrow> [])
           in Ok (collect r (\<lambda>env. match_subject (ev_subject env) subject (leaf (s_id subject))) direct ks))"

section \<open>Pruning\<close>

record prune_report =
  p_pruned_count :: int
  p_pruned_bytes :: int
  p_retained_count :: int
  p_duration :: duration

text \<open>The keys of the envelopes are enumerated twice: by ks before the deletion, by ks' after it.\<close>

definition expired :: "time \<Rightarrow> cas \<Rightarrow> string \<Rightarrow> bool" where
  "expired cutoff r d = (case envelopes r d of Some env \<Rightarrow> ev_captured_at env < cutoff | None \<Rightarrow> False)"

definition drop_digest :: "cas \<Rightarrow> string \<Rightarrow> cas" where
  "drop_digest r digest =
     (let r = r\<lparr>envelopes := (envelopes r)(digest := None), blobs := (blobs r)(digest := None)\<rparr>;
          hex_hash = trim_prefix digest ''sha256:''
      in if base_dir r \<noteq> []
         then r\<lparr>files := (files r)(blob_path (base_dir r) (hex_hash @ ''.json'') := None,
                                  blob_path (base_dir r) (hex_hash @ ''.bin'') := None)\<rparr>
         else r)"

definition prune ::
  "string list \<Rightarrow> string list \<Rightarrow> time \<Rightarrow> duration \<Rightarrow> cas \<Rightarrow> duration \<Rightarrow> bool \<Rightarrow> cas \<times> prune_report" where
  "prune ks ks' start elapsed r max_age dry_run =
     (let cutoff = start - max_age;
          to_delete = filter (expired cutoff r) ks;
          bytes = foldl (\<lambda>n d. case blobs r d of Some b \<Rightarrow> n + int (length b) | None \<Rightarrow> n) 0 to_delete
      in if dry_run
         then (r, \<lparr>p_pruned_count = int (length to_delete), p_pruned_bytes = bytes,
                   p_retained_count = int (length ks) - int (length to_delete), p_duration = elapsed\<rparr>)
         else
           let r1 = foldl drop_digest r to_delete;
               index = foldl (\<lambda>m d. case envelopes r1 d of
                   Some env \<Rightarrow> index_append m (subject_uri (ev_subject env)) d | None \<Rightarrow> m) Map.empty ks'
           in (r1\<lparr>subject_index := index\<rparr>,
               \<lparr>p_pruned_count = int (length to_delete), p_pruned_bytes = bytes,
                p_retained_count = int (length ks'), p_duration = elapsed\<rparr>))"

section \<open>The contract of an evidence repository\<close>

text \<open>
  What a client of the repository relies on. A put may replace a blob only by one with the same
  digest; the laws name the pair that would have to collide.
\<close>

locale evidence_repository =
  fixes put :: "'s \<Rightarrow> envelope \<Rightarrow> string result option \<Rightarrow> 's \<times> evidence_ref result"
    and get :: "'s \<Rightarrow> evidence_ref \<Rightarrow> string result"
    and verify :: "'s \<Rightarrow> evidence_ref \<Rightarrow> bool result"
    and inv :: "'s \<Rightarrow> bool"
  assumes put_inv: "inv s \<Longrightarrow> inv (fst (put s env p))"
    and put_get: "inv s \<Longrightarrow> put s env p = (s', Inr ref) \<Longrightarrow> \<exists>data. get s' ref = Inr data"
    and put_keeps: "inv s \<Longrightarrow> get s ref = Inr data \<Longrightarrow> \<exists>data'. get (fst (put s env p)) ref = Inr data'"
    and get_addressed: "inv s \<Longrightarrow> get s ref = Inr data \<Longrightarrow> compute_digest data = e_digest ref"
    and verify_get: "inv s \<Longrightarrow> verify s ref = Inr True \<longleftrightarrow> (\<exists>data. get s ref = Inr data \<and> compute_digest data = e_digest ref)"
begin

lemma put_verifies: "inv s \<Longrightarrow> put s env p = (s', Inr ref) \<Longrightarrow> verify s' ref = Inr True"
  using put_get[of s env p s' ref] put_inv[of s env p] get_addressed[of s' ref] verify_get[of s' ref] by auto

abbreviation puts :: "'s \<Rightarrow> (envelope \<times> string result option) list \<Rightarrow> 's" where
  "puts \<equiv> foldl (\<lambda>s (env, p). fst (put s env p))"

lemma puts_inv: "inv s \<Longrightarrow> inv (puts s ps)"
  by (induction ps arbitrary: s) (auto simp: put_inv)

text \<open>What was once readable stays readable, under the same digest.\<close>

lemma puts_keep:
  "inv s \<Longrightarrow> get s ref = Inr data \<Longrightarrow> \<exists>data'. get (puts s ps) ref = Inr data' \<and> (data' = data \<or> collides data' data)"
proof -
  assume inv: "inv s" and g: "get s ref = Inr data"
  have ex: "\<exists>data'. get (puts s ps) ref = Inr data'"
    using inv g
  proof (induction ps arbitrary: s data)
    case (Cons a ps)
    obtain env p where a: "a = (env, p)" by (cases a)
    from put_keeps[OF Cons.prems] obtain d where "get (fst (put s env p)) ref = Inr d" by blast
    with Cons.IH[OF put_inv[OF Cons.prems(1)]] a show ?case by simp
  qed auto
  then obtain data' where d': "get (puts s ps) ref = Inr data'" by blast
  with get_addressed[OF puts_inv[OF inv]] get_addressed[OF inv g]
  have "compute_digest data' = compute_digest data" by metis
  with d' compute_digest_cases show ?thesis by blast
qed

lemma puts_verify: "inv s \<Longrightarrow> verify s ref = Inr True \<Longrightarrow> verify (puts s ps) ref = Inr True"
  using verify_get[of s ref] puts_keep[of s ref _ ps] puts_inv[of s ps] verify_get[of "puts s ps" ref]
    get_addressed[of "puts s ps" ref] by blast

end

definition addressed :: "cas \<Rightarrow> bool" where
  "addressed r = (base_dir r = [] \<and> (\<forall>d data. blobs r d = Some data \<longrightarrow> compute_digest data = d))"

lemma prefix_digest: "''sha256:'' @ hex_encode (sha256 s) = compute_digest s"
  by (simp add: compute_digest_def sha_prefix_def)

lemma put_memory_blobs:
  assumes "base_dir r = []"
  shows "blobs (fst (put enc ok r env p)) =
     (case enc env of Inl _ \<Rightarrow> blobs r
      | Inr data \<Rightarrow> (let m = (blobs r)(compute_digest data \<mapsto> data)
          in case p of Some (Inr raw) \<Rightarrow> m(compute_digest raw \<mapsto> raw) | _ \<Rightarrow> m))"
    "base_dir (fst (put enc ok r env p)) = []"
    "put enc ok r env p = (r', Inr ref) \<Longrightarrow> \<exists>data. enc env = Inr data \<and> e_digest ref = compute_digest data"
  using assms
  by (auto simp: put_def Let_def compute_digest_def sha_prefix_def split: sum.splits option.splits)

interpretation memory: evidence_repository "put enc ok" get verify addressed for enc ok
proof
  fix s env p s' ref data
  assume inv: "addressed s"
  then have base: "base_dir s = []" by (simp add: addressed_def)
  note pm = put_memory_blobs[OF base, of enc ok env p]
  show "addressed (fst (put enc ok s env p))"
    using inv pm(2) unfolding addressed_def pm(1)
    by (auto simp: Let_def split: sum.splits option.splits if_splits)
  show "\<exists>data. get s' ref = Inr data" if "put enc ok s env p = (s', Inr ref)"
    using pm(1) pm(3)[OF that] that
    by (auto simp: get_def Let_def split: option.splits sum.splits if_splits)
  show "\<exists>data'. get (fst (put enc ok s env p)) ref = Inr data'" if "get s ref = Inr data"
    using that base pm(2) unfolding get_def pm(1)
    by (auto simp: Let_def split: option.splits sum.splits)
  show "compute_digest data = e_digest ref" if "get s ref = Inr data"
    using that inv by (auto simp: get_def addressed_def Let_def split: option.splits)
  show "verify s ref = Inr True \<longleftrightarrow> (\<exists>data. get s ref = Inr data \<and> compute_digest data = e_digest ref)"
    by (auto simp: verify_def Let_def compute_digest_def sha_prefix_def split: sum.splits)
qed

section \<open>What a listing returns\<close>

definition store_all :: "encoder \<Rightarrow> (string \<Rightarrow> bool) \<Rightarrow> cas \<Rightarrow> (envelope \<times> string result option) list \<Rightarrow> cas" where
  "store_all enc ok = foldl (\<lambda>r (env, p). fst (put enc ok r env p))"

text \<open>A repository holds a digest when it has a blob that hashes to it; no put ever changes that.\<close>

definition holds_digest :: "cas \<Rightarrow> string \<Rightarrow> bool" where
  "holds_digest r d = (\<exists>data. blobs r d = Some data \<and> compute_digest data = d)"

lemma put_keeps_digest: "holds_digest r d \<Longrightarrow> holds_digest (fst (put enc ok r env p)) d"
  by (auto simp: holds_digest_def put_def Let_def compute_digest_def sha_prefix_def split: sum.split option.split)

lemma store_all_holds: "holds_digest r d \<Longrightarrow> holds_digest (store_all enc ok r ps) d"
  unfolding store_all_def by (induction ps arbitrary: r) (auto simp: put_keeps_digest)

lemma put_holds:
  assumes "put enc ok r env p = (r', Inr ref)"
  shows "\<exists>x. enc env = Inr x \<and> e_digest ref = compute_digest x \<and> holds_digest r' (compute_digest x) \<and>
    (\<forall>raw. p = Some (Inr raw) \<longrightarrow> holds_digest r' (compute_digest raw))"
  using assms
  by (auto simp: holds_digest_def put_def Let_def compute_digest_def sha_prefix_def split: sum.splits option.splits if_splits)

lemma holds_digest_get:
  "holds_digest r (compute_digest x) \<Longrightarrow> e_digest ref = compute_digest x \<Longrightarrow>
     \<exists>data. get r ref = Ok data \<and> (data = x \<or> collides data x)"
  unfolding holds_digest_def get_def using compute_digest_cases by fastforce

lemma holds_digest_verify: "holds_digest r (e_digest ref) \<Longrightarrow> verify r ref = Ok True"
  by (auto simp: holds_digest_def verify_def get_def Let_def compute_digest_def sha_prefix_def)

text \<open>The encoder tells the envelopes of a set apart: no two share the digest of their text.\<close>

definition tells_apart :: "encoder \<Rightarrow> envelope set \<Rightarrow> bool" where
  "tells_apart enc E =
     ((\<forall>a\<in>E. is_ok (enc a)) \<and>
      (\<forall>a\<in>E. \<forall>b\<in>E. \<forall>x y. enc a = Inr x \<longrightarrow> enc b = Inr y \<longrightarrow> compute_digest x = compute_digest y \<longrightarrow> a = b))"

definition filed :: "encoder \<Rightarrow> envelope set \<Rightarrow> cas \<Rightarrow> bool" where
  "filed enc E r =
     (base_dir r = [] \<and>
      (\<forall>d env. envelopes r d = Some env \<longrightarrow> env \<in> E \<and> (\<exists>x. enc env = Inr x \<and> d = compute_digest x)) \<and>
      (\<forall>u ds d. subject_index r u = Some ds \<longrightarrow> d \<in> set ds \<longrightarrow>
         (\<exists>env\<in>E. \<exists>x. enc env = Inr x \<and> d = compute_digest x \<and> subject_uri (ev_subject env) = u)))"

lemma put_memory_envelopes:
  assumes "base_dir r = []"
  shows "envelopes (fst (put enc ok r env p)) =
     (case enc env of Inl _ \<Rightarrow> envelopes r | Inr x \<Rightarrow> (envelopes r)(compute_digest x \<mapsto> env))"
    "subject_index (fst (put enc ok r env p)) =
     (case enc env of Inl _ \<Rightarrow> subject_index r
      | Inr x \<Rightarrow> index_append (subject_index r) (subject_uri (ev_subject env)) (compute_digest x))"
  using assms by (auto simp: put_def Let_def compute_digest_def sha_prefix_def split: sum.splits option.splits)

lemma index_append_mem:
  "index_append m u d v = Some ds \<Longrightarrow> x \<in> set ds \<Longrightarrow> (v = u \<and> x = d) \<or> (\<exists>ds'. m v = Some ds' \<and> x \<in> set ds')"
  by (cases "m u") (auto simp: index_append_def split: if_splits)

lemma put_filed:
  assumes "filed enc E r" and "env \<in> E"
  shows "filed enc E (fst (put enc ok r env p))"
proof -
  have base: "base_dir r = []" using assms(1) by (simp add: filed_def)
  show ?thesis
  proof (cases "enc env")
    case (Inr x)
    have "\<exists>e\<in>E. \<exists>y. enc e = Inr y \<and> d = compute_digest y \<and> subject_uri (ev_subject e) = u"
      if "index_append (subject_index r) (subject_uri (ev_subject env)) (compute_digest x) u = Some ds"
        and "d \<in> set ds" for u ds d
      using index_append_mem[OF that] assms Inr unfolding filed_def by blast
    with assms Inr put_memory_blobs(2)[OF base, of enc ok env p] show ?thesis
      unfolding filed_def put_memory_envelopes[OF base] by auto
  qed (use assms put_memory_blobs(2)[OF base, of enc ok env p] in \<open>simp add: filed_def put_memory_envelopes\<close>)
qed

lemma store_all_filed:
  "filed enc E r \<Longrightarrow> fst ` set ps \<subseteq> E \<Longrightarrow> filed enc E (store_all enc ok r ps)"
proof (induction ps arbitrary: r)
  case (Cons a ps)
  obtain env p where a: "a = (env, p)" by (cases a)
  with Cons.prems have "filed enc E (fst (put enc ok r env p))" by (intro put_filed) auto
  from Cons.IH[OF this] Cons.prems(2) a show ?case by (simp add: store_all_def)
qed (simp add: store_all_def)

lemma store_all_keeps:
  "filed enc E r \<Longrightarrow> fst ` set ps \<subseteq> E \<Longrightarrow> envelopes r d \<noteq> None \<Longrightarrow> envelopes (store_all enc ok r ps) d \<noteq> None"
proof (induction ps arbitrary: r)
  case (Cons a ps)
  obtain env p where a: "a = (env, p)" by (cases a)
  with Cons.prems have "filed enc E (fst (put enc ok r env p))" by (intro put_filed) auto
  moreover have "envelopes (fst (put enc ok r env p)) d \<noteq> None"
    using Cons.prems by (auto simp: filed_def put_memory_envelopes split: sum.splits)
  ultimately show ?case using Cons.IH Cons.prems(2) a by (simp add: store_all_def)
qed (simp add: store_all_def)

lemma store_all_stored:
  assumes "filed enc E r" and "fst ` set ps \<subseteq> E" and "tells_apart enc E" and "(env, p) \<in> set ps"
  shows "\<exists>d. envelopes (store_all enc ok r ps) d = Some env"
proof -
  obtain ps1 ps2 where ps: "ps = ps1 @ (env, p) # ps2" using assms(4) by (meson split_list)
  let ?r1 = "store_all enc ok r ps1"
  have f1: "filed enc E ?r1"
    by (rule store_all_filed[OF assms(1)]) (use assms(2) ps in auto)
  have "env \<in> E" using assms(2,4) by force
  with assms(3) have "is_ok (enc env)" by (simp add: tells_apart_def)
  then obtain x where x: "enc env = Inr x" by (cases "enc env") auto
  let ?r2 = "fst (put enc ok ?r1 env p)"
  have "envelopes ?r2 (compute_digest x) \<noteq> None"
    using f1 x by (simp add: filed_def put_memory_envelopes)
  moreover have f2: "filed enc E ?r2" using put_filed[OF f1 \<open>env \<in> E\<close>] .
  ultimately have "envelopes (store_all enc ok ?r2 ps2) (compute_digest x) \<noteq> None"
    using store_all_keeps assms(2) ps by force
  then obtain env' where e: "envelopes (store_all enc ok ?r2 ps2) (compute_digest x) = Some env'" by blast
  moreover have "filed enc E (store_all enc ok ?r2 ps2)"
    by (rule store_all_filed[OF f2]) (use assms(2) ps in auto)
  ultimately obtain y where "env' \<in> E" "enc env' = Inr y" "compute_digest x = compute_digest y"
    unfolding filed_def by blast
  with x \<open>env \<in> E\<close> assms(3) have "env' = env" unfolding tells_apart_def by metis
  with e show ?thesis by (auto simp: ps store_all_def)
qed

lemma collect_spec:
  "set (collect r q acc ds) \<subseteq> set acc \<union> {env. q env \<and> (\<exists>d\<in>set ds. envelopes r d = Some env)} \<and>
   set acc \<subseteq> set (collect r q acc ds) \<and>
   (distinct (map ev_id acc) \<longrightarrow> distinct (map ev_id (collect r q acc ds))) \<and>
   (\<forall>d\<in>set ds. \<forall>env. envelopes r d = Some env \<longrightarrow> q env \<longrightarrow> ev_id env \<in> ev_id ` set (collect r q acc ds))"
proof (induction ds arbitrary: acc)
  case (Cons d ds)
  define acc' where "acc' = (case envelopes r d of
    Some env \<Rightarrow> if ev_id env \<notin> set (map ev_id acc) \<and> q env then acc @ [env] else acc | None \<Rightarrow> acc)"
  then have c: "collect r q acc (d # ds) = collect r q acc' ds" by (simp add: collect_def)
  have sub: "set acc \<subseteq> set acc'"
    "set acc' \<subseteq> set acc \<union> {env. q env \<and> (\<exists>d\<in>set (d # ds). envelopes r d = Some env)}"
    "distinct (map ev_id acc) \<longrightarrow> distinct (map ev_id acc')"
    "\<forall>env. envelopes r d = Some env \<longrightarrow> q env \<longrightarrow> ev_id env \<in> ev_id ` set acc'"
    by (auto simp: acc'_def split: option.split)
  from Cons.IH[of acc'] have IH:
    "set (collect r q acc' ds) \<subseteq> set acc' \<union> {env. q env \<and> (\<exists>d\<in>set ds. envelopes r d = Some env)}"
    "set acc' \<subseteq> set (collect r q acc' ds)"
    "distinct (map ev_id acc') \<longrightarrow> distinct (map ev_id (collect r q acc' ds))"
    "\<forall>d\<in>set ds. \<forall>env. envelopes r d = Some env \<longrightarrow> q env \<longrightarrow> ev_id env \<in> ev_id ` set (collect r q acc' ds)"
    by blast+
  show ?case
    unfolding c
  proof (intro conjI)
    show "set (collect r q acc' ds) \<subseteq> set acc \<union> {env. q env \<and> (\<exists>d\<in>set (d # ds). envelopes r d = Some env)}"
      using IH(1) sub(2) by auto
    show "set acc \<subseteq> set (collect r q acc' ds)" using IH(2) sub(1) by (rule order_trans[rotated])
    show "distinct (map ev_id acc) \<longrightarrow> distinct (map ev_id (collect r q acc' ds))"
      using IH(3) sub(3) by blast
    show "\<forall>e\<in>set (d # ds). \<forall>env. envelopes r e = Some env \<longrightarrow> q env \<longrightarrow> ev_id env \<in> ev_id ` set (collect r q acc' ds)"
      using IH(4) sub(4) image_mono[OF IH(2), of ev_id] by (auto simp del: image_iff)
  qed
qed (simp add: collect_def)

lemma list_by_subject_filed:
  assumes filed: "filed enc E r" and ks: "enumerates ks (envelopes r)"
    and listed: "list_by_subject ks r subject = Inr rs"
  shows "set rs \<subseteq> {env \<in> ran (envelopes r). match_subject (ev_subject env) subject (leaf (s_id subject))} \<union>
      {env. \<exists>d. envelopes r d = Some env \<and>
        (\<exists>e\<in>E. \<exists>x. enc e = Inr x \<and> d = compute_digest x \<and> subject_uri (ev_subject e) = subject_uri subject)}"
    "distinct (map ev_id rs)"
    "\<forall>env\<in>ran (envelopes r). match_subject (ev_subject env) subject (leaf (s_id subject)) \<longrightarrow>
       ev_id env \<in> ev_id ` set rs"
proof -
  let ?q = "\<lambda>env. match_subject (ev_subject env) subject (leaf (s_id subject))"
  define direct where "direct = (case subject_index r (subject_uri subject) of
    Some digests \<Rightarrow> collect r (\<lambda>_. True) [] digests | None \<Rightarrow> [])"
  have rs: "rs = collect r ?q direct ks"
    using listed by (simp add: list_by_subject_def direct_def Let_def split: if_splits)
  have dir: "set direct \<subseteq> {env. \<exists>d. envelopes r d = Some env \<and>
        (\<exists>e\<in>E. \<exists>x. enc e = Inr x \<and> d = compute_digest x \<and> subject_uri (ev_subject e) = subject_uri subject)}"
    "distinct (map ev_id direct)"
  proof -
    show "distinct (map ev_id direct)"
      using collect_spec[of r "\<lambda>_. True" "[]"] by (auto simp: direct_def split: option.split)
    show "set direct \<subseteq> {env. \<exists>d. envelopes r d = Some env \<and>
        (\<exists>e\<in>E. \<exists>x. enc e = Inr x \<and> d = compute_digest x \<and> subject_uri (ev_subject e) = subject_uri subject)}"
    proof (cases "subject_index r (subject_uri subject)")
      case (Some ds)
      then have "set direct \<subseteq> {env. \<exists>d\<in>set ds. envelopes r d = Some env}"
        using collect_spec[of r "\<lambda>_. True" "[]" ds] by (simp add: direct_def)
      moreover have "\<exists>e\<in>E. \<exists>x. enc e = Inr x \<and> d = compute_digest x \<and> subject_uri (ev_subject e) = subject_uri subject"
        if "d \<in> set ds" for d
        using filed Some that unfolding filed_def by blast
      ultimately show ?thesis by blast
    qed (simp add: direct_def)
  qed
  note spec = collect_spec[of r ?q direct ks, folded rs]
  have dom: "set ks = dom (envelopes r)" using ks by (simp add: enumerates_def)
  show "distinct (map ev_id rs)" using spec dir(2) by blast
  show "\<forall>env\<in>ran (envelopes r). ?q env \<longrightarrow> ev_id env \<in> ev_id ` set rs"
    using spec dom unfolding ran_def by blast
  have "{env. ?q env \<and> (\<exists>d\<in>set ks. envelopes r d = Some env)} \<subseteq> {env \<in> ran (envelopes r). ?q env}"
    by (auto simp: ran_def)
  with spec dir(1) show "set rs \<subseteq> {env \<in> ran (envelopes r). ?q env} \<union>
      {env. \<exists>d. envelopes r d = Some env \<and>
        (\<exists>e\<in>E. \<exists>x. enc e = Inr x \<and> d = compute_digest x \<and> subject_uri (ev_subject e) = subject_uri subject)}"
    by blast
qed

lemma match_subject_uri: "subject_uri a = subject_uri b \<Longrightarrow> match_subject a b l"
  by (simp add: match_subject_def)

lemma filed_new: "filed enc E (new_memory_repository fs)"
  by (simp add: filed_def new_memory_repository_def)

text \<open>A repository in memory lists, for a subject, exactly the stored envelopes that match it.\<close>

lemma list_by_subject_stored:
  fixes ps
  defines "E \<equiv> fst ` set ps"
  assumes apart: "tells_apart enc E" and ids: "inj_on ev_id E"
    and ks: "enumerates ks (envelopes (store_all enc ok (new_memory_repository fs) ps))"
    and listed: "list_by_subject ks (store_all enc ok (new_memory_repository fs) ps) subject = Inr rs"
  shows "set rs = {env \<in> E. match_subject (ev_subject env) subject (leaf (s_id subject))} \<and> distinct rs"
proof -
  let ?r = "store_all enc ok (new_memory_repository fs) ps"
  have filed: "filed enc E ?r"
    by (rule store_all_filed[OF filed_new]) (simp add: E_def)
  have ran: "ran (envelopes ?r) = E"
  proof
    show "ran (envelopes ?r) \<subseteq> E" using filed by (auto simp: filed_def ran_def)
    show "E \<subseteq> ran (envelopes ?r)"
      using store_all_stored[OF filed_new _ apart] by (auto simp: E_def ran_def)
  qed
  note spec = list_by_subject_filed[OF filed ks listed, unfolded ran]
  have match: "env \<in> E \<and> match_subject (ev_subject env) subject (leaf (s_id subject))"
    if "envelopes ?r d = Some env" "e \<in> E" "enc e = Inr x" "d = compute_digest x"
      "subject_uri (ev_subject e) = subject_uri subject" for d env e x
  proof -
    from filed that(1) obtain y where "env \<in> E" "enc env = Inr y" "d = compute_digest y"
      unfolding filed_def by blast
    with that apart have "env = e" unfolding tells_apart_def by metis
    with that(5) \<open>env \<in> E\<close> show ?thesis by (simp add: match_subject_uri)
  qed
  then have "{env. \<exists>d. envelopes ?r d = Some env \<and>
        (\<exists>e\<in>E. \<exists>x. enc e = Inr x \<and> d = compute_digest x \<and> subject_uri (ev_subject e) = subject_uri subject)}
      \<subseteq> {env \<in> E. match_subject (ev_subject env) subject (leaf (s_id subject))}"
    by blast
  with spec(1) have sound: "set rs \<subseteq> {env \<in> E. match_subject (ev_subject env) subject (leaf (s_id subject))}"
    by blast
  have "env \<in> set rs" if "env \<in> E" "match_subject (ev_subject env) subject (leaf (s_id subject))" for env
  proof -
    from spec(3) that obtain e where "e \<in> set rs" "ev_id e = ev_id env" by force
    moreover from this(1) sound have "e \<in> E" by blast
    ultimately show ?thesis using ids that(1) by (metis inj_onD)
  qed
  with sound have "set rs = {env \<in> E. match_subject (ev_subject env) subject (leaf (s_id subject))}" by blast
  moreover from spec(2) have "distinct rs" by (simp add: distinct_map)
  ultimately show ?thesis ..
qed

section \<open>What a prune removes\<close>

lemma drop_digests:
  "envelopes (foldl drop_digest r ds) = (\<lambda>d. if d \<in> set ds then None else envelopes r d)"
  "blobs (foldl drop_digest r ds) = (\<lambda>d. if d \<in> set ds then None else blobs r d)"
  "base_dir (foldl drop_digest r ds) = base_dir r"
  by (induction ds arbitrary: r) (auto simp: drop_digest_def Let_def fun_eq_iff)

lemma prune_envelopes:
  assumes "enumerates ks (envelopes r)"
  shows "envelopes (fst (prune ks ks' start elapsed r max_age False)) =
     (\<lambda>d. if expired (start - max_age) r d then None else envelopes r d)"
    "blobs (fst (prune ks ks' start elapsed r max_age False)) =
     (\<lambda>d. if expired (start - max_age) r d then None else blobs r d)"
proof -
  have "d \<in> set ks" if "expired c r d" for c d
    using assms that by (auto simp: enumerates_def expired_def split: option.splits)
  then show "envelopes (fst (prune ks ks' start elapsed r max_age False)) =
     (\<lambda>d. if expired (start - max_age) r d then None else envelopes r d)"
    "blobs (fst (prune ks ks' start elapsed r max_age False)) =
     (\<lambda>d. if expired (start - max_age) r d then None else blobs r d)"
    by (auto simp: prune_def Let_def drop_digests fun_eq_iff)
qed

lemma prune_counts:
  assumes ks: "enumerates ks (envelopes r)"
    and ks': "enumerates ks' (envelopes (fst (prune ks ks' start elapsed r max_age False)))"
  shows "p_pruned_count (snd (prune ks ks' start elapsed r max_age dry)) = int (length (filter (expired (start - max_age) r) ks))"
    "p_retained_count (snd (prune ks ks' start elapsed r max_age dry)) =
       int (length ks) - int (length (filter (expired (start - max_age) r) ks))"
proof -
  let ?e = "expired (start - max_age) r"
  show "p_pruned_count (snd (prune ks ks' start elapsed r max_age dry)) = int (length (filter ?e ks))"
    by (simp add: prune_def Let_def)
  have "set ks' = set (filter (\<lambda>d. \<not> ?e d) ks)"
    using ks ks' unfolding prune_envelopes(1)[OF ks] by (auto simp: enumerates_def dom_def)
  moreover have "distinct ks'" "distinct ks" using ks ks' by (simp_all add: enumerates_def)
  ultimately have "length ks' = length (filter (\<lambda>d. \<not> ?e d) ks)"
    by (metis distinct_card distinct_filter)
  moreover have "length (filter ?e ks) + length (filter (\<lambda>d. \<not> ?e d) ks) = length ks"
    by (rule sum_length_filter_compl)
  ultimately show "p_retained_count (snd (prune ks ks' start elapsed r max_age dry)) =
       int (length ks) - int (length (filter ?e ks))"
    by (simp add: prune_def Let_def)
qed

section \<open>Surviving a restart\<close>

lemma put_disk:
  assumes "base_dir r \<noteq> []" and "put enc ok r env p = (r', Inr ref)"
  shows "\<exists>data. enc env = Inr data \<and> e_digest ref = compute_digest data \<and>
    files r' (blob_path (base_dir r) (hex_encode (sha256 data) @ ''.json'')) = Some data"
proof -
  have neq: "blob_path b (x @ ''.json'') \<noteq> blob_path b (y @ ''.bin'')" for b x y
  proof
    assume "blob_path b (x @ ''.json'') = blob_path b (y @ ''.bin'')"
    then have "x @ ''.json'' = y @ ''.bin''" by (simp add: blob_path_def)
    then have "rev (x @ ''.json'') = rev (y @ ''.bin'')" by (rule arg_cong)
    then show False by simp
  qed
  show ?thesis
    using assms neq
    by (auto simp: put_def Let_def compute_digest_def sha_prefix_def split: sum.splits option.splits if_splits)
qed

lemma load_envelope_files [simp]:
  "files (load_envelope env raw r) = files r" "base_dir (load_envelope env raw r) = base_dir r"
  by (simp_all add: load_envelope_def Let_def split: option.split)

lemma load_file_files [simp]:
  "files (load_file enc dl d1 data r) = files r" "base_dir (load_file enc dl d1 data r) = base_dir r"
proof -
  have "files (foldl (\<lambda>r env. if ev_id env \<noteq> [] then load_envelope env (g env) r else r) r es) = files r \<and>
      base_dir (foldl (\<lambda>r env. if ev_id env \<noteq> [] then load_envelope env (g env) r else r) r es) = base_dir r" for es g r
    by (induction es arbitrary: r) auto
  then show "files (load_file enc dl d1 data r) = files r" "base_dir (load_file enc dl d1 data r) = base_dir r"
    by (auto simp: load_file_def Let_def split: option.split list.split)
qed

lemma load_from_disk_files:
  "files (load_from_disk enc dl d1 dirs r) = files r \<and> base_dir (load_from_disk enc dl d1 dirs r) = base_dir r"
proof -
  have entries: "files (foldl (\<lambda>r (name, is_dir, content).
         if is_dir \<or> \<not> has_suffix name ''.json'' then r
         else case content of None \<Rightarrow> r | Some data \<Rightarrow> load_file enc dl d1 data r) r es) = files r \<and>
       base_dir (foldl (\<lambda>r (name, is_dir, content).
         if is_dir \<or> \<not> has_suffix name ''.json'' then r
         else case content of None \<Rightarrow> r | Some data \<Rightarrow> load_file enc dl d1 data r) r es) = base_dir r" for es r
    by (induction es arbitrary: r) (auto split: option.split)
  show ?thesis
    by (induction dirs arbitrary: r) (auto simp: load_from_disk_def entries split: option.split)
qed

section \<open>Properties\<close>

text \<open>
  C24: an envelope that was put into a repository, in memory or on disk and whatever the repository held,
  is readable under the returned reference: what is read is the text of that envelope, or another text
  with the same SHA-256 digest, and it verifies; so is the payload under its own digest. Both are still
  so after any further envelopes were put, with success or not.
\<close>

lemma stored_evidence_verifies:
  assumes "put enc ok r env p = (r', Inr ref)"
  shows "\<exists>x. enc env = Ok x \<and>
    (\<exists>data. get (store_all enc ok r' ps) ref = Ok data \<and> (data = x \<or> collides data x)) \<and>
    verify (store_all enc ok r' ps) ref = Ok True \<and>
    (case p of Some (Inr raw) \<Rightarrow>
        (\<exists>data. get (store_all enc ok r' ps) (ref\<lparr>e_digest := compute_digest raw\<rparr>) = Ok data \<and>
          (data = raw \<or> collides data raw))
      | _ \<Rightarrow> True)"
proof -
  obtain x where x: "enc env = Inr x" "e_digest ref = compute_digest x" "holds_digest r' (compute_digest x)"
      "\<forall>raw. p = Some (Inr raw) \<longrightarrow> holds_digest r' (compute_digest raw)"
    using put_holds[OF assms] by blast
  note kept = store_all_holds[of r' _ enc ok ps]
  have "\<exists>data. get (store_all enc ok r' ps) ref = Ok data \<and> (data = x \<or> collides data x)"
    using holds_digest_get[OF kept[OF x(3)]] x(2) by simp
  moreover have "verify (store_all enc ok r' ps) ref = Ok True"
    using holds_digest_verify[of _ ref] kept[OF x(3)] x(2) by simp
  moreover have "\<exists>data. get (store_all enc ok r' ps) (ref\<lparr>e_digest := compute_digest raw\<rparr>) = Ok data \<and>
      (data = raw \<or> collides data raw)" if "p = Some (Inr raw)" for raw
    using holds_digest_get[OF kept] x(4) that by simp
  ultimately show ?thesis using x(1) by (simp split: option.split sum.split)
qed

definition example_put :: envelope where
  "example_put =
     \<lparr>ev_schema = evidence_schema, ev_id = ''ev-1'', ev_subject = \<lparr>s_scheme = ''k8s'', s_id = ''ns/Pod/api'', s_attributes = []\<rparr>,
      ev_observation_type = ''admission'', ev_captured_at = 0, ev_producer = empty_authority,
      ev_artifact = \<lparr>e_uri = [], e_digest = [], e_media_type = []\<rparr>, ev_integrity_digest = [],
      ev_signature_ref = [], ev_epoch = empty_epoch, ev_control_refs = []\<rparr>"

lemma stored_evidence_verifies_witness:
  "\<exists>r ref. put (\<lambda>e. Ok ''x'') (\<lambda>p. True) (new_memory_repository Map.empty) example_put (Some (Inr ''raw'')) = (r, Inr ref) \<and>
     verify r ref = Ok True"
proof -
  have "\<exists>r ref. put (\<lambda>e. Ok ''x'') (\<lambda>p. True) (new_memory_repository Map.empty) example_put (Some (Inr ''raw'')) = (r, Inr ref)"
    by (simp add: put_def new_memory_repository_def Let_def)
  then obtain r ref where p: "put (\<lambda>e. Ok ''x'') (\<lambda>p. True) (new_memory_repository Map.empty) example_put (Some (Inr ''raw'')) = (r, Inr ref)"
    by blast
  with stored_evidence_verifies[OF p, of "[]"] show ?thesis
    by (auto simp: store_all_def)
qed

text \<open>
  Further: listing a subject in a repository in memory that holds envelopes with distinct names and
  distinguishable texts returns exactly the stored envelopes that match the subject, without
  repetition, in whatever order the map of envelopes is iterated.
\<close>

lemma listing_is_exact:
  assumes "tells_apart enc (fst ` set ps)" and "inj_on ev_id (fst ` set ps)"
    and "enumerates ks (envelopes (store_all enc ok (new_memory_repository fs) ps))"
    and "s_id subject \<noteq> [] \<or> s_scheme subject \<noteq> []"
  shows "\<exists>rs. list_by_subject ks (store_all enc ok (new_memory_repository fs) ps) subject = Ok rs \<and> distinct rs \<and>
    set rs = {env \<in> fst ` set ps. match_subject (ev_subject env) subject (leaf (s_id subject))}"
proof -
  obtain rs where "list_by_subject ks (store_all enc ok (new_memory_repository fs) ps) subject = Ok rs"
    using assms(4) by (auto simp: list_by_subject_def Let_def)
  with list_by_subject_stored[OF assms(1-3)] show ?thesis by blast
qed

lemma listing_is_exact_witness:
  "\<exists>rs. list_by_subject [compute_digest ''x''] (store_all (\<lambda>e. Ok ''x'') (\<lambda>p. True) (new_memory_repository Map.empty)
     [(example_put, None)]) (ev_subject example_put) = Ok rs \<and> set rs = {example_put}"
proof -
  have env: "envelopes (store_all (\<lambda>e. Ok ''x'') (\<lambda>p. True) (new_memory_repository Map.empty) [(example_put, None)]) =
      [compute_digest ''x'' \<mapsto> example_put]"
    by (simp add: store_all_def put_memory_envelopes new_memory_repository_def)
  have "\<exists>rs. list_by_subject [compute_digest ''x''] (store_all (\<lambda>e. Ok ''x'') (\<lambda>p. True) (new_memory_repository Map.empty)
     [(example_put, None)]) (ev_subject example_put) = Ok rs \<and> distinct rs \<and>
     set rs = {env \<in> fst ` set [(example_put, None :: string result option)].
       match_subject (ev_subject env) (ev_subject example_put) (leaf (s_id (ev_subject example_put)))}"
    by (rule listing_is_exact[where ps = "[(example_put, None)]"])
      (simp_all add: tells_apart_def env enumerates_def, simp add: example_put_def)
  then show ?thesis by (auto simp: match_subject_uri)
qed

text \<open>
  Further: a prune removes exactly the envelopes captured before the cutoff, and the blobs filed under their
  digests, and keeps every other envelope and blob; a dry run changes nothing, and both report the
  same numbers, which add up to what was stored.
\<close>

lemma prune_is_exact:
  fixes ks ks' start elapsed r max_age
  defines "r' \<equiv> fst (prune ks ks' start elapsed r max_age False)"
  assumes "enumerates ks (envelopes r)" and "enumerates ks' (envelopes r')"
  shows "envelopes r' = (\<lambda>d. if expired (start - max_age) r d then None else envelopes r d) \<and>
    blobs r' = (\<lambda>d. if expired (start - max_age) r d then None else blobs r d) \<and>
    fst (prune ks ks' start elapsed r max_age True) = r \<and>
    (\<forall>dry. let rep = snd (prune ks ks' start elapsed r max_age dry)
       in p_pruned_count rep = int (length (filter (expired (start - max_age) r) ks)) \<and>
          p_pruned_count rep + p_retained_count rep = int (length ks))"
  using prune_envelopes[OF assms(2)] prune_counts[OF assms(2) assms(3)[unfolded r'_def]]
  by (simp add: r'_def Let_def) (simp add: prune_def Let_def)

lemma prune_is_exact_witness:
  "envelopes (fst (prune [''d''] [] 10 0 ((new_memory_repository Map.empty)\<lparr>envelopes := [''d'' \<mapsto> example_put]\<rparr>) 5 False)) = Map.empty"
proof -
  let ?r = "(new_memory_repository Map.empty)\<lparr>envelopes := [''d'' \<mapsto> example_put]\<rparr>"
  have e: "enumerates [''d''] (envelopes ?r)" by (simp add: enumerates_def)
  have x: "(\<lambda>d. if expired 5 ?r d then None else envelopes ?r d) = Map.empty"
    by (auto simp: expired_def example_put_def fun_eq_iff)
  have "envelopes (fst (prune [''d''] [] 10 0 ?r 5 False)) = Map.empty"
    using prune_envelopes(1)[OF e, of "[]" 10 0 5] x by simp
  with prune_is_exact[OF e, of "[]" 10 0 5] show ?thesis by (simp add: enumerates_def)
qed

text \<open>
  C18: on disk, an envelope that was stored is readable under its reference, and has the digest of the
  reference, after the repository is opened again over the same files, whatever the recovery of the
  index finds, unless a recovered blob is filed under that digest.
\<close>

lemma stored_evidence_survives_restart:
  assumes "base_dir r \<noteq> []" and "put enc ok r env p = (r', Inr ref)"
    and "new_filesystem_repository marsh dl d1 mkdir_ok dirs (files r') (base_dir r) = Ok r''"
    and "blobs r'' (e_digest ref) = None"
  shows "\<exists>data. enc env = Inr data \<and> get r'' ref = Ok data \<and> compute_digest data = e_digest ref \<and> verify r'' ref = Ok True"
proof -
  obtain data where data: "enc env = Inr data" "e_digest ref = compute_digest data"
    "files r' (blob_path (base_dir r) (hex_encode (sha256 data) @ ''.json'')) = Some data"
    using put_disk[OF assms(1,2)] by blast
  have "files r'' = files r'" "base_dir r'' = base_dir r"
    using assms(3) load_from_disk_files by (auto simp: new_filesystem_repository_def split: if_splits)
  moreover have "trim_prefix (compute_digest data) ''sha256:'' = hex_encode (sha256 data)"
    unfolding prefix_digest[symmetric] by (rule trim_prefix_append)
  ultimately have "get r'' ref = Ok data"
    using data assms(1,4) by (simp add: get_def Let_def)
  with data show ?thesis by (simp add: verify_def Let_def compute_digest_def sha_prefix_def)
qed

lemma stored_evidence_survives_restart_witness:
  "\<exists>r' ref r''. put (\<lambda>e. Ok ''x'') (\<lambda>p. True) ((new_memory_repository Map.empty)\<lparr>base_dir := ''/d''\<rparr>) example_put None = (r', Inr ref) \<and>
     new_filesystem_repository (\<lambda>e. Ok ''x'') (\<lambda>s. None) (\<lambda>s. None) (\<lambda>p. True) [] (files r') ''/d'' = Ok r'' \<and>
     verify r'' ref = Ok True"
proof -
  let ?r = "(new_memory_repository Map.empty)\<lparr>base_dir := ''/d''\<rparr>"
  have "\<exists>r' ref. put (\<lambda>e. Ok ''x'') (\<lambda>p. True) ?r example_put None = (r', Inr ref)"
    by (simp add: put_def Let_def)
  then obtain r' ref where p: "put (\<lambda>e. Ok ''x'') (\<lambda>p. True) ?r example_put None = (r', Inr ref)" by blast
  have "\<exists>r''. new_filesystem_repository (\<lambda>e. Ok ''x'') (\<lambda>s. None) (\<lambda>s. None) (\<lambda>p. True) [] (files r') ''/d'' = Ok r'' \<and>
      blobs r'' = Map.empty"
    by (simp add: new_filesystem_repository_def load_from_disk_def)
  then obtain r'' where n: "new_filesystem_repository (\<lambda>e. Ok ''x'') (\<lambda>s. None) (\<lambda>s. None) (\<lambda>p. True) [] (files r') ''/d'' = Ok r''"
    and b: "blobs r'' = Map.empty" by blast
  have "base_dir ?r \<noteq> []" by simp
  from stored_evidence_survives_restart[OF this p, of "\<lambda>e. Ok ''x''" "\<lambda>s. None" "\<lambda>s. None" "\<lambda>p. True" "[]" r''] n b
  have "verify r'' ref = Ok True" by simp
  with p n show ?thesis by blast
qed

text \<open>
  Further: the recovery of the index files an envelope under the digest of its canonical fields, not of its text:
  reading that digest returns the text, and verifying it fails unless the text hashes like the
  canonical form.
\<close>

lemma recovered_evidence_mismatch:
  assumes "envelopes r (envelope_digest env) = None" and "e_digest ref = envelope_digest env"
  shows "get (load_envelope env data r) ref = Ok data \<and>
    (verify (load_envelope env data r) ref = Ok True \<longleftrightarrow> data = envelope_raw env \<or> collides data (envelope_raw env))"
proof -
  have get: "get (load_envelope env data r) ref = Ok data"
    using assms by (simp add: load_envelope_def get_def Let_def)
  have "verify (load_envelope env data r) ref = Ok True \<longleftrightarrow> compute_digest data = envelope_digest env"
    by (simp add: verify_def get assms(2) Let_def compute_digest_def sha_prefix_def)
  also have "\<dots> \<longleftrightarrow> data = envelope_raw env \<or> collides data (envelope_raw env)"
    by (auto simp: envelope_digest_def compute_digest_eq collides_def)
  finally show ?thesis using get by blast
qed

lemma recovered_evidence_mismatch_witness:
  "get (load_envelope example_put ''{}'' (new_memory_repository Map.empty))
     \<lparr>e_uri = [], e_digest = envelope_digest example_put, e_media_type = []\<rparr> = Ok ''{}''"
  using recovered_evidence_mismatch[of "new_memory_repository Map.empty" example_put
    "\<lparr>e_uri = [], e_digest = envelope_digest example_put, e_media_type = []\<rparr>" "''{}''"]
  by (simp add: new_memory_repository_def)

end
