(* ===== verification/Service.thy ===== *)
theory Service
  imports Explain Receipts Cas
begin

text \<open>
  internal/service/server.go: the assurance service. Its state is the observations by subject key,
  the accepted receipts by digest, the evidence repository and the receipt manager (absent when the
  keys could not be generated). Each call is one step; the clock, the Ed25519 verifier, the JSON
  encoder of the repository and the enumeration of its keys are arguments. The states of the
  protocol have the numbers of the states of the core, so they share a type; the field of a receipt
  stays a number because it is converted. Fields of a message that may be absent are options; the
  attributes of messages are not read and are left out of observations.
\<close>

section \<open>Messages\<close>

datatype 'a reply = Reply 'a | InvalidArgument string | Panicked

record pb_observation =
  po_id :: string
  po_subject :: "subject_ref option"
  po_type :: string
  po_observed_at :: "time option"
  po_observer :: "authority_ref option"
  po_evidence :: "evidence_ref list"

record pb_receipt =
  pr_subject :: "subject_ref option"
  pr_control :: "control_ref option"
  pr_state :: int
  pr_epoch :: "epoch option"
  pr_evidence_root :: string
  pr_evaluator :: "authority_ref option"
  pr_evaluated_at :: "time option"
  pr_signature :: string

datatype pb_valence = ValenceUnspecified | ValencePositive | ValenceNegative | ValenceMixed | ValenceUnresolved

record pb_vector =
  pv_applicability :: pb_valence
  pv_conformance :: pb_valence
  pv_provenance :: pb_valence
  pv_integrity :: pb_valence
  pv_authority :: pb_valence
  pv_identity :: pb_valence
  pv_runtime :: pb_valence
  pv_freshness :: pb_valence
  pv_completeness :: pb_valence
  pv_coherence :: coherence

record pb_evaluation =
  pe_id :: string
  pe_control :: control_ref
  pe_subject :: subject_ref
  pe_state :: astate
  pe_vector :: pb_vector
  pe_epoch :: epoch
  pe_completeness :: completeness
  pe_evidence_root :: string
  pe_evaluated_at :: time
  pe_valid_until :: time

record evaluate_response =
  er_subject :: subject_ref
  er_evaluations :: "pb_evaluation list"
  er_summary_state :: astate

record explain_response =
  xr_subject :: subject_ref
  xr_control :: control_ref
  xr_canonical_control :: string
  xr_applicability :: string
  xr_atoms :: "(string \<times> string \<times> bool) list"
  xr_implementations :: "(string \<times> string) list"
  xr_evidence :: "string list"
  xr_completeness :: completeness
  xr_freshness :: string
  xr_authority :: string
  xr_state :: astate
  xr_evidence_root :: string
  xr_projections :: smap
  xr_text :: string

record state_response =
  sr_subject :: subject_ref
  sr_state :: astate
  sr_epoch :: "epoch option"
  sr_evidence_root :: string

record receipt_response =
  rr_verified :: bool
  rr_digest :: string
  rr_message :: string

section \<open>The server\<close>

record server =
  sv_manager :: "receipt_manager option"
  sv_repo :: cas
  sv_observations :: "string \<rightharpoonup> pb_observation list"
  sv_receipts :: "string \<rightharpoonup> pb_receipt"

definition service_authority :: authority_ref where
  "service_authority =
     \<lparr>a_scheme = ''spiffe'', a_subject = ''prod/ns/ckodex-assurance/sa/assurance-service'', a_trust_domain = []\<rparr>"

definition new_server ::
  "(string \<times> string) result \<Rightarrow> receipt_manager option \<Rightarrow> cas option list \<Rightarrow> server" where
  "new_server generated receipt_mgr repos =
     \<lparr>sv_manager = (case receipt_mgr of
          Some m \<Rightarrow> Some m
        | None \<Rightarrow> (case new_receipt_manager generated service_authority of Inl _ \<Rightarrow> None | Inr m \<Rightarrow> Some m)),
      sv_repo = (case repos of Some r # _ \<Rightarrow> r | _ \<Rightarrow> new_memory_repository Map.empty),
      sv_observations = Map.empty, sv_receipts = Map.empty\<rparr>"

definition subject_key :: "subject_ref \<Rightarrow> string" where
  "subject_key s = s_scheme s @ ''://'' @ s_id s"

definition bare_subject :: "subject_ref \<Rightarrow> subject_ref" where
  "bare_subject s = \<lparr>s_scheme = s_scheme s, s_id = s_id s, s_attributes = []\<rparr>"

definition observations_of :: "server \<Rightarrow> subject_ref \<Rightarrow> pb_observation list" where
  "observations_of sv s = (case sv_observations sv (subject_key s) of None \<Rightarrow> [] | Some obs \<Rightarrow> obs)"

definition service_epoch :: "subject_ref \<Rightarrow> epoch" where
  "service_epoch s =
     \<lparr>subject_digest = compute_string_digest (subject_uri (bare_subject s)),
      implementation_digest = compute_string_digest ''kubernetes:workload-specification'',
      policy_digest = compute_string_digest (subject_key s @ '':policy''),
      authority_digest = compute_string_digest ''spiffe://assurance.ckodex.io/server'',
      environment_digest = compute_string_digest ''cluster:kubernetes''\<rparr>"

section \<open>SubmitObservation\<close>

definition observation_envelope ::
  "subject_ref \<Rightarrow> pb_observation \<Rightarrow> time \<Rightarrow> authority_ref \<Rightarrow> epoch \<Rightarrow> nat \<times> evidence_ref \<Rightarrow> envelope" where
  "observation_envelope s obs obs_time producer ep =
     (\<lambda>(i, ev). \<lparr>ev_schema = [], ev_id = ''env-'' @ po_id obs @ ''-'' @ show_int (int i), ev_subject = bare_subject s,
        ev_observation_type = po_type obs, ev_captured_at = obs_time, ev_producer = producer, ev_artifact = ev,
        ev_integrity_digest = [], ev_signature_ref = [], ev_epoch = ep, ev_control_refs = []\<rparr>)"

definition submitted_envelopes :: "subject_ref \<Rightarrow> pb_observation \<Rightarrow> time \<Rightarrow> envelope list" where
  "submitted_envelopes s obs now =
     map (observation_envelope s obs (case po_observed_at obs of Some t \<Rightarrow> t | None \<Rightarrow> now)
            (case po_observer obs of Some a \<Rightarrow> a | None \<Rightarrow> empty_authority) (service_epoch s))
       (indexed (po_evidence obs))"

text \<open>The payload stored beside an envelope is the text of the digest.\<close>

definition submit_observation ::
  "encoder \<Rightarrow> (string \<Rightarrow> bool) \<Rightarrow> time \<Rightarrow> time \<Rightarrow> server \<Rightarrow> pb_observation option \<Rightarrow> server \<times> string reply" where
  "submit_observation enc ok t1 t2 sv req =
     (case req of
        None \<Rightarrow> (sv, InvalidArgument ''observation cannot be nil'')
      | Some obs \<Rightarrow>
          let obs = (if po_id obs = [] then obs\<lparr>po_id := ''obs-'' @ show_int (unix_nano t1)\<rparr> else obs)
          in case po_subject obs of
               None \<Rightarrow> (sv, InvalidArgument ''observation subject cannot be nil'')
             | Some s \<Rightarrow>
                 (sv\<lparr>sv_observations := (sv_observations sv)(subject_key s \<mapsto> observations_of sv s @ [obs]),
                     sv_repo := store_all enc ok (sv_repo sv)
                       (map (\<lambda>env. (env, Some (Ok (e_digest (ev_artifact env))))) (submitted_envelopes s obs t2))\<rparr>,
                  Reply (po_id obs)))"

section \<open>EvaluateSubject\<close>

definition fallback_envelopes :: "subject_ref \<Rightarrow> time \<Rightarrow> pb_observation list \<Rightarrow> envelope list" where
  "fallback_envelopes s now obs_list =
     concat (map (\<lambda>obs. map (observation_envelope s obs (case po_observed_at obs of Some t \<Rightarrow> t | None \<Rightarrow> now)
          empty_authority (empty_epoch\<lparr>subject_digest := compute_string_digest (subject_uri (bare_subject s))\<rparr>))
        (indexed (po_evidence obs))) obs_list)"

definition considered_envelopes :: "string list \<Rightarrow> server \<Rightarrow> subject_ref \<Rightarrow> time \<Rightarrow> envelope list" where
  "considered_envelopes ks sv s now =
     (case list_by_subject ks (sv_repo sv) (bare_subject s) of
        Inr (e # es) \<Rightarrow> e # es
      | _ \<Rightarrow> fallback_envelopes s now (observations_of sv s))"

definition default_requirement :: requirement where
  "default_requirement =
     \<lparr>r_id = ''admission-or-runtime'', r_evidence_type = ''admission'', r_required = True, r_max_age = 24 * hour,
      r_accepted_producers = []\<rparr>"

definition service_contract :: contract where
  "service_contract =
     \<lparr>ct_id = ''contract-default'', ct_name = ''Default Assurance Contract'', ct_requirements = [default_requirement],
      ct_on_missing = Unknown\<rparr>"

definition target_state :: "astate \<Rightarrow> astate \<times> pb_valence" where
  "target_state st =
     (if st = Verified \<or> st = Assured then (Assured, ValencePositive)
      else if st = Failed then (Failed, ValenceNegative)
      else if st = Stale then (Stale, ValenceMixed)
      else (Unknown, ValenceUnresolved))"

definition pb_completeness :: "completeness \<Rightarrow> completeness" where
  "pb_completeness k =
     \<lparr>k_required = wrap_int32 (k_required k), k_present = wrap_int32 (k_present k),
      k_verified = wrap_int32 (k_verified k), k_stale = wrap_int32 (k_stale k), k_missing = wrap_int32 (k_missing k)\<rparr>"

definition response_epoch :: "astate \<Rightarrow> subject_ref \<Rightarrow> epoch" where
  "response_epoch st s =
     (if st = Assured then service_epoch s else empty_epoch)\<lparr>subject_digest := compute_string_digest (subject_key s)\<rparr>"

definition control_evaluation ::
  "subject_ref \<Rightarrow> time \<Rightarrow> astate \<Rightarrow> pb_valence \<Rightarrow> completeness \<Rightarrow> string \<Rightarrow> control_ref \<Rightarrow> pb_evaluation" where
  "control_evaluation s now st valence k root ctrl =
     \<lparr>pe_id = ''eval-'' @ s_id s @ ''-'' @ c_id ctrl, pe_control = ctrl, pe_subject = s, pe_state = st,
      pe_vector = \<lparr>pv_applicability = ValencePositive, pv_conformance = valence, pv_provenance = ValenceUnspecified,
        pv_integrity = valence, pv_authority = valence, pv_identity = valence, pv_runtime = valence,
        pv_freshness = valence, pv_completeness = valence, pv_coherence = Coherent\<rparr>,
      pe_epoch = response_epoch st s,
      pe_completeness = \<lparr>k_required = wrap_int32 (k_required k), k_present = wrap_int32 (k_present k),
        k_verified = wrap_int32 (k_verified k), k_stale = 0, k_missing = wrap_int32 (k_missing k)\<rparr>,
      pe_evidence_root = root,
      pe_evaluated_at = now, pe_valid_until = now + 5 * minute\<rparr>"

definition evaluate_subject ::
  "string list \<Rightarrow> time \<Rightarrow> server \<Rightarrow> subject_ref option \<Rightarrow> control_ref list \<Rightarrow> evaluate_response reply" where
  "evaluate_subject ks now sv subject controls =
     (case subject of
        None \<Rightarrow> InvalidArgument ''subject cannot be nil''
      | Some s \<Rightarrow>
          let envs = considered_envelopes ks sv s now;
              res = evaluate_contract service_contract envs (service_epoch s) now;
              (st, valence) = target_state (cr_state res);
              root = (if st \<noteq> Assured then [] else compute_evidence_root (map ev_artifact envs))
          in Reply \<lparr>er_subject = s,
                    er_evaluations = map (control_evaluation s now st valence (cr_completeness res) root) controls,
                    er_summary_state = st\<rparr>)"

section \<open>ExplainClaim\<close>

definition explained_evaluation :: "server \<Rightarrow> subject_ref \<Rightarrow> control_ref \<Rightarrow> claim_evaluation" where
  "explained_evaluation sv s ctrl =
     (let obs_list = observations_of sv s;
          (st, root) = (if obs_list \<noteq> []
            then (Assured, compute_evidence_root (concat (map (\<lambda>obs.
                   map (\<lambda>ev. \<lparr>e_uri = [], e_digest = e_digest ev, e_media_type = []\<rparr>) (po_evidence obs)) obs_list)))
            else (Unknown, []));
          ep = (if root \<noteq> []
            then \<lparr>subject_digest = [],
                  implementation_digest = compute_string_digest ''kubernetes:workload-specification'',
                  policy_digest = compute_string_digest (subject_uri (bare_subject s) @ '':'' @ root),
                  authority_digest = compute_string_digest ''spiffe://assurance.ckodex.io/server'',
                  environment_digest = compute_string_digest ''cluster:kubernetes''\<rparr>
            else empty_epoch)
      in \<lparr>ce_id = ''eval-'' @ c_id ctrl, ce_control = ctrl, ce_subject = bare_subject s, ce_state = st,
          ce_vector = zero_vector,
          ce_epoch = ep\<lparr>subject_digest := compute_string_digest (subject_uri (bare_subject s))\<rparr>,
          ce_evidence = [], ce_completeness = zero_completeness, ce_evidence_root = root,
          ce_evaluated_at = zero_time, ce_valid_until = zero_time, ce_trace = []\<rparr>)"

definition explain_claim ::
  "server \<Rightarrow> subject_ref option \<Rightarrow> control_ref option \<Rightarrow> explain_response reply" where
  "explain_claim sv subject ctrl =
     (case (subject, ctrl) of
        (Some s, Some c) \<Rightarrow>
          let eval = explained_evaluation sv s c;
              g = build_explain_graph (bare_subject s) c eval
          in Reply \<lparr>xr_subject = s, xr_control = c, xr_canonical_control = g_canonical_control g,
                    xr_applicability = g_applicability g,
                    xr_atoms = map (\<lambda>a. (xa_id a, xa_details a, xa_satisfied a)) (g_atoms g),
                    xr_implementations = map (\<lambda>i. (xi_provider i, xi_digest i)) (g_implementations g),
                    xr_evidence = map xe_digest (g_evidence g), xr_completeness = pb_completeness (g_completeness g),
                    xr_freshness = g_freshness g, xr_authority = g_authority g,
                    xr_state = (if observations_of sv s \<noteq> [] then Assured else Unknown),
                    xr_evidence_root = g_evidence_root g, xr_projections = g_projections g, xr_text = render_text g\<rparr>
      | _ \<Rightarrow> InvalidArgument ''subject and control are required'')"

section \<open>GetAssuranceState\<close>

definition get_assurance_state :: "server \<Rightarrow> subject_ref option \<Rightarrow> state_response reply" where
  "get_assurance_state sv subject =
     (case subject of
        None \<Rightarrow> InvalidArgument ''subject is required''
      | Some s \<Rightarrow>
          let obs_list = observations_of sv s
          in if obs_list = []
             then Reply \<lparr>sr_subject = s, sr_state = Unknown, sr_epoch = None, sr_evidence_root = []\<rparr>
             else let root = compute_evidence_root (concat (map po_evidence obs_list))
                  in Reply \<lparr>sr_subject = s, sr_state = Assured,
                       sr_epoch = Some \<lparr>subject_digest = compute_string_digest (subject_key s),
                         implementation_digest = compute_string_digest ''kubernetes:workload-specification'',
                         policy_digest = compute_string_digest (subject_key s @ '':'' @ root),
                         authority_digest = compute_string_digest ''spiffe://assurance.ckodex.io/server'',
                         environment_digest = compute_string_digest ''cluster:kubernetes''\<rparr>,
                       sr_evidence_root = root\<rparr>)"

section \<open>SubmitReceipt\<close>

text \<open>A message without one of the four references makes the handler dereference a nil pointer.\<close>

definition core_receipt :: "pb_receipt \<Rightarrow> control_receipt option" where
  "core_receipt r =
     (case (pr_subject r, pr_control r, pr_epoch r, pr_evaluator r) of
        (Some s, Some c, Some ep, Some a) \<Rightarrow>
          Some \<lparr>rc_subject = bare_subject s, rc_control = control (c_namespace c) (c_id c),
                rc_state = astate_of_int (pr_state r), rc_epoch = ep, rc_evidence_root = pr_evidence_root r,
                rc_evaluator = \<lparr>a_scheme = a_scheme a, a_subject = a_subject a, a_trust_domain = []\<rparr>,
                rc_evaluated_at = (case pr_evaluated_at r of Some t \<Rightarrow> t | None \<Rightarrow> 0),
                rc_signature = pr_signature r\<rparr>
      | _ \<Rightarrow> None)"

definition submit_receipt :: "verify_fun \<Rightarrow> server \<Rightarrow> pb_receipt option \<Rightarrow> server \<times> receipt_response reply" where
  "submit_receipt ed_verify sv req =
     (case req of
        None \<Rightarrow> (sv, InvalidArgument ''receipt cannot be nil'')
      | Some rcpt \<Rightarrow>
          (case (core_receipt rcpt, sv_manager sv) of
             (Some core, Some m) \<Rightarrow>
               (case verify_independent_receipt ed_verify core (public_key m) of
                  Inr True \<Rightarrow>
                    let digest = receipt_digest core
                    in (sv\<lparr>sv_receipts := (sv_receipts sv)(digest \<mapsto> rcpt)\<rparr>,
                        Reply \<lparr>rr_verified = True, rr_digest = digest, rr_message = ''Receipt verified and accepted''\<rparr>)
                | _ \<Rightarrow>
                    (sv, Reply \<lparr>rr_verified = False, rr_digest = [], rr_message = ''Signature verification failed''\<rparr>))
           | _ \<Rightarrow> (sv, Panicked)))"

section \<open>Evaluations\<close>

lemma target_state_simps [simp]:
  "target_state Verified = (Assured, ValencePositive)" "target_state Stale = (Stale, ValenceMixed)"
  "target_state Unknown = (Unknown, ValenceUnresolved)"
  by (simp_all add: target_state_def)

lemma service_contract_state:
  "cr_state (evaluate_contract service_contract envs ep now) =
     (if \<exists>env\<in>set envs. supports default_requirement ep now env then Verified
      else if \<exists>env\<in>set envs. relevant default_requirement env then Stale else Unknown)"
  unfolding evaluate_state_spec
  by (simp add: contract_spec_def service_contract_def default_requirement_def req_status_def Let_def)

lemma evaluate_subject_state:
  "\<exists>resp. evaluate_subject ks now sv (Some s) controls = Reply resp \<and> er_subject resp = s \<and>
     er_summary_state resp =
       (let envs = considered_envelopes ks sv s now in
        if \<exists>env\<in>set envs. supports default_requirement (service_epoch s) now env then Assured
        else if \<exists>env\<in>set envs. relevant default_requirement env then Stale else Unknown) \<and>
     map pe_control (er_evaluations resp) = controls \<and>
     list_all (\<lambda>e. pe_state e = er_summary_state resp \<and>
       pe_evidence_root e = (if er_summary_state resp = Assured
         then compute_evidence_root (map ev_artifact (considered_envelopes ks sv s now)) else []))
       (er_evaluations resp)"
  by (auto simp: evaluate_subject_def service_contract_state control_evaluation_def list_all_iff Let_def o_def)

lemma fallback_never_supports:
  assumes "env \<in> set (fallback_envelopes s now obs)"
  shows "\<not> supports r (service_epoch s) now env"
proof -
  from assms have "implementation_digest (ev_epoch env) = []"
    by (auto simp: fallback_envelopes_def observation_envelope_def empty_epoch_def)
  moreover have "implementation_digest (service_epoch s) \<noteq> []" by (simp add: service_epoch_def)
  ultimately have "\<not> epoch_matches (ev_epoch env) (service_epoch s)" by (auto simp: epoch_matches_def)
  then show ?thesis by (simp add: supports_def)
qed

section \<open>Submitted evidence\<close>

lemma store_all_nonempty:
  assumes "filed enc E r" and "fst ` set ps \<subseteq> E" and "env \<in> fst ` set ps" and "is_ok (enc env)"
  shows "\<exists>d env. envelopes (store_all enc ok r ps) d = Some env"
proof -
  from assms(3) obtain p where "(env, p) \<in> set ps" by auto
  then obtain as bs where ps: "ps = as @ (env, p) # bs" by (meson split_list)
  from assms(4) obtain x where x: "enc env = Inr x" by (cases "enc env") auto
  let ?q = "store_all enc ok r as"
  let ?r = "fst (put enc ok ?q env p)"
  have filed: "filed enc E ?q" by (rule store_all_filed[OF assms(1)]) (use assms(2) ps in auto)
  then have base: "base_dir ?q = []" by (simp add: filed_def)
  have "envelopes ?r (compute_digest x) \<noteq> None" by (simp add: put_memory_envelopes[OF base] x)
  moreover have "filed enc E ?r" using put_filed[OF filed] assms(2) ps by auto
  ultimately have "envelopes (store_all enc ok ?r bs) (compute_digest x) \<noteq> None"
    using store_all_keeps assms(2) ps by force
  then show ?thesis by (auto simp: ps store_all_def)
qed

lemma store_all_failing:
  "\<forall>env\<in>fst ` set ps. \<not> is_ok (enc env) \<Longrightarrow> store_all enc ok r ps = r"
proof (induction ps arbitrary: r)
  case (Cons a ps)
  obtain env p where a: "a = (env, p)" by (cases a)
  with Cons.prems obtain e where "enc env = Inl e" by (cases "enc env") auto
  then have "fst (put enc ok r env p) = r" by (simp add: put_def)
  with Cons a show ?case by (simp add: store_all_def)
qed (simp add: store_all_def)

lemma fresh_repository_filed: "filed enc E (new_memory_repository fs)"
  by (simp add: filed_def new_memory_repository_def)

text \<open>A repository that holds only envelopes of one subject lists some of them, and nothing else.\<close>

lemma listing_of_stored:
  assumes filed: "filed enc E r" and ks: "enumerates ks (envelopes r)" and some: "envelopes r d = Some env"
    and E: "\<forall>e\<in>E. ev_subject e = sub" and sub: "s_id sub \<noteq> [] \<or> s_scheme sub \<noteq> []"
  shows "\<exists>e es. list_by_subject ks r sub = Inr (e # es) \<and> set (e # es) \<subseteq> E"
proof -
  have "\<exists>rs. list_by_subject ks r sub = Inr rs" using sub by (auto simp: list_by_subject_def Let_def)
  then obtain rs where rs: "list_by_subject ks r sub = Inr rs" by blast
  have ran: "ran (envelopes r) \<subseteq> E" using filed unfolding filed_def ran_def by blast
  note spec = list_by_subject_filed[OF filed ks rs]
  from some have "env \<in> ran (envelopes r)" by (rule ranI)
  moreover have "match_subject (ev_subject env) sub (leaf (s_id sub))"
    using E ran \<open>env \<in> ran (envelopes r)\<close> by (auto simp: match_subject_def)
  ultimately have "rs \<noteq> []" using spec(3) by auto
  moreover have "set rs \<subseteq> E" using spec(1) ran by (blast intro: ranI)
  ultimately show ?thesis using rs by (cases rs) auto
qed

lemma submission_listed:
  assumes "r = store_all enc ok (new_memory_repository Map.empty) (map (\<lambda>env. (env, f env)) es)"
    and "enumerates ks (envelopes r)" and "\<forall>e\<in>set es. ev_subject e = sub" and "s_id sub \<noteq> [] \<or> s_scheme sub \<noteq> []"
    and "\<exists>e\<in>set es. is_ok (enc e)"
  shows "\<exists>e es'. list_by_subject ks r sub = Inr (e # es') \<and> set (e # es') \<subseteq> set es"
proof -
  have sub: "fst ` set (map (\<lambda>env. (env, f env)) es) \<subseteq> set es" by auto
  have filed: "filed enc (set es) r"
    unfolding assms(1) by (rule store_all_filed[OF fresh_repository_filed sub])
  from assms(5) obtain e where "e \<in> fst ` set (map (\<lambda>env. (env, f env)) es)" "is_ok (enc e)" by force
  then obtain d env where "envelopes r d = Some env"
    using store_all_nonempty[OF fresh_repository_filed sub] unfolding assms(1) by blast
  from listing_of_stored[OF filed assms(2) this assms(3,4)] show ?thesis .
qed

lemma submission_unlisted:
  assumes "r = store_all enc ok (new_memory_repository Map.empty) (map (\<lambda>env. (env, f env)) es)"
    and "enumerates ks (envelopes r)"
    and "(s_id sub = [] \<and> s_scheme sub = []) \<or> (\<forall>e\<in>set es. \<not> is_ok (enc e))"
  shows "\<nexists>e es'. list_by_subject ks r sub = Inr (e # es')"
proof (cases "s_id sub = [] \<and> s_scheme sub = []")
  case False
  with assms(3) have "r = new_memory_repository Map.empty"
    unfolding assms(1) by (intro store_all_failing) auto
  with assms(2) False show ?thesis
    by (auto simp: list_by_subject_def new_memory_repository_def enumerates_def collect_def)
qed (simp add: list_by_subject_def)

lemma submitted_envelope:
  assumes "e \<in> set (submitted_envelopes s obs now)"
  shows "ev_subject e = bare_subject s" "ev_observation_type e = po_type obs" "ev_epoch e = service_epoch s"
    "ev_captured_at e = (case po_observed_at obs of Some t \<Rightarrow> t | None \<Rightarrow> now)"
  using assms by (auto simp: submitted_envelopes_def observation_envelope_def)

lemma submitted_supports:
  assumes "e \<in> set (submitted_envelopes s obs u)"
  shows "supports default_requirement (service_epoch s) now e \<longleftrightarrow>
      matches_evidence_type (po_type obs) ''admission'' \<and> ev_captured_at e \<le> now \<and> now - ev_captured_at e \<le> 24 * hour"
    "relevant default_requirement e \<longleftrightarrow> matches_evidence_type (po_type obs) ''admission''"
  using submitted_envelope[OF assms]
  by (auto simp: supports_def relevant_def default_requirement_def is_producer_accepted_def is_fresh_def time_sub_def
      time_units)

lemma fallback_relevant:
  "(\<exists>env\<in>set (fallback_envelopes s now [obs]). relevant default_requirement env) \<longleftrightarrow>
     po_evidence obs \<noteq> [] \<and> matches_evidence_type (po_type obs) ''admission''"
proof -
  let ?f = "observation_envelope s obs (case po_observed_at obs of Some t \<Rightarrow> t | None \<Rightarrow> now) empty_authority
      (empty_epoch\<lparr>subject_digest := compute_string_digest (subject_uri (bare_subject s))\<rparr>)"
  have "relevant default_requirement (?f x) \<longleftrightarrow> matches_evidence_type (po_type obs) ''admission''" for x
    by (cases x) (simp add: observation_envelope_def relevant_def default_requirement_def is_producer_accepted_def)
  moreover have "indexed (po_evidence obs) \<noteq> [] \<longleftrightarrow> po_evidence obs \<noteq> []" by (cases "po_evidence obs") simp_all
  moreover have "set (fallback_envelopes s now [obs]) = ?f ` set (indexed (po_evidence obs))"
    by (simp add: fallback_envelopes_def)
  ultimately show ?thesis by (cases "indexed (po_evidence obs)") auto
qed

section \<open>Receipts\<close>

lemma verify_public_key:
  "verify_independent_receipt v r (public_key m) = Inr True \<longleftrightarrow>
     length (m_public_key m) = 32 \<and>
     (\<exists>sig. hex_decode (rc_signature r) = Some sig \<and> v (m_public_key m) (canonical_bytes r) sig)"
  unfolding verify_independent_ok public_key_def by auto

definition pb_of_receipt :: "control_receipt \<Rightarrow> pb_receipt" where
  "pb_of_receipt r =
     \<lparr>pr_subject = Some (rc_subject r), pr_control = Some (rc_control r), pr_state = int_of_astate (rc_state r),
      pr_epoch = Some (rc_epoch r), pr_evidence_root = rc_evidence_root r, pr_evaluator = Some (rc_evaluator r),
      pr_evaluated_at = Some (rc_evaluated_at r), pr_signature = rc_signature r\<rparr>"

lemma core_receipt_of_pb:
  assumes "wf_astate (rc_state r)"
  shows "\<exists>core. core_receipt (pb_of_receipt r) = Some core \<and> rc_signature core = rc_signature r \<and>
    receipt_parts core = receipt_parts (r\<lparr>rc_control := (rc_control r)\<lparr>c_version := []\<rparr>\<rparr>)"
  using assms by (simp add: core_receipt_def pb_of_receipt_def receipt_parts_def subject_uri_def bare_subject_def
      control_canonical_def authority_canonical_def astate_of_int_of_astate)

lemma unversioned_parts:
  "receipt_parts (r\<lparr>rc_control := (rc_control r)\<lparr>c_version := []\<rparr>\<rparr>) = receipt_parts r \<longleftrightarrow> c_version (rc_control r) = []"
  unfolding receipt_parts_eq by (auto simp: control_canonical_def)

section \<open>Properties\<close>

text \<open>
  C8: a subject is reported ASSURED exactly when some considered envelope supports the admission requirement
  at the epoch of the subject, STALE when one is merely relevant to it, and UNKNOWN otherwise, never
  FAILED; every requested control is answered, in order, with that state, and an evidence root is
  given only for ASSURED.
\<close>

lemma evaluation_by_evidence:
  "\<exists>resp. evaluate_subject ks now sv (Some s) controls = Reply resp \<and> er_subject resp = s \<and>
     er_summary_state resp =
       (let envs = considered_envelopes ks sv s now in
        if \<exists>env\<in>set envs. supports default_requirement (service_epoch s) now env then Assured
        else if \<exists>env\<in>set envs. relevant default_requirement env then Stale else Unknown) \<and>
     map pe_control (er_evaluations resp) = controls \<and>
     list_all (\<lambda>e. pe_state e = er_summary_state resp \<and>
       pe_evidence_root e = (if er_summary_state resp = Assured
         then compute_evidence_root (map ev_artifact (considered_envelopes ks sv s now)) else []))
       (er_evaluations resp)"
  by (rule evaluate_subject_state)

text \<open>
  C9: what a fresh server answers about the subject of the one observation that was submitted to it, whatever the
  order in which the repository lists its keys. The observation decides UNKNOWN when it carries no evidence or is
  of a type that is not admission evidence. Otherwise the answer is ASSURED exactly when the subject has a scheme or
  an identifier, at least one of the envelopes built from the observation can be encoded, and the time of
  the observation (or of the submission, when it has none) is not in the future and at most a day old; and it is STALE
  when one of these fails.
\<close>

lemma submitted_evidence_decides:
  assumes "po_subject obs = Some s"
    and "sv = fst (submit_observation enc ok t1 t2 (new_server generated mgr []) (Some obs))"
    and "enumerates ks (envelopes (sv_repo sv))"
  shows "\<exists>resp. evaluate_subject ks now sv (Some s) controls = Reply resp \<and> er_summary_state resp =
    (let named = (if po_id obs = [] then obs\<lparr>po_id := ''obs-'' @ show_int (unix_nano t1)\<rparr> else obs);
         t = (case po_observed_at obs of Some t \<Rightarrow> t | None \<Rightarrow> t2)
     in if po_evidence obs = [] \<or> \<not> matches_evidence_type (po_type obs) ''admission'' then Unknown
        else if (s_id s \<noteq> [] \<or> s_scheme s \<noteq> []) \<and> list_ex (\<lambda>env. is_ok (enc env)) (submitted_envelopes s named t2) \<and>
                t \<le> now \<and> now - t \<le> 24 * hour
             then Assured
        else Stale)"
proof -
  define named where "named = (if po_id obs = [] then obs\<lparr>po_id := ''obs-'' @ show_int (unix_nano t1)\<rparr> else obs)"
  define t where "t = (case po_observed_at obs of Some t \<Rightarrow> t | None \<Rightarrow> t2)"
  have named: "po_subject named = Some s" "po_observed_at named = po_observed_at obs" "po_type named = po_type obs"
    "po_evidence named = po_evidence obs" using assms(1) by (simp_all add: named_def)
  let ?env = "submitted_envelopes s named t2"
  let ?state = "if \<exists>env\<in>set (considered_envelopes ks sv s now). supports default_requirement (service_epoch s) now env then Assured
        else if \<exists>env\<in>set (considered_envelopes ks sv s now). relevant default_requirement env then Stale else Unknown"
  have repo: "sv_repo sv = store_all enc ok (new_memory_repository Map.empty)
      (map (\<lambda>env. (env, Some (Inr (e_digest (ev_artifact env))))) ?env)" "observations_of sv s = [named]"
    using assms(2) named(1)
    by (simp_all add: submit_observation_def new_server_def observations_of_def Let_def flip: named_def)
  have "?state = (if po_evidence obs = [] \<or> \<not> matches_evidence_type (po_type obs) ''admission'' then Unknown
        else if (s_id s \<noteq> [] \<or> s_scheme s \<noteq> []) \<and> list_ex (\<lambda>env. is_ok (enc env)) ?env \<and> t \<le> now \<and> now - t \<le> 24 * hour
             then Assured else Stale)"
  proof (cases "(s_id s \<noteq> [] \<or> s_scheme s \<noteq> []) \<and> list_ex (\<lambda>env. is_ok (enc env)) ?env")
    case True
    obtain e es where es: "considered_envelopes ks sv s now = e # es" "set (e # es) \<subseteq> set ?env"
      using submission_listed[OF repo(1) assms(3), of "bare_subject s"] True submitted_envelope(1)[of _ s named t2]
      by (auto simp: considered_envelopes_def list_ex_iff bare_subject_def)
    have "po_evidence obs \<noteq> []" using True named(4) by (auto simp: submitted_envelopes_def)
    moreover have "supports default_requirement (service_epoch s) now x \<longleftrightarrow>
        matches_evidence_type (po_type obs) ''admission'' \<and> t \<le> now \<and> now - t \<le> 24 * hour"
      "relevant default_requirement x \<longleftrightarrow> matches_evidence_type (po_type obs) ''admission''"
      if "x \<in> set (e # es)" for x
      using submitted_supports[of x s named t2] submitted_envelope(4)[of x s named t2] es(2) that named(2,3)
      by (auto simp: t_def)
    ultimately show ?thesis
      unfolding es(1) using True by (simp cong: bex_cong)
  next
    case False
    have "considered_envelopes ks sv s now = fallback_envelopes s now [named]"
      using submission_unlisted[OF repo(1) assms(3), of "bare_subject s"] False
      by (auto simp: considered_envelopes_def list_ex_iff repo(2) bare_subject_def split: sum.split list.split)
    then show ?thesis
      using False fallback_never_supports[of _ s now "[named]"] fallback_relevant[of s now named] named by auto
  qed
  then show ?thesis
    using evaluate_subject_state[of ks now sv s controls] by (auto simp: Let_def named_def t_def)
qed

definition example_observation :: "string \<Rightarrow> pb_observation" where
  "example_observation ty =
     \<lparr>po_id = ''o'', po_subject = Some example_subject, po_type = ty, po_observed_at = Some 0, po_observer = None,
      po_evidence = [\<lparr>e_uri = [], e_digest = ''d'', e_media_type = []\<rparr>]\<rparr>"

lemma submitted_evidence_decides_witness:
  "let sv = fst (submit_observation (\<lambda>e. Inr ''{}'') (\<lambda>p. True) 0 0 (new_server (Inr ([], [])) None [])
         (Some (example_observation ''admission'')))
   in \<exists>resp. evaluate_subject [compute_digest ''{}''] 1 sv (Some example_subject) [] = Reply resp \<and>
        er_summary_state resp = Assured"
proof -
  let ?sv = "fst (submit_observation (\<lambda>e. Inr ''{}'') (\<lambda>p. True) 0 0 (new_server (Inr ([], [])) None [])
         (Some (example_observation ''admission'')))"
  have obs: "po_subject (example_observation ''admission'') = Some example_subject" by (simp add: example_observation_def)
  have keys: "enumerates [compute_digest ''{}''] (envelopes (sv_repo ?sv))"
    by (simp add: example_observation_def example_subject_def submit_observation_def new_server_def
      store_all_def submitted_envelopes_def enumerates_def put_memory_envelopes new_memory_repository_def Let_def)
  show ?thesis
    using submitted_evidence_decides[OF obs refl keys, of 1 "[]"]
    by (simp add: example_observation_def example_subject_def submitted_envelopes_def time_units)
qed

text \<open>
  C31: the three read calls do not agree: for a subject with any observation, GetAssuranceState and
  ExplainClaim answer ASSURED, with a complete explanation, whatever the observation says and however old it
  is, while EvaluateSubject answers UNKNOWN as long as no considered envelope is relevant to admission, and
  never ASSURED for evidence that is not in the repository.
\<close>

lemma read_calls_disagree:
  assumes "observations_of sv s \<noteq> []"
  shows "(\<exists>r. get_assurance_state sv (Some s) = Reply r \<and> sr_state r = Assured) \<and>
    (\<exists>x. explain_claim sv (Some s) (Some c) = Reply x \<and> xr_state x = Assured \<and> is_complete (xr_completeness x)) \<and>
    (\<exists>e. evaluate_subject ks now sv (Some s) controls = Reply e \<and>
      (\<not> (\<exists>env\<in>set (considered_envelopes ks sv s now). relevant default_requirement env) \<longrightarrow>
        er_summary_state e = Unknown) \<and>
      (list_by_subject ks (sv_repo sv) (bare_subject s) = Inr [] \<longrightarrow> er_summary_state e \<in> {Stale, Unknown}))"
proof -
  have get: "\<exists>r. get_assurance_state sv (Some s) = Reply r \<and> sr_state r = Assured"
    using assms by (simp add: get_assurance_state_def Let_def)
  have st: "ce_state (explained_evaluation sv s c) = Assured"
    using assms by (simp add: explained_evaluation_def Let_def)
  have k: "is_complete (pb_completeness (g_completeness (build_explain_graph (bare_subject s) c (explained_evaluation sv s c))))"
    by (simp add: explain_completeness st pb_completeness_def is_complete_def wrap_int32_id)
  have ex: "\<exists>x. explain_claim sv (Some s) (Some c) = Reply x \<and> xr_state x = Assured \<and> is_complete (xr_completeness x)"
    using assms k by (simp add: explain_claim_def Let_def)
  have rel: "supports default_requirement (service_epoch s) now env \<Longrightarrow> relevant default_requirement env" for env
    by (simp add: supports_def)
  obtain e where e: "evaluate_subject ks now sv (Some s) controls = Reply e"
    "er_summary_state e = (let envs = considered_envelopes ks sv s now in
        if \<exists>env\<in>set envs. supports default_requirement (service_epoch s) now env then Assured
        else if \<exists>env\<in>set envs. relevant default_requirement env then Stale else Unknown)"
    using evaluate_subject_state[of ks now sv s controls] by blast
  have "er_summary_state e = Unknown"
    if "\<not> (\<exists>env\<in>set (considered_envelopes ks sv s now). relevant default_requirement env)"
    using that e(2) rel by (auto simp: Let_def)
  moreover have "er_summary_state e \<in> {Stale, Unknown}" if "list_by_subject ks (sv_repo sv) (bare_subject s) = Inr []"
  proof -
    have "considered_envelopes ks sv s now = fallback_envelopes s now (observations_of sv s)"
      using that by (simp add: considered_envelopes_def)
    then show ?thesis using e(2) fallback_never_supports by (auto simp: Let_def)
  qed
  ultimately show ?thesis using get ex e(1) by blast
qed

lemma read_calls_disagree_witness:
  "let sv = fst (submit_observation (\<lambda>e. Inl ''disk'') (\<lambda>p. True) 0 0 (new_server (Inr ([], [])) None [])
         (Some (example_observation ''network'')))
   in (\<exists>r. get_assurance_state sv (Some example_subject) = Reply r \<and> sr_state r = Assured) \<and>
      (\<exists>e. evaluate_subject [] 1 sv (Some example_subject) [] = Reply e \<and> er_summary_state e \<in> {Stale, Unknown})"
proof -
  define sv where "sv = fst (submit_observation (\<lambda>e. Inl ''disk'') (\<lambda>p. True) 0 0 (new_server (Inr ([], [])) None [])
         (Some (example_observation ''network'')))"
  have "observations_of sv example_subject \<noteq> []"
    by (simp add: sv_def submit_observation_def example_observation_def observations_of_def Let_def)
  moreover have "list_by_subject [] (sv_repo sv) (bare_subject example_subject) = Inr []"
    by (simp add: sv_def submit_observation_def example_observation_def new_server_def new_memory_repository_def
        store_all_def submitted_envelopes_def put_def list_by_subject_def bare_subject_def example_subject_def
        collect_def Let_def)
  ultimately show ?thesis
    using read_calls_disagree[of sv example_subject "control [] []" "[]" 1 "[]"]
    unfolding Let_def sv_def[symmetric] by blast
qed

text \<open>
  Further: a receipt is accepted exactly when all its references are there, the server has its keys and Ed25519
  accepts the signature for the receipt without the version of its control; only an accepted receipt
  is stored, under its digest, and a receipt without one of the references crashes the handler.
\<close>

lemma receipt_acceptance:
  "let (sv', resp) = submit_receipt v sv (Some r);
       accepted = (\<exists>core m sig. core_receipt r = Some core \<and> sv_manager sv = Some m \<and> length (m_public_key m) = 32 \<and>
         hex_decode (rc_signature core) = Some sig \<and> v (m_public_key m) (canonical_bytes core) sig)
   in ((\<exists>a. resp = Reply a \<and> rr_verified a) \<longleftrightarrow> accepted) \<and>
      sv' = (if accepted then sv\<lparr>sv_receipts := (sv_receipts sv)(receipt_digest (the (core_receipt r)) \<mapsto> r)\<rparr> else sv) \<and>
      (resp = Panicked \<longleftrightarrow> core_receipt r = None \<or> sv_manager sv = None)"
proof (cases "core_receipt r = None \<or> sv_manager sv = None")
  case True
  then show ?thesis by (auto simp: submit_receipt_def split: option.split)
next
  case False
  then obtain core m where cm: "core_receipt r = Some core" "sv_manager sv = Some m" by auto
  show ?thesis
  proof (cases "verify_independent_receipt v core (public_key m) = Inr True")
    case True
    then show ?thesis unfolding verify_public_key using cm True
      by (auto simp: submit_receipt_def Let_def)
  next
    case False
    then have "submit_receipt v sv (Some r) =
        (sv, Reply \<lparr>rr_verified = False, rr_digest = [], rr_message = ''Signature verification failed''\<rparr>)"
      using cm by (auto simp: submit_receipt_def split: sum.split bool.split)
    then show ?thesis using False cm unfolding verify_public_key by auto
  qed
qed

text \<open>
  C30: a receipt that the manager of the server issued is accepted when its control has no version; for a
  versioned control the server checks other bytes than the signed ones, so that it accepts the
  receipt only if Ed25519 accepts the signature for those.
\<close>

lemma issued_receipt_submitted:
  fixes m s c st ep es at sign
  defines "r \<equiv> issue_receipt sign m s c st ep es at"
  assumes "ed_key_pair sign v (m_public_key m) (m_private_key m)" and "sv_manager sv = Some m"
    and "wf_astate st" and "wf_receipt r"
  shows "\<exists>core a. core_receipt (pb_of_receipt r) = Some core \<and>
    snd (submit_receipt v sv (Some (pb_of_receipt r))) = Reply a \<and>
    (c_version c = [] \<longrightarrow> rr_verified a) \<and>
    (c_version c \<noteq> [] \<longrightarrow> canonical_bytes core \<noteq> canonical_bytes r \<and>
       (rr_verified a \<longleftrightarrow> v (m_public_key m) (canonical_bytes core) (sign (m_private_key m) (canonical_bytes r))))"
proof -
  have rs: "rc_state r = st" "rc_control r = c" by (simp_all add: r_def issue_receipt_def Let_def)
  have sig: "rc_signature r = hex_encode (sign (m_private_key m) (canonical_bytes r))"
    using issue_receipt_simps(2)[of sign m s c st ep es at] by (simp only: r_def)
  let ?r0 = "r\<lparr>rc_control := (rc_control r)\<lparr>c_version := []\<rparr>\<rparr>"
  obtain core where core: "core_receipt (pb_of_receipt r) = Some core" "rc_signature core = rc_signature r"
    "receipt_parts core = receipt_parts ?r0"
    using core_receipt_of_pb[of r] assms(4) rs by auto
  have bytes: "canonical_bytes core = canonical_bytes ?r0" using core(3) by (simp add: canonical_bytes_def)
  have "one_line (control_canonical ((rc_control r)\<lparr>c_version := []\<rparr>))"
    using assms(5) by (auto simp: wf_receipt_def one_line_def control_canonical_def split: if_splits)
  then have wf: "wf_receipt ?r0" using assms(5) by (simp add: wf_receipt_def)
  have diff: "canonical_bytes ?r0 = canonical_bytes r \<longleftrightarrow> c_version c = []"
    using canonical_bytes_inj[OF wf assms(5)] unversioned_parts[of r] rs(2) by (auto simp: canonical_bytes_def)
  have len: "length (m_public_key m) = 32" using assms(2) by (simp add: ed_key_pair_def)
  let ?ok = "v (m_public_key m) (canonical_bytes core) (sign (m_private_key m) (canonical_bytes r))"
  have acc: "verify_independent_receipt v core (public_key m) = Inr True \<longleftrightarrow> ?ok"
    unfolding verify_public_key core(2) sig using len by simp
  have "\<exists>a. snd (submit_receipt v sv (Some (pb_of_receipt r))) = Reply a \<and> (rr_verified a \<longleftrightarrow> ?ok)"
    using core(1) assms(3) acc by (auto simp: submit_receipt_def Let_def split: sum.split bool.split)
  moreover have "?ok" if "c_version c = []"
    using that assms(2) diff bytes by (simp add: ed_key_pair_def)
  ultimately show ?thesis using core(1) diff bytes by (metis (no_types, lifting))
qed

lemma issued_receipt_submitted_witness:
  fixes m c r sv
  defines "m \<equiv> example_manager" and "c \<equiv> (control ''ckodex'' ''c'')\<lparr>c_version := ''v1''\<rparr>"
    and "r \<equiv> issue_receipt (\<lambda>priv m. m) m example_subject c Assured empty_epoch [] 0"
    and "sv \<equiv> new_server (Inl []) (Some m) []"
  shows "\<exists>a. snd (submit_receipt (\<lambda>pub m s. s = m) sv (Some (pb_of_receipt r))) = Reply a \<and> \<not> rr_verified a"
proof -
  have root: "one_line (compute_evidence_root [])"
    using compute_digest_one_line by (simp add: compute_evidence_root_def compute_string_digest_def)
  have wf: "wf_receipt r"
    using root by (simp add: r_def issue_receipt_def wf_receipt_def one_line_def subject_uri_def control_canonical_def
        authority_canonical_def m_def c_def example_manager_def default_evaluator_def example_subject_def Let_def)
  have "ed_key_pair (\<lambda>priv m. m) (\<lambda>pub m s. s = m) (m_public_key m) (m_private_key m)"
    by (simp add: ed_key_pair_def m_def example_manager_def)
  from issued_receipt_submitted[OF this, of sv Assured example_subject c empty_epoch "[]" 0, folded r_def, OF _ _ wf]
  show ?thesis by (auto simp: sv_def new_server_def wf_astate_def c_def)
qed

end
