(* ===== verification/Client.thy ===== *)
theory Client
  imports Service
begin

text \<open>
  pkg/oskal: the client of the service (client.go), the engine that answers without a service
  (inprocess.go), and the builders of envelopes and observations (evidence.go).

  The transport is an argument: it turns a call of the service into its response or an error. In
  the responses of the service the states are those of the core, so the client converts their
  numbers. The in-process engine is one step per call; its clock is an argument.
\<close>

section \<open>Responses\<close>

definition map_proto_state :: "int \<Rightarrow> astate" where
  "map_proto_state n =
     (if n = 1 then Unknown else if n = 2 then Observed else if n = 3 then Verified else if n = 4 then Assured
      else if n = 5 then Stale else if n = 6 then Failed else Unspecified)"

record state_view =
  vs_subject :: subject_ref
  vs_state :: astate
  vs_root :: string
  vs_epoch :: "epoch option"
  vs_evaluated :: time
  vs_freshness :: string
  vs_raw :: int

record evaluation_view =
  vv_subject :: subject_ref
  vv_state :: astate
  vv_evaluations :: "claim_evaluation list"
  vv_evaluated :: time

record explain_view =
  vx_subject :: subject_ref
  vx_control :: control_ref
  vx_canonical :: string
  vx_state :: astate
  vx_root :: string
  vx_graph :: explain_graph
  vx_text :: string

section \<open>The connection\<close>

text \<open>The options of the connection are the library's; without any it is insecure.\<close>

record 'd client_options =
  co_dial :: "'d list"
  co_timeout :: duration

datatype 'd client_option = WithInsecure | WithDialOptions "'d list" | WithTimeout duration

fun apply_client_option :: "'d \<Rightarrow> 'd client_options \<Rightarrow> 'd client_option \<Rightarrow> 'd client_options" where
  "apply_client_option insecure o1 WithInsecure = o1\<lparr>co_dial := co_dial o1 @ [insecure]\<rparr>"
| "apply_client_option insecure o1 (WithDialOptions ds) = o1\<lparr>co_dial := co_dial o1 @ ds\<rparr>"
| "apply_client_option insecure o1 (WithTimeout d) = o1\<lparr>co_timeout := d\<rparr>"

definition client_options_of :: "'d \<Rightarrow> 'd client_option list \<Rightarrow> 'd client_options" where
  "client_options_of insecure opts =
     (let o1 = foldl (apply_client_option insecure) \<lparr>co_dial = [], co_timeout = 10 * second\<rparr> opts
      in if co_dial o1 = [] then o1\<lparr>co_dial := [insecure]\<rparr> else o1)"

text \<open>The connection and the timeout of its calls.\<close>

definition new_client :: "(string \<Rightarrow> 'd list \<Rightarrow> 'n result) \<Rightarrow> 'd \<Rightarrow> string \<Rightarrow> 'd client_option list \<Rightarrow> ('n \<times> duration) result" where
  "new_client dial insecure address opts =
     (let o1 = client_options_of insecure opts
      in case dial address (co_dial o1) of
           Inl e \<Rightarrow> Err (''failed to dial OSKAL AssuranceService at '' @ address @ '': '' @ e)
         | Inr conn \<Rightarrow> Ok (conn, co_timeout o1))"

text \<open>The deadline of a call, within the one of its context.\<close>

definition with_timeout :: "duration \<Rightarrow> time \<Rightarrow> time option \<Rightarrow> time option" where
  "with_timeout timeout now deadline =
     (if timeout > 0
      then Some (case deadline of None \<Rightarrow> now + timeout | Some d \<Rightarrow> min d (now + timeout))
      else deadline)"

section \<open>The client\<close>

definition client_get_state ::
  "(subject_ref option \<Rightarrow> state_response result) \<Rightarrow> time \<Rightarrow> subject_ref \<Rightarrow> state_view result" where
  "client_get_state rpc now subject =
     (case rpc (Some (bare_subject subject)) of
        Inl e \<Rightarrow> Err e
      | Inr resp \<Rightarrow>
          let state = map_proto_state (int_of_astate (sr_state resp))
          in Ok \<lparr>vs_subject = subject, vs_state = state, vs_root = sr_evidence_root resp, vs_epoch = sr_epoch resp,
                 vs_evaluated = now,
                 vs_freshness = (if state = Unknown then ''unknown'' else if state = Stale then ''stale'' else ''current''),
                 vs_raw = int_of_astate (sr_state resp)\<rparr>)"

definition client_evaluation :: "subject_ref \<Rightarrow> pb_evaluation \<Rightarrow> claim_evaluation" where
  "client_evaluation subject ev =
     \<lparr>ce_id = pe_id ev, ce_control = control (c_namespace (pe_control ev)) (c_id (pe_control ev)),
      ce_subject = subject, ce_state = map_proto_state (int_of_astate (pe_state ev)), ce_vector = zero_vector,
      ce_epoch = pe_epoch ev, ce_evidence = [], ce_completeness = pe_completeness ev,
      ce_evidence_root = pe_evidence_root ev, ce_evaluated_at = pe_evaluated_at ev,
      ce_valid_until = pe_valid_until ev, ce_trace = []\<rparr>"

definition client_evaluate ::
  "(subject_ref option \<Rightarrow> control_ref list \<Rightarrow> evaluate_response result) \<Rightarrow> time \<Rightarrow> subject_ref \<Rightarrow> control_ref list \<Rightarrow>
     evaluation_view result" where
  "client_evaluate rpc now subject controls =
     (case rpc (Some (bare_subject subject)) (map (\<lambda>c. control (c_namespace c) (c_id c)) controls) of
        Inl e \<Rightarrow> Err e
      | Inr resp \<Rightarrow>
          Ok \<lparr>vv_subject = subject, vv_state = map_proto_state (int_of_astate (er_summary_state resp)),
              vv_evaluations = map (client_evaluation subject) (er_evaluations resp), vv_evaluated = now\<rparr>)"

text \<open>The references of the response carry a digest only, so type and producer come out empty.\<close>

definition client_explain ::
  "(subject_ref option \<Rightarrow> control_ref option \<Rightarrow> explain_response result) \<Rightarrow> subject_ref \<Rightarrow> control_ref \<Rightarrow>
     explain_view result" where
  "client_explain rpc subject ctrl =
     (case rpc (Some (bare_subject subject)) (Some (control (c_namespace ctrl) (c_id ctrl))) of
        Inl e \<Rightarrow> Err e
      | Inr resp \<Rightarrow>
          let state = map_proto_state (int_of_astate (xr_state resp));
              graph = \<lparr>g_subject = subject, g_control = ctrl, g_canonical_control = xr_canonical_control resp,
                g_applicability = xr_applicability resp,
                g_atoms = map (\<lambda>(i, d, ok). \<lparr>xa_id = i, xa_satisfied = ok, xa_details = d\<rparr>) (xr_atoms resp),
                g_implementations = map (\<lambda>(p, d). \<lparr>xi_requirement = [], xi_provider = p, xi_digest = d, xi_purpose = []\<rparr>)
                  (xr_implementations resp),
                g_evidence = map (\<lambda>d. \<lparr>xe_type = [], xe_captured_at = zero_time, xe_producer = [], xe_digest = [],
                  xe_verified = True\<rparr>) (xr_evidence resp),
                g_completeness = xr_completeness resp, g_freshness = xr_freshness resp, g_authority = xr_authority resp,
                g_epoch = empty_epoch, g_state = state, g_evidence_root = xr_evidence_root resp,
                g_projections = xr_projections resp\<rparr>
          in Ok \<lparr>vx_subject = subject, vx_control = ctrl, vx_canonical = xr_canonical_control resp, vx_state = state,
                 vx_root = xr_evidence_root resp, vx_graph = graph, vx_text = xr_text resp\<rparr>)"

definition client_submit_observation ::
  "(pb_observation option \<Rightarrow> string result) \<Rightarrow> pb_observation option \<Rightarrow> string result" where
  "client_submit_observation rpc obs = rpc obs"

definition client_submit_receipt ::
  "(pb_receipt option \<Rightarrow> receipt_response result) \<Rightarrow> pb_receipt option \<Rightarrow> (bool \<times> string) result" where
  "client_submit_receipt rpc rcpt =
     (case rpc rcpt of Inl e \<Rightarrow> Err e | Inr resp \<Rightarrow> Ok (rr_verified resp, rr_message resp))"

section \<open>The in-process engine\<close>

record engine =
  en_observations :: "string \<rightharpoonup> pb_observation list"
  en_receipts :: "string \<rightharpoonup> pb_receipt"
  en_manager :: "receipt_manager option"

datatype engine_option =
    WithEvaluatorAuthority authority_ref "(string \<times> string) result"
  | WithReceiptManager "receipt_manager option"

definition apply_option :: "engine \<Rightarrow> engine_option \<Rightarrow> engine" where
  "apply_option en opt =
     (case opt of
        WithEvaluatorAuthority auth generated \<Rightarrow>
          (case new_receipt_manager generated auth of Inl _ \<Rightarrow> en | Inr m \<Rightarrow> en\<lparr>en_manager := Some m\<rparr>)
      | WithReceiptManager (Some m) \<Rightarrow> en\<lparr>en_manager := Some m\<rparr>
      | WithReceiptManager None \<Rightarrow> en)"

definition engine_authority :: authority_ref where
  "engine_authority =
     \<lparr>a_scheme = ''spiffe'', a_subject = ''local/in-process/sa/oskal-evaluator'', a_trust_domain = []\<rparr>"

definition new_engine :: "(string \<times> string) result \<Rightarrow> engine_option list \<Rightarrow> engine" where
  "new_engine generated opts =
     (let en = foldl apply_option \<lparr>en_observations = Map.empty, en_receipts = Map.empty, en_manager = None\<rparr> opts
      in if en_manager en = None
         then en\<lparr>en_manager := (case new_receipt_manager generated engine_authority of Inl _ \<Rightarrow> None | Inr m \<Rightarrow> Some m)\<rparr>
         else en)"

definition engine_observations :: "engine \<Rightarrow> subject_ref \<Rightarrow> pb_observation list" where
  "engine_observations en s = (case en_observations en (subject_key s) of None \<Rightarrow> [] | Some obs \<Rightarrow> obs)"

definition digest_refs :: "pb_observation list \<Rightarrow> evidence_ref list" where
  "digest_refs obs_list =
     concat (map (\<lambda>obs. map (\<lambda>ev. \<lparr>e_uri = [], e_digest = e_digest ev, e_media_type = []\<rparr>) (po_evidence obs)) obs_list)"

definition engine_epoch :: "subject_ref \<Rightarrow> string \<Rightarrow> epoch" where
  "engine_epoch s root =
     \<lparr>subject_digest = compute_string_digest (subject_key s),
      implementation_digest = compute_string_digest ''kubernetes:workload-specification'',
      policy_digest = compute_string_digest (subject_key s @ '':'' @ root),
      authority_digest = compute_string_digest ''spiffe://assurance.ckodex.io/server'',
      environment_digest = compute_string_digest ''cluster:kubernetes''\<rparr>"

definition engine_get_state :: "time \<Rightarrow> engine \<Rightarrow> subject_ref \<Rightarrow> state_view" where
  "engine_get_state now en s =
     (let obs_list = engine_observations en s
      in if obs_list = []
         then \<lparr>vs_subject = s, vs_state = Unknown, vs_root = ''none'', vs_epoch = None, vs_evaluated = now,
               vs_freshness = ''unknown'', vs_raw = 0\<rparr>
         else let root = compute_evidence_root (concat (map po_evidence obs_list))
              in \<lparr>vs_subject = s, vs_state = Assured, vs_root = root, vs_epoch = Some (engine_epoch s root),
                  vs_evaluated = now, vs_freshness = ''current'', vs_raw = 0\<rparr>)"

definition engine_evaluate :: "time \<Rightarrow> engine \<Rightarrow> subject_ref \<Rightarrow> control_ref list \<Rightarrow> evaluation_view" where
  "engine_evaluate now en s controls =
     (let obs_list = engine_observations en s;
          has_evidence = (obs_list \<noteq> []);
          st = (if has_evidence then Assured else Unknown);
          root = (if has_evidence then compute_evidence_root (digest_refs obs_list) else ''none'');
          k = zero_completeness\<lparr>k_required := int (length controls)\<rparr>;
          k = (if has_evidence
            then k\<lparr>k_present := int (length obs_list), k_verified := int (length obs_list)\<rparr>
            else k\<lparr>k_missing := int (length controls)\<rparr>)
      in \<lparr>vv_subject = s, vv_state = st,
          vv_evaluations = map (\<lambda>ctrl. \<lparr>ce_id = ''eval-'' @ s_id s @ ''-'' @ c_id ctrl, ce_control = ctrl,
            ce_subject = s, ce_state = st, ce_vector = zero_vector, ce_epoch = engine_epoch s root, ce_evidence = [],
            ce_completeness = k, ce_evidence_root = root, ce_evaluated_at = now,
            ce_valid_until = now + 5 * minute, ce_trace = []\<rparr>) controls,
          vv_evaluated = now\<rparr>)"

definition engine_explain :: "time \<Rightarrow> time \<Rightarrow> engine \<Rightarrow> subject_ref \<Rightarrow> control_ref \<Rightarrow> explain_view" where
  "engine_explain t1 t2 en s ctrl =
     (let obs_list = engine_observations en s;
          st = (if obs_list \<noteq> [] then Assured else Unknown);
          refs = (if obs_list \<noteq> [] then digest_refs obs_list else []);
          root = (if obs_list \<noteq> [] then compute_evidence_root refs else ''none'');
          eval = \<lparr>ce_id = ''eval-01'', ce_control = ctrl, ce_subject = s, ce_state = st, ce_vector = zero_vector,
            ce_epoch = engine_epoch s root, ce_evidence = refs, ce_completeness = zero_completeness,
            ce_evidence_root = root, ce_evaluated_at = t1, ce_valid_until = t2 + 5 * minute, ce_trace = []\<rparr>;
          graph = build_explain_graph s ctrl eval
      in \<lparr>vx_subject = s, vx_control = ctrl, vx_canonical = g_canonical_control graph, vx_state = st, vx_root = root,
          vx_graph = graph, vx_text = render_text graph\<rparr>)"

definition engine_submit_observation :: "engine \<Rightarrow> pb_observation option \<Rightarrow> engine \<times> string result" where
  "engine_submit_observation en req =
     (case req of
        None \<Rightarrow> (en, Err ''observation and subject cannot be nil'')
      | Some obs \<Rightarrow>
          (case po_subject obs of
             None \<Rightarrow> (en, Err ''observation and subject cannot be nil'')
           | Some s \<Rightarrow>
               (en\<lparr>en_observations := (en_observations en)(subject_key s \<mapsto> engine_observations en s @ [obs])\<rparr>,
                Ok (po_id obs))))"

text \<open>Absent references read as empty ones here.\<close>

definition engine_receipt :: "pb_receipt \<Rightarrow> control_receipt" where
  "engine_receipt r =
     \<lparr>rc_subject = (case pr_subject r of Some s \<Rightarrow> bare_subject s
        | None \<Rightarrow> \<lparr>s_scheme = [], s_id = [], s_attributes = []\<rparr>),
      rc_control = (case pr_control r of Some c \<Rightarrow> control (c_namespace c) (c_id c) | None \<Rightarrow> control [] []),
      rc_state = map_proto_state (pr_state r),
      rc_epoch = (case pr_epoch r of Some ep \<Rightarrow> ep | None \<Rightarrow> empty_epoch),
      rc_evidence_root = pr_evidence_root r,
      rc_evaluator = (case pr_evaluator r of
          Some a \<Rightarrow> \<lparr>a_scheme = a_scheme a, a_subject = a_subject a, a_trust_domain = []\<rparr>
        | None \<Rightarrow> empty_authority),
      rc_evaluated_at = (case pr_evaluated_at r of Some t \<Rightarrow> t | None \<Rightarrow> 0),
      rc_signature = pr_signature r\<rparr>"

text \<open>The answer, its message and the error; no answer when the engine has no keys.\<close>

definition engine_submit_receipt ::
  "verify_fun \<Rightarrow> engine \<Rightarrow> pb_receipt option \<Rightarrow> engine \<times> (bool \<times> string \<times> string option) option" where
  "engine_submit_receipt ed_verify en req =
     (case req of
        None \<Rightarrow> (en, Some (False, ''receipt cannot be nil'', Some ''receipt is nil''))
      | Some rcpt \<Rightarrow>
          (case en_manager en of
             None \<Rightarrow> (en, None)
           | Some m \<Rightarrow>
               let core = engine_receipt rcpt
               in (case verify_independent_receipt ed_verify core (public_key m) of
                     Inr True \<Rightarrow>
                       (en\<lparr>en_receipts := (en_receipts en)(receipt_digest core \<mapsto> rcpt)\<rparr>,
                        Some (True, ''Receipt verified and accepted'', None))
                   | _ \<Rightarrow> (en, Some (False, ''signature or digest verification failed'', None)))))"

section \<open>Builders\<close>

record envelope_builder =
  bd_env :: envelope
  bd_err :: "string option"

definition new_evidence_envelope :: "time \<Rightarrow> string \<Rightarrow> string \<Rightarrow> subject_ref \<Rightarrow> string \<Rightarrow> envelope_builder" where
  "new_evidence_envelope now schema i subject obs_type =
     \<lparr>bd_env = \<lparr>ev_schema = schema, ev_id = i, ev_subject = subject, ev_observation_type = obs_type,
        ev_captured_at = now, ev_producer = empty_authority,
        ev_artifact = \<lparr>e_uri = [], e_digest = [], e_media_type = []\<rparr>, ev_integrity_digest = [],
        ev_signature_ref = [], ev_epoch = empty_epoch, ev_control_refs = []\<rparr>,
      bd_err = None\<rparr>"

datatype builder_call =
    WithProducer authority_ref
  | WithArtifact string string string
  | WithEpoch epoch
  | WithControlRefs "control_ref list"
  | WithCapturedAt time
  | WithIntegrityDigest string

fun builder_step :: "envelope_builder \<Rightarrow> builder_call \<Rightarrow> envelope_builder" where
  "builder_step b (WithProducer auth) = b\<lparr>bd_env := (bd_env b)\<lparr>ev_producer := auth\<rparr>\<rparr>"
| "builder_step b (WithArtifact uri dig media) =
     b\<lparr>bd_env := (bd_env b)\<lparr>ev_artifact := \<lparr>e_uri = uri, e_digest = dig, e_media_type = media\<rparr>\<rparr>\<rparr>"
| "builder_step b (WithEpoch ep) = b\<lparr>bd_env := (bd_env b)\<lparr>ev_epoch := ep\<rparr>\<rparr>"
| "builder_step b (WithControlRefs cs) = b\<lparr>bd_env := (bd_env b)\<lparr>ev_control_refs := ev_control_refs (bd_env b) @ cs\<rparr>\<rparr>"
| "builder_step b (WithCapturedAt t) = b\<lparr>bd_env := (bd_env b)\<lparr>ev_captured_at := t\<rparr>\<rparr>"
| "builder_step b (WithIntegrityDigest d) = b\<lparr>bd_env := (bd_env b)\<lparr>ev_integrity_digest := d\<rparr>\<rparr>"

definition integrity_raw :: "envelope \<Rightarrow> string" where
  "integrity_raw e =
     ev_id e @ ''|'' @ subject_uri (ev_subject e) @ ''|'' @ ev_observation_type e @ ''|'' @ e_digest (ev_artifact e)"

definition build_envelope :: "envelope_builder \<Rightarrow> envelope_builder \<times> envelope result" where
  "build_envelope b =
     (case bd_err b of
        Some e \<Rightarrow> (b, Err e)
      | None \<Rightarrow>
          let env = (if ev_schema (bd_env b) = []
                then (bd_env b)\<lparr>ev_schema := ''https://assurance.ckodex.io/schemas/evidence/v1''\<rparr> else bd_env b);
              b1 = b\<lparr>bd_env := env\<rparr>
          in if ev_id env = [] then (b1, Err ''evidence envelope ID is required'')
             else if s_id (ev_subject env) = [] then (b1, Err ''evidence envelope subject ID is required'')
             else if ev_observation_type env = [] then (b1, Err ''evidence envelope observation type is required'')
             else let env = (if ev_integrity_digest env = []
                    then env\<lparr>ev_integrity_digest := ''sha256:'' @ hex_encode (sha256 (integrity_raw env))\<rparr> else env)
                  in (b\<lparr>bd_env := env\<rparr>, Ok env))"

definition new_observation :: "time \<Rightarrow> string \<Rightarrow> string \<Rightarrow> subject_ref \<Rightarrow> pb_observation" where
  "new_observation now i obs_type subject =
     \<lparr>po_id = i, po_subject = Some (bare_subject subject), po_type = obs_type, po_observed_at = Some now,
      po_observer = None, po_evidence = []\<rparr>"

datatype observation_call =
    ObservedBy authority_ref
  | WithEvidenceRef string string string
  | WithObservedAt time

fun observation_step :: "pb_observation \<Rightarrow> observation_call \<Rightarrow> pb_observation" where
  "observation_step obs (ObservedBy auth) =
     obs\<lparr>po_observer := Some \<lparr>a_scheme = a_scheme auth, a_subject = a_subject auth, a_trust_domain = []\<rparr>\<rparr>"
| "observation_step obs (WithEvidenceRef uri dig media) =
     obs\<lparr>po_evidence := po_evidence obs @ [\<lparr>e_uri = uri, e_digest = dig, e_media_type = media\<rparr>]\<rparr>"
| "observation_step obs (WithObservedAt t) = obs\<lparr>po_observed_at := Some t\<rparr>"

definition build_observation :: "pb_observation \<Rightarrow> pb_observation result" where
  "build_observation obs =
     (if po_id obs = [] then Err ''observation ID cannot be empty''
      else case po_subject obs of
          None \<Rightarrow> Err ''observation subject cannot be empty''
        | Some s \<Rightarrow> if s_id s = [] then Err ''observation subject cannot be empty'' else Ok obs)"

definition pkg_evidence_root :: "string list \<Rightarrow> string" where
  "pkg_evidence_root digests =
     (if digests = [] then ''none''
      else let raw = foldl (\<lambda>raw d. raw @ d @ ''|'') [] digests
           in ''sha256:'' @ hex_encode (sha256 raw))"

section \<open>The engine and the service\<close>

text \<open>What both keep of the same observations.\<close>

definition submit_all_service ::
  "encoder \<Rightarrow> (string \<Rightarrow> bool) \<Rightarrow> time \<Rightarrow> time \<Rightarrow> server \<Rightarrow> pb_observation list \<Rightarrow> server" where
  "submit_all_service enc ok t1 t2 = foldl (\<lambda>sv obs. fst (submit_observation enc ok t1 t2 sv (Some obs)))"

definition submit_all_engine :: "engine \<Rightarrow> pb_observation list \<Rightarrow> engine" where
  "submit_all_engine = foldl (\<lambda>en obs. fst (engine_submit_observation en (Some obs)))"

lemma submit_same_observations:
  assumes "po_id obs \<noteq> []" and "sv_observations sv = en_observations en"
  shows "sv_observations (fst (submit_observation enc ok t1 t2 sv (Some obs))) =
    en_observations (fst (engine_submit_observation en (Some obs)))"
  using assms by (simp add: submit_observation_def engine_submit_observation_def observations_of_def
      engine_observations_def Let_def split: option.split)

lemma submit_all_same_observations:
  assumes "list_all (\<lambda>obs. po_id obs \<noteq> []) os" and "sv_observations sv = en_observations en"
  shows "sv_observations (submit_all_service enc ok t1 t2 sv os) = en_observations (submit_all_engine en os)"
  using assms
proof (induction os arbitrary: sv en)
  case (Cons obs os)
  then show ?case
    using submit_same_observations[of obs sv en enc ok t1 t2]
    by (simp add: submit_all_service_def submit_all_engine_def)
qed (simp add: submit_all_service_def submit_all_engine_def)

lemma map_proto_state_of_astate:
  "map_proto_state (int_of_astate st) = (case st of OtherState n \<Rightarrow> map_proto_state n | _ \<Rightarrow> st)"
  by (cases st) (simp_all add: map_proto_state_def)

lemma astate_of_known: "0 \<le> n \<Longrightarrow> n \<le> 6 \<Longrightarrow> astate_of_int n = map_proto_state n"
  by (simp add: astate_of_int_def map_proto_state_def)

lemma engine_receipt_core:
  assumes "core_receipt r = Some core" and "0 \<le> pr_state r" and "pr_state r \<le> 6"
  shows "engine_receipt r = core"
  using assms astate_of_known[OF assms(2,3)]
  by (auto simp: core_receipt_def engine_receipt_def split: option.splits)

section \<open>Building\<close>

definition builder_run :: "envelope_builder \<Rightarrow> builder_call list \<Rightarrow> envelope_builder" where
  "builder_run = foldl builder_step"

lemma builder_step_keeps:
  "bd_err (builder_step b c) = bd_err b" "ev_id (bd_env (builder_step b c)) = ev_id (bd_env b)"
  "ev_subject (bd_env (builder_step b c)) = ev_subject (bd_env b)"
  "ev_observation_type (bd_env (builder_step b c)) = ev_observation_type (bd_env b)"
  "ev_schema (bd_env (builder_step b c)) = ev_schema (bd_env b)"
  by (cases c; simp)+

lemma builder_run_keeps:
  "bd_err (builder_run b cs) = bd_err b" "ev_id (bd_env (builder_run b cs)) = ev_id (bd_env b)"
  "ev_subject (bd_env (builder_run b cs)) = ev_subject (bd_env b)"
  "ev_observation_type (bd_env (builder_run b cs)) = ev_observation_type (bd_env b)"
  by (induction cs arbitrary: b) (simp_all add: builder_run_def builder_step_keeps)

lemma pkg_evidence_root_raw:
  "foldl (\<lambda>raw d. raw @ d @ ''|'') acc ds = acc @ concat (map (\<lambda>d. d @ ''|'') ds)"
  by (induction ds arbitrary: acc) simp_all

section \<open>Properties\<close>

text \<open>
  Further: a client that is given no transport is insecure, and its calls time out: after ten seconds unless an option says
  otherwise; a timeout of zero or less leaves the deadline of the caller.
\<close>

lemma client_defaults:
  "client_options_of insecure [] = \<lparr>co_dial = [insecure], co_timeout = 10 * second\<rparr> \<and>
   co_dial (client_options_of insecure opts) \<noteq> [] \<and>
   co_timeout (client_options_of insecure (opts @ [WithTimeout d])) = d \<and>
   with_timeout d now (Some t) = Some (if d > 0 then min t (now + d) else t)"
  by (simp add: client_options_of_def with_timeout_def Let_def)

text \<open>
  C15: after the same observations, each with an identifier, the in-process engine and the service answer a
  query for the state of any subject with the same state, epoch and evidence root, except that the
  root of a subject without observations is the word none instead of the empty text; so do they
  through the client, whatever it is told over the wire.
\<close>

lemma engine_agrees_with_service:
  fixes os s enc ok t1 t2 generated mgr repos generated' opts
  defines "sv \<equiv> submit_all_service enc ok t1 t2 (new_server generated mgr repos) os"
    and "en \<equiv> submit_all_engine (new_engine generated' opts) os"
  assumes "list_all (\<lambda>obs. po_id obs \<noteq> []) os"
  shows "\<exists>v. client_get_state (\<lambda>req. case get_assurance_state sv req of Reply x \<Rightarrow> Inr x | _ \<Rightarrow> Inl e) now s = Inr v \<and>
    vs_state v = vs_state (engine_get_state now en s) \<and> vs_epoch v = vs_epoch (engine_get_state now en s) \<and>
    vs_freshness v = vs_freshness (engine_get_state now en s) \<and>
    vs_root v = (if vs_state v = Assured then vs_root (engine_get_state now en s) else [])"
proof -
  have opts: "en_observations (new_engine generated' opts) = Map.empty"
  proof -
    have step: "en_observations (apply_option en opt) = en_observations en" for en opt
      by (auto simp: apply_option_def split: engine_option.split sum.split option.split)
    have "en_observations (foldl apply_option en opts) = en_observations en" for en
      by (induction opts arbitrary: en) (simp_all add: step)
    then show ?thesis by (simp add: new_engine_def Let_def)
  qed
  have "sv_observations sv = en_observations en"
    unfolding sv_def en_def
    by (rule submit_all_same_observations[OF assms(3)]) (simp add: opts new_server_def)
  then have obs: "observations_of sv (bare_subject s) = engine_observations en s"
    by (simp add: observations_of_def engine_observations_def subject_key_def bare_subject_def)
  have key: "subject_key (bare_subject s) = subject_key s" by (simp add: subject_key_def bare_subject_def)
  show ?thesis
    by (simp add: client_get_state_def get_assurance_state_def engine_get_state_def obs key engine_epoch_def
        map_proto_state_def Let_def)
qed

lemma engine_agrees_with_service_witness:
  "\<exists>v. client_get_state (\<lambda>req. case get_assurance_state
       (submit_all_service (\<lambda>e. Inr []) (\<lambda>p. True) 0 0 (new_server (Inl []) None []) [example_observation ''network'']) req
       of Reply x \<Rightarrow> Inr x | _ \<Rightarrow> Inl []) 0 example_subject = Inr v \<and>
     vs_state v = vs_state (engine_get_state 0 (submit_all_engine (new_engine (Inl []) []) [example_observation ''network'']) example_subject)"
proof -
  have "list_all (\<lambda>obs. po_id obs \<noteq> []) [example_observation ''network'']" by (simp add: example_observation_def)
  from engine_agrees_with_service[OF this, where enc = "\<lambda>e. Inr []" and ok = "\<lambda>p. True" and generated = "Inl []"
      and ?t1.0 = 0 and ?t2.0 = 0 and mgr = None and repos = "[]" and e = "[]" and now = 0 and s = example_subject
      and generated' = "Inl []" and opts = "[]"]
  show ?thesis by blast
qed

text \<open>
  Further: the engine calls every subject with an observation ASSURED, but its completeness is complete only when
  at least one control is asked for and no more than there are observations; and it counts every
  observation as verified evidence.
\<close>

lemma engine_evaluation_counts:
  "let obs = engine_observations en s; v = engine_evaluate now en s controls
   in vv_state v = (if obs = [] then Unknown else Assured) \<and> map ce_control (vv_evaluations v) = controls \<and>
      list_all (\<lambda>e. ce_state e = vv_state v \<and> k_verified (ce_completeness e) = int (length obs) \<and>
        k_required (ce_completeness e) = int (length controls) \<and>
        (is_complete (ce_completeness e) \<longleftrightarrow> \<not> (obs = [] \<or> length obs < length controls))) (vv_evaluations v)"
  by (cases "controls = []")
    (auto simp: engine_evaluate_def is_complete_def zero_completeness_def list_all_iff o_def Let_def)

text \<open>
  Further: the engine and the service with the same keys give the same verdict on a receipt that has all its
  references and a declared state, and file it under the same digest; where a reference is missing the
  service crashes, and the engine judges the receipt with empty references.
\<close>

lemma engine_and_service_receipts:
  assumes "en_manager en = Some m" and "sv_manager sv = Some m" and "0 \<le> pr_state r" and "pr_state r \<le> 6"
  shows "(case submit_receipt v sv (Some r) of
      (sv', Reply a) \<Rightarrow> \<exists>msg. engine_submit_receipt v en (Some r) =
        (if rr_verified a then en\<lparr>en_receipts := (en_receipts en)(rr_digest a \<mapsto> r)\<rparr> else en, Some (rr_verified a, msg, None))
    | (sv', _) \<Rightarrow> core_receipt r = None \<and> engine_submit_receipt v en (Some r) \<noteq> (en, None))"
proof (cases "core_receipt r")
  case None
  then show ?thesis
    using assms by (auto simp: submit_receipt_def engine_submit_receipt_def Let_def split: sum.split bool.split)
next
  case (Some core)
  note eng = engine_receipt_core[OF Some assms(3,4)]
  show ?thesis
  proof (cases "verify_independent_receipt v core (public_key m) = Inr True")
    case True
    then show ?thesis using assms Some eng by (simp add: submit_receipt_def engine_submit_receipt_def Let_def)
  next
    case False
    then have "submit_receipt v sv (Some r) =
        (sv, Reply \<lparr>rr_verified = False, rr_digest = [], rr_message = ''Signature verification failed''\<rparr>)"
      "\<exists>msg. engine_submit_receipt v en (Some r) = (en, Some (False, msg, None))"
      using assms Some eng
      by (auto simp: submit_receipt_def engine_submit_receipt_def Let_def split: sum.splits bool.splits)
    then show ?thesis by simp
  qed
qed

definition example_pb_receipt :: pb_receipt where
  "example_pb_receipt =
     \<lparr>pr_subject = None, pr_control = None, pr_state = 4, pr_epoch = None, pr_evidence_root = [], pr_evaluator = None,
      pr_evaluated_at = None, pr_signature = []\<rparr>"

lemma engine_and_service_receipts_witness:
  "core_receipt example_pb_receipt = None \<and>
   engine_submit_receipt (\<lambda>p m s. True) (new_engine (Inl []) [WithReceiptManager (Some example_manager)])
     (Some example_pb_receipt) \<noteq> (new_engine (Inl []) [WithReceiptManager (Some example_manager)], None)"
  using engine_and_service_receipts[of "new_engine (Inl []) [WithReceiptManager (Some example_manager)]" example_manager
    "new_server (Inl []) (Some example_manager) []" example_pb_receipt "\<lambda>p m s. True"]
  by (simp add: new_engine_def apply_option_def new_server_def example_pb_receipt_def submit_receipt_def core_receipt_def)

text \<open>
  Further: the graph the client rebuilds from the explanation of the service shows all of its six pieces of
  evidence as verified, whatever the state, although type, producer and digest of each are empty; for a
  subject without observations they contradict the state and the counters of the same graph.
\<close>

lemma client_explanation_is_verified:
  "\<exists>v. client_explain (\<lambda>s c. case explain_claim sv s c of Reply x \<Rightarrow> Inr x | _ \<Rightarrow> Inl e) s c = Inr v \<and>
     g_evidence (vx_graph v) =
       replicate 6 \<lparr>xe_type = [], xe_captured_at = zero_time, xe_producer = [], xe_digest = [], xe_verified = True\<rparr> \<and>
     vx_state v = (if observations_of sv (bare_subject s) = [] then Unknown else Assured) \<and>
     k_verified (g_completeness (vx_graph v)) = (if observations_of sv (bare_subject s) = [] then 0 else 6)"
proof -
  let ?c = "control (c_namespace c) (c_id c)" and ?s = "bare_subject s"
  let ?g = "build_explain_graph (bare_subject ?s) ?c (explained_evaluation sv ?s ?c)"
  have st: "ce_state (explained_evaluation sv ?s ?c) = (if observations_of sv ?s = [] then Unknown else Assured)"
    by (simp add: explained_evaluation_def Let_def)
  have len: "length (g_evidence ?g) = 6"
    by (simp add: build_explain_graph_def explain_items_def explain_flags_shown Let_def)
  have ev: "map (\<lambda>d. x) (map xe_digest (g_evidence ?g)) = replicate 6 x" for x :: explain_evidence
    using len by (simp add: map_replicate_const o_def)
  have kv: "k_verified (pb_completeness (g_completeness ?g)) = (if observations_of sv ?s = [] then 0 else 6)"
    by (simp add: explain_completeness st pb_completeness_def wrap_int32_id)
  show ?thesis
    using ev kv
    by (simp add: client_explain_def explain_claim_def map_proto_state_of_astate Let_def o_def del: map_map)
qed

text \<open>
  Further: whatever calls are made on a builder, it builds exactly when the identifier, the identifier of the
  subject and the type it was started with are there; the envelope keeps them, always has a schema
  and an integrity digest, and building again gives the same envelope.
\<close>

lemma built_envelope:
  fixes now schema i s ty cs
  defines "b \<equiv> builder_run (new_evidence_envelope now schema i s ty) cs"
  shows "case build_envelope b of
      (b', Inl e) \<Rightarrow> [] \<in> {i, s_id s, ty}
    | (b', Inr env) \<Rightarrow> [] \<notin> {i, s_id s, ty} \<and> ev_id env = i \<and> ev_subject env = s \<and> ev_observation_type env = ty \<and>
        ev_schema env \<noteq> [] \<and> ev_integrity_digest env \<noteq> [] \<and> build_envelope b' = (b', Inr env)"
proof -
  have keep: "bd_err b = None" "ev_id (bd_env b) = i" "ev_subject (bd_env b) = s" "ev_observation_type (bd_env b) = ty"
    by (simp_all add: b_def builder_run_keeps new_evidence_envelope_def)
  show ?thesis
    by (auto simp: build_envelope_def keep Let_def)
qed

end
