(* ===== verification/Json.thy ===== *)
theory Json
  imports Prelude
begin

text \<open>
  What the documents of the repository use of encoding/json and time: JSON values as trees, the
  effect of the omitempty tag and of nil slices, the fields of a decoded object, and the formats of
  times (RFC 3339, in UTC) and durations. The text of a value and its parsing are arguments where
  they are needed.
\<close>

section \<open>Values\<close>

datatype json =
    JNull
  | JBool bool
  | JNum int
  | JStr string
  | JArr "json list"
  | JObj "(string \<times> json) list"

text \<open>A slice that was never appended to is nil and is written as null.\<close>

definition json_slice :: "('a \<Rightarrow> json) \<Rightarrow> 'a list \<Rightarrow> json" where
  "json_slice f xs = (if xs = [] then JNull else JArr (map f xs))"

definition opt_str :: "string \<Rightarrow> string \<Rightarrow> (string \<times> json) list" where
  "opt_str k s = (if s = [] then [] else [(k, JStr s)])"

definition opt_slice :: "string \<Rightarrow> ('a \<Rightarrow> json) \<Rightarrow> 'a list \<Rightarrow> (string \<times> json) list" where
  "opt_slice k f xs = (if xs = [] then [] else [(k, JArr (map f xs))])"

definition opt_ptr :: "string \<Rightarrow> ('a \<Rightarrow> json) \<Rightarrow> 'a option \<Rightarrow> (string \<times> json) list" where
  "opt_ptr k f p = (case p of None \<Rightarrow> [] | Some x \<Rightarrow> [(k, f x)])"

text \<open>A decoded object is a map; of two entries with the same key the last one counts.\<close>

fun json_field :: "json \<Rightarrow> string \<Rightarrow> json option" where
  "json_field (JObj fs) k = map_of (rev fs) k"
| "json_field _ k = None"

fun json_string :: "json option \<Rightarrow> string option" where
  "json_string (Some (JStr s)) = Some s"
| "json_string _ = None"

fun is_object :: "json option \<Rightarrow> bool" where
  "is_object (Some (JObj fs)) = True"
| "is_object _ = False"

lemma json_string_some: "json_string j = Some s \<longleftrightarrow> j = Some (JStr s)"
  by (cases j rule: json_string.cases) simp_all

lemma is_object_some: "is_object j \<longleftrightarrow> (\<exists>fs. j = Some (JObj fs))"
  by (cases j rule: is_object.cases) simp_all

section \<open>Times\<close>

definition pad_left :: "nat \<Rightarrow> string \<Rightarrow> string" where
  "pad_left n s = replicate (n - length s) CHR ''0'' @ s"

definition drop_zeros :: "string \<Rightarrow> string" where
  "drop_zeros s = rev (dropWhile (\<lambda>c. c = CHR ''0'') (rev s))"

text \<open>The fraction of v in units of 10 to the power prec, without trailing zeros.\<close>

definition fraction :: "nat \<Rightarrow> int \<Rightarrow> string" where
  "fraction prec v =
     (if v mod 10 ^ prec = 0 then []
      else CHR ''.'' # drop_zeros (pad_left prec (show_int (v mod 10 ^ prec))))"

text \<open>Year, month and day of a number of days since the epoch (proleptic Gregorian calendar).\<close>

definition civil :: "int \<Rightarrow> int \<times> int \<times> int" where
  "civil days =
     (let z = days + 719468;
          doe = z mod 146097;
          yoe = (doe - doe div 1460 + doe div 36524 - doe div 146096) div 365;
          doy = doe - (365 * yoe + yoe div 4 - yoe div 100);
          mp = (5 * doy + 2) div 153;
          month = (if mp < 10 then mp + 3 else mp - 9)
      in (yoe + (z div 146097) * 400 + (if month \<le> 2 then 1 else 0), month, doy - (153 * mp + 2) div 5 + 1))"

definition seconds_text :: "time \<Rightarrow> string" where
  "seconds_text t =
     (case civil (unix_sec t div 86400) of (y, m, d) \<Rightarrow>
        let s = unix_sec t mod 86400; two = (\<lambda>n. pad_left 2 (show_int n))
        in pad_left 4 (show_int y) @ ''-'' @ two m @ ''-'' @ two d @ ''T'' @ two (s div 3600) @ '':'' @
           two (s div 60 mod 60) @ '':'' @ two (s mod 60))"

definition rfc3339 :: "time \<Rightarrow> string" where
  "rfc3339 t = seconds_text t @ ''Z''"

definition rfc3339_nano :: "time \<Rightarrow> string" where
  "rfc3339_nano t = seconds_text t @ fraction 9 (t mod 1000000000) @ ''Z''"

text \<open>Only times of the years 0 to 9999 can be written as JSON.\<close>

definition json_year :: "time \<Rightarrow> bool" where
  "json_year t = (case civil (unix_sec t div 86400) of (y, _, _) \<Rightarrow> 0 \<le> y \<and> y \<le> 9999)"

definition json_times :: "time list \<Rightarrow> 'a \<Rightarrow> 'a result" where
  "json_times ts j =
     (if list_all json_year ts then Ok j else Err ''Time.MarshalJSON: year outside of range [0,9999]'')"

section \<open>Durations\<close>

definition micro :: string where
  "micro = [CHR 0xC2, CHR 0xB5]"

definition duration_text :: "duration \<Rightarrow> string" where
  "duration_text d =
     (let u = \<bar>d\<bar>; s = u div second
      in (if d < 0 then ''-'' else []) @
         (if u = 0 then ''0s''
          else if u < 1000 then show_int u @ ''ns''
          else if u < 1000000 then show_int (u div 1000) @ fraction 3 u @ micro @ ''s''
          else if u < second then show_int (u div 1000000) @ fraction 6 u @ ''ms''
          else (if s div 3600 > 0 then show_int (s div 3600) @ ''h'' else []) @
               (if s div 60 > 0 then show_int (s div 60 mod 60) @ ''m'' else []) @
               show_int (s mod 60) @ fraction 9 u @ ''s''))"

text \<open>
  time.ParseDuration: a sign, then numbers with an optional fraction, each followed by a unit. The
  numbers are 64-bit and overflow is an error; the product of a fraction and its unit is computed
  with floats, so how it is rounded is an argument.
\<close>

definition digit_value :: "char \<Rightarrow> nat" where
  "digit_value c = of_char c - 48"

fun leading_int :: "string \<Rightarrow> nat \<Rightarrow> (nat \<times> string) option" where
  "leading_int [] x = Some (x, [])"
| "leading_int (c # s) x =
     (if \<not> is_digit c then Some (x, c # s)
      else if x > 2 ^ 63 div 10 then None
      else if x * 10 + digit_value c > 2 ^ 63 then None
      else leading_int s (x * 10 + digit_value c))"

fun leading_fraction :: "string \<Rightarrow> nat \<Rightarrow> nat \<Rightarrow> bool \<Rightarrow> nat \<times> nat \<times> string" where
  "leading_fraction [] x scale overflow = (x, scale, [])"
| "leading_fraction (c # s) x scale overflow =
     (if \<not> is_digit c then (x, scale, c # s)
      else if overflow \<or> x > (2 ^ 63 - 1) div 10 \<or> x * 10 + digit_value c > 2 ^ 63
      then leading_fraction s x scale True
      else leading_fraction s (x * 10 + digit_value c) (scale * 10) False)"

definition unit_value :: "string \<Rightarrow> nat option" where
  "unit_value u =
     map_of [(''ns'', 1), (''us'', 1000), (micro @ ''s'', 1000), ([CHR 0xCE, CHR 0xBC] @ ''s'', 1000), (''ms'', 1000000),
       (''s'', 1000000000), (''m'', 60000000000), (''h'', 3600000000000)] u"

definition number_char :: "char \<Rightarrow> bool" where
  "number_char c = (c = CHR ''.'' \<or> is_digit c)"

type_synonym rounding = "nat \<Rightarrow> nat \<Rightarrow> nat \<Rightarrow> nat"

definition duration_part :: "rounding \<Rightarrow> string \<Rightarrow> (nat \<times> string) option" where
  "duration_part rnd s =
     (if s = [] \<or> \<not> number_char (hd s) then None
      else case leading_int s 0 of
        None \<Rightarrow> None
      | Some (v, s1) \<Rightarrow>
          let pre = (length s1 \<noteq> length s);
              (f, scale, s2, post) = (case s1 of
                  c # t \<Rightarrow>
                    if c = CHR ''.'' then (case leading_fraction t 0 1 False of (f, scale, r) \<Rightarrow> (f, scale, r, length r \<noteq> length t))
                    else (0, 1, s1, False)
                | [] \<Rightarrow> (0, 1, s1, False));
              u = takeWhile (\<lambda>c. \<not> number_char c) s2;
              rest = dropWhile (\<lambda>c. \<not> number_char c) s2
          in if \<not> pre \<and> \<not> post then None
             else if u = [] then None
             else case unit_value u of
                 None \<Rightarrow> None
               | Some unit \<Rightarrow>
                   if v > 2 ^ 63 div unit then None
                   else let v = v * unit + (if f > 0 then rnd f unit scale else 0)
                        in if f > 0 \<and> v > 2 ^ 63 then None else Some (v, rest))"

lemma leading_int_length: "leading_int s x = Some (v, r) \<Longrightarrow> length r \<le> length s"
  by (induction s x rule: leading_int.induct) (auto split: if_splits)

lemma leading_fraction_length: "length (snd (snd (leading_fraction s x scale overflow))) \<le> length s"
  by (induction s x scale overflow rule: leading_fraction.induct) auto

lemma unit_value_nonempty: "unit_value [] = None"
  by (simp add: unit_value_def)

lemma duration_part_shorter: "duration_part rnd s = Some (v, rest) \<Longrightarrow> length rest < length s"
proof -
  assume part: "duration_part rnd s = Some (v, rest)"
  then obtain w s1 where s1: "leading_int s 0 = Some (w, s1)"
    by (auto simp: duration_part_def split: option.splits if_splits)
  define q where "q = (case s1 of
      c # t \<Rightarrow> if c = CHR ''.'' then (case leading_fraction t 0 1 False of (f, scale, r) \<Rightarrow> (f, scale, r, length r \<noteq> length t))
        else (0, 1, s1, False)
    | [] \<Rightarrow> (0, 1, s1, False))"
  obtain f scale s2 post where q': "q = (f, scale, s2, post)" by (cases q)
  have "length s2 \<le> length s1"
    using q' leading_fraction_length[of "tl s1" 0 1 False]
    by (auto simp: q_def split: list.splits if_splits prod.splits)
  moreover have "length s1 \<le> length s" by (rule leading_int_length[OF s1])
  moreover have "rest = dropWhile (\<lambda>c. \<not> number_char c) s2" "takeWhile (\<lambda>c. \<not> number_char c) s2 \<noteq> []"
    using part s1 q' by (auto simp: duration_part_def Let_def q_def[symmetric] split: if_splits option.splits)
  moreover have "length (takeWhile (\<lambda>c. \<not> number_char c) s2) + length (dropWhile (\<lambda>c. \<not> number_char c) s2) = length s2"
    by (metis length_append takeWhile_dropWhile_id)
  ultimately show ?thesis by (metis add_0 le_trans length_greater_0_conv less_add_same_cancel2 order_less_le_trans)
qed

function duration_parts :: "rounding \<Rightarrow> string \<Rightarrow> nat \<Rightarrow> nat option" where
  "duration_parts rnd s d =
     (if s = [] then Some d
      else case duration_part rnd s of
          None \<Rightarrow> None
        | Some (v, rest) \<Rightarrow>
            let d = (d + v) mod 2 ^ 64 in if d > 2 ^ 63 then None else duration_parts rnd rest d)"
  by pat_completeness auto

termination
  by (relation "measure (\<lambda>(rnd, s, d). length s)") (auto dest: duration_part_shorter)

declare duration_parts.simps [simp del]

definition parse_duration :: "rounding \<Rightarrow> string \<Rightarrow> duration option" where
  "parse_duration rnd orig =
     (let neg = (orig \<noteq> [] \<and> hd orig = CHR ''-'');
          s = (if orig \<noteq> [] \<and> (hd orig = CHR ''-'' \<or> hd orig = CHR ''+'') then tl orig else orig)
      in if s = ''0'' then Some 0
         else if s = [] then None
         else case duration_parts rnd s 0 of
             None \<Rightarrow> None
           | Some d \<Rightarrow> if neg then Some (- int d) else if d > 2 ^ 63 - 1 then None else Some (int d))"

lemma duration_parts_range: "d \<le> 2 ^ 63 \<Longrightarrow> duration_parts rnd s d = Some n \<Longrightarrow> n \<le> 2 ^ 63"
proof (induction rnd s d rule: duration_parts.induct)
  case (1 rnd s d)
  show ?case
    using 1(1) 1(2) 1(3)[unfolded duration_parts.simps[of rnd s d]]
    by (auto simp: Let_def split: if_splits option.splits)
qed

lemma parse_duration_range: "parse_duration rnd s = Some d \<Longrightarrow> - (2 ^ 63) \<le> d \<and> d < 2 ^ 63"
proof -
  assume p: "parse_duration rnd s = Some d"
  have "n \<le> 2 ^ 63" if "duration_parts rnd t 0 = Some n" for t n
    using duration_parts_range[OF _ that] by simp
  with p show ?thesis by (auto simp: parse_duration_def Let_def split: if_splits option.splits)
qed

end
