(* ===== verification/Oscal.thy ===== *)
theory Oscal
  imports Json Claim
begin

text \<open>
  internal/projection/oscal/projector.go, the document structures: the five kinds of OSCAL
  documents as records, each with the JSON value its tags describe. A document is written with an
  error if one of its times cannot be.
\<close>

section \<open>Shared parts\<close>

record property =
  py_name :: string
  py_value :: string
  py_ns :: string

record rlink =
  rl_href :: string
  rl_media_type :: string

record relevant_evidence =
  re_href :: string
  re_description :: string
  re_props :: "property list"

record resource =
  bm_uuid :: string
  bm_title :: string
  bm_description :: string
  bm_props :: "property list"
  bm_rlinks :: "rlink list"

record metadata =
  md_title :: string
  md_published :: time
  md_last_modified :: time
  md_version :: string
  md_oscal_version :: string

definition json_property :: "property \<Rightarrow> json" where
  "json_property p = JObj ([(''name'', JStr (py_name p)), (''value'', JStr (py_value p))] @ opt_str ''ns'' (py_ns p))"

definition json_rlink :: "rlink \<Rightarrow> json" where
  "json_rlink r = JObj ((''href'', JStr (rl_href r)) # opt_str ''media-type'' (rl_media_type r))"

definition json_relevant_evidence :: "relevant_evidence \<Rightarrow> json" where
  "json_relevant_evidence e =
     JObj (opt_str ''href'' (re_href e) @ [(''description'', JStr (re_description e))] @
           opt_slice ''props'' json_property (re_props e))"

definition json_resource :: "resource \<Rightarrow> json" where
  "json_resource r =
     JObj ((''uuid'', JStr (bm_uuid r)) # opt_str ''title'' (bm_title r) @ opt_str ''description'' (bm_description r) @
           opt_slice ''props'' json_property (bm_props r) @ opt_slice ''rlinks'' json_rlink (bm_rlinks r))"

definition json_metadata :: "metadata \<Rightarrow> json" where
  "json_metadata m =
     JObj [(''title'', JStr (md_title m)), (''published'', JStr (rfc3339_nano (md_published m))),
           (''last-modified'', JStr (rfc3339_nano (md_last_modified m))), (''version'', JStr (md_version m)),
           (''oscal-version'', JStr (md_oscal_version m))]"

definition metadata_times :: "metadata \<Rightarrow> time list" where
  "metadata_times m = [md_published m, md_last_modified m]"

text \<open>A selection of all controls is a pointer to an empty struct.\<close>

record control_selection =
  sl_description :: string
  sl_include_all :: bool

definition json_include_all :: "bool \<Rightarrow> (string \<times> json) list" where
  "json_include_all b = (if b then [(''include-all'', JObj [])] else [])"

definition json_reviewed_controls :: "control_selection list \<Rightarrow> json" where
  "json_reviewed_controls sels =
     JObj [(''control-selections'', json_slice (\<lambda>s. JObj (opt_str ''description'' (sl_description s) @
        json_include_all (sl_include_all s))) sels)]"

definition json_href :: "string \<Rightarrow> json" where
  "json_href h = JObj [(''href'', JStr h)]"

section \<open>Assessment results\<close>

record oscal_observation =
  ob_uuid :: string
  ob_title :: string
  ob_description :: string
  ob_collected :: time
  ob_methods :: "string list"
  ob_types :: "string list"
  ob_evidence :: "relevant_evidence list"
  ob_props :: "property list"

record oscal_finding =
  fd_uuid :: string
  fd_title :: string
  fd_description :: string
  fd_target_type :: string
  fd_target_id :: string
  fd_state :: string
  fd_reason :: string
  fd_related :: "string list"

record oscal_result =
  rs_uuid :: string
  rs_title :: string
  rs_description :: string
  rs_start :: time
  rs_end :: time
  rs_controls :: "control_selection list"
  rs_observations :: "oscal_observation list"
  rs_findings :: "oscal_finding list"

record assessment_results =
  ar_uuid :: string
  ar_metadata :: metadata
  ar_import_ap :: string
  ar_results :: "oscal_result list"
  ar_back_matter :: "resource list option"

definition json_observation :: "oscal_observation \<Rightarrow> json" where
  "json_observation ob =
     JObj ([(''uuid'', JStr (ob_uuid ob)), (''title'', JStr (ob_title ob)), (''description'', JStr (ob_description ob)),
            (''collected'', JStr (rfc3339_nano (ob_collected ob))), (''methods'', json_slice JStr (ob_methods ob)),
            (''types'', json_slice JStr (ob_types ob))] @
           opt_slice ''relevant-evidence'' json_relevant_evidence (ob_evidence ob) @
           opt_slice ''props'' json_property (ob_props ob))"

definition json_finding :: "oscal_finding \<Rightarrow> json" where
  "json_finding f =
     JObj ([(''uuid'', JStr (fd_uuid f)), (''title'', JStr (fd_title f)), (''description'', JStr (fd_description f)),
            (''target'', JObj [(''type'', JStr (fd_target_type f)), (''target-id'', JStr (fd_target_id f)),
               (''status'', JObj ((''state'', JStr (fd_state f)) # opt_str ''reason'' (fd_reason f)))])] @
           opt_slice ''related-observations'' (\<lambda>u. JObj [(''observation-uuid'', JStr u)]) (fd_related f))"

definition json_result :: "oscal_result \<Rightarrow> json" where
  "json_result r =
     JObj ([(''uuid'', JStr (rs_uuid r)), (''title'', JStr (rs_title r)), (''description'', JStr (rs_description r)),
            (''start'', JStr (rfc3339_nano (rs_start r))), (''end'', JStr (rfc3339_nano (rs_end r))),
            (''reviewed-controls'', json_reviewed_controls (rs_controls r)),
            (''observations'', json_slice json_observation (rs_observations r))] @
           opt_slice ''findings'' json_finding (rs_findings r))"

definition json_assessment_results :: "assessment_results \<Rightarrow> json result" where
  "json_assessment_results ar =
     json_times (metadata_times (ar_metadata ar) @
         concat (map (\<lambda>r. rs_start r # rs_end r # map ob_collected (rs_observations r)) (ar_results ar)))
       (JObj [(''assessment-results'', JObj ([(''uuid'', JStr (ar_uuid ar)), (''metadata'', json_metadata (ar_metadata ar)),
            (''import-ap'', json_href (ar_import_ap ar)), (''results'', json_slice json_result (ar_results ar))] @
          opt_ptr ''back-matter'' (\<lambda>rs. JObj (opt_slice ''resources'' json_resource rs)) (ar_back_matter ar)))])"

section \<open>Component definitions\<close>

record implemented_requirement =
  ir_uuid :: string
  ir_control_id :: string
  ir_description :: string
  ir_props :: "property list"

record control_implementation =
  ci_uuid :: string
  ci_source :: string
  ci_description :: string
  ci_requirements :: "implemented_requirement list"

record defined_component =
  dc_uuid :: string
  dc_type :: string
  dc_title :: string
  dc_description :: string
  dc_purpose :: string
  dc_implementations :: "control_implementation list"

record component_definition =
  cd_uuid :: string
  cd_metadata :: metadata
  cd_components :: "defined_component list"

definition json_requirement :: "implemented_requirement \<Rightarrow> json" where
  "json_requirement r =
     JObj ([(''uuid'', JStr (ir_uuid r)), (''control-id'', JStr (ir_control_id r)),
            (''description'', JStr (ir_description r))] @ opt_slice ''props'' json_property (ir_props r))"

definition json_implementation :: "control_implementation \<Rightarrow> json" where
  "json_implementation c =
     JObj [(''uuid'', JStr (ci_uuid c)), (''source'', JStr (ci_source c)), (''description'', JStr (ci_description c)),
           (''implemented-requirements'', json_slice json_requirement (ci_requirements c))]"

definition json_component :: "defined_component \<Rightarrow> json" where
  "json_component c =
     JObj ([(''uuid'', JStr (dc_uuid c)), (''type'', JStr (dc_type c)), (''title'', JStr (dc_title c)),
            (''description'', JStr (dc_description c))] @ opt_str ''purpose'' (dc_purpose c) @
           opt_slice ''control-implementations'' json_implementation (dc_implementations c))"

definition json_component_definition :: "component_definition \<Rightarrow> json result" where
  "json_component_definition cd =
     json_times (metadata_times (cd_metadata cd))
       (JObj [(''component-definition'', JObj [(''uuid'', JStr (cd_uuid cd)),
          (''metadata'', json_metadata (cd_metadata cd)), (''components'', json_slice json_component (cd_components cd))])])"

section \<open>System security plans\<close>

record ssp_component =
  sc_uuid :: string
  sc_type :: string
  sc_title :: string
  sc_description :: string
  sc_status :: string

record system_characteristics =
  sy_ids :: "string list"
  sy_name :: string
  sy_description :: string
  sy_information_types :: "(string \<times> string) list"
  sy_status :: string
  sy_boundary :: string

record ssp_requirement =
  sq_uuid :: string
  sq_control_id :: string
  sq_props :: "property list"
  sq_remarks :: string

record security_plan =
  sp_uuid :: string
  sp_metadata :: metadata
  sp_import_profile :: string
  sp_characteristics :: system_characteristics
  sp_components :: "ssp_component list"
  sp_description :: string
  sp_requirements :: "ssp_requirement list"

definition json_status :: "string \<Rightarrow> json" where
  "json_status s = JObj [(''state'', JStr s)]"

definition json_characteristics :: "system_characteristics \<Rightarrow> json" where
  "json_characteristics c =
     JObj [(''system-ids'', json_slice (\<lambda>i. JObj [(''id'', JStr i)]) (sy_ids c)), (''system-name'', JStr (sy_name c)),
           (''description'', JStr (sy_description c)),
           (''system-information'', JObj [(''information-types'', json_slice (\<lambda>(t, d). JObj [(''title'', JStr t),
              (''description'', JStr d)]) (sy_information_types c))]),
           (''status'', json_status (sy_status c)),
           (''authorization-boundary'', JObj [(''description'', JStr (sy_boundary c))])]"

definition json_ssp_component :: "ssp_component \<Rightarrow> json" where
  "json_ssp_component c =
     JObj [(''uuid'', JStr (sc_uuid c)), (''type'', JStr (sc_type c)), (''title'', JStr (sc_title c)),
           (''description'', JStr (sc_description c)), (''status'', json_status (sc_status c))]"

definition json_ssp_requirement :: "ssp_requirement \<Rightarrow> json" where
  "json_ssp_requirement r =
     JObj ([(''uuid'', JStr (sq_uuid r)), (''control-id'', JStr (sq_control_id r))] @
           opt_slice ''props'' json_property (sq_props r) @ opt_str ''remarks'' (sq_remarks r))"

definition json_security_plan :: "security_plan \<Rightarrow> json result" where
  "json_security_plan sp =
     json_times (metadata_times (sp_metadata sp))
       (JObj [(''system-security-plan'', JObj [(''uuid'', JStr (sp_uuid sp)),
          (''metadata'', json_metadata (sp_metadata sp)), (''import-profile'', json_href (sp_import_profile sp)),
          (''system-characteristics'', json_characteristics (sp_characteristics sp)),
          (''system-implementation'', JObj [(''components'', json_slice json_ssp_component (sp_components sp))]),
          (''control-implementation'', JObj [(''description'', JStr (sp_description sp)),
             (''implemented-requirements'', json_slice json_ssp_requirement (sp_requirements sp))])])])"

section \<open>Assessment plans\<close>

record assessment_subject =
  as_type :: string
  as_description :: string
  as_include_all :: bool

record assessment_activity =
  ay_uuid :: string
  ay_type :: string
  ay_title :: string
  ay_description :: string

record assessment_plan =
  pl_uuid :: string
  pl_metadata :: metadata
  pl_import_ssp :: string
  pl_controls :: "control_selection list"
  pl_subjects :: "assessment_subject list"
  pl_tasks :: "assessment_activity list"

definition json_assessment_plan :: "assessment_plan \<Rightarrow> json result" where
  "json_assessment_plan ap =
     json_times (metadata_times (pl_metadata ap))
       (JObj [(''assessment-plan'', JObj ([(''uuid'', JStr (pl_uuid ap)), (''metadata'', json_metadata (pl_metadata ap)),
            (''import-ssp'', json_href (pl_import_ssp ap)),
            (''reviewed-controls'', json_reviewed_controls (pl_controls ap))] @
          opt_slice ''assessment-subjects'' (\<lambda>s. JObj ((''type'', JStr (as_type s)) #
            opt_str ''description'' (as_description s) @ json_include_all (as_include_all s))) (pl_subjects ap) @
          opt_slice ''tasks'' (\<lambda>a. JObj ([(''uuid'', JStr (ay_uuid a)), (''type'', JStr (ay_type a)),
            (''title'', JStr (ay_title a))] @ opt_str ''description'' (ay_description a))) (pl_tasks ap)))])"

section \<open>Plans of action and milestones\<close>

record poam_item =
  pi_uuid :: string
  pi_title :: string
  pi_description :: string
  pi_props :: "property list"

record poam =
  pm_uuid :: string
  pm_metadata :: metadata
  pm_system_id :: "string option"
  pm_items :: "poam_item list"

definition json_poam :: "poam \<Rightarrow> json result" where
  "json_poam p =
     json_times (metadata_times (pm_metadata p))
       (JObj [(''plan-of-action-and-milestones'', JObj ([(''uuid'', JStr (pm_uuid p)),
            (''metadata'', json_metadata (pm_metadata p))] @
          opt_ptr ''system-id'' (\<lambda>i. JObj [(''id'', JStr i)]) (pm_system_id p) @
          [(''poam-items'', json_slice (\<lambda>i. JObj ([(''uuid'', JStr (pi_uuid i)), (''title'', JStr (pi_title i)),
             (''description'', JStr (pi_description i))] @ opt_slice ''props'' json_property (pi_props i))) (pm_items p))]))])"

end
