(* ===== verification/Projector.thy ===== *)
theory Projector
  imports Oscal
begin

text \<open>
  internal/projection/oscal/projector.go, the projections: evaluations, findings and contracts as
  OSCAL documents. The identifiers that the uuid package yields are a sequence, consumed in the
  order of the calls; the back matter is written in the order in which the range loop over the
  resources meets their digests.
\<close>

definition assurance_ns :: string where
  "assurance_ns = ''https://assurance.ckodex.io/ns''"

definition oscal_property :: "string \<Rightarrow> string \<Rightarrow> property" where
  "oscal_property n v = \<lparr>py_name = n, py_value = v, py_ns = assurance_ns\<rparr>"

definition oscal_metadata :: "string \<Rightarrow> time \<Rightarrow> metadata" where
  "oscal_metadata title now =
     \<lparr>md_title = title, md_published = now, md_last_modified = now, md_version = ''1.0.0'', md_oscal_version = ''1.2.3''\<rparr>"

section \<open>Assessment results\<close>

record projection =
  pj_next :: nat
  pj_uuids :: "string \<rightharpoonup> string"
  pj_resources :: "string \<rightharpoonup> resource"
  pj_observations :: "oscal_observation list"

definition evidence_resource :: "string \<Rightarrow> evidence_ref \<Rightarrow> resource" where
  "evidence_resource uid ev =
     \<lparr>bm_uuid = uid, bm_title = ''Evidence Artifact '' @ e_digest ev,
      bm_description = ''Stored at '' @ e_uri ev @ '' with media type '' @ e_media_type ev,
      bm_props = [oscal_property ''digest'' (e_digest ev)],
      bm_rlinks = [\<lparr>rl_href = e_uri ev, rl_media_type = e_media_type ev\<rparr>]\<rparr>"

definition project_evidence ::
  "(nat \<Rightarrow> string) \<Rightarrow> projection \<times> relevant_evidence list \<Rightarrow> evidence_ref \<Rightarrow> projection \<times> relevant_evidence list" where
  "project_evidence u acc ev =
     (case acc of (st, items) \<Rightarrow>
       let (st, uid) = (case pj_uuids st (e_digest ev) of
               Some uid \<Rightarrow> (st, uid)
             | None \<Rightarrow>
                 let uid = u (pj_next st)
                 in (st\<lparr>pj_next := pj_next st + 1, pj_uuids := (pj_uuids st)(e_digest ev \<mapsto> uid),
                        pj_resources := (pj_resources st)(e_digest ev \<mapsto> evidence_resource uid ev)\<rparr>, uid))
       in (st, items @ [\<lparr>re_href = CHR ''#'' # uid,
            re_description = ''Evidence artifact '' @ e_digest ev @ '' ('' @ e_media_type ev @ '')'', re_props = []\<rparr>]))"

definition project_observation :: "(nat \<Rightarrow> string) \<Rightarrow> projection \<Rightarrow> claim_evaluation \<Rightarrow> projection" where
  "project_observation u st eval =
     (let obs_uuid = u (pj_next st);
          st = st\<lparr>pj_next := pj_next st + 1\<rparr>;
          props = [oscal_property ''assurance-state'' (state_string (ce_state eval)),
                   oscal_property ''epoch-composite-digest'' (composite_digest (ce_epoch eval))] @
            (if ce_evidence_root eval \<noteq> [] then [oscal_property ''evidence-root'' (ce_evidence_root eval)] else []);
          (st, items) = foldl (project_evidence u) (st, []) (ce_evidence eval);
          obs = \<lparr>ob_uuid = obs_uuid, ob_title = ''Observation for '' @ control_canonical (ce_control eval),
            ob_description = ''Assurance state resolved to '' @ state_string (ce_state eval) @ '' (Completeness: '' @
              completeness_summary (ce_completeness eval) @ '')'',
            ob_collected = ce_evaluated_at eval, ob_methods = [''AUTOMATED_CONTINUOUS_EVALUATION''],
            ob_types = [''assurance-claim-evaluation''], ob_evidence = items, ob_props = props\<rparr>
      in st\<lparr>pj_observations := pj_observations st @ [obs]\<rparr>)"

definition related_observations :: "oscal_observation list \<Rightarrow> finding \<Rightarrow> string list" where
  "related_observations obs f =
     (let rel = map ob_uuid (filter (\<lambda>ob. str_contains (ob_title ob) (control_canonical (f_control f)) \<or>
            str_contains (ob_title ob) (c_id (f_control f))) obs)
      in case (rel, obs) of ([], ob # _) \<Rightarrow> [ob_uuid ob] | _ \<Rightarrow> rel)"

definition project_finding :: "oscal_observation list \<Rightarrow> string \<Rightarrow> finding \<Rightarrow> oscal_finding" where
  "project_finding obs uid f =
     \<lparr>fd_uuid = uid, fd_title = f_title f, fd_description = f_description f, fd_target_type = ''objective-id'',
      fd_target_id = c_id (f_control f), fd_state = ''not-satisfied'', fd_reason = ''fail'',
      fd_related = related_observations obs f\<rparr>"

definition projected :: "(nat \<Rightarrow> string) \<Rightarrow> claim_evaluation list \<Rightarrow> projection" where
  "projected u evals =
     foldl (project_observation u) \<lparr>pj_next = 2, pj_uuids = Map.empty, pj_resources = Map.empty, pj_observations = []\<rparr> evals"

definition project_assessment_results ::
  "(nat \<Rightarrow> string) \<Rightarrow> string list \<Rightarrow> time \<Rightarrow> time \<Rightarrow> subject_ref \<Rightarrow> claim_evaluation list \<Rightarrow> finding list \<Rightarrow>
     assessment_results" where
  "project_assessment_results u ks now now' subject evals findings =
     (let st = projected u evals;
          obs = pj_observations st;
          (epoch_dig, start, stop) = (case evals of
              e # _ \<Rightarrow> (composite_digest (ce_epoch e), ce_evaluated_at e, ce_valid_until e)
            | [] \<Rightarrow> (''empty'', now', now'));
          res = \<lparr>rs_uuid = u 1, rs_title = ''Continuous Assurance Result for '' @ subject_uri subject,
            rs_description = ''Evaluated under composite epoch '' @ epoch_dig, rs_start = start, rs_end = stop,
            rs_controls = [\<lparr>sl_description = ''Continuous automated control assessment'', sl_include_all = True\<rparr>],
            rs_observations = obs,
            rs_findings = map (\<lambda>(i, f). project_finding obs (u (pj_next st + i)) f) (indexed findings)\<rparr>
      in \<lparr>ar_uuid = u 0,
          ar_metadata = oscal_metadata (''OSKAL Assessment Results for '' @ subject_uri subject) now,
          ar_import_ap = ''assessment-plan.json'', ar_results = [res],
          ar_back_matter = (if ks = [] then None else Some (map (\<lambda>d. the (pj_resources st d)) ks))\<rparr>)"

section \<open>Component definitions\<close>

definition projected_control_id :: "control_ref \<Rightarrow> string" where
  "projected_control_id c =
     (if c_id c = [] then replace_char CHR '':'' CHR ''_'' (control_canonical c) else c_id c)"

definition project_component_definition ::
  "(nat \<Rightarrow> string) \<Rightarrow> time \<Rightarrow> string \<Rightarrow> claim_evaluation list \<Rightarrow> component_definition" where
  "project_component_definition u now component_name evals =
     (let reqs = map (\<lambda>(i, eval).
            \<lparr>ir_uuid = u (3 + i), ir_control_id = projected_control_id (ce_control eval),
             ir_description = ''Evaluated state: '' @ state_string (ce_state eval) @ '' with evidence root '' @
               ce_evidence_root eval,
             ir_props = [oscal_property ''assurance-state'' (state_string (ce_state eval)),
               oscal_property ''epoch-composite'' (composite_digest (ce_epoch eval))]\<rparr>) (indexed evals);
          impl = \<lparr>ci_uuid = u 2, ci_source = ''https://assurance.ckodex.io/catalogs/canonical-v1'',
            ci_description = ''Realized continuous security controls'', ci_requirements = reqs\<rparr>;
          comp = \<lparr>dc_uuid = u 1, dc_type = ''software'', dc_title = component_name,
            dc_description = ''Kubernetes workload governed under CKODEX continuous assurance'',
            dc_purpose = ''Assurance Runtime Realization'', dc_implementations = [impl]\<rparr>
      in \<lparr>cd_uuid = u 0, cd_metadata = oscal_metadata (''OSKAL Component Definition: '' @ component_name) now,
          cd_components = [comp]\<rparr>)"

section \<open>System security plans\<close>

definition project_ssp :: "(nat \<Rightarrow> string) \<Rightarrow> time \<Rightarrow> string \<Rightarrow> claim_evaluation list \<Rightarrow> security_plan" where
  "project_ssp u now system_name evals =
     \<lparr>sp_uuid = u 0, sp_metadata = oscal_metadata (''System Security Plan for '' @ system_name) now,
      sp_import_profile = ''profiles/nist-sp-800-53-rev5.json'',
      sp_characteristics = \<lparr>sy_ids = [system_name], sy_name = system_name,
        sy_description = ''System Security Plan for '' @ system_name @ '' governed under CKODEX continuous assurance'',
        sy_information_types = [(''Operational Telemetry and State'', ''Continuous security control and admission telemetry'')],
        sy_status = ''operational'',
        sy_boundary = ''Cloud-native workload boundaries enforced via Kubernetes namespace and network security policies''\<rparr>,
      sp_components = [\<lparr>sc_uuid = u 1, sc_type = ''this-system'', sc_title = system_name,
        sc_description = ''Primary implementation component for '' @ system_name, sc_status = ''operational''\<rparr>],
      sp_description = ''Continuously assured via OSKAL runtime'',
      sp_requirements = map (\<lambda>(i, eval).
        \<lparr>sq_uuid = u (2 + i), sq_control_id = c_id (ce_control eval),
         sq_props = oscal_property ''state'' (state_string (ce_state eval)) #
           (if ce_evidence_root eval \<noteq> [] then [oscal_property ''evidence-root'' (ce_evidence_root eval)] else []),
         sq_remarks = ''Continuous State: '' @ state_string (ce_state eval)\<rparr>) (indexed evals)\<rparr>"

section \<open>Assessment plans\<close>

definition project_assessment_plan ::
  "(nat \<Rightarrow> string) \<Rightarrow> time \<Rightarrow> subject_ref \<Rightarrow> contract \<Rightarrow> control_ref list \<Rightarrow> assessment_plan" where
  "project_assessment_plan u now subject c controls =
     \<lparr>pl_uuid = u 0, pl_metadata = oscal_metadata (''Continuous Assessment Plan for '' @ subject_uri subject) now,
      pl_import_ssp = ''system-security-plan.json'',
      pl_controls = [\<lparr>sl_description = ''Continuous assessment controls'', sl_include_all = True\<rparr>],
      pl_subjects = [\<lparr>as_type = ''component'', as_description = ''Kubernetes workload '' @ subject_uri subject,
        as_include_all = True\<rparr>],
      pl_tasks = map (\<lambda>(i, req). \<lparr>ay_uuid = u (1 + i), ay_type = ''action'',
        ay_title = ''Evidence Verification: '' @ r_evidence_type req,
        ay_description = ''Evaluated against accepted producers with max age '' @ duration_text (r_max_age req)\<rparr>)
        (indexed (ct_requirements c))\<rparr>"

section \<open>Plans of action and milestones\<close>

definition project_poam :: "(nat \<Rightarrow> string) \<Rightarrow> time \<Rightarrow> subject_ref \<Rightarrow> finding list \<Rightarrow> poam" where
  "project_poam u now subject findings =
     (let items = map (\<lambda>(i, f). \<lparr>pi_uuid = u (1 + i), pi_title = f_title f, pi_description = f_description f,
            pi_props = [oscal_property ''control-id'' (control_canonical (f_control f)),
              oscal_property ''severity'' (f_severity f),
              oscal_property ''discovered-at'' (rfc3339 (f_discovered_at f))]\<rparr>) (indexed findings);
          satisfied = \<lparr>pi_uuid = u 1, pi_title = ''Continuous Assurance Conformance for '' @ subject_uri subject,
            pi_description = ''All monitored controls are currently satisfied. Zero open findings or remediation actions required.'',
            pi_props = [oscal_property ''status'' ''satisfied'']\<rparr>
      in \<lparr>pm_uuid = u 0, pm_metadata = oscal_metadata (''Plan of Action and Milestones for '' @ subject_uri subject) now,
          pm_system_id = Some (subject_uri subject), pm_items = (if items = [] then [satisfied] else items)\<rparr>)"

section \<open>The state of a projection\<close>

definition fresh_after :: "(nat \<Rightarrow> string) \<Rightarrow> nat \<Rightarrow> string set" where
  "fresh_after u n = u ` {2..<n}"

text \<open>The identifiers handed out so far are the ones used, each once; every link has its resource.\<close>

definition projection_ok :: "(nat \<Rightarrow> string) \<Rightarrow> string set \<Rightarrow> projection \<times> relevant_evidence list \<Rightarrow> bool" where
  "projection_ok u taken = (\<lambda>(st, items).
     2 \<le> pj_next st \<and> map_option bm_uuid \<circ> pj_resources st = pj_uuids st \<and>
     (\<forall>d r. pj_resources st d = Some r \<longrightarrow> bm_props r = [oscal_property ''digest'' d]) \<and>
     set (map ob_uuid (pj_observations st)) \<union> taken \<union> ran (pj_uuids st) \<subseteq> fresh_after u (pj_next st) \<and>
     distinct (map ob_uuid (pj_observations st)) \<and> taken \<inter> set (map ob_uuid (pj_observations st)) = {} \<and>
     ran (pj_uuids st) \<inter> (set (map ob_uuid (pj_observations st)) \<union> taken) = {} \<and>
     inj_on (pj_uuids st) (dom (pj_uuids st)) \<and>
     (\<forall>e\<in>set items \<union> (\<Union>ob\<in>set (pj_observations st). set (ob_evidence ob)).
        \<exists>uid\<in>ran (pj_uuids st). re_href e = CHR ''#'' # uid))"

lemma fresh_after_Suc: "2 \<le> n \<Longrightarrow> fresh_after u (n + 1) = insert (u n) (fresh_after u n)"
  by (simp add: fresh_after_def atLeastLessThanSuc)

lemma fresh_new: "inj u \<Longrightarrow> u n \<notin> fresh_after u n"
  by (auto simp: fresh_after_def dest: injD)

lemma project_evidence_ok:
  assumes "inj u" and "projection_ok u taken acc"
  shows "projection_ok u taken (project_evidence u acc ev) \<and>
    pj_observations (fst (project_evidence u acc ev)) = pj_observations (fst acc)"
proof -
  obtain st items where acc: "acc = (st, items)" by (cases acc)
  note ok = assms(2)[unfolded acc projection_ok_def prod.case]
  show ?thesis
  proof (cases "pj_uuids st (e_digest ev)")
    case (Some uid)
    then have "uid \<in> ran (pj_uuids st)" by (rule ranI)
    with ok Some show ?thesis by (simp add: project_evidence_def acc projection_ok_def)
  next
    case None
    let ?uid = "u (pj_next st)" and ?d = "e_digest ev"
    have new: "?uid \<notin> fresh_after u (pj_next st)" by (rule fresh_new[OF assms(1)])
    have ran: "ran ((pj_uuids st)(?d \<mapsto> ?uid)) = insert ?uid (ran (pj_uuids st))"
      using None by (simp add: ran_map_upd)
    have fr: "fresh_after u (pj_next st + 1) = insert ?uid (fresh_after u (pj_next st))"
      using ok by (intro fresh_after_Suc) simp
    have inj: "inj_on ((pj_uuids st)(?d \<mapsto> ?uid)) (dom ((pj_uuids st)(?d \<mapsto> ?uid)))"
    proof -
      have "?uid \<notin> ran (pj_uuids st)" using ok new by blast
      then show ?thesis using ok None by (auto simp: inj_on_def ran_def)
    qed
    have res: "map_option bm_uuid \<circ> (pj_resources st)(?d \<mapsto> evidence_resource ?uid ev) = (pj_uuids st)(?d \<mapsto> ?uid)"
      using ok by (auto simp: fun_eq_iff evidence_resource_def)
    have props: "\<forall>d r. ((pj_resources st)(?d \<mapsto> evidence_resource ?uid ev)) d = Some r \<longrightarrow>
        bm_props r = [oscal_property ''digest'' d]"
      using ok by (auto simp: evidence_resource_def)
    have used: "set (map ob_uuid (pj_observations st)) \<union> taken \<union> insert ?uid (ran (pj_uuids st)) \<subseteq>
        insert ?uid (fresh_after u (pj_next st))"
      and apart: "insert ?uid (ran (pj_uuids st)) \<inter> (set (map ob_uuid (pj_observations st)) \<union> taken) = {}"
      using ok new by blast+
    define it where "it = \<lparr>re_href = CHR ''#'' # ?uid,
      re_description = ''Evidence artifact '' @ e_digest ev @ '' ('' @ e_media_type ev @ '')'', re_props = []\<rparr>"
    have links: "\<forall>e\<in>set (items @ [it]) \<union> (\<Union>ob\<in>set (pj_observations st). set (ob_evidence ob)).
        \<exists>uid\<in>insert ?uid (ran (pj_uuids st)). re_href e = CHR ''#'' # uid"
      using ok by (auto simp: it_def)
    define st' where "st' = st\<lparr>pj_next := pj_next st + 1, pj_uuids := (pj_uuids st)(?d \<mapsto> ?uid),
        pj_resources := (pj_resources st)(?d \<mapsto> evidence_resource ?uid ev)\<rparr>"
    have eq: "project_evidence u acc ev = (st', items @ [it])"
      by (simp add: project_evidence_def acc None it_def st'_def Let_def)
    have sel: "pj_next st' = pj_next st + 1" "pj_uuids st' = (pj_uuids st)(?d \<mapsto> ?uid)"
      "pj_resources st' = (pj_resources st)(?d \<mapsto> evidence_resource ?uid ev)"
      "pj_observations st' = pj_observations st"
      by (simp_all add: st'_def)
    have keep: "2 \<le> pj_next st + 1" "distinct (map ob_uuid (pj_observations st))"
      "taken \<inter> set (map ob_uuid (pj_observations st)) = {}" using ok by simp_all
    show ?thesis
      unfolding acc eq[unfolded acc] projection_ok_def prod.case fst_conv sel ran fr
      by (intro conjI keep res props used apart links inj refl)
  qed
qed

lemma project_all_evidence_ok:
  assumes "inj u" and "projection_ok u taken acc"
  shows "projection_ok u taken (foldl (project_evidence u) acc evs) \<and>
    pj_observations (fst (foldl (project_evidence u) acc evs)) = pj_observations (fst acc)"
  using assms(2)
proof (induction evs arbitrary: acc)
  case (Cons ev evs)
  from project_evidence_ok[OF assms(1) Cons.prems] Cons.IH[of "project_evidence u acc ev"] show ?case by simp
qed simp

lemma project_observation_ok:
  assumes "inj u" and "projection_ok u {} (st, [])"
  shows "projection_ok u {} (project_observation u st eval, []) \<and>
    map ob_title (pj_observations (project_observation u st eval)) =
      map ob_title (pj_observations st) @ [''Observation for '' @ control_canonical (ce_control eval)]"
proof -
  let ?uid = "u (pj_next st)" and ?st = "st\<lparr>pj_next := pj_next st + 1\<rparr>"
  note ok = assms(2)[unfolded projection_ok_def prod.case]
  have new: "?uid \<notin> fresh_after u (pj_next st)" by (rule fresh_new[OF assms(1)])
  have fr: "fresh_after u (pj_next st + 1) = insert ?uid (fresh_after u (pj_next st))"
    using ok by (intro fresh_after_Suc) simp
  have start: "projection_ok u {?uid} (?st, [])"
    unfolding projection_ok_def using ok new fr by auto
  obtain st' items where run: "foldl (project_evidence u) (?st, []) (ce_evidence eval) = (st', items)"
    by (cases "foldl (project_evidence u) (?st, []) (ce_evidence eval)")
  from project_all_evidence_ok[OF assms(1) start, of "ce_evidence eval"] run
  have fin: "projection_ok u {?uid} (st', items)" and obs: "pj_observations st' = pj_observations st" by simp_all
  note fin' = fin[unfolded projection_ok_def prod.case]
  have "\<exists>ob. project_observation u st eval = st'\<lparr>pj_observations := pj_observations st' @ [ob]\<rparr> \<and>
      ob_uuid ob = ?uid \<and> ob_evidence ob = items \<and>
      ob_title ob = ''Observation for '' @ control_canonical (ce_control eval)"
    unfolding project_observation_def Let_def run prod.case by (intro exI conjI, rule refl) simp_all
  then obtain ob where po: "project_observation u st eval = st'\<lparr>pj_observations := pj_observations st' @ [ob]\<rparr>"
    and ob: "ob_uuid ob = ?uid" "ob_evidence ob = items"
      "ob_title ob = ''Observation for '' @ control_canonical (ce_control eval)" by blast
  show ?thesis
    unfolding po projection_ok_def using fin' ob by (auto simp: obs)
qed

lemma projected_ok:
  assumes "inj u"
  shows "projection_ok u {} (projected u evals, []) \<and>
    map ob_title (pj_observations (projected u evals)) =
      map (\<lambda>eval. ''Observation for '' @ control_canonical (ce_control eval)) evals"
proof (induction evals rule: rev_induct)
  case Nil
  then show ?case by (simp add: projected_def projection_ok_def fun_eq_iff)
next
  case (snoc eval evals)
  then show ?case
    using project_observation_ok[OF assms, of "projected u evals" eval] by (simp add: projected_def)
qed

lemma project_evidence_dom:
  "dom (pj_uuids (fst (project_evidence u acc ev))) = insert (e_digest ev) (dom (pj_uuids (fst acc)))"
  by (cases acc; cases "pj_uuids (fst acc) (e_digest ev)") (auto simp: project_evidence_def Let_def)

lemma project_all_evidence_dom:
  "dom (pj_uuids (fst (foldl (project_evidence u) acc evs))) = e_digest ` set evs \<union> dom (pj_uuids (fst acc))"
  by (induction evs arbitrary: acc) (simp_all add: project_evidence_dom)

lemma project_all_evidence_observations:
  "pj_observations (fst (foldl (project_evidence u) acc evs)) = pj_observations (fst acc)"
proof (induction evs arbitrary: acc)
  case (Cons ev evs)
  have "pj_observations (fst (project_evidence u acc ev)) = pj_observations (fst acc)"
    by (cases acc; cases "pj_uuids (fst acc) (e_digest ev)") (auto simp: project_evidence_def Let_def)
  with Cons show ?case by simp
qed simp

lemma projected_collected:
  "map ob_collected (pj_observations (projected u evals)) = map ce_evaluated_at evals"
proof (induction evals rule: rev_induct)
  case (snoc eval evals)
  let ?st = "projected u evals"
  obtain st' items where run:
    "foldl (project_evidence u) (?st\<lparr>pj_next := pj_next ?st + 1\<rparr>, []) (ce_evidence eval) = (st', items)"
    by (cases "foldl (project_evidence u) (?st\<lparr>pj_next := pj_next ?st + 1\<rparr>, []) (ce_evidence eval)")
  then have "pj_observations st' = pj_observations ?st"
    using project_all_evidence_observations[of u "(?st\<lparr>pj_next := pj_next ?st + 1\<rparr>, [])" "ce_evidence eval"] by simp
  then have "map ob_collected (pj_observations (project_observation u ?st eval)) =
      map ob_collected (pj_observations ?st) @ [ce_evaluated_at eval]"
    unfolding project_observation_def Let_def run prod.case by simp
  with snoc show ?case by (simp add: projected_def)
qed (simp add: projected_def)

lemma projected_dom:
  "dom (pj_uuids (projected u evals)) = (\<Union>eval\<in>set evals. e_digest ` set (ce_evidence eval))"
proof (induction evals rule: rev_induct)
  case (snoc eval evals)
  let ?st = "projected u evals"
  have "pj_uuids (project_observation u ?st eval) =
      pj_uuids (fst (foldl (project_evidence u) (?st\<lparr>pj_next := pj_next ?st + 1\<rparr>, []) (ce_evidence eval)))"
    by (simp add: project_observation_def Let_def split: prod.split)
  then show ?case using snoc by (simp add: projected_def project_all_evidence_dom Un_commute)
qed (simp add: projected_def)

lemma projection_resources:
  assumes "inj u"
  shows "dom (pj_resources (projected u evals)) = dom (pj_uuids (projected u evals))"
    and "pj_resources (projected u evals) d = Some r \<Longrightarrow>
      pj_uuids (projected u evals) d = Some (bm_uuid r) \<and> bm_props r = [oscal_property ''digest'' d]"
proof -
  have eq: "map_option bm_uuid \<circ> pj_resources (projected u evals) = pj_uuids (projected u evals)"
    and props: "\<forall>d r. pj_resources (projected u evals) d = Some r \<longrightarrow> bm_props r = [oscal_property ''digest'' d]"
    using projected_ok[OF assms, of evals] by (simp_all add: projection_ok_def)
  then have at: "pj_uuids (projected u evals) d = map_option bm_uuid (pj_resources (projected u evals) d)" for d
    by (metis comp_apply)
  show "dom (pj_resources (projected u evals)) = dom (pj_uuids (projected u evals))"
    using at by (auto simp: dom_def)
  show "pj_uuids (projected u evals) d = Some (bm_uuid r) \<and> bm_props r = [oscal_property ''digest'' d]"
    if "pj_resources (projected u evals) d = Some r"
    using that at[of d] props by simp
qed

lemma related_observations_alt:
  "related_observations obs f =
     (let rel = map ob_uuid (filter (\<lambda>ob. str_contains (ob_title ob) (control_canonical (f_control f)) \<or>
            str_contains (ob_title ob) (c_id (f_control f))) obs)
      in if rel = [] \<and> obs \<noteq> [] then [ob_uuid (hd obs)] else rel)"
  by (simp add: related_observations_def Let_def split: list.split)

lemma set_related:
  "set (related_observations obs f) \<subseteq> set (map ob_uuid obs)"
  "obs \<noteq> [] \<Longrightarrow> related_observations obs f \<noteq> []"
  unfolding related_observations_alt Let_def by auto

text \<open>The resources of the back matter, in the order in which they are written.\<close>

definition back_matter :: "assessment_results \<Rightarrow> resource list" where
  "back_matter ar = (case ar_back_matter ar of None \<Rightarrow> [] | Some rs \<Rightarrow> rs)"

lemma back_matter_projected:
  "back_matter (project_assessment_results u ks now now' subject evals findings) =
     map (\<lambda>d. the (pj_resources (projected u evals) d)) ks"
  by (simp add: back_matter_def project_assessment_results_def Let_def split: prod.split)

lemma results_projected:
  "\<exists>res. ar_results (project_assessment_results u ks now now' subject evals findings) = [res] \<and> rs_uuid res = u 1 \<and>
     rs_observations res = pj_observations (projected u evals) \<and>
     rs_findings res = map (\<lambda>(i, f). project_finding (pj_observations (projected u evals))
       (u (pj_next (projected u evals) + i)) f) (indexed findings)"
  "ar_uuid (project_assessment_results u ks now now' subject evals findings) = u 0"
  by (simp_all add: project_assessment_results_def Let_def split: prod.split)

lemma back_matter_props:
  assumes "inj u" and "enumerates ks (pj_resources (projected u evals))"
  shows "map bm_props (map (\<lambda>d. the (pj_resources (projected u evals) d)) ks) = map (\<lambda>d. [oscal_property ''digest'' d]) ks"
    and "map Some (map bm_uuid (map (\<lambda>d. the (pj_resources (projected u evals) d)) ks)) = map (pj_uuids (projected u evals)) ks"
proof -
  have "bm_props (the (pj_resources (projected u evals) d)) = [oscal_property ''digest'' d] \<and>
      Some (bm_uuid (the (pj_resources (projected u evals) d))) = pj_uuids (projected u evals) d" if "d \<in> set ks" for d
    using assms(2) that projection_resources(2)[OF assms(1), of evals d] by (auto simp: enumerates_def)
  then show "map bm_props (map (\<lambda>d. the (pj_resources (projected u evals) d)) ks) = map (\<lambda>d. [oscal_property ''digest'' d]) ks"
    "map Some (map bm_uuid (map (\<lambda>d. the (pj_resources (projected u evals) d)) ks)) = map (pj_uuids (projected u evals)) ks"
    by simp_all
qed

lemma distinct_mapD: "distinct (map f xs) \<Longrightarrow> distinct xs"
  by (simp add: distinct_map)

lemma findings_fresh:
  assumes "inj u"
  shows "distinct (map (\<lambda>(i, f). u (n + i)) (indexed fs)) \<and> set (map (\<lambda>(i, f). u (n + i)) (indexed fs)) \<inter> u ` {..<n} = {}"
proof -
  have eq: "map (\<lambda>(i, f). u (n + i)) (indexed fs) = map (\<lambda>i. u (n + i)) [0..<length fs]"
    by (rule nth_equalityI) simp_all
  have "inj_on (\<lambda>i. u (n + i)) (set [0..<length fs])"
    by (rule inj_onI) (metis add_left_cancel assms injD)
  moreover have "u (n + i) \<notin> u ` {..<n}" for i
    using assms by (metis imageE injD lessThan_iff not_add_less1)
  ultimately show ?thesis unfolding eq by (auto simp: distinct_map)
qed

section \<open>Properties\<close>

text \<open>
  C27: in an assessment results document every link of an observation leads to a resource of its back matter,
  which holds exactly one resource for every digest of the evidence, in whatever order it is written;
  every finding is related to observations of the document only, and to at least one if there is any.
\<close>

lemma assessment_results_links:
  fixes u ks now now' subject evals findings
  defines "ar \<equiv> project_assessment_results u ks now now' subject evals findings"
  assumes "inj u" and "enumerates ks (pj_resources (projected u evals))"
  shows "\<exists>res. ar_results ar = [res] \<and>
    (\<forall>ob\<in>set (rs_observations res). \<forall>e\<in>set (ob_evidence ob). \<exists>r\<in>set (back_matter ar). re_href e = CHR ''#'' # bm_uuid r) \<and>
    set ks = (\<Union>eval\<in>set evals. e_digest ` set (ce_evidence eval)) \<and>
    map bm_props (back_matter ar) = map (\<lambda>d. [oscal_property ''digest'' d]) ks \<and> distinct ks \<and>
    (\<forall>f\<in>set (rs_findings res). set (fd_related f) \<subseteq> set (map ob_uuid (rs_observations res)) \<and>
       (evals \<noteq> [] \<longrightarrow> fd_related f \<noteq> []))"
proof -
  let ?st = "projected u evals"
  obtain res where res: "ar_results ar = [res]" "rs_observations res = pj_observations ?st"
    "rs_findings res = map (\<lambda>(i, f). project_finding (pj_observations ?st) (u (pj_next ?st + i)) f) (indexed findings)"
    using results_projected(1)[of u ks now now' subject evals findings] unfolding ar_def by blast
  have bm: "back_matter ar = map (\<lambda>d. the (pj_resources ?st d)) ks" unfolding ar_def by (rule back_matter_projected)
  have ok: "projection_ok u {} (?st, [])"
    and titles: "map ob_title (pj_observations ?st) = map (\<lambda>eval. ''Observation for '' @ control_canonical (ce_control eval)) evals"
    using projected_ok[OF assms(2), of evals] by simp_all
  have dom: "set ks = dom (pj_uuids ?st)" "distinct ks"
    using assms(3) projection_resources(1)[OF assms(2)] by (simp_all add: enumerates_def)
  have "\<exists>r\<in>set (back_matter ar). bm_uuid r = uid" if "uid \<in> ran (pj_uuids ?st)" for uid
  proof -
    from that obtain d where d: "pj_uuids ?st d = Some uid" by (auto simp: ran_def)
    then have "d \<in> set ks" using dom by auto
    with d projection_resources[OF assms(2), of evals] dom show ?thesis
      by (metis (no_types, lifting) bm domD image_eqI option.inject option.sel set_map)
  qed
  moreover have "\<forall>ob\<in>set (pj_observations ?st). \<forall>e\<in>set (ob_evidence ob). \<exists>uid\<in>ran (pj_uuids ?st). re_href e = CHR ''#'' # uid"
    using ok by (simp add: projection_ok_def)
  ultimately have links: "\<forall>ob\<in>set (rs_observations res). \<forall>e\<in>set (ob_evidence ob).
      \<exists>r\<in>set (back_matter ar). re_href e = CHR ''#'' # bm_uuid r"
    unfolding res(2) by metis
  have "pj_observations ?st \<noteq> []" if "evals \<noteq> []" using titles that by auto
  moreover have "\<exists>g. fd_related f = related_observations (pj_observations ?st) g" if "f \<in> set (rs_findings res)" for f
    using that unfolding res(3) by (auto simp: project_finding_def)
  ultimately have rel: "\<forall>f\<in>set (rs_findings res). set (fd_related f) \<subseteq> set (map ob_uuid (rs_observations res)) \<and>
       (evals \<noteq> [] \<longrightarrow> fd_related f \<noteq> [])"
    unfolding res(2) by (metis set_related)
  show ?thesis
    by (rule exI[where x = res])
      (intro conjI res(1) links rel dom(2) dom(1)[unfolded projected_dom] back_matter_props(1)[OF assms(2,3), folded bm])
qed

definition example_evaluation :: "string \<Rightarrow> claim_evaluation" where
  "example_evaluation i =
     \<lparr>ce_id = i, ce_control = control ''nist'' i, ce_subject = example_subject, ce_state = Verified,
      ce_vector = new_default_vector, ce_epoch = empty_epoch,
      ce_evidence = [\<lparr>e_uri = ''cas://x'', e_digest = ''d'', e_media_type = []\<rparr>], ce_completeness = zero_completeness,
      ce_evidence_root = [], ce_evaluated_at = 0, ce_valid_until = 0, ce_trace = []\<rparr>"

definition example_uuid :: "nat \<Rightarrow> string" where
  "example_uuid n = replicate n CHR ''u''"

lemma inj_example_uuid: "inj example_uuid"
  by (auto simp: inj_def example_uuid_def dest: arg_cong[where f = length])

lemma example_resources: "enumerates [''d''] (pj_resources (projected example_uuid [example_evaluation i]))"
  using projection_resources(1)[OF inj_example_uuid, of "[example_evaluation i]"] projected_dom[of example_uuid "[example_evaluation i]"]
  by (simp add: enumerates_def example_evaluation_def)

lemma assessment_results_links_witness:
  "\<exists>res. ar_results (project_assessment_results example_uuid [''d''] 0 0 example_subject [example_evaluation ''AC-6''] []) = [res] \<and>
    (\<forall>ob\<in>set (rs_observations res). \<forall>e\<in>set (ob_evidence ob).
       \<exists>r\<in>set (back_matter (project_assessment_results example_uuid [''d''] 0 0 example_subject [example_evaluation ''AC-6''] [])).
         re_href e = CHR ''#'' # bm_uuid r)"
  using assessment_results_links[OF inj_example_uuid example_resources, of 0 0 example_subject "''AC-6''" "[]"] by blast

text \<open>
  Further: as long as the generator does not repeat itself, all identifiers of an assessment results document, of the
  document, its result, its observations, its resources and its findings, are different.
\<close>

lemma assessment_results_identifiers:
  fixes u ks now now' subject evals findings
  defines "ar \<equiv> project_assessment_results u ks now now' subject evals findings"
  assumes "inj u" and "enumerates ks (pj_resources (projected u evals))"
  shows "\<exists>res. ar_results ar = [res] \<and>
    distinct (ar_uuid ar # rs_uuid res # map ob_uuid (rs_observations res) @ map bm_uuid (back_matter ar) @
      map fd_uuid (rs_findings res))"
proof -
  let ?st = "projected u evals" and ?n = "pj_next (projected u evals)"
  obtain res where res: "ar_results ar = [res]" "rs_uuid res = u 1" "rs_observations res = pj_observations ?st"
    "rs_findings res = map (\<lambda>(i, f). project_finding (pj_observations ?st) (u (?n + i)) f) (indexed findings)"
    using results_projected(1)[of u ks now now' subject evals findings] unfolding ar_def by blast
  have fd: "map fd_uuid (rs_findings res) = map (\<lambda>(i, f). u (?n + i)) (indexed findings)"
    unfolding res(4) by (simp add: project_finding_def case_prod_unfold)
  have bm: "map Some (map bm_uuid (back_matter ar)) = map (pj_uuids ?st) ks"
    unfolding ar_def back_matter_projected by (rule back_matter_props(2)[OF assms(2,3)])
  have ok: "2 \<le> ?n" "set (map ob_uuid (pj_observations ?st)) \<union> ran (pj_uuids ?st) \<subseteq> u ` {2..<?n}"
    "distinct (map ob_uuid (pj_observations ?st))" "ran (pj_uuids ?st) \<inter> set (map ob_uuid (pj_observations ?st)) = {}"
    "inj_on (pj_uuids ?st) (dom (pj_uuids ?st))"
    using projected_ok[OF assms(2), of evals] by (simp_all add: projection_ok_def fresh_after_def)
  have ks: "distinct ks" "set ks = dom (pj_uuids ?st)"
    using assms(3) projection_resources(1)[OF assms(2)] by (simp_all add: enumerates_def)
  have "distinct (map (pj_uuids ?st) ks)" using ks ok(5) by (simp add: distinct_map)
  then have bm_distinct: "distinct (map bm_uuid (back_matter ar))"
    unfolding bm[symmetric] by (rule distinct_mapD)
  have "Some ` set (map bm_uuid (back_matter ar)) = pj_uuids ?st ` dom (pj_uuids ?st)"
    using bm ks(2) by (metis set_map)
  then have bm_set: "set (map bm_uuid (back_matter ar)) = ran (pj_uuids ?st)"
    by (auto simp: ran_def dom_def image_iff set_eq_iff) (metis option.inject)+
  have outer: "u 0 \<noteq> u 1" "u 0 \<notin> u ` {2..<?n}" "u 1 \<notin> u ` {2..<?n}"
    using assms(2) by (auto dest: injD)
  note ff = findings_fresh[OF assms(2), of ?n findings, folded fd]
  let ?obs = "set (map ob_uuid (pj_observations ?st))" and ?bm = "set (map bm_uuid (back_matter ar))"
    and ?fd = "set (map fd_uuid (rs_findings res))"
  have sub: "u ` {2..<?n} \<subseteq> u ` {..<?n}" "{u 0, u 1} \<subseteq> u ` {..<?n}" using ok(1) by auto
  have below: "?obs \<subseteq> u ` {2..<?n}" "?bm \<subseteq> u ` {2..<?n}" using ok(2) bm_set by simp_all
  have apart: "?obs \<inter> ?bm = {}" using ok(4) bm_set by (simp add: Int_commute)
  have fresh: "?fd \<inter> u ` {..<?n} = {}" and fd_distinct: "distinct (map fd_uuid (rs_findings res))" using ff by simp_all
  have "?obs \<inter> ?fd = {}" "?bm \<inter> ?fd = {}" "{u 0, u 1} \<inter> ?fd = {}"
    using below sub fresh by blast+
  moreover have "{u 0, u 1} \<inter> ?obs = {}" "{u 0, u 1} \<inter> ?bm = {}" using below outer(2,3) by blast+
  ultimately have "distinct (map ob_uuid (pj_observations ?st) @ map bm_uuid (back_matter ar) @ map fd_uuid (rs_findings res))"
    and out: "{u 0, u 1} \<inter> (?obs \<union> (?bm \<union> ?fd)) = {}"
    using ok(3) bm_distinct fd_distinct apart by (simp_all add: Int_Un_distrib del: Int_insert_left set_map)
  then have "distinct (u 0 # u 1 # map ob_uuid (pj_observations ?st) @ map bm_uuid (back_matter ar) @ map fd_uuid (rs_findings res))"
    using outer(1) unfolding distinct.simps list.set set_append by (simp del: set_map)
  then show ?thesis
    unfolding results_projected(2)[of u ks now now' subject evals findings, folded ar_def] res(2)[symmetric] res(3)[symmetric]
    by (intro exI[where x = res] conjI res(1))
qed

lemma assessment_results_identifiers_witness:
  "\<exists>res. ar_results (project_assessment_results example_uuid [''d''] 0 0 example_subject [example_evaluation ''AC-6''] []) = [res] \<and>
     rs_uuid res \<notin> set (map ob_uuid (rs_observations res))"
  using assessment_results_identifiers[OF inj_example_uuid example_resources, of 0 0 example_subject "''AC-6''" "[]"] by auto

text \<open>
  Further: findings are matched to observations by text: a finding is related to the observations of every control
  whose name contains its control identifier, so a finding for AC-1 also to those of AC-10.
\<close>

lemma findings_related_by_text:
  assumes "ob \<in> set obs" and "ob_title ob = ''Observation for '' @ control_canonical c"
    and "str_contains (control_canonical c) (c_id (f_control f))"
  shows "ob_uuid ob \<in> set (related_observations obs f)"
proof -
  have cont: "str_contains (ob_title ob) (c_id (f_control f))"
    using assms(3) unfolding str_contains_sublist assms(2) sublist_append by blast
  define rel where "rel = map ob_uuid (filter (\<lambda>ob. str_contains (ob_title ob) (control_canonical (f_control f)) \<or>
      str_contains (ob_title ob) (c_id (f_control f))) obs)"
  have mem: "ob_uuid ob \<in> set rel" using assms(1) cont by (auto simp: rel_def)
  then have "rel \<noteq> []" by auto
  then have "related_observations obs f = rel" by (simp add: related_observations_alt Let_def flip: rel_def)
  with mem show ?thesis by simp
qed

lemma findings_related_by_text_witness:
  fixes f
  defines "f \<equiv> \<lparr>f_id = [], f_subject = example_subject, f_control = control ''nist'' ''AC-1'', f_severity = [], f_title = [],
    f_description = [], f_discovered_at = 0, f_evidence_refs = []\<rparr>"
  shows "\<forall>ob\<in>set (pj_observations (projected example_uuid [example_evaluation ''AC-10''])).
    ob_uuid ob \<in> set (related_observations (pj_observations (projected example_uuid [example_evaluation ''AC-10''])) f)"
proof
  fix ob assume ob: "ob \<in> set (pj_observations (projected example_uuid [example_evaluation ''AC-10'']))"
  then have "ob_title ob \<in> set (map ob_title (pj_observations (projected example_uuid [example_evaluation ''AC-10''])))" by simp
  then have "ob_title ob = ''Observation for '' @ control_canonical (control ''nist'' ''AC-10'')"
    unfolding conjunct2[OF projected_ok[OF inj_example_uuid]] by (simp add: example_evaluation_def)
  from findings_related_by_text[OF ob this, of f]
  show "ob_uuid ob \<in> set (related_observations (pj_observations (projected example_uuid [example_evaluation ''AC-10''])) f)"
    by (simp add: f_def control_canonical_def has_prefix_def)
qed

end
