(* ===== verification/Validator.thy ===== *)
theory Validator
  imports Projector
begin

text \<open>
  internal/projection/oscal/validator.go: detecting the type of a document, normalising the name of a
  type, and validating against the embedded schemas.

  The parsers of texts (encoding/json for a whole text and for its first value, the YAML converter)
  are the fields of a codec; the compiler of schemas and the schemas are arguments too. A schema
  accepts a value or answers with an error, a tree in the case of a validation error. Reading the
  first value of an empty text is the end of the input.
\<close>

section \<open>Document types\<close>

datatype doc_type = AssessmentResults | ComponentDefinition | SecurityPlan | AssessmentPlan | ActionPlan

fun doc_type_string :: "doc_type \<Rightarrow> string" where
  "doc_type_string AssessmentResults = ''assessment-results''"
| "doc_type_string ComponentDefinition = ''component-definition''"
| "doc_type_string SecurityPlan = ''system-security-plan''"
| "doc_type_string AssessmentPlan = ''assessment-plan''"
| "doc_type_string ActionPlan = ''plan-of-action-and-milestones''"

fun schema_file :: "doc_type \<Rightarrow> string" where
  "schema_file AssessmentResults = ''schemas/oscal_assessment-results_schema.json''"
| "schema_file ComponentDefinition = ''schemas/oscal_component_schema.json''"
| "schema_file SecurityPlan = ''schemas/oscal_ssp_schema.json''"
| "schema_file AssessmentPlan = ''schemas/oscal_assessment-plan_schema.json''"
| "schema_file ActionPlan = ''schemas/oscal_poam_schema.json''"

definition normalize_document_type :: "string \<Rightarrow> doc_type result" where
  "normalize_document_type raw =
     (let norm = replace_char CHR ''_'' CHR ''-'' (to_lower (trim_space raw))
      in if norm \<in> set [''assessment-results'', ''ar''] then Ok AssessmentResults
         else if norm \<in> set [''component-definition'', ''component'', ''cd''] then Ok ComponentDefinition
         else if norm \<in> set [''system-security-plan'', ''ssp''] then Ok SecurityPlan
         else if norm \<in> set [''assessment-plan'', ''ap''] then Ok AssessmentPlan
         else if norm \<in> set [''plan-of-action-and-milestones'', ''poam''] then Ok ActionPlan
         else Err (''unknown OSCAL document type: '' @ raw @
           '' (supported: assessment-results, component-definition, ssp, assessment-plan, poam)''))"

section \<open>Detection\<close>

record codec =
  cx_unmarshal :: "string \<Rightarrow> json result"
  cx_decode :: "string \<Rightarrow> json result option"
  cx_yaml :: "string \<Rightarrow> string result"

definition to_json_text :: "codec \<Rightarrow> string \<Rightarrow> string result" where
  "to_json_text cx data =
     (case trim_space data of
        [] \<Rightarrow> Err ''empty document payload''
      | c # _ \<Rightarrow>
          if c \<noteq> CHR ''{''
          then (case cx_yaml cx data of Inl e \<Rightarrow> Err (''failed to convert YAML to JSON: '' @ e) | Inr converted \<Rightarrow> Ok converted)
          else Ok data)"

definition unmarshal_map :: "codec \<Rightarrow> string \<Rightarrow> json result" where
  "unmarshal_map cx data =
     (case cx_unmarshal cx data of
        Inr (JObj fs) \<Rightarrow> Ok (JObj fs)
      | Inr JNull \<Rightarrow> Ok (JObj [])
      | Inr _ \<Rightarrow> Err ''cannot unmarshal into a map''
      | Inl e \<Rightarrow> Err e)"

definition root_type :: "json \<Rightarrow> doc_type option" where
  "root_type root =
     (if json_field root ''assessment-results'' \<noteq> None then Some AssessmentResults
      else if json_field root ''component-definition'' \<noteq> None then Some ComponentDefinition
      else if json_field root ''system-security-plan'' \<noteq> None then Some SecurityPlan
      else if json_field root ''assessment-plan'' \<noteq> None then Some AssessmentPlan
      else if json_field root ''plan-of-action-and-milestones'' \<noteq> None then Some ActionPlan
      else None)"

definition detect_document_type :: "codec \<Rightarrow> string \<Rightarrow> (doc_type \<times> string) result" where
  "detect_document_type cx data =
     (case to_json_text cx data of
        Inl e \<Rightarrow> Err e
      | Inr json_data \<Rightarrow>
          (case unmarshal_map cx json_data of
             Inl e \<Rightarrow> Err (''failed to parse JSON structure: '' @ e)
           | Inr root \<Rightarrow>
               (case root_type root of
                  Some t \<Rightarrow> Ok (t, json_data)
                | None \<Rightarrow> Err ''unrecognized OSCAL root document element'')))"

section \<open>Schemas\<close>

datatype schema_error = SchemaError string string "schema_error list"

type_synonym schema = "json \<Rightarrow> (string + schema_error) option"

fun collect_errors :: "schema_error \<Rightarrow> (string \<times> string) list" where
  "collect_errors (SchemaError loc msg causes) =
     (if causes = []
      then [(if loc = [] then ''/'' else loc, if msg = [] then ''validation constraint violated'' else msg)]
      else concat (map collect_errors causes))"

definition extract_errors :: "string + schema_error \<Rightarrow> (string \<times> string) list" where
  "extract_errors err =
     (case err of
        Inl msg \<Rightarrow> [(''/'', msg)]
      | Inr ve \<Rightarrow>
          let errs = collect_errors ve
          in if errs = [] then (case ve of SchemaError loc msg _ \<Rightarrow> [(loc, msg)]) else errs)"

type_synonym validator = "doc_type \<rightharpoonup> schema"

text \<open>The range loop meets the types in the order ts; the base name of a file follows its last slash.\<close>

definition base_name :: "string \<Rightarrow> string" where
  "base_name f = last (split_on CHR ''/'' f)"

definition compile_schema ::
  "(string \<Rightarrow> string result) \<Rightarrow> (string \<Rightarrow> string \<Rightarrow> 'c result) \<Rightarrow> ('c \<Rightarrow> string \<Rightarrow> schema result) \<Rightarrow> doc_type \<Rightarrow> schema result" where
  "compile_schema read add compile t =
     (case read (schema_file t) of
        Inl e \<Rightarrow> Err (''failed to read embedded schema '' @ schema_file t @ '': '' @ e)
      | Inr content \<Rightarrow>
          (case add (base_name (schema_file t)) content of
             Inl e \<Rightarrow> Err (''failed to add schema resource '' @ base_name (schema_file t) @ '': '' @ e)
           | Inr compiler \<Rightarrow>
               (case compile compiler (base_name (schema_file t)) of
                  Inl e \<Rightarrow> Err (''failed to compile schema '' @ base_name (schema_file t) @ '': '' @ e)
                | Inr sch \<Rightarrow> Ok sch)))"

fun compile_all ::
  "(string \<Rightarrow> string result) \<Rightarrow> (string \<Rightarrow> string \<Rightarrow> 'c result) \<Rightarrow> ('c \<Rightarrow> string \<Rightarrow> schema result) \<Rightarrow> doc_type list \<Rightarrow>
     validator \<Rightarrow> validator result" where
  "compile_all read add compile [] v = Ok v"
| "compile_all read add compile (t # ts) v =
     (case compile_schema read add compile t of
        Inl e \<Rightarrow> Err e
      | Inr sch \<Rightarrow> compile_all read add compile ts (v(t \<mapsto> sch)))"

definition new_validator ::
  "(string \<Rightarrow> string result) \<Rightarrow> (string \<Rightarrow> string \<Rightarrow> 'c result) \<Rightarrow> ('c \<Rightarrow> string \<Rightarrow> schema result) \<Rightarrow> doc_type list \<Rightarrow>
     validator result" where
  "new_validator read add compile ts = compile_all read add compile ts Map.empty"

text \<open>The shared validator: whether it was initialised, and the validator if that succeeded. A
  caller gets the pointer, which is nil when there is none.\<close>

type_synonym shared_validator = "bool \<times> validator option"

definition default_validator :: "validator result \<Rightarrow> shared_validator \<Rightarrow> shared_validator \<times> validator option result" where
  "default_validator compiled st =
     (case st of (initialised, v) \<Rightarrow>
        if initialised then (st, Ok v)
        else case compiled of
            Inl e \<Rightarrow> ((True, v), Err e)
          | Inr w \<Rightarrow> ((True, Some w), Ok (Some w)))"

section \<open>Validation\<close>

record report =
  vr_valid :: bool
  vr_type :: doc_type
  vr_version :: string
  vr_duration :: duration
  vr_errors :: "(string \<times> string) list"

definition extract_oscal_version :: "json \<Rightarrow> doc_type \<Rightarrow> string" where
  "extract_oscal_version v t =
     (case json_field v (doc_type_string t) of
        Some doc \<Rightarrow>
          (case json_field doc ''metadata'' of
             Some meta \<Rightarrow> (case json_string (json_field meta ''oscal-version'') of Some ver \<Rightarrow> ver | None \<Rightarrow> [])
           | None \<Rightarrow> [])
      | None \<Rightarrow> [])"

definition validation_target :: "codec \<Rightarrow> string \<Rightarrow> string \<Rightarrow> (doc_type \<times> string) result" where
  "validation_target cx data override =
     (if override \<noteq> [] \<and> to_lower override \<noteq> ''auto''
      then (case normalize_document_type override of
          Inl e \<Rightarrow> Err e
        | Inr t \<Rightarrow> (case to_json_text cx data of Inl e \<Rightarrow> Err e | Inr json_data \<Rightarrow> Ok (t, json_data)))
      else detect_document_type cx data)"

definition validate :: "codec \<Rightarrow> validator \<Rightarrow> duration \<Rightarrow> string \<Rightarrow> string \<Rightarrow> report result" where
  "validate cx v elapsed data override =
     (case validation_target cx data override of
        Inl e \<Rightarrow> Err e
      | Inr (t, json_data) \<Rightarrow>
          (case v t of
             None \<Rightarrow> Err (''no compiled schema available for document type: '' @ doc_type_string t)
           | Some sch \<Rightarrow>
               (case cx_decode cx json_data of
                  Some (Inl e) \<Rightarrow> Err (''failed to decode JSON for validation: '' @ e)
                | decoded \<Rightarrow>
                    let parsed = (case decoded of Some (Inr j) \<Rightarrow> j | _ \<Rightarrow> JNull);
                        outcome = sch parsed
                    in Ok \<lparr>vr_valid = (outcome = None), vr_type = t, vr_version = extract_oscal_version parsed t,
                           vr_duration = elapsed,
                           vr_errors = (case outcome of None \<Rightarrow> [] | Some err \<Rightarrow> extract_errors err)\<rparr>)))"

text \<open>Validate on a pointer: a nil validator is used, and panics, once the target is known.\<close>

definition validate_ptr :: "codec \<Rightarrow> validator option \<Rightarrow> duration \<Rightarrow> string \<Rightarrow> string \<Rightarrow> report result option" where
  "validate_ptr cx vp elapsed data override =
     (case validation_target cx data override of
        Inl e \<Rightarrow> Some (Err e)
      | Inr _ \<Rightarrow> (case vp of None \<Rightarrow> None | Some v \<Rightarrow> Some (validate cx v elapsed data override)))"

lemma validate_ptr_some [simp]: "validate_ptr cx (Some v) elapsed data override = Some (validate cx v elapsed data override)"
  by (simp add: validate_ptr_def validate_def split: sum.split)

lemma validate_ptr_ok:
  "validate_ptr cx vp elapsed data override = Some (Ok r) \<longleftrightarrow> (\<exists>v. vp = Some v \<and> validate cx v elapsed data override = Ok r)"
  by (cases vp) (auto simp: validate_ptr_def validate_def split: sum.split)

section \<open>Errors and types\<close>

lemma collect_errors_nonempty: "collect_errors ve \<noteq> []"
proof (induction ve rule: collect_errors.induct)
  case (1 loc msg causes)
  then show ?case by (cases causes) auto
qed

lemma extract_errors_nonempty: "extract_errors err \<noteq> []"
  using collect_errors_nonempty by (auto simp: extract_errors_def Let_def split: sum.split)

lemma normalize_doc_type_string [simp]: "normalize_document_type (doc_type_string t) = Ok t"
  by (cases t; simp; code_simp)

lemma normalize_needs_name: "normalize_document_type raw = Ok t \<Longrightarrow> raw \<noteq> [] \<and> to_lower raw \<noteq> ''auto''"
proof
  assume ok: "normalize_document_type raw = Ok t"
  then show "raw \<noteq> []"
    by (auto simp: normalize_document_type_def trim_space_def to_lower_def replace_char_def Let_def)
  show "to_lower raw \<noteq> ''auto''"
  proof
    assume auto: "to_lower raw = ''auto''"
    have "to_lower (trim_space raw) = ''auto''"
      unfolding trim_space_lower[symmetric] auto by (simp add: trim_space_def is_space_def)
    with ok show False by (simp add: normalize_document_type_def replace_char_def Let_def)
  qed
qed

section \<open>Lemmas on schemas and targets\<close>

lemma collect_errors_texts: "pm \<in> set (collect_errors ve) \<Longrightarrow> fst pm \<noteq> [] \<and> snd pm \<noteq> []"
  by (induction ve rule: collect_errors.induct) (auto split: if_splits)

lemma compile_all_ok:
  "compile_all read add compile ts v = Ok w \<longleftrightarrow>
     (\<forall>t\<in>set ts. is_ok (compile_schema read add compile t)) \<and>
     w = (\<lambda>t. if t \<in> set ts then Some (projr (compile_schema read add compile t)) else v t)"
proof (induction ts arbitrary: v)
  case (Cons t ts)
  show ?case
  proof (cases "compile_schema read add compile t")
    case (Inr sch)
    then have "(\<lambda>t'. if t' \<in> set ts then Some (projr (compile_schema read add compile t')) else (v(t \<mapsto> sch)) t') =
        (\<lambda>t'. if t' \<in> set (t # ts) then Some (projr (compile_schema read add compile t')) else v t')"
      by (auto simp: fun_eq_iff)
    with Inr show ?thesis by (simp add: Cons.IH)
  qed simp
qed auto

lemma detected_target:
  assumes "detect_document_type cx data = Ok (t, j)" and "normalize_document_type raw = Ok t"
  shows "validation_target cx data raw = Ok (t, j)"
proof -
  have "to_json_text cx data = Ok j"
    using assms(1) by (auto simp: detect_document_type_def split: sum.splits option.splits)
  then show ?thesis
    using assms(2) normalize_needs_name[OF assms(2)] by (simp add: validation_target_def)
qed

lemma auto_target: "validation_target cx data ''auto'' = detect_document_type cx data"
proof -
  have "to_lower ''auto'' = ''auto''" by code_simp
  then show ?thesis by (simp add: validation_target_def)
qed

section \<open>Projected documents\<close>

datatype document =
    DocResults assessment_results
  | DocComponents component_definition
  | DocPlan security_plan
  | DocAssessment assessment_plan
  | DocActions poam

fun document_json :: "document \<Rightarrow> json result" where
  "document_json (DocResults d) = json_assessment_results d"
| "document_json (DocComponents d) = json_component_definition d"
| "document_json (DocPlan d) = json_security_plan d"
| "document_json (DocAssessment d) = json_assessment_plan d"
| "document_json (DocActions d) = json_poam d"

fun document_type :: "document \<Rightarrow> doc_type" where
  "document_type (DocResults d) = AssessmentResults"
| "document_type (DocComponents d) = ComponentDefinition"
| "document_type (DocPlan d) = SecurityPlan"
| "document_type (DocAssessment d) = AssessmentPlan"
| "document_type (DocActions d) = ActionPlan"

fun document_metadata :: "document \<Rightarrow> metadata" where
  "document_metadata (DocResults d) = ar_metadata d"
| "document_metadata (DocComponents d) = cd_metadata d"
| "document_metadata (DocPlan d) = sp_metadata d"
| "document_metadata (DocAssessment d) = pl_metadata d"
| "document_metadata (DocActions d) = pm_metadata d"

lemma json_times_ok: "json_times ts j = Ok k \<Longrightarrow> k = j"
  by (simp add: json_times_def split: if_splits)

lemma document_json_type:
  assumes "document_json d = Ok j"
  shows "root_type j = Some (document_type d) \<and> (\<exists>fs. j = JObj fs) \<and>
    extract_oscal_version j (document_type d) = md_oscal_version (document_metadata d)"
proof (cases d)
  case (DocResults x)
  with assms have "json_assessment_results x = Ok j" by simp
  from json_times_ok[OF this[unfolded json_assessment_results_def]]
  show ?thesis by (simp add: DocResults root_type_def extract_oscal_version_def json_metadata_def opt_ptr_def opt_slice_def
      split: option.split)
next
  case (DocComponents x)
  with assms have "json_component_definition x = Ok j" by simp
  from json_times_ok[OF this[unfolded json_component_definition_def]]
  show ?thesis by (simp add: DocComponents root_type_def extract_oscal_version_def json_metadata_def opt_ptr_def opt_slice_def
      split: option.split)
next
  case (DocPlan x)
  with assms have "json_security_plan x = Ok j" by simp
  from json_times_ok[OF this[unfolded json_security_plan_def]]
  show ?thesis by (simp add: DocPlan root_type_def extract_oscal_version_def json_metadata_def opt_ptr_def opt_slice_def
      split: option.split)
next
  case (DocAssessment x)
  with assms have "json_assessment_plan x = Ok j" by simp
  from json_times_ok[OF this[unfolded json_assessment_plan_def]]
  show ?thesis by (simp add: DocAssessment root_type_def extract_oscal_version_def json_metadata_def opt_ptr_def opt_slice_def
      split: option.split)
next
  case (DocActions x)
  with assms have "json_poam x = Ok j" by simp
  from json_times_ok[OF this[unfolded json_poam_def]]
  show ?thesis by (simp add: DocActions root_type_def extract_oscal_version_def json_metadata_def opt_ptr_def opt_slice_def
      split: option.split)
qed

lemma document_detected:
  assumes "document_json d = Ok j" and "cx_unmarshal cx data = Ok j" and "trim_space data = CHR 0x7B # rest"
  shows "detect_document_type cx data = Ok (document_type d, data)"
proof -
  obtain fs where "j = JObj fs" "root_type j = Some (document_type d)" using document_json_type[OF assms(1)] by blast
  with assms show ?thesis by (simp add: detect_document_type_def to_json_text_def unmarshal_map_def)
qed

section \<open>Calls of the shared validator\<close>

fun shared_calls :: "validator result list \<Rightarrow> shared_validator \<Rightarrow> (shared_validator \<times> validator option result) list" where
  "shared_calls [] st = []"
| "shared_calls (c # cs) st = (let (st', out) = default_validator c st in (st', out) # shared_calls cs st')"

lemma shared_calls_done: "(st, out) \<in> set (shared_calls cs (True, v)) \<Longrightarrow> st = (True, v) \<and> out = Ok v"
  by (induction cs) (auto simp: default_validator_def)

lemma shared_calls_first:
  "\<forall>(st, out)\<in>set (drop 1 (shared_calls (c # cs) (False, None))).
     st = (True, case c of Inl _ \<Rightarrow> None | Inr w \<Rightarrow> Some w) \<and> out = Ok (case c of Inl _ \<Rightarrow> None | Inr w \<Rightarrow> Some w)"
  by (cases c) (auto simp: default_validator_def dest: shared_calls_done)

text \<open>A codec that reads every text as one value.\<close>

definition example_codec :: "json \<Rightarrow> codec" where
  "example_codec j = \<lparr>cx_unmarshal = \<lambda>_. Ok j, cx_decode = \<lambda>_. Some (Ok j), cx_yaml = Ok\<rparr>"

lemma example_brace: "trim_space ''{}'' = ''{}''"
  by (simp add: trim_space_def is_space_def)

lemma example_detected:
  "detect_document_type (example_codec (JObj [(''assessment-plan'', JNull)])) ''{}'' = Ok (AssessmentPlan, ''{}'')"
  by (simp add: detect_document_type_def to_json_text_def example_brace unmarshal_map_def root_type_def example_codec_def)

lemma example_decode: "cx_decode (example_codec j) data = Some (Ok j)"
  by (simp add: example_codec_def)

lemma example_spelling: "normalize_document_type '' Assessment_Plan'' = Ok AssessmentPlan"
  by code_simp

section \<open>Properties\<close>

text \<open>
  Further: naming the type of a document that the validator would have detected itself changes nothing: with an
  override that stands for the detected type, in any accepted spelling, the report is that of auto-detection.
\<close>

lemma override_agrees_with_detection:
  assumes "detect_document_type cx data = Ok (t, j)" and "normalize_document_type raw = Ok t"
  shows "validate cx v elapsed data raw = validate cx v elapsed data ''auto''"
  by (simp add: validate_def detected_target[OF assms] auto_target assms(1))

lemma override_agrees_with_detection_witness:
  "validate (example_codec (JObj [(''assessment-plan'', JNull)])) [AssessmentPlan \<mapsto> \<lambda>_. None] 0 ''{}'' '' Assessment_Plan'' =
   validate (example_codec (JObj [(''assessment-plan'', JNull)])) [AssessmentPlan \<mapsto> \<lambda>_. None] 0 ''{}'' ''auto''"
  by (rule override_agrees_with_detection[OF example_detected example_spelling])

text \<open>
  Further: a report is valid exactly when it has no errors, which is when the schema of the document's type accepts
  the document; every error it has names a place and a reason unless the schema's own answer is a bare message.
\<close>

lemma report_is_schema_answer:
  assumes "validate cx v elapsed data override = Ok r"
  shows "vr_valid r = (vr_errors r = []) \<and>
    (\<exists>json_data sch. validation_target cx data override = Ok (vr_type r, json_data) \<and> v (vr_type r) = Some sch \<and>
       (case sch (case cx_decode cx json_data of Some (Inr j) \<Rightarrow> j | _ \<Rightarrow> JNull) of
          None \<Rightarrow> vr_valid r
        | Some (Inl msg) \<Rightarrow> vr_errors r = [(''/'', msg)]
        | Some (Inr ve) \<Rightarrow> vr_errors r = collect_errors ve \<and> (\<forall>(p, m)\<in>set (vr_errors r). p \<noteq> [] \<and> m \<noteq> [])))"
proof -
  obtain t json_data sch where t: "validation_target cx data override = Ok (t, json_data)" "v t = Some sch"
    using assms by (auto simp: validate_def split: sum.splits option.splits)
  define parsed where "parsed = (case cx_decode cx json_data of Some (Inr j) \<Rightarrow> j | _ \<Rightarrow> JNull)"
  have r: "r = \<lparr>vr_valid = (sch parsed = None), vr_type = t, vr_version = extract_oscal_version parsed t,
      vr_duration = elapsed, vr_errors = (case sch parsed of None \<Rightarrow> [] | Some err \<Rightarrow> extract_errors err)\<rparr>"
    using assms t unfolding parsed_def validate_def by (simp add: Let_def split: option.splits sum.splits)
  have "vr_valid r = (vr_errors r = [])" by (simp add: r extract_errors_nonempty split: option.split)
  moreover have "case sch parsed of None \<Rightarrow> vr_valid r | Some (Inl msg) \<Rightarrow> vr_errors r = [(''/'', msg)]
      | Some (Inr ve) \<Rightarrow> vr_errors r = collect_errors ve \<and> (\<forall>(p, m)\<in>set (vr_errors r). p \<noteq> [] \<and> m \<noteq> [])"
    using collect_errors_texts
    by (fastforce simp: r extract_errors_def collect_errors_nonempty Let_def split: option.split sum.split)
  ultimately show ?thesis using t unfolding parsed_def by (simp add: r)
qed

lemma report_is_schema_answer_witness:
  "\<exists>r. validate (example_codec (JObj [(''assessment-plan'', JNull)]))
      [AssessmentPlan \<mapsto> \<lambda>_. Some (Inr (SchemaError '''' '''' []))] 0 ''{}'' ''auto'' = Ok r \<and> \<not> vr_valid r \<and>
    vr_errors r = [(''/'', ''validation constraint violated'')] \<and> vr_valid r = (vr_errors r = [])"
proof -
  let ?cx = "example_codec (JObj [(''assessment-plan'', JNull)])"
    and ?v = "[AssessmentPlan \<mapsto> \<lambda>_. Some (Inr (SchemaError '''' '''' []))]"
  obtain r where r: "validate ?cx ?v 0 ''{}'' ''auto'' = Ok r" "\<not> vr_valid r"
    "vr_errors r = [(''/'', ''validation constraint violated'')]"
    by (simp add: validate_def auto_target example_detected example_decode Let_def extract_errors_def)
  from r report_is_schema_answer[OF r(1)] show ?thesis by blast
qed

text \<open>
  Further: compiling the schemas does not depend on the order in which the range loop over the map of schema files
  meets them: in every order it succeeds or fails, and yields the same validator, which knows all five types.
\<close>

lemma validator_independent_of_order:
  assumes "new_validator read add compile ts = Ok w" and "set ts = UNIV" and "set ts' = UNIV"
  shows "new_validator read add compile ts' = Ok w \<and> dom w = UNIV"
  using assms unfolding new_validator_def compile_all_ok by (auto simp: dom_def)

lemma validator_independent_of_order_witness:
  "\<exists>w. new_validator Ok (\<lambda>name content. Ok name) (\<lambda>c name. Ok (\<lambda>_. None))
      [ActionPlan, AssessmentPlan, SecurityPlan, ComponentDefinition, AssessmentResults] = Ok w \<and> dom w = UNIV"
proof -
  have all: "set [AssessmentResults, ComponentDefinition, SecurityPlan, AssessmentPlan, ActionPlan] = UNIV"
    "set [ActionPlan, AssessmentPlan, SecurityPlan, ComponentDefinition, AssessmentResults] = UNIV"
    using doc_type.exhaust by auto
  obtain w where "new_validator Ok (\<lambda>name content. Ok name) (\<lambda>c name. Ok (\<lambda>_. None))
      [AssessmentResults, ComponentDefinition, SecurityPlan, AssessmentPlan, ActionPlan] = Ok w"
    by (simp add: new_validator_def compile_schema_def)
  from validator_independent_of_order[OF this all] show ?thesis by blast
qed

text \<open>
  Further: the shared validator is created by the first call: whatever later calls could compile, they hand out what
  the first one made, and when that failed they hand out nil without reporting an error.
\<close>

lemma shared_validator_is_first:
  "\<forall>(st, out)\<in>set (drop 1 (shared_calls (c # cs) (False, None))).
     st = (True, case c of Inl _ \<Rightarrow> None | Inr w \<Rightarrow> Some w) \<and> out = Ok (case c of Inl _ \<Rightarrow> None | Inr w \<Rightarrow> Some w)"
  by (rule shared_calls_first)

lemma shared_validator_is_first_witness:
  "shared_calls [Err ''no schema'', Ok Map.empty] (False, None) = [((True, None), Err ''no schema''), ((True, None), Ok None)]"
  using shared_validator_is_first[of "Err ''no schema''" "[Ok Map.empty]"] by (simp add: default_validator_def)

text \<open>
  C28: what the validator reports of a document that the projector made, of any of the five kinds. When the text of the
  document begins with a brace and the decoders read back what was encoded, it is detected as its kind; validated
  without an override, with auto, or with any accepted spelling of its kind, it gives the report that names this kind and the
  OSCAL version 1.2.3, is valid exactly when the schema for the kind accepts the document, and holds the errors of the
  schema otherwise; without a schema for its kind the validation fails.
\<close>

lemma projected_documents_validated:
  assumes "d \<in> {DocResults (project_assessment_results u ks now now' subject evals findings),
      DocComponents (project_component_definition u now name evals), DocPlan (project_ssp u now name evals),
      DocAssessment (project_assessment_plan u now subject c controls), DocActions (project_poam u now subject findings)}"
    and "document_json d = Ok j" and "cx_unmarshal cx data = Ok j" and "cx_decode cx data = Some (Ok j)"
    and "trim_space data = CHR 0x7B # rest"
    and "raw = [] \<or> raw = ''auto'' \<or> normalize_document_type raw = Ok (document_type d)"
  shows "detect_document_type cx data = Ok (document_type d, data) \<and>
    validate cx v elapsed data raw =
      (case v (document_type d) of
         None \<Rightarrow> Err (''no compiled schema available for document type: '' @ doc_type_string (document_type d))
       | Some sch \<Rightarrow> Ok \<lparr>vr_valid = (sch j = None), vr_type = document_type d, vr_version = ''1.2.3'', vr_duration = elapsed,
           vr_errors = (case sch j of None \<Rightarrow> [] | Some err \<Rightarrow> extract_errors err)\<rparr>)"
proof -
  have "md_oscal_version (document_metadata d) = ''1.2.3''"
    using assms(1)
    by (auto simp: project_assessment_results_def project_component_definition_def project_ssp_def
        project_assessment_plan_def project_poam_def oscal_metadata_def Let_def split: prod.split)
  then have version: "extract_oscal_version j (document_type d) = ''1.2.3''"
    using document_json_type[OF assms(2)] by simp
  have detected: "detect_document_type cx data = Ok (document_type d, data)"
    by (rule document_detected[OF assms(2,3,5)])
  then have "validation_target cx data raw = Ok (document_type d, data)"
    using assms(6) auto_target[of cx data] detected_target[OF detected, of raw] by (auto simp: validation_target_def)
  then show ?thesis using detected version assms(4) by (simp add: validate_def Let_def split: option.split)
qed

lemma projected_documents_validated_witness:
  "\<exists>j. document_json (DocActions (project_poam example_uuid 0 example_subject [])) = Ok j \<and>
     validate (example_codec j) [ActionPlan \<mapsto> \<lambda>_. Some (Inl ''no'')] 0 ''{}'' ''auto'' =
       Ok \<lparr>vr_valid = False, vr_type = ActionPlan, vr_version = ''1.2.3'', vr_duration = 0, vr_errors = [(''/'', ''no'')]\<rparr>"
proof -
  let ?p = "project_poam example_uuid 0 example_subject []"
  have "json_year 0" by code_simp
  then have "list_all json_year (metadata_times (pm_metadata ?p))"
    by (simp add: metadata_times_def project_poam_def oscal_metadata_def Let_def)
  then have "\<exists>j. json_poam ?p = Ok j" unfolding json_poam_def json_times_def by simp
  then obtain j where j: "document_json (DocActions ?p) = Ok j" unfolding document_json.simps ..
  have made: "DocActions ?p \<in> {DocResults (project_assessment_results example_uuid [] 0 0 example_subject [] []),
      DocComponents (project_component_definition example_uuid 0 [] []), DocPlan (project_ssp example_uuid 0 [] []),
      DocAssessment (project_assessment_plan example_uuid 0 example_subject undefined []),
      DocActions (project_poam example_uuid 0 example_subject [])}"
    by (intro insertI2 insertI1)
  have "validate (example_codec j) [document_type (DocActions ?p) \<mapsto> \<lambda>_. Some (Inl ''no'')] 0 ''{}'' ''auto'' =
       Ok \<lparr>vr_valid = False, vr_type = document_type (DocActions ?p), vr_version = ''1.2.3'', vr_duration = 0, vr_errors = [(''/'', ''no'')]\<rparr>"
    using projected_documents_validated[OF made j, of "example_codec j" "''{}''" _ "''auto''"
        "[document_type (DocActions ?p) \<mapsto> \<lambda>_. Some (Inl ''no'')]" 0] example_brace
    by (simp add: example_codec_def extract_errors_def)
  then show ?thesis unfolding document_type.simps using j by blast
qed

end
