(* ===== verification/Diagnostics.thy ===== *)
theory Diagnostics
  imports Validator Receipts
begin

text \<open>
  internal/application/diagnostics: doctor.go, the checks of the host and their overall verdict, and
  inspect.go, the report of the four traces of an evaluation. The host (environment, file system,
  socket, runtime) is an argument, as are the durations that the clock yields; the shared validator
  of Validator is threaded through, and a call on a nil validator is a panic, for which a check has
  no result.
\<close>

section \<open>Checks\<close>

datatype check_status = StatusPass | StatusWarn | StatusFail

record diagnostic_check =
  dk_name :: string
  dk_target :: string
  dk_status :: check_status
  dk_duration :: string
  dk_message :: string
  dk_remediation :: string

record doctor_report =
  dr_timestamp :: time
  dr_overall :: check_status
  dr_duration :: string
  dr_checks :: "diagnostic_check list"

text \<open>The micro sign, two bytes, becomes a letter.\<close>

fun ascii_micro :: "string \<Rightarrow> string" where
  "ascii_micro (a # b # s) = (if [a, b] = micro then CHR ''u'' # ascii_micro s else a # ascii_micro (b # s))"
| "ascii_micro s = s"

definition format_duration_ascii :: "duration \<Rightarrow> string" where
  "format_duration_ascii d = ascii_micro (duration_text d)"

datatype stat = Present | NotExist | StatError string

record host =
  h_substrate :: string
  h_env :: "string \<Rightarrow> string"
  h_home :: string
  h_stat :: "string \<Rightarrow> stat"
  h_dial :: "string \<Rightarrow> string option"
  h_mkdir :: "string \<Rightarrow> string option"
  h_write :: "string \<Rightarrow> string option"

definition check_runtime_substrate :: "host \<Rightarrow> duration \<Rightarrow> diagnostic_check" where
  "check_runtime_substrate h el =
     \<lparr>dk_name = ''Runtime Substrate'', dk_target = ''OS / Kernel / Process'', dk_status = StatusPass,
      dk_duration = format_duration_ascii el, dk_message = h_substrate h, dk_remediation = []\<rparr>"

definition probe_subject :: subject_ref where
  "probe_subject = \<lparr>s_scheme = ''k8s'', s_id = ''system/doctor-probe'', s_attributes = []\<rparr>"

definition probe_evaluation :: "time \<Rightarrow> claim_evaluation" where
  "probe_evaluation now =
     \<lparr>ce_id = ''eval-probe'', ce_control = \<lparr>c_namespace = ''nist-sp-800-53'', c_id = ''AC-6'', c_version = []\<rparr>,
      ce_subject = probe_subject, ce_state = Assured, ce_vector = zero_vector,
      ce_epoch = empty_epoch\<lparr>subject_digest := compute_string_digest (subject_uri probe_subject)\<rparr>,
      ce_evidence = [\<lparr>e_uri = ''file:///tmp/probe.json'', e_digest = compute_string_digest ''probe'',
        e_media_type = ''application/json''\<rparr>],
      ce_completeness = zero_completeness\<lparr>k_required := 1, k_verified := 1\<rparr>,
      ce_evidence_root = compute_string_digest ''probe-root'', ce_evaluated_at = now,
      ce_valid_until = now + 5 * minute, ce_trace = []\<rparr>"

text \<open>The encoder writes a JSON value as text.\<close>

record probe =
  pb_uuids :: "nat \<Rightarrow> string"
  pb_now :: time
  pb_probe_now :: time
  pb_encode :: "json \<Rightarrow> string"
  pb_codec :: codec

definition probe_document :: "probe \<Rightarrow> json result" where
  "probe_document pb =
     json_assessment_results (project_assessment_results (pb_uuids pb) [compute_string_digest ''probe''] (pb_now pb) (pb_now pb)
       probe_subject [probe_evaluation (pb_probe_now pb)] [])"

definition schema_failure :: "string \<Rightarrow> string \<Rightarrow> string \<Rightarrow> duration \<Rightarrow> diagnostic_check" where
  "schema_failure target msg remedy el =
     \<lparr>dk_name = ''NIST OSCAL v1.2.3 Schemas'', dk_target = target, dk_status = StatusFail,
      dk_duration = format_duration_ascii el, dk_message = msg, dk_remediation = remedy\<rparr>"

definition check_oscal_schemas :: "probe \<Rightarrow> validator option result \<Rightarrow> duration \<Rightarrow> diagnostic_check option" where
  "check_oscal_schemas pb shared el =
     (case shared of
        Inl e \<Rightarrow> Some (schema_failure ''Embedded JSON Schemas (AR, CD, SSP, AP, POAM)''
          (''Failed to initialize and compile schemas: '' @ e)
          ''Verify internal/projection/oscal/schemas/ assets are present and valid JSON'' el)
      | Inr vp \<Rightarrow>
          (case probe_document pb of
             Inl e \<Rightarrow> Some (schema_failure ''Embedded JSON Schemas'' (''Failed to project probe document: '' @ e)
               ''Check projector implementation'' el)
           | Inr j \<Rightarrow>
               let broken = schema_failure ''Embedded JSON Schemas'' ''Schema validator failed basic self-test''
                     ''Ensure schemas conform strictly to NIST OSCAL v1.2.3 specification'' el
               in (case validate_ptr (pb_codec pb) vp el (pb_encode pb j) ''assessment-results'' of
                     None \<Rightarrow> None
                   | Some (Inl _) \<Rightarrow> Some broken
                   | Some (Inr r) \<Rightarrow>
                       if \<not> vr_valid r then Some broken
                       else Some \<lparr>dk_name = ''NIST OSCAL v1.2.3 Schemas'',
                         dk_target = ''Embedded JSON Schemas (AR, CD, SSP, AP, POAM)'', dk_status = StatusPass,
                         dk_duration = format_duration_ascii el,
                         dk_message = ''All 5 NIST OSCAL v1.2.3 JSON schemas compiled and verified (sub-millisecond ready)'',
                         dk_remediation = []\<rparr>)))"

definition check_evidence_storage :: "host \<Rightarrow> string \<Rightarrow> duration \<Rightarrow> diagnostic_check" where
  "check_evidence_storage h dir el =
     (let check = (\<lambda>target st msg remedy. \<lparr>dk_name = ''Content-Addressable Storage (CAS)'', dk_target = target,
            dk_status = st, dk_duration = format_duration_ascii el, dk_message = msg, dk_remediation = remedy\<rparr>)
      in if dir = [] then check ''Local Evidence Store'' StatusWarn
              ''No evidence directory configured (--evidence-dir not specified)''
              ''Set --evidence-dir to enable local forensic evidence envelope persistence''
         else case h_mkdir h dir of
             Some e \<Rightarrow> check dir StatusFail (''Cannot create evidence directory: '' @ e)
               ''Check filesystem write permissions for evidence directory''
           | None \<Rightarrow>
               (case h_write h (join_str ''/'' [dir, ''.oskal-doctor-probe'']) of
                  Some e \<Rightarrow> check dir StatusFail (''Directory not writable: '' @ e)
                    ''Ensure user has write permissions to evidence directory''
                | None \<Rightarrow> check dir StatusPass
                    ''Evidence directory writable and verified for content-addressable storage'' []))"

definition spiffe_socket :: "host \<Rightarrow> string" where
  "spiffe_socket h =
     (if h_env h ''SPIFFE_ENDPOINT_SOCKET'' = [] then ''/tmp/spire-agent/public/api.sock'' else h_env h ''SPIFFE_ENDPOINT_SOCKET'')"

definition check_spiffe_workload_api :: "host \<Rightarrow> duration \<Rightarrow> diagnostic_check" where
  "check_spiffe_workload_api h el =
     (let path = spiffe_socket h;
          check = (\<lambda>st msg remedy. \<lparr>dk_name = ''SPIFFE / SPIRE Workload API'', dk_target = path, dk_status = st,
            dk_duration = format_duration_ascii el, dk_message = msg, dk_remediation = remedy\<rparr>)
      in if h_stat h path = NotExist
         then check StatusWarn (''SPIFFE Workload API socket not found at '' @ path)
           ''Ensure SPIRE agent DaemonSet is running and exposes SPIFFE_ENDPOINT_SOCKET''
         else case h_dial h path of
             Some e \<Rightarrow> check StatusWarn (''Socket exists but connection refused: '' @ e)
               ''Check SPIRE agent service status and unix permissions''
           | None \<Rightarrow> check StatusPass ''Connected to SPIFFE Workload API socket'' [])"

definition check_sigstore_infrastructure :: "host \<Rightarrow> duration \<Rightarrow> diagnostic_check" where
  "check_sigstore_infrastructure h el =
     (let root = h_env h ''TUF_ROOT'';
          check = (\<lambda>target msg. \<lparr>dk_name = ''Sigstore / Supply-Chain Attestation'', dk_target = target, dk_status = StatusPass,
            dk_duration = format_duration_ascii el, dk_message = msg, dk_remediation = []\<rparr>)
      in if root = [] then check ''TUF Root / Rekor / Fulcio'' ''Public Sigstore trust root active (standard transparency logging)''
         else check (''Private TUF Root: '' @ root) ''Private air-gapped TUF root configured'')"

definition kubeconfig :: "host \<Rightarrow> string" where
  "kubeconfig h =
     (if h_env h ''KUBECONFIG'' = [] then join_str ''/'' [h_home h, ''.kube'', ''config''] else h_env h ''KUBECONFIG'')"

definition in_cluster_token :: string where
  "in_cluster_token = ''/var/run/secrets/kubernetes.io/serviceaccount/token''"

definition check_kubernetes_connectivity :: "host \<Rightarrow> duration \<Rightarrow> diagnostic_check" where
  "check_kubernetes_connectivity h el =
     (let check = (\<lambda>target st msg remedy. \<lparr>dk_name = ''Kubernetes Control Plane'', dk_target = target, dk_status = st,
            dk_duration = format_duration_ascii el, dk_message = msg, dk_remediation = remedy\<rparr>)
      in if h_stat h in_cluster_token = Present
         then check ''In-Cluster ServiceAccount'' StatusPass ''Authenticated via in-cluster ServiceAccount token'' []
         else if h_stat h (kubeconfig h) = NotExist
         then check (kubeconfig h) StatusWarn ''No active kubeconfig found (local/offline mode)''
           ''Configure KUBECONFIG or run inside a Kubernetes cluster with proper RBAC''
         else check (kubeconfig h) StatusPass (''Found valid kubeconfig at '' @ kubeconfig h) [])"

section \<open>The doctor\<close>

fun scan_checks :: "diagnostic_check list \<Rightarrow> bool \<Rightarrow> bool \<Rightarrow> check_status" where
  "scan_checks [] has_fail has_warn = (if has_fail then StatusFail else if has_warn then StatusWarn else StatusPass)"
| "scan_checks (c # cs) has_fail has_warn =
     (case dk_status c of
        StatusFail \<Rightarrow> scan_checks cs True has_warn
      | StatusWarn \<Rightarrow> scan_checks cs has_fail True
      | StatusPass \<Rightarrow> scan_checks cs has_fail has_warn)"

text \<open>One run: the shared validator afterwards, and the report unless the run panics.\<close>

definition run_doctor ::
  "host \<Rightarrow> probe \<Rightarrow> (nat \<Rightarrow> duration) \<Rightarrow> time \<Rightarrow> validator result \<Rightarrow> string \<Rightarrow> shared_validator \<Rightarrow>
     shared_validator \<times> doctor_report option" where
  "run_doctor h pb el start compiled dir st =
     (case default_validator compiled st of
        (st', shared) \<Rightarrow>
          (st', case check_oscal_schemas pb shared (el 1) of
             None \<Rightarrow> None
           | Some schemas \<Rightarrow>
               let checks = [check_runtime_substrate h (el 0), schemas, check_evidence_storage h dir (el 2),
                     check_spiffe_workload_api h (el 3), check_sigstore_infrastructure h (el 4),
                     check_kubernetes_connectivity h (el 5)]
               in Some \<lparr>dr_timestamp = start, dr_overall = scan_checks checks False False,
                        dr_duration = format_duration_ascii (el 6), dr_checks = checks\<rparr>))"

section \<open>Inspection\<close>

record telemetry_trace =
  tt_evaluation_duration :: string
  tt_fetch_time :: string
  tt_rule_time :: string
  tt_memory_kb :: int
  tt_cache_hit :: bool

record execution_step =
  es_order :: int
  es_stage :: string
  es_action :: string
  es_outcome :: string

record execution_trace =
  xt_path_id :: string
  xt_steps :: "execution_step list"

record decision_trace =
  dt_control_id :: string
  dt_policy_digest :: string
  dt_effective_policy :: string
  dt_disposition :: string
  dt_obligations :: "string list"
  dt_inputs :: smap
  dt_rationale :: string

record evidence_item =
  it_envelope_id :: string
  it_type :: string
  it_digest :: string
  it_producer :: string
  it_timestamp :: string
  it_freshness :: string

record evidence_trace =
  et_root :: string
  et_signer :: string
  et_artifacts :: "evidence_item list"
  et_merkle_valid :: bool
  et_lineage_verified :: bool

record remediation_action =
  ra_control :: string
  ra_disposition :: string
  ra_missing :: "string list"
  ra_command :: string
  ra_explanation :: string

record inspection_report =
  ir_subject :: string
  ir_state :: string
  ir_timestamp :: time
  ir_telemetry :: telemetry_trace
  ir_execution :: execution_trace
  ir_decision :: decision_trace
  ir_evidence :: evidence_trace
  ir_remediation :: "remediation_action option"

definition execution_steps :: "claim_evaluation \<Rightarrow> envelope list \<Rightarrow> execution_step list" where
  "execution_steps eval envs =
     [\<lparr>es_order = 1, es_stage = ''Ingestion'', es_action = ''Resolve subject reference'', es_outcome = ''RESOLVED''\<rparr>,
      \<lparr>es_order = 2, es_stage = ''EvidenceGathering'',
       es_action = ''Query CAS repository ('' @ show_nat (length envs) @ '' envelopes)'', es_outcome = ''COMPLETED''\<rparr>,
      \<lparr>es_order = 3, es_stage = ''CryptographicVerification'',
       es_action = ''Verify Merkle root & producer SPIFFE identities'', es_outcome = ''VERIFIED''\<rparr>,
      \<lparr>es_order = 4, es_stage = ''PolicyEvaluation'',
       es_action = ''Evaluate CEL contract for '' @ c_id (ce_control eval), es_outcome = ''EVALUATED''\<rparr>,
      \<lparr>es_order = 5, es_stage = ''StateTransition'', es_action = ''Compute 6D Vector State transition'',
       es_outcome = state_string (ce_state eval)\<rparr>,
      \<lparr>es_order = 6, es_stage = ''ReceiptGeneration'',
       es_action = ''Emit signed in-toto receipt & Merkle attestation'', es_outcome = ''EMITTED''\<rparr>]"

definition disposition :: "astate \<Rightarrow> string \<times> string" where
  "disposition st =
     (if st = Unknown then (''SAFE_HOLD'',
        ''Absence of verified evidence (Section 15: EMPTY != NEGATIVE, but requires SAFE_HOLD).'')
      else if st = Failed then (''DENY'', ''Non-conformant evaluation or anti-invariant violation.'')
      else if st = Stale then (''ADMIT_WITH_OBLIGATIONS'',
        ''Operating on stale evidence; obligation to refresh evidence emitted.'')
      else (''ADMIT'', ''All evidence requirements satisfied with valid cryptographic proofs.''))"

definition inspected_item :: "time \<Rightarrow> envelope \<Rightarrow> evidence_item" where
  "inspected_item now env =
     \<lparr>it_envelope_id = ev_id env, it_type = ev_observation_type env, it_digest = e_digest (ev_artifact env),
      it_producer = authority_canonical (ev_producer env), it_timestamp = rfc3339 (ev_captured_at env),
      it_freshness = (if time_sub now (ev_captured_at env) > 15 * minute then ''STALE'' else ''FRESH'')\<rparr>"

definition remediation :: "claim_evaluation \<Rightarrow> remediation_action option" where
  "remediation eval =
     (let ctrl = (if c_id (ce_control eval) = [] then ''AC-6'' else c_id (ce_control eval))
      in if ce_state eval = Unknown then Some
           \<lparr>ra_control = ctrl, ra_disposition = ''SAFE_HOLD'',
            ra_missing = [''kubernetes.admission evidence'', ''runtime.ebpf telemetry'', ''spiffe.svid identity''],
            ra_command = ''oskal record admission --file <manifest.yaml> OR deploy ckodex-webhook to cluster'',
            ra_explanation = ''Subject is in SAFE_HOLD because no verified evidence envelopes exist in CAS (EMPTY != NEGATIVE). '' @
              ''Ingest observations to transition out of UNKNOWN.''\<rparr>
         else if ce_state eval = Failed then Some
           \<lparr>ra_control = ctrl, ra_disposition = ''DENY'',
            ra_missing = [''non-root securityContext'', ''dropped capabilities (CAP_SYS_ADMIN, CAP_NET_ADMIN)''],
            ra_command = ''Update pod spec: set securityContext.runAsNonRoot=true and drop privileged capabilities'',
            ra_explanation = ''Subject violated non-negotiable security invariant (Invariant I-01). Resource execution is blocked.''\<rparr>
         else if ce_state eval = Stale then Some
           \<lparr>ra_control = ctrl, ra_disposition = ''ADMIT_WITH_OBLIGATIONS'',
            ra_missing = [''fresh evidence within 15-minute validity epoch''],
            ra_command = ''oskal daemon sync OR trigger observer refresh for subject'',
            ra_explanation = ''Existing evidence is older than maximum freshness window. Refresh required to maintain assurance standing.''\<rparr>
         else None)"

definition inspected_evidence :: "time \<Rightarrow> claim_evaluation \<Rightarrow> envelope list \<Rightarrow> evidence_trace" where
  "inspected_evidence now eval envs =
     \<lparr>et_root = (if ce_evidence_root eval = [] \<and> envs \<noteq> [] then compute_evidence_root (map ev_artifact envs)
        else ce_evidence_root eval),
      et_signer = (case envs of [] \<Rightarrow> ''spiffe://assurance.ckodex.io/server'' | env # _ \<Rightarrow> authority_canonical (ev_producer env)),
      et_artifacts = map (inspected_item now) envs, et_merkle_valid = (envs \<noteq> []), et_lineage_verified = True\<rparr>"

definition inspect_subject ::
  "time \<Rightarrow> duration \<Rightarrow> subject_ref \<Rightarrow> claim_evaluation \<Rightarrow> envelope list \<Rightarrow> inspection_report" where
  "inspect_subject now el subject eval envs =
     (let cid = c_id (ce_control eval); pol = policy_digest (ce_epoch eval)
      in \<lparr>ir_subject = subject_uri subject, ir_state = state_string (ce_state eval), ir_timestamp = now,
          ir_telemetry = \<lparr>tt_evaluation_duration = format_duration_ascii el, tt_fetch_time = ''150us'',
            tt_rule_time = ''180us'', tt_memory_kb = 32, tt_cache_hit = (envs \<noteq> [])\<rparr>,
          ir_execution = \<lparr>xt_path_id = ''trace-'' @ cid @ ''-'' @ show_int (unix_nano now),
            xt_steps = execution_steps eval envs\<rparr>,
          ir_decision = \<lparr>dt_control_id = cid, dt_policy_digest = pol, dt_effective_policy = ''cel:policy:'' @ cid @ '':v1'',
            dt_disposition = fst (disposition (ce_state eval)),
            dt_obligations = [''log-admission-event'', ''refresh-within-15m''],
            dt_inputs = [(''subject.uri'', subject_uri subject), (''control.id'', cid), (''epoch.digest'', pol)],
            dt_rationale = snd (disposition (ce_state eval))\<rparr>,
          ir_evidence = inspected_evidence now eval envs, ir_remediation = remediation eval\<rparr>)"

section \<open>Lemmas\<close>

lemma scan_checks_verdict:
  "scan_checks cs f w =
     (if f \<or> StatusFail \<in> dk_status ` set cs then StatusFail
      else if w \<or> StatusWarn \<in> dk_status ` set cs then StatusWarn else StatusPass)"
  by (induction cs arbitrary: f w) (auto split: check_status.split)

lemma check_statuses:
  "dk_status (check_runtime_substrate h d) = StatusPass"
  "dk_status (check_sigstore_infrastructure h d) = StatusPass"
  "dk_status (check_evidence_storage h dir d) =
     (if dir = [] then StatusWarn
      else if h_mkdir h dir \<noteq> None \<or> h_write h (join_str ''/'' [dir, ''.oskal-doctor-probe'']) \<noteq> None then StatusFail
      else StatusPass)"
  "dk_status (check_spiffe_workload_api h d) =
     (if h_stat h (spiffe_socket h) = NotExist \<or> h_dial h (spiffe_socket h) \<noteq> None then StatusWarn else StatusPass)"
  "dk_status (check_kubernetes_connectivity h d) =
     (if h_stat h in_cluster_token \<noteq> Present \<and> h_stat h (kubeconfig h) = NotExist then StatusWarn else StatusPass)"
  by (auto simp: check_runtime_substrate_def check_sigstore_infrastructure_def check_evidence_storage_def
      check_spiffe_workload_api_def check_kubernetes_connectivity_def Let_def split: option.split)

lemma check_oscal_schemas_status:
  assumes "check_oscal_schemas pb shared d = Some c"
  shows "dk_status c = StatusPass \<longleftrightarrow>
     (\<exists>v j r. shared = Ok (Some v) \<and> probe_document pb = Ok j \<and>
        validate (pb_codec pb) v d (pb_encode pb j) ''assessment-results'' = Ok r \<and> vr_valid r)"
    and "dk_status c \<noteq> StatusWarn"
proof (atomize (full), cases shared)
  case (Inr vp)
  show "(dk_status c = StatusPass \<longleftrightarrow>
     (\<exists>v j r. shared = Ok (Some v) \<and> probe_document pb = Ok j \<and>
        validate (pb_codec pb) v d (pb_encode pb j) ''assessment-results'' = Ok r \<and> vr_valid r)) \<and> dk_status c \<noteq> StatusWarn"
  proof (cases "probe_document pb")
    case (Inr j)
    let ?out = "validate_ptr (pb_codec pb) vp d (pb_encode pb j) ''assessment-results''"
    have "(dk_status c = StatusPass) = (\<exists>r. ?out = Some (Ok r) \<and> vr_valid r) \<and> dk_status c \<noteq> StatusWarn"
      using assms unfolding check_oscal_schemas_def \<open>shared = Ok vp\<close> Inr Let_def sum.case
      by (auto simp: schema_failure_def split: option.splits sum.splits if_splits)
    then show ?thesis unfolding validate_ptr_ok by (auto simp: \<open>shared = Ok vp\<close> Inr)
  qed (use assms Inr in \<open>auto simp: check_oscal_schemas_def schema_failure_def\<close>)
qed (use assms in \<open>auto simp: check_oscal_schemas_def schema_failure_def\<close>)

lemma run_doctor_report:
  assumes "run_doctor h pb el start compiled dir st = (st', Some r)"
  shows "\<exists>schemas. check_oscal_schemas pb (snd (default_validator compiled st)) (el 1) = Some schemas \<and>
    dr_checks r = [check_runtime_substrate h (el 0), schemas, check_evidence_storage h dir (el 2),
      check_spiffe_workload_api h (el 3), check_sigstore_infrastructure h (el 4), check_kubernetes_connectivity h (el 5)] \<and>
    dr_overall r = scan_checks (dr_checks r) False False"
  using assms by (auto simp: run_doctor_def Let_def split: prod.splits option.splits)

section \<open>Properties\<close>

text \<open>
  Further: the verdict of the doctor is the worst of its six checks; it is FAIL exactly when the schemas fail their test or
  a configured evidence directory cannot be written, and PASS exactly when the schemas pass, the directory is
  configured and writable, the SPIFFE socket answers, and there is a cluster token or a kubeconfig.
\<close>

lemma doctor_verdict:
  assumes "run_doctor h pb el start compiled dir st = (st', Some r)"
  shows "length (dr_checks r) = 6 \<and>
    dr_overall r = (if StatusFail \<in> dk_status ` set (dr_checks r) then StatusFail
      else if StatusWarn \<in> dk_status ` set (dr_checks r) then StatusWarn else StatusPass) \<and>
    (dr_overall r = StatusFail) = (dk_status (dr_checks r ! 1) = StatusFail \<or>
      dir \<noteq> [] \<and> (h_mkdir h dir \<noteq> None \<or> h_write h (join_str ''/'' [dir, ''.oskal-doctor-probe'']) \<noteq> None)) \<and>
    (dr_overall r = StatusPass) = (dk_status (dr_checks r ! 1) = StatusPass \<and> dir \<noteq> [] \<and> h_mkdir h dir = None \<and>
      h_write h (join_str ''/'' [dir, ''.oskal-doctor-probe'']) = None \<and> h_stat h (spiffe_socket h) \<noteq> NotExist \<and>
      h_dial h (spiffe_socket h) = None \<and> (h_stat h in_cluster_token = Present \<or> h_stat h (kubeconfig h) \<noteq> NotExist))"
proof -
  from run_doctor_report[OF assms] obtain schemas where schemas:
    "check_oscal_schemas pb (snd (default_validator compiled st)) (el 1) = Some schemas"
    and checks: "dr_checks r = [check_runtime_substrate h (el 0), schemas, check_evidence_storage h dir (el 2),
      check_spiffe_workload_api h (el 3), check_sigstore_infrastructure h (el 4), check_kubernetes_connectivity h (el 5)]"
    and overall: "dr_overall r = scan_checks (dr_checks r) False False" by blast
  have "dk_status schemas \<noteq> StatusWarn" by (rule check_oscal_schemas_status(2)[OF schemas])
  then show ?thesis
    unfolding overall scan_checks_verdict checks
    by (cases "dk_status schemas") (auto simp: check_statuses)
qed

definition example_host :: host where
  "example_host = \<lparr>h_substrate = [], h_env = \<lambda>_. [], h_home = ''/home'', h_stat = \<lambda>_. Present, h_dial = \<lambda>_. None,
     h_mkdir = \<lambda>_. None, h_write = \<lambda>_. None\<rparr>"

definition example_probe :: probe where
  "example_probe = \<lparr>pb_uuids = example_uuid, pb_now = 0, pb_probe_now = 0, pb_encode = \<lambda>_. ''{}'',
     pb_codec = example_codec JNull\<rparr>"

lemma doctor_verdict_witness:
  "\<exists>st r. run_doctor example_host example_probe (\<lambda>_. 0) 0 (Err ''bad'') ''/var'' (False, None) = (st, Some r) \<and>
     dr_overall r = StatusFail"
proof -
  obtain st r where r: "run_doctor example_host example_probe (\<lambda>_. 0) 0 (Err ''bad'') ''/var'' (False, None) = (st, Some r)"
    by (simp add: run_doctor_def default_validator_def check_oscal_schemas_def Let_def)
  have "dk_status (dr_checks r ! 1) = StatusFail"
    using run_doctor_report[OF r] by (auto simp: default_validator_def check_oscal_schemas_def schema_failure_def)
  with doctor_verdict[OF r] r show ?thesis by blast
qed

text \<open>
  Further: when the schemas cannot be compiled the first run of the doctor reports it and fails; any later run in the same
  process, whatever could be compiled by then, has no report: it calls the nil validator and panics.
\<close>

lemma doctor_after_failed_start:
  assumes "probe_document pb = Ok j" and "is_ok (validation_target (pb_codec pb) (pb_encode pb j) ''assessment-results'')"
  shows "\<exists>r. run_doctor h pb el start (Err e) dir (False, None) = ((True, None), Some r) \<and> dr_overall r = StatusFail \<and>
    run_doctor h' pb el' start' compiled dir' (True, None) = ((True, None), None)"
proof -
  obtain t where t: "validation_target (pb_codec pb) (pb_encode pb j) ''assessment-results'' = Ok t"
    using assms(2) by (cases "validation_target (pb_codec pb) (pb_encode pb j) ''assessment-results''") simp_all
  have "run_doctor h' pb el' start' compiled dir' (True, None) = ((True, None), None)"
    using assms(1) t by (simp add: run_doctor_def default_validator_def check_oscal_schemas_def validate_ptr_def Let_def)
  then show ?thesis
    by (simp add: run_doctor_def default_validator_def check_oscal_schemas_def schema_failure_def Let_def
        scan_checks_verdict)
qed

lemma example_probe_document: "\<exists>j. probe_document example_probe = Ok j"
proof -
  have "json_year 0" "json_year (5 * minute)" by code_simp+
  moreover have "ar_results (project_assessment_results u ks 0 0 subject [probe_evaluation 0] []) = [res] \<Longrightarrow>
      rs_start res = 0 \<and> rs_end res = 5 * minute" for u ks subject res
    by (auto simp: project_assessment_results_def probe_evaluation_def Let_def)
  ultimately have "list_all json_year (metadata_times (ar_metadata ar) @
      concat (map (\<lambda>r. rs_start r # rs_end r # map ob_collected (rs_observations r)) (ar_results ar)))"
    if "ar = project_assessment_results example_uuid [d] 0 0 probe_subject [probe_evaluation 0] []" for ar d
    using results_projected(1)[of example_uuid "[d]" 0 0 probe_subject "[probe_evaluation 0]" "[]"]
      projected_collected[of example_uuid "[probe_evaluation 0]"]
    by (auto simp: that metadata_times_def project_assessment_results_def oscal_metadata_def probe_evaluation_def Let_def)
  then show ?thesis
    by (simp add: probe_document_def json_assessment_results_def json_times_def example_probe_def)
qed

lemma doctor_after_failed_start_witness:
  "run_doctor example_host example_probe (\<lambda>_. 0) 0 (Ok Map.empty) ''/var'' (True, None) = ((True, None), None)"
proof -
  obtain j where j: "probe_document example_probe = Ok j" using example_probe_document ..
  have "normalize_document_type ''assessment-results'' = Ok AssessmentResults" "to_lower ''assessment-results'' \<noteq> ''auto''"
    by code_simp+
  then have "is_ok (validation_target (pb_codec example_probe) (pb_encode example_probe j) ''assessment-results'')"
    by (simp add: validation_target_def to_json_text_def example_probe_def example_brace)
  from doctor_after_failed_start[OF j this] show ?thesis by blast
qed

text \<open>
  Further: the self-test is a test of projector and schema together: with a shared validator, a text that begins an object
  and is read back as the value it was written from, the check passes exactly when the schema of assessment
  results accepts the document that the projector makes of the probe evaluation.
\<close>

lemma self_test_is_schema_test:
  assumes "probe_document pb = Ok j" and "trim_space (pb_encode pb j) = CHR 0x7B # rest"
    and "cx_decode (pb_codec pb) (pb_encode pb j) = Some (Ok j)" and "v AssessmentResults = Some sch"
    and "check_oscal_schemas pb (Ok (Some v)) d = Some c"
  shows "(dk_status c = StatusPass) = (sch j = None) \<and> (dk_status c = StatusFail) = (sch j \<noteq> None)"
proof -
  have norm: "normalize_document_type ''assessment-results'' = Ok AssessmentResults" "to_lower ''assessment-results'' \<noteq> ''auto''"
    by code_simp+
  have t: "validation_target (pb_codec pb) (pb_encode pb j) ''assessment-results'' = Ok (AssessmentResults, pb_encode pb j)"
    using norm assms(2) by (simp add: validation_target_def to_json_text_def)
  obtain r where "validate (pb_codec pb) v d (pb_encode pb j) ''assessment-results'' = Ok r" "vr_valid r = (sch j = None)"
    by (simp add: validate_def t assms(3,4) Let_def)
  then show ?thesis
    using assms(1,5) by (cases "sch j = None") (auto simp: check_oscal_schemas_def schema_failure_def Let_def)
qed

lemma self_test_is_schema_test_witness:
  "\<exists>j c. probe_document example_probe = Ok j \<and>
     check_oscal_schemas (example_probe\<lparr>pb_codec := example_codec j\<rparr>)
       (Ok (Some [AssessmentResults \<mapsto> \<lambda>_. Some (Inl ''no'')])) 0 = Some c \<and> dk_status c = StatusFail"
proof -
  obtain j where j: "probe_document example_probe = Ok j" using example_probe_document ..
  let ?pb = "example_probe\<lparr>pb_codec := example_codec j\<rparr>" and ?v = "[AssessmentResults \<mapsto> \<lambda>_. Some (Inl ''no'')]"
  have j': "probe_document ?pb = Ok j" using j by (simp add: probe_document_def)
  have tx: "trim_space (pb_encode ?pb j) = CHR 0x7B # ''}''" by (simp add: example_probe_def example_brace)
  have dec: "cx_decode (pb_codec ?pb) (pb_encode ?pb j) = Some (Ok j)" by (simp add: example_decode)
  have "\<exists>c. check_oscal_schemas ?pb (Ok (Some ?v)) 0 = Some c"
    unfolding check_oscal_schemas_def j' Let_def
    by (cases "validate (pb_codec ?pb) ?v 0 (pb_encode ?pb j) ''assessment-results''") simp_all
  then obtain c where c: "check_oscal_schemas ?pb (Ok (Some ?v)) 0 = Some c" ..
  from self_test_is_schema_test[OF j' tx dec _ c] j c show ?thesis by auto
qed

text \<open>
  Further: an inspection admits a subject without obligations in every state but UNKNOWN, FAILED and STALE, also in a state
  that no evidence has been verified for, and advises a remediation exactly in those three, with the disposition of
  its decision; every envelope is listed, in order, as stale after fifteen minutes.
\<close>

lemma inspection_decision:
  fixes now el subject eval envs
  defines "r \<equiv> inspect_subject now el subject eval envs"
  shows "(dt_disposition (ir_decision r) = ''ADMIT'') = (ce_state eval \<notin> {Unknown, Failed, Stale}) \<and>
    (case ir_remediation r of
       None \<Rightarrow> dt_disposition (ir_decision r) = ''ADMIT''
     | Some a \<Rightarrow> ra_disposition a = dt_disposition (ir_decision r) \<and> ra_disposition a \<noteq> ''ADMIT'' \<and> ra_control a \<noteq> []) \<and>
    map it_envelope_id (et_artifacts (ir_evidence r)) = map ev_id envs \<and>
    filter (\<lambda>i. it_freshness i = ''STALE'') (et_artifacts (ir_evidence r)) =
      map (inspected_item now) (filter (\<lambda>env. time_sub now (ev_captured_at env) > 15 * minute) envs)"
  by (auto simp: r_def inspect_subject_def disposition_def remediation_def inspected_evidence_def inspected_item_def Let_def
      filter_map o_def)

text \<open>
  Further: the traces of an inspection do not depend on what was checked: whatever the evaluation and the envelopes, the
  verification of signatures is reported as VERIFIED, a receipt as EMITTED and the lineage as verified, and one
  envelope is enough for a valid Merkle root.
\<close>

lemma inspection_claims_verification:
  "map es_outcome (xt_steps (ir_execution (inspect_subject now el subject eval envs))) =
     [''RESOLVED'', ''COMPLETED'', ''VERIFIED'', ''EVALUATED'', state_string (ce_state eval), ''EMITTED''] \<and>
   et_lineage_verified (ir_evidence (inspect_subject now el subject eval envs)) \<and>
   et_merkle_valid (ir_evidence (inspect_subject now el subject eval envs)) = (envs \<noteq> []) \<and>
   (et_root (ir_evidence (inspect_subject now el subject eval envs)) = ce_evidence_root eval \<or>
    et_root (ir_evidence (inspect_subject now el subject eval envs)) = compute_evidence_root (map ev_artifact envs))"
  by (simp add: inspect_subject_def execution_steps_def inspected_evidence_def Let_def)

end
