(* ===== verification/Kubernetes.thy ===== *)
theory Kubernetes
  imports Claim
begin

text \<open>
  internal/adapters/kubernetes/discovery.go and control_resolver.go: subjects of a cluster and
  their digests, epochs and drift, and the controls bound to a subject. The API server is a record
  of its answers; label selectors are matched by an argument.
\<close>

section \<open>Workloads\<close>

record pod_spec =
  sp_containers :: "string list"
  sp_init_containers :: "string list"
  sp_ephemeral_containers :: "string list"
  sp_service_account :: string

record workload =
  wl_namespace :: string
  wl_name :: string
  wl_uid :: string
  wl_generation :: int
  wl_resource_version :: string
  wl_labels :: smap
  wl_spec :: pod_spec

record cluster =
  get_deployment :: "string \<Rightarrow> string \<Rightarrow> workload option"
  get_pod :: "string \<Rightarrow> string \<Rightarrow> workload option"

definition parse_k8s_uri :: "string \<Rightarrow> string \<times> string \<times> string \<times> string" where
  "parse_k8s_uri uri =
     (case split_on CHR ''/'' (trim_prefix uri ''k8s://'') of
        [name] \<Rightarrow> (''local'', ''default'', ''Deployment'', name)
      | [ns, name] \<Rightarrow> (''local'', ns, ''Deployment'', name)
      | [ns, kind, name] \<Rightarrow> (''local'', ns, kind, name)
      | c # ns # kind # name # _ \<Rightarrow> (c, ns, kind, name)
      | [] \<Rightarrow> ([], [], [], []))"

definition extract_pod_images :: "pod_spec \<Rightarrow> string list" where
  "extract_pod_images spec =
     sort_strings (sp_containers spec @ sp_init_containers spec @ sp_ephemeral_containers spec)"

definition build_pod_subject_ref :: "workload \<Rightarrow> subject_ref" where
  "build_pod_subject_ref p =
     \<lparr>s_scheme = ''k8s'', s_id = wl_namespace p @ ''/'' @ wl_name p @ ''/Pod/'' @ wl_name p,
      s_attributes = [(''cluster'', ''local''), (''namespace'', wl_namespace p), (''kind'', ''Pod''),
        (''name'', wl_name p), (''uid'', wl_uid p), (''resourceVersion'', wl_resource_version p),
        (''images'', join_str '','' (extract_pod_images (wl_spec p))),
        (''serviceAccount'', sp_service_account (wl_spec p))]\<rparr>"

definition pod_raw :: "workload \<Rightarrow> string" where
  "pod_raw p = join_str ''|'' [''pod'', wl_namespace p, wl_name p, wl_uid p,
     join_str '';'' (extract_pod_images (wl_spec p))]"

definition compute_pod_digest :: "workload \<Rightarrow> string" where
  "compute_pod_digest p = ''sha256:'' @ hex_encode (sha256 (pod_raw p))"

definition build_deployment_subject_ref :: "workload \<Rightarrow> subject_ref" where
  "build_deployment_subject_ref d =
     \<lparr>s_scheme = ''k8s'', s_id = wl_namespace d @ ''/'' @ wl_name d @ ''/Deployment/'' @ wl_name d,
      s_attributes = [(''cluster'', ''local''), (''namespace'', wl_namespace d), (''kind'', ''Deployment''),
        (''name'', wl_name d), (''uid'', wl_uid d), (''generation'', show_int (wl_generation d)),
        (''resourceVersion'', wl_resource_version d),
        (''images'', join_str '','' (extract_pod_images (wl_spec d)))]\<rparr>"

definition deployment_raw :: "workload \<Rightarrow> string" where
  "deployment_raw d = join_str ''|'' [''deploy'', wl_namespace d, wl_name d, wl_uid d,
     show_int (wl_generation d), join_str '';'' (extract_pod_images (wl_spec d))]"

definition compute_deployment_digest :: "workload \<Rightarrow> string" where
  "compute_deployment_digest d = ''sha256:'' @ hex_encode (sha256 (deployment_raw d))"

interpretation pod_dig: content_addressed pod_raw compute_pod_digest
  by unfold_locales (simp add: compute_pod_digest_def compute_digest_def sha_prefix_def)

interpretation deployment_dig: content_addressed deployment_raw compute_deployment_digest
  by unfold_locales (simp add: compute_deployment_digest_def compute_digest_def sha_prefix_def)

section \<open>Resolving subjects\<close>

definition lookup_workload :: "cluster option \<Rightarrow> string \<Rightarrow> string \<Rightarrow> string \<Rightarrow> (bool \<times> workload) option" where
  "lookup_workload client kind ns name =
     (case client of
        None \<Rightarrow> None
      | Some c \<Rightarrow>
          if kind = ''Deployment'' \<or> kind = ''deploy'' then map_option (Pair True) (get_deployment c ns name)
          else if kind = ''Pod'' \<or> kind = ''pod'' then map_option (Pair False) (get_pod c ns name)
          else None)"

definition resolve_subject :: "cluster option \<Rightarrow> string \<Rightarrow> subject_ref" where
  "resolve_subject client uri =
     (case parse_k8s_uri uri of (cl, ns, kind, name) \<Rightarrow>
        (case lookup_workload client kind ns name of
           Some (is_deploy, w) \<Rightarrow> if is_deploy then build_deployment_subject_ref w else build_pod_subject_ref w
         | None \<Rightarrow>
             \<lparr>s_scheme = ''k8s'', s_id = join_str ''/'' [cl, ns, kind, name],
              s_attributes = [(''cluster'', cl), (''namespace'', ns), (''kind'', kind), (''name'', name)]\<rparr>))"

definition attributes_raw :: "subject_ref \<Rightarrow> string" where
  "attributes_raw s =
     s_scheme s @ '':'' @ s_id s @
     concat (map (\<lambda>k. ''|'' @ k @ ''='' @ smap_get (s_attributes s) k) (sort_strings (map fst (s_attributes s))))"

definition compute_subject_digest :: "cluster option \<Rightarrow> subject_ref \<Rightarrow> string" where
  "compute_subject_digest client subject =
     (let ns = smap_get (s_attributes subject) ''namespace'';
          kind = smap_get (s_attributes subject) ''kind'';
          name = smap_get (s_attributes subject) ''name'';
          (ns, kind, name) =
            (if ns = [] \<or> name = []
             then (case parse_k8s_uri (subject_uri subject) of (_, pns, pkind, pname) \<Rightarrow>
                     (if ns = [] then pns else ns, if kind = [] then pkind else kind, if name = [] then pname else name))
             else (ns, kind, name))
      in case (if ns \<noteq> [] \<and> name \<noteq> [] then lookup_workload client kind ns name else None) of
           Some (is_deploy, w) \<Rightarrow> if is_deploy then compute_deployment_digest w else compute_pod_digest w
         | None \<Rightarrow> ''sha256:'' @ hex_encode (sha256 (attributes_raw subject)))"

section \<open>Selectors, epochs and drift\<close>

record 'l subject_selector =
  ss_kinds :: "string list"
  ss_label_selector :: "'l option"

text \<open>as_selector compiles a label selector, with None for an invalid one.\<close>

definition matches_selector :: "('l \<Rightarrow> (smap \<Rightarrow> bool) option) \<Rightarrow> workload \<Rightarrow> 'l subject_selector \<Rightarrow> bool" where
  "matches_selector as_selector d sel =
     (if \<not> list_ex (\<lambda>k. k = ''Deployment'' \<or> k = ''*'') (ss_kinds sel) then False
      else case ss_label_selector sel of
          None \<Rightarrow> True
        | Some ls \<Rightarrow> (case as_selector ls of None \<Rightarrow> False | Some f \<Rightarrow> f (wl_labels d)))"

definition or_default :: "string \<Rightarrow> string \<Rightarrow> string" where
  "or_default d text = (if d = [] then compute_string_digest text else d)"

definition calculate_epoch :: "string \<Rightarrow> string \<Rightarrow> string \<Rightarrow> string \<Rightarrow> string \<Rightarrow> epoch" where
  "calculate_epoch sub impl pol auth env =
     \<lparr>subject_digest = sub,
      implementation_digest = or_default impl ''provider:cel:v1'',
      policy_digest = or_default pol ''policy:default:v1'',
      authority_digest = or_default auth ''spiffe://local/ns/ckodex-assurance'',
      environment_digest = or_default env ''k8s:v1.31:oskal:v0.1.0''\<rparr>"

definition evaluate_drift :: "astate \<Rightarrow> epoch \<Rightarrow> epoch \<Rightarrow> astate \<times> drift_reason list" where
  "evaluate_drift current recorded now_epoch =
     (if epoch_matches recorded now_epoch then (current, [])
      else let diffs = epoch_diff recorded now_epoch
           in if current = Assured then (fst (transition current EpochChanged), diffs) else (current, diffs))"

section \<open>Controls bound to a subject\<close>

record control_binding =
  cb_name :: string
  cb_kinds :: "string list"
  cb_controls :: "control_ref list"

definition default_control :: control_ref where
  "default_control = control ''ckodex'' ''container.least-privilege''"

definition binding_matches :: "string \<Rightarrow> string \<Rightarrow> control_binding \<Rightarrow> bool" where
  "binding_matches sub_name sub_kind b =
     (let matched = (if cb_kinds b \<noteq> [] then list_ex (\<lambda>k. k = ''*'' \<or> (sub_kind \<noteq> [] \<and> k = sub_kind)) (cb_kinds b)
                     else True)
      in matched \<or> (sub_name \<noteq> [] \<and> cb_name b = sub_name))"

definition control_key :: "control_ref \<Rightarrow> string" where
  "control_key c = c_namespace c @ '':'' @ c_id c"

definition add_control :: "control_ref list \<Rightarrow> control_ref \<Rightarrow> control_ref list" where
  "add_control cs c = (if control_key c \<in> set (map control_key cs) then cs else cs @ [c])"

text \<open>The bindings are what List answers for the namespace, all of them where it is empty.\<close>

definition resolve_controls ::
  "(string option \<Rightarrow> control_binding list result) option \<Rightarrow> subject_ref \<Rightarrow> control_ref list result" where
  "resolve_controls client subject =
     (case client of
        None \<Rightarrow> Ok [default_control]
      | Some lst \<Rightarrow>
          let ns = smap_get (s_attributes subject) ''namespace''
          in case lst (if ns \<noteq> [] then Some ns else None) of
               Inl e \<Rightarrow> Err e
             | Inr bindings \<Rightarrow>
                 let name = smap_get (s_attributes subject) ''name'';
                     kind = smap_get (s_attributes subject) ''kind'';
                     controls = foldl add_control [] (concat (map cb_controls (filter (binding_matches name kind) bindings)))
                 in Ok (if controls = [] then [default_control] else controls))"

section \<open>Properties shared by the components above\<close>

lemma extract_pod_images_perm:
  "mset (sp_containers s @ sp_init_containers s @ sp_ephemeral_containers s) =
   mset (sp_containers t @ sp_init_containers t @ sp_ephemeral_containers t) \<Longrightarrow>
     extract_pod_images s = extract_pod_images t"
  unfolding extract_pod_images_def by (rule sort_strings_perm)

lemma evaluate_drift_cases:
  "evaluate_drift st rec cur =
     (if epoch_matches rec cur then (st, [])
      else (if st = Assured then Stale else st, epoch_diff rec cur))"
  by (auto simp: evaluate_drift_def transition_def Let_def)

lemma calculate_epoch_complete:
  "sub \<noteq> [] \<Longrightarrow> \<forall>d\<in>set (epoch_parts (calculate_epoch sub impl pol auth env)). d \<noteq> []"
  by (simp add: calculate_epoch_def epoch_parts_def or_default_def)

lemma add_controls:
  "set (foldl add_control acc cs) \<subseteq> set acc \<union> set cs \<and>
   control_key ` set (foldl add_control acc cs) = control_key ` (set acc \<union> set cs) \<and>
   (distinct (map control_key acc) \<longrightarrow> distinct (map control_key (foldl add_control acc cs)))"
proof (induction cs arbitrary: acc)
  case (Cons c cs)
  have step: "set (add_control acc c) \<subseteq> set acc \<union> {c}"
    "control_key ` set (add_control acc c) = control_key ` (set acc \<union> {c})"
    "distinct (map control_key acc) \<longrightarrow> distinct (map control_key (add_control acc c))"
    by (auto simp: add_control_def)
  from Cons[of "add_control acc c"] step show ?case
    by (auto simp: image_Un)
qed simp

lemma resolve_controls_ok:
  assumes "resolve_controls (Some lst) subject = Ok cs"
  shows "cs \<noteq> [] \<and> distinct (map control_key cs)"
  using assms add_controls[of "[]"]
  by (auto simp: resolve_controls_def Let_def split: sum.splits if_splits)

section \<open>Properties\<close>

text \<open>
  Further: drift from the recorded epoch turns exactly ASSURED into STALE, leaves every other state as it is and
  reports every dimension that differs; without drift nothing changes. Against an epoch calculated for
  a subject, whose dimensions are all fixed, there is no drift only for the very same epoch.
\<close>

lemma drift_invalidates:
  "evaluate_drift st recorded current =
     (if epoch_matches recorded current then (st, [])
      else (if st = Assured then Stale else st, epoch_diff recorded current)) \<and>
   (sub = [] \<or> (snd (evaluate_drift st recorded (calculate_epoch sub impl pol auth env)) = [] \<longleftrightarrow>
      recorded = calculate_epoch sub impl pol auth env))"
proof
  show "evaluate_drift st recorded current =
     (if epoch_matches recorded current then (st, [])
      else (if st = Assured then Stale else st, epoch_diff recorded current))"
    by (rule evaluate_drift_cases)
  let ?e = "calculate_epoch sub impl pol auth env"
  have "snd (evaluate_drift st recorded ?e) = [] \<longleftrightarrow> epoch_matches recorded ?e"
    using no_match_diff by (simp add: evaluate_drift_cases)
  moreover have "epoch_matches recorded ?e \<longleftrightarrow> recorded = ?e" if "sub \<noteq> []"
    using epoch_matches_full[OF calculate_epoch_complete[OF that]] by auto
  ultimately show "sub = [] \<or> (snd (evaluate_drift st recorded ?e) = [] \<longleftrightarrow> recorded = ?e)" by blast
qed

text \<open>
  Further: the controls resolved for a subject are never empty and never repeat a control; where some binding of
  its namespace applies with a control they are exactly the controls of the bindings that apply, up to
  versions, and otherwise the default control.
\<close>

lemma controls_of_subject:
  assumes "lst (if smap_get (s_attributes s) ''namespace'' \<noteq> [] then Some (smap_get (s_attributes s) ''namespace'') else None) = Inr bs"
  shows "\<exists>cs. resolve_controls (Some lst) s = Ok cs \<and> cs \<noteq> [] \<and> distinct (map control_key cs) \<and>
    (let bound = \<Union> (set ` cb_controls ` {b \<in> set bs. binding_matches (smap_get (s_attributes s) ''name'')
           (smap_get (s_attributes s) ''kind'') b})
     in if bound = {} then cs = [default_control] else set cs \<subseteq> bound \<and> control_key ` set cs = control_key ` bound)"
proof -
  let ?m = "filter (binding_matches (smap_get (s_attributes s) ''name'') (smap_get (s_attributes s) ''kind'')) bs"
  let ?all = "concat (map cb_controls ?m)"
  let ?cs = "foldl add_control [] ?all"
  have res: "resolve_controls (Some lst) s = Ok (if ?cs = [] then [default_control] else ?cs)"
    using assms by (simp add: resolve_controls_def Let_def)
  have "set ?all = \<Union> (set ` cb_controls ` {b \<in> set bs. binding_matches (smap_get (s_attributes s) ''name'')
           (smap_get (s_attributes s) ''kind'') b})" by auto
  moreover have "set ?cs \<subseteq> set ?all" "control_key ` set ?cs = control_key ` set ?all"
    using add_controls[of "[]" ?all] by auto
  moreover from this have "?cs = [] \<longleftrightarrow> set ?all = {}" by force
  ultimately show ?thesis
    using res resolve_controls_ok[OF res] by (auto simp: Let_def)
qed

lemma controls_of_subject_witness:
  "\<exists>cs. resolve_controls (Some (\<lambda>ns. Ok [])) \<lparr>s_scheme = [], s_id = [], s_attributes = []\<rparr> = Ok cs \<and> cs = [default_control]"
  using controls_of_subject[of "\<lambda>ns. Ok []" "\<lparr>s_scheme = [], s_id = [], s_attributes = []\<rparr>" "[]"] by auto

end
