(* ===== verification/Reconcile.thy ===== *)
theory Reconcile
  imports Kubernetes Receipts
begin

text \<open>
  internal/application/reconcile/controller.go: the evaluator that answers a claim with its
  contract, and the reconciler of control bindings, which evaluates every control of a binding,
  writes the status of the binding and of the assurance states it belongs to, and issues receipts.

  The API server, the subject resolver and the signer are arguments; what the reconciler writes is
  a list of effects, in order. The clock gives the time of the i-th evaluation. Logging, spans and
  the timer are left out, and with them the call of the control resolver, whose answer is only
  logged. A resource that is fetched is absent, broken or there.
\<close>

section \<open>The contract evaluator\<close>

type_synonym lister = "subject_ref \<Rightarrow> envelope list result"

record contract_evaluator =
  evidence_source :: "envelope list"
  evidence_repo :: "lister option"

definition default_source :: "contract_evaluator \<Rightarrow> subject_ref \<Rightarrow> envelope list" where
  "default_source e subject =
     (if evidence_source e = []
      then (case evidence_repo e of
          None \<Rightarrow> []
        | Some lst \<Rightarrow> (case lst subject of Inl _ \<Rightarrow> [] | Inr envs \<Rightarrow> envs))
      else evidence_source e)"

definition evidence_digest :: "envelope \<Rightarrow> string list" where
  "evidence_digest v =
     (if e_digest (ev_artifact v) \<noteq> [] then [e_digest (ev_artifact v)]
      else if ev_id v \<noteq> [] then [compute_string_digest (ev_id v)] else [])"

definition evaluator_root :: "envelope list \<Rightarrow> string" where
  "evaluator_root verified =
     (let digests = concat (map evidence_digest verified)
      in if digests \<noteq> [] then canonical_digest_list digests else [])"

definition evaluation_vector :: "astate \<Rightarrow> avector" where
  "evaluation_vector st =
     (if st = Assured \<or> st = Verified
      then new_default_vector\<lparr>v_applicability := Positive, v_conformance := Positive,
             v_completeness := Positive, v_freshness := Positive\<rparr>
      else if st = Failed
      then new_default_vector\<lparr>v_conformance := Negative, v_coherence := Decoherent\<rparr>
      else new_default_vector)"

definition contract_evaluate ::
  "contract_evaluator \<Rightarrow> time \<Rightarrow> claim \<Rightarrow> contract \<Rightarrow> epoch \<Rightarrow> claim_evaluation result" where
  "contract_evaluate e now cl c current =
     (let res = evaluate_contract c (default_source e (cl_subject cl)) current now
      in Ok \<lparr>ce_id = ''eval-'' @ cl_id cl, ce_control = cl_control cl, ce_subject = cl_subject cl,
             ce_state = cr_state res, ce_vector = evaluation_vector (cr_state res), ce_epoch = current,
             ce_evidence = map ev_artifact (cr_verified res), ce_completeness = cr_completeness res,
             ce_evidence_root = evaluator_root (cr_verified res), ce_evaluated_at = now,
             ce_valid_until = now + 5 * minute, ce_trace = []\<rparr>)"

section \<open>Resources\<close>

datatype 'a fetched = NotFound | Broken string | Found 'a

record contract_requirement =
  q_id :: string
  q_type :: string
  q_required :: bool
  q_freshness :: duration
  q_accepted_producers :: "string list"

record contract_resource =
  er_name :: string
  er_requirements :: "contract_requirement list"
  er_on_missing :: string

record condition =
  cd_type :: string
  cd_status :: string
  cd_last_transition :: time
  cd_reason :: string
  cd_message :: string

record binding_resource =
  br_namespace :: string
  br_name :: string
  br_generation :: int
  br_controls :: "control_ref list"
  br_kinds :: "string list"
  br_requirements :: "(string \<times> string) list"
  br_observed_generation :: int
  br_conditions :: "condition list"

record control_status =
  cs_id :: string
  cs_state :: string
  cs_summary :: string

record state_resource =
  st_name :: string
  st_subject_name :: string
  st_state :: string
  st_epoch :: "epoch option"
  st_composite :: string
  st_evidence_root :: string
  st_controls :: "control_status list"
  st_evaluated_at :: "time option"
  st_valid_until :: "time option"

datatype effect =
    DriftRecorded string string
  | BindingUpdated binding_resource
  | StateUpdated state_resource
  | AssuranceRecorded string string string string
  | ReceiptRecorded string string

section \<open>The contract of a binding\<close>

definition requirement_of :: "contract_requirement \<Rightarrow> requirement" where
  "requirement_of q =
     \<lparr>r_id = q_id q, r_evidence_type = q_type q, r_required = q_required q,
      r_max_age = (if q_freshness q \<le> 0 then 24 * hour else q_freshness q),
      r_accepted_producers = q_accepted_producers q\<rparr>"

definition contract_of_resource :: "contract_resource \<Rightarrow> contract" where
  "contract_of_resource ec =
     \<lparr>ct_id = er_name ec, ct_name = [], ct_requirements = map requirement_of (er_requirements ec),
      ct_on_missing = (if er_on_missing ec = ''Failed'' then Failed else Unknown)\<rparr>"

definition inline_contract :: "binding_resource \<Rightarrow> contract" where
  "inline_contract b =
     \<lparr>ct_id = ''contract-'' @ br_name b, ct_name = [],
      ct_requirements = map (\<lambda>(i, _). \<lparr>r_id = i, r_evidence_type = ''admission'', r_required = True,
        r_max_age = 24 * hour, r_accepted_producers = []\<rparr>) (br_requirements b),
      ct_on_missing = Unknown\<rparr>"

definition binding_contract :: "(string \<Rightarrow> string \<Rightarrow> contract_resource fetched) \<Rightarrow> binding_resource \<Rightarrow> contract" where
  "binding_contract get_contract b =
     (let referenced = (case br_requirements b of
            (_, name) # _ \<Rightarrow>
              if name \<noteq> []
              then (case get_contract (br_namespace b) name of Found ec \<Rightarrow> Some (contract_of_resource ec) | _ \<Rightarrow> None)
              else None
          | [] \<Rightarrow> None)
      in case referenced of
           Some c \<Rightarrow> if ct_requirements c = [] then inline_contract b else c
         | None \<Rightarrow> inline_contract b)"

section \<open>Evaluating the controls\<close>

definition overall_step :: "astate \<Rightarrow> astate \<Rightarrow> astate" where
  "overall_step overall eval_state =
     (let st = (if eval_state = Verified then Assured else eval_state)
      in if st = Failed then Failed
         else if st = Unknown \<and> overall \<noteq> Failed then Unknown
         else if st = Stale \<and> overall \<noteq> Failed \<and> overall \<noteq> Unknown then Stale
         else overall)"

definition claim_for :: "binding_resource \<Rightarrow> subject_ref \<Rightarrow> control_ref \<Rightarrow> claim" where
  "claim_for b sub c =
     (let ref = control (c_namespace c) (c_id c)
      in \<lparr>cl_id = ''claim-'' @ br_name b @ ''-'' @ c_id ref, cl_subject = sub, cl_control = ref,
          cl_target_state = Unspecified\<rparr>)"

type_synonym evaluator = "time \<Rightarrow> claim \<Rightarrow> contract \<Rightarrow> epoch \<Rightarrow> claim_evaluation result"

text \<open>The loop stops at the first error; the evaluations made until then are kept.\<close>

fun evaluate_controls ::
  "evaluator \<Rightarrow> (nat \<Rightarrow> time) \<Rightarrow> nat \<Rightarrow> binding_resource \<Rightarrow> subject_ref \<Rightarrow> contract \<Rightarrow> epoch \<Rightarrow> control_ref list \<Rightarrow>
     astate \<Rightarrow> claim_evaluation list \<Rightarrow> astate \<times> claim_evaluation list" where
  "evaluate_controls ev clock i b sub c ep [] overall evals = (overall, evals)"
| "evaluate_controls ev clock i b sub c ep (ctrl # ctrls) overall evals =
     (case ev (clock i) (claim_for b sub ctrl) c ep of
        Inl e \<Rightarrow> (Failed, evals)
      | Inr eval \<Rightarrow>
          evaluate_controls ev clock (Suc i) b sub c ep ctrls (overall_step overall (ce_state eval)) (evals @ [eval]))"

section \<open>Reconciliation\<close>

record reconciler =
  rec_binding :: "string \<Rightarrow> string \<Rightarrow> binding_resource fetched"
  rec_contract :: "string \<Rightarrow> string \<Rightarrow> contract_resource fetched"
  rec_states :: "string \<Rightarrow> state_resource list result"
  rec_update_binding :: "binding_resource \<Rightarrow> string option"
  rec_resolver :: "((string \<Rightarrow> subject_ref result) \<times> (subject_ref \<Rightarrow> string result)) option"
  rec_evaluator :: "evaluator option"
  rec_signer :: "(control_receipt \<Rightarrow> control_receipt result) option"

definition binding_subject :: "reconciler \<Rightarrow> binding_resource \<Rightarrow> subject_ref \<times> string" where
  "binding_subject r b =
     (let fallback = \<lparr>s_scheme = ''k8s'', s_id = br_namespace b @ ''/'' @ br_name b,
            s_attributes = [(''namespace'', br_namespace b), (''name'', br_name b)]\<rparr>;
          kind = (case br_kinds b of k # _ \<Rightarrow> if k \<noteq> ''*'' then k else ''Deployment'' | [] \<Rightarrow> ''Deployment'');
          uri = ''k8s://'' @ br_namespace b @ ''/'' @ kind @ ''/'' @ trim_suffix (br_name b) ''-binding'';
          (sub, dig) = (case rec_resolver r of
              None \<Rightarrow> (fallback, [])
            | Some (resolve_uri, digest_of) \<Rightarrow>
                (case resolve_uri uri of
                   Inl _ \<Rightarrow> (fallback, [])
                 | Inr resolved \<Rightarrow> (resolved, case digest_of resolved of Inl _ \<Rightarrow> [] | Inr d \<Rightarrow> d)))
      in (sub, if dig = [] then compute_string_digest (subject_uri sub) else dig))"

definition evaluate_binding ::
  "reconciler \<Rightarrow> (nat \<Rightarrow> time) \<Rightarrow> binding_resource \<Rightarrow> astate \<times> subject_ref option \<times> claim_evaluation list" where
  "evaluate_binding r clock b =
     (case rec_evaluator r of
        None \<Rightarrow> (Unknown, None, [])
      | Some ev \<Rightarrow>
          if br_controls b = [] then (Unknown, None, [])
          else case binding_subject r b of (sub, dig) \<Rightarrow>
            (case evaluate_controls ev clock 0 b sub (binding_contract (rec_contract r) b)
                    (empty_epoch\<lparr>subject_digest := dig\<rparr>) (br_controls b) Assured [] of
               (overall, evals) \<Rightarrow> (overall, Some sub, evals)))"

fun set_condition :: "condition \<Rightarrow> condition list \<Rightarrow> condition list" where
  "set_condition c [] = [c]"
| "set_condition c (d # ds) = (if cd_type d = cd_type c then c # ds else d # set_condition c ds)"

definition updated_binding :: "time \<Rightarrow> astate \<Rightarrow> string \<Rightarrow> binding_resource \<Rightarrow> binding_resource" where
  "updated_binding now target root b =
     (let msg = ''Binding configured with '' @ show_int (int (length (br_controls b))) @
            '' controls; evaluated state: '' @ state_string target;
          msg = (if root \<noteq> [] then msg @ ''; evidenceRoot: '' @ root else msg)
      in b\<lparr>br_observed_generation := br_generation b,
           br_conditions := set_condition \<lparr>cd_type = ''Ready'', cd_status = ''True'', cd_last_transition = now,
             cd_reason = state_string target, cd_message = msg\<rparr> (br_conditions b)\<rparr>)"

definition belongs_to :: "string \<Rightarrow> state_resource \<Rightarrow> bool" where
  "belongs_to binding_name item =
     (let clean = trim_suffix binding_name ''-binding''
      in st_subject_name item = binding_name \<or> st_subject_name item = clean \<or> st_name item = binding_name \<or>
         st_name item = clean \<or> st_name item = clean @ ''-state'')"

definition summary :: "completeness \<Rightarrow> string" where
  "summary k = ''Verified '' @ show_int (k_verified k) @ ''/'' @ show_int (k_required k) @ '' requirements''"

definition control_statuses :: "astate \<Rightarrow> control_ref list \<Rightarrow> claim_evaluation list \<Rightarrow> control_status list" where
  "control_statuses target ctrls evals =
     map (\<lambda>i. let c = ctrls ! i in
        if i < length evals
        then \<lparr>cs_id = c_id c,
              cs_state = state_string (if ce_state (evals ! i) = Verified then Assured else ce_state (evals ! i)),
              cs_summary = summary (ce_completeness (evals ! i))\<rparr>
        else \<lparr>cs_id = c_id c, cs_state = state_string target,
              cs_summary = summary (if evals = [] then zero_completeness else ce_completeness (last evals))\<rparr>)
       [0..<length ctrls]"

definition updated_state ::
  "astate \<Rightarrow> string \<Rightarrow> control_ref list \<Rightarrow> claim_evaluation list \<Rightarrow> state_resource \<Rightarrow> state_resource" where
  "updated_state target root ctrls evals item =
     (let item = item\<lparr>st_state := state_string target, st_evidence_root := root\<rparr>;
          item = (if evals \<noteq> [] \<and> \<not> is_zero_time (ce_evaluated_at (last evals))
            then item\<lparr>st_evaluated_at := Some (ce_evaluated_at (last evals)),
                   st_valid_until := Some (ce_valid_until (last evals)), st_epoch := Some (ce_epoch (last evals)),
                   st_composite := composite_digest (ce_epoch (last evals))\<rparr>
            else item)
      in item\<lparr>st_controls := control_statuses target ctrls evals\<rparr>)"

definition receipt_effects ::
  "reconciler \<Rightarrow> binding_resource \<Rightarrow> subject_ref \<Rightarrow> astate \<Rightarrow> claim_evaluation list \<Rightarrow> effect list" where
  "receipt_effects r b sub target evals =
     (case rec_signer r of
        None \<Rightarrow> []
      | Some sign \<Rightarrow>
          if target = Assured
          then map (\<lambda>eval.
              case sign \<lparr>rc_subject = sub, rc_control = ce_control eval, rc_state = Assured, rc_epoch = ce_epoch eval,
                     rc_evidence_root = ce_evidence_root eval, rc_evaluator = empty_authority,
                     rc_evaluated_at = ce_evaluated_at eval, rc_signature = []\<rparr> of
                Inr signed_receipt \<Rightarrow>
                  ReceiptRecorded (br_name b) (if rc_signature signed_receipt \<noteq> [] then ''VALID'' else ''FAILED'')
              | Inl _ \<Rightarrow> ReceiptRecorded (br_name b) ''FAILED'')
            (filter (\<lambda>eval. ce_state eval = Assured \<or> ce_state eval = Verified) evals)
          else [])"

text \<open>The effects, and either an error or the time after which the binding is queued again.\<close>

definition reconcile ::
  "reconciler \<Rightarrow> (nat \<Rightarrow> time) \<Rightarrow> time \<Rightarrow> string \<Rightarrow> string \<Rightarrow> effect list \<times> duration option result" where
  "reconcile r clock now ns name =
     (case rec_binding r ns name of
        NotFound \<Rightarrow> ([], Ok None)
      | Broken e \<Rightarrow> ([], Err e)
      | Found b \<Rightarrow>
          let drift = (if br_observed_generation b \<noteq> 0 \<and> br_observed_generation b \<noteq> br_generation b
                then [DriftRecorded (br_name b) ''generation_drift''] else []);
              (target, sub, evals) = evaluate_binding r clock b;
              root = (if evals = [] then [] else ce_evidence_root (last evals));
              b1 = updated_binding now target root b
          in case rec_update_binding r b1 of
               Some e \<Rightarrow> (drift, Err e)
             | None \<Rightarrow>
                 let states = (case rec_states r (br_namespace b) of Inl _ \<Rightarrow> []
                       | Inr items \<Rightarrow> map (\<lambda>item. StateUpdated (updated_state target root (br_controls b) evals item))
                           (filter (belongs_to (br_name b)) items));
                     receipts = (case sub of None \<Rightarrow> [] | Some s \<Rightarrow> receipt_effects r b s target evals)
                 in (drift @ [BindingUpdated b1] @ states @
                       [AssuranceRecorded (br_namespace b) (br_name b) (state_string target) (show_int (br_generation b))] @
                       receipts,
                     Ok (Some (5 * minute))))"

text \<open>The reconciler of assurance states only reports what it sees.\<close>

definition reconcile_state :: "(string \<times> string \<times> string \<times> int) fetched \<Rightarrow> effect list \<times> unit result" where
  "reconcile_state fetched =
     (case fetched of
        NotFound \<Rightarrow> ([], Ok ())
      | Broken e \<Rightarrow> ([], Err e)
      | Found (ns, name, st, generation) \<Rightarrow> ([AssuranceRecorded ns name st (show_int generation)], Ok ()))"

section \<open>The state of a binding\<close>

definition worst_state :: "astate set \<Rightarrow> astate" where
  "worst_state S =
     (if Failed \<in> S then Failed else if Unknown \<in> S then Unknown else if Stale \<in> S then Stale else Assured)"

lemma overall_step_worst: "overall_step (worst_state S) st = worst_state (insert st S)"
  by (cases st) (auto simp: overall_step_def worst_state_def)

fun evaluations ::
  "evaluator \<Rightarrow> (nat \<Rightarrow> time) \<Rightarrow> nat \<Rightarrow> binding_resource \<Rightarrow> subject_ref \<Rightarrow> contract \<Rightarrow> epoch \<Rightarrow> control_ref list \<Rightarrow>
     claim_evaluation result list" where
  "evaluations ev clock i b sub c ep [] = []"
| "evaluations ev clock i b sub c ep (ctrl # ctrls) =
     ev (clock i) (claim_for b sub ctrl) c ep # evaluations ev clock (Suc i) b sub c ep ctrls"

lemma evaluate_controls_worst:
  "evaluate_controls ev clock i b sub c ep ctrls (worst_state (ce_state ` set evals)) evals =
     (let rs = evaluations ev clock i b sub c ep ctrls; oks = map projr (takeWhile is_ok rs)
      in (if list_all is_ok rs then worst_state (ce_state ` set (evals @ oks)) else Failed, evals @ oks))"
proof (induction ctrls arbitrary: i evals)
  case (Cons ctrl ctrls)
  show ?case
  proof (cases "ev (clock i) (claim_for b sub ctrl) c ep")
    case (Inr eval)
    have "overall_step (worst_state (ce_state ` set evals)) (ce_state eval) =
        worst_state (ce_state ` set (evals @ [eval]))"
      by (simp add: overall_step_worst)
    then show ?thesis
      using Cons.IH[of "Suc i" "evals @ [eval]"] by (simp add: Inr Let_def)
  qed (simp add: Let_def)
qed simp

lemma worst_state_assured: "worst_state S = Assured \<longleftrightarrow> S \<inter> {Failed, Unknown, Stale} = {}"
  by (auto simp: worst_state_def)

lemma binding_contract_on_missing: "ct_on_missing (binding_contract get b) \<in> {Unknown, Failed}"
  by (auto simp: binding_contract_def inline_contract_def contract_of_resource_def Let_def
      split: list.split fetched.split prod.split)

lemma evaluations_contract:
  "evaluations (contract_evaluate e) clock i b sub c ep ctrls =
     map (\<lambda>(k, ctrl). contract_evaluate e (clock k) (claim_for b sub ctrl) c ep) (zip [i..<i + length ctrls] ctrls)"
  by (induction ctrls arbitrary: i) (auto simp: upt_conv_Cons simp del: upt_Suc)

lemma contract_evaluate_ok [simp]: "is_ok (contract_evaluate e t cl c ep)"
  by (simp add: contract_evaluate_def Let_def)

lemma contract_evaluate_state:
  "ce_state (projr (contract_evaluate e t cl c ep)) = cr_state (evaluate_contract c (default_source e (cl_subject cl)) ep t)"
  by (simp add: contract_evaluate_def Let_def)

lemma contract_state_range:
  "ct_on_missing c \<in> {Unknown, Failed} \<Longrightarrow>
     cr_state (evaluate_contract c envs ep t) \<in> {Verified, Stale, Unknown, Failed}"
  unfolding evaluate_state contract_state_def by auto

lemma evaluate_binding_assured:
  assumes "rec_evaluator r = Some (contract_evaluate e)"
    and "evaluate_binding r clock b = (Assured, sub_opt, evals)"
  shows "\<exists>sub dig. binding_subject r b = (sub, dig) \<and> br_controls b \<noteq> [] \<and>
    (\<forall>k < length (br_controls b).
       cr_state (evaluate_contract (binding_contract (rec_contract r) b) (default_source e sub)
         (empty_epoch\<lparr>subject_digest := dig\<rparr>) (clock k)) = Verified)"
proof -
  let ?c = "binding_contract (rec_contract r) b"
  obtain sub dig where sub: "binding_subject r b = (sub, dig)" by (cases "binding_subject r b")
  let ?ep = "empty_epoch\<lparr>subject_digest := dig\<rparr>"
  let ?rs = "evaluations (contract_evaluate e) clock 0 b sub ?c ?ep (br_controls b)"
  have ne: "br_controls b \<noteq> []" using assms by (auto simp: evaluate_binding_def)
  have oks: "list_all is_ok ?rs" "takeWhile is_ok ?rs = ?rs"
    by (auto simp: evaluations_contract list_all_iff takeWhile_eq_all_conv)
  have "fst (evaluate_binding r clock b) = worst_state (ce_state ` set (map projr ?rs))"
    using evaluate_controls_worst[of "contract_evaluate e" clock 0 b sub ?c ?ep "br_controls b" "[]"] ne oks
    by (simp add: evaluate_binding_def assms(1) sub worst_state_def Let_def split: prod.split)
  then have "worst_state (ce_state ` set (map projr ?rs)) = Assured" using assms(2) by simp
  then have disj: "ce_state ` set (map projr ?rs) \<inter> {Failed, Unknown, Stale} = {}"
    by (rule worst_state_assured[THEN iffD1])
  have "cr_state (evaluate_contract ?c (default_source e sub) ?ep (clock k)) = Verified"
    if "k < length (br_controls b)" for k
  proof -
    let ?x = "contract_evaluate e (clock k) (claim_for b sub (br_controls b ! k)) ?c ?ep"
    have "(k, br_controls b ! k) \<in> set (zip [0..<0 + length (br_controls b)] (br_controls b))"
      using that by (auto simp: set_zip intro!: exI[of _ k])
    then have "?x \<in> set ?rs"
      unfolding evaluations_contract set_map by (rule rev_image_eqI) simp
    then have "ce_state (projr ?x) \<in> ce_state ` set (map projr ?rs)"
      unfolding set_map by (intro imageI)
    moreover have "ce_state (projr ?x) = cr_state (evaluate_contract ?c (default_source e sub) ?ep (clock k))"
      by (simp add: contract_evaluate_state claim_for_def Let_def)
    ultimately have st: "cr_state (evaluate_contract ?c (default_source e sub) ?ep (clock k)) \<notin> {Failed, Unknown, Stale}"
      using disj by (metis disjoint_iff)
    show ?thesis
      using contract_state_range[OF binding_contract_on_missing, of "rec_contract r" b] st by blast
  qed
  with sub ne show ?thesis by blast
qed

lemma assured_binding_supported:
  assumes "rec_evaluator r = Some (contract_evaluate e)" and "fst (evaluate_binding r clock b) = Assured"
    and "binding_subject r b = (sub, dig)"
  shows "br_controls b \<noteq> [] \<and> (\<exists>req\<in>set (ct_requirements (binding_contract (rec_contract r) b)). r_required req) \<and>
    (\<forall>k < length (br_controls b). \<forall>req\<in>set (ct_requirements (binding_contract (rec_contract r) b)). r_required req \<longrightarrow>
       (\<exists>env\<in>set (default_source e sub). supports req (empty_epoch\<lparr>subject_digest := dig\<rparr>) (clock k) env))"
proof -
  let ?c = "binding_contract (rec_contract r) b" and ?ep = "empty_epoch\<lparr>subject_digest := dig\<rparr>"
  obtain so evals where "evaluate_binding r clock b = (Assured, so, evals)"
    using assms(2) by (metis prod.collapse)
  from evaluate_binding_assured[OF assms(1) this] assms(3)
  have ne: "br_controls b \<noteq> []" and ver: "\<forall>k < length (br_controls b).
      cr_state (evaluate_contract ?c (default_source e sub) ?ep (clock k)) = Verified" by auto
  have miss: "ct_on_missing ?c \<noteq> Verified" using binding_contract_on_missing[of "rec_contract r" b] by auto
  have sup: "\<forall>k < length (br_controls b). (\<exists>req\<in>set (ct_requirements ?c). r_required req) \<and>
      (\<forall>req\<in>set (ct_requirements ?c). r_required req \<longrightarrow> (\<exists>env\<in>set (default_source e sub). supports req ?ep (clock k) env))"
    using ver unfolding evaluate_verified_iff[OF miss] by blast
  with ne show ?thesis by (metis length_greater_0_conv)
qed

section \<open>What a pass writes\<close>

text \<open>The effects of each kind, in order.\<close>

definition written_bindings :: "effect list \<Rightarrow> binding_resource list" where
  "written_bindings fs = concat (map (\<lambda>f. case f of BindingUpdated b \<Rightarrow> [b] | _ \<Rightarrow> []) fs)"

definition written_states :: "effect list \<Rightarrow> state_resource list" where
  "written_states fs = concat (map (\<lambda>f. case f of StateUpdated item \<Rightarrow> [item] | _ \<Rightarrow> []) fs)"

definition recorded_states :: "effect list \<Rightarrow> (string \<times> string \<times> string \<times> string) list" where
  "recorded_states fs = concat (map (\<lambda>f. case f of AssuranceRecorded x n st g \<Rightarrow> [(x, n, st, g)] | _ \<Rightarrow> []) fs)"

definition recorded_receipts :: "effect list \<Rightarrow> (string \<times> string) list" where
  "recorded_receipts fs = concat (map (\<lambda>f. case f of ReceiptRecorded n outcome \<Rightarrow> [(n, outcome)] | _ \<Rightarrow> []) fs)"

lemma written_simps [simp]:
  "written_bindings [] = []" "written_bindings (f # fs) = (case f of BindingUpdated b \<Rightarrow> [b] | _ \<Rightarrow> []) @ written_bindings fs"
  "written_bindings (fs @ gs) = written_bindings fs @ written_bindings gs"
  "written_states [] = []" "written_states (f # fs) = (case f of StateUpdated item \<Rightarrow> [item] | _ \<Rightarrow> []) @ written_states fs"
  "written_states (fs @ gs) = written_states fs @ written_states gs"
  "recorded_states [] = []"
  "recorded_states (f # fs) = (case f of AssuranceRecorded x n st g \<Rightarrow> [(x, n, st, g)] | _ \<Rightarrow> []) @ recorded_states fs"
  "recorded_states (fs @ gs) = recorded_states fs @ recorded_states gs"
  "recorded_receipts [] = []"
  "recorded_receipts (f # fs) = (case f of ReceiptRecorded n outcome \<Rightarrow> [(n, outcome)] | _ \<Rightarrow> []) @ recorded_receipts fs"
  "recorded_receipts (fs @ gs) = recorded_receipts fs @ recorded_receipts gs"
  by (simp_all add: written_bindings_def written_states_def recorded_states_def recorded_receipts_def)

lemma written_of_states [simp]:
  "written_bindings (map (\<lambda>x. StateUpdated (g x)) xs) = []" "recorded_states (map (\<lambda>x. StateUpdated (g x)) xs) = []"
  "recorded_receipts (map (\<lambda>x. StateUpdated (g x)) xs) = []" "written_states (map (\<lambda>x. StateUpdated (g x)) xs) = map g xs"
  by (induction xs) simp_all

definition ready_reason :: "binding_resource \<Rightarrow> string option" where
  "ready_reason b = map_option cd_reason (find (\<lambda>c. cd_type c = ''Ready'' \<and> cd_status c = ''True'') (br_conditions b))"

lemma ready_updated: "ready_reason (updated_binding now target root b) = Some (state_string target)"
proof -
  have "find (\<lambda>d. cd_type d = ''Ready'' \<and> cd_status d = ''True'') (set_condition c ds) = Some c"
    if "cd_type c = ''Ready''" "cd_status c = ''True''" for c ds
    using that by (induction ds) auto
  then show ?thesis by (simp add: ready_reason_def updated_binding_def Let_def)
qed

lemma updated_state_fields:
  "st_name (updated_state target root ctrls evals item) = st_name item"
  "st_subject_name (updated_state target root ctrls evals item) = st_subject_name item"
  "st_state (updated_state target root ctrls evals item) = state_string target"
  "st_evidence_root (updated_state target root ctrls evals item) = root"
  "map cs_id (st_controls (updated_state target root ctrls evals item)) = map c_id ctrls"
proof -
  have "map cs_id (control_statuses target ctrls evals) = map c_id ctrls"
    by (rule nth_equalityI) (auto simp: control_statuses_def Let_def)
  then show "map cs_id (st_controls (updated_state target root ctrls evals item)) = map c_id ctrls"
    by (simp add: updated_state_def Let_def)
qed (simp_all add: updated_state_def Let_def)

text \<open>The signer returns a receipt for an evaluation that bears a signature.\<close>

definition signs :: "(control_receipt \<Rightarrow> control_receipt result) \<Rightarrow> subject_ref \<Rightarrow> claim_evaluation \<Rightarrow> bool" where
  "signs sign s eval =
     (case sign \<lparr>rc_subject = s, rc_control = ce_control eval, rc_state = Assured, rc_epoch = ce_epoch eval,
             rc_evidence_root = ce_evidence_root eval, rc_evaluator = empty_authority,
             rc_evaluated_at = ce_evaluated_at eval, rc_signature = []\<rparr> of
        Inl _ \<Rightarrow> False | Inr receipt \<Rightarrow> rc_signature receipt \<noteq> [])"

lemma recorded_receipt_effects:
  "written_bindings (receipt_effects r b s target evals) = []" "written_states (receipt_effects r b s target evals) = []"
  "recorded_states (receipt_effects r b s target evals) = []"
  "recorded_receipts (receipt_effects r b s target evals) =
     (case rec_signer r of
        None \<Rightarrow> []
      | Some sign \<Rightarrow>
          if target = Assured
          then map (\<lambda>eval. (br_name b, if signs sign s eval then ''VALID'' else ''FAILED''))
            (filter (\<lambda>eval. ce_state eval \<in> {Assured, Verified}) evals)
          else [])"
proof -
  have step: "(case sign x of
          Inl e \<Rightarrow> ReceiptRecorded n f
        | Inr q \<Rightarrow> ReceiptRecorded n (if rc_signature q \<noteq> [] then v else f)) =
      ReceiptRecorded n (if (case sign x of Inl _ \<Rightarrow> False | Inr q \<Rightarrow> rc_signature q \<noteq> []) then v else f)"
    for sign :: "control_receipt \<Rightarrow> control_receipt result" and x n v f
    by (simp split: sum.split)
  have all: "written_bindings (map (\<lambda>x. ReceiptRecorded (g x) (h x)) xs) = []"
    "written_states (map (\<lambda>x. ReceiptRecorded (g x) (h x)) xs) = []"
    "recorded_states (map (\<lambda>x. ReceiptRecorded (g x) (h x)) xs) = []"
    "recorded_receipts (map (\<lambda>x. ReceiptRecorded (g x) (h x)) xs) = map (\<lambda>x. (g x, h x)) xs"
    for g h and xs :: "claim_evaluation list"
    by (induction xs) simp_all
  show "written_bindings (receipt_effects r b s target evals) = []" "written_states (receipt_effects r b s target evals) = []"
    "recorded_states (receipt_effects r b s target evals) = []"
    "recorded_receipts (receipt_effects r b s target evals) =
     (case rec_signer r of
        None \<Rightarrow> []
      | Some sign \<Rightarrow>
          if target = Assured
          then map (\<lambda>eval. (br_name b, if signs sign s eval then ''VALID'' else ''FAILED''))
            (filter (\<lambda>eval. ce_state eval \<in> {Assured, Verified}) evals)
          else [])"
    unfolding receipt_effects_def signs_def step by (auto simp: all split: option.split)
qed

lemma reconcile_found:
  assumes "rec_binding r ns name = Found b" and "evaluate_binding r clock b = (target, sub, evals)"
  shows "reconcile r clock now ns name =
    (let root = if evals = [] then [] else ce_evidence_root (last evals);
         b' = updated_binding now target root b;
         drift = if br_observed_generation b \<noteq> 0 \<and> br_observed_generation b \<noteq> br_generation b
           then [DriftRecorded (br_name b) ''generation_drift''] else [];
         mine = case rec_states r (br_namespace b) of Inl _ \<Rightarrow> [] | Inr items \<Rightarrow> filter (belongs_to (br_name b)) items
     in case rec_update_binding r b' of
          Some e \<Rightarrow> (drift, Err e)
        | None \<Rightarrow> (drift @ [BindingUpdated b'] @
            map (\<lambda>item. StateUpdated (updated_state target root (br_controls b) evals item)) mine @
            [AssuranceRecorded (br_namespace b) (br_name b) (state_string target) (show_int (br_generation b))] @
            (case sub of None \<Rightarrow> [] | Some s \<Rightarrow> receipt_effects r b s target evals),
           Ok (Some (5 * minute))))"
  by (simp add: reconcile_def assms Let_def split: option.split sum.split)

section \<open>Properties\<close>

text \<open>
  C17: with any evaluator the state of a binding is the worst over its controls, in the order FAILED, UNKNOWN,
  STALE, with VERIFIED counted as ASSURED, and FAILED as soon as an evaluation errs; without an
  evaluator or without controls it is UNKNOWN.
\<close>

lemma binding_state_is_worst:
  "fst (evaluate_binding r clock b) =
     (case rec_evaluator r of
        None \<Rightarrow> Unknown
      | Some ev \<Rightarrow>
          if br_controls b = [] then Unknown
          else let (sub, dig) = binding_subject r b;
                   rs = evaluations ev clock 0 b sub (binding_contract (rec_contract r) b)
                     (empty_epoch\<lparr>subject_digest := dig\<rparr>) (br_controls b)
               in if list_all is_ok rs then worst_state (ce_state ` projr ` set rs) else Failed)"
proof (cases "rec_evaluator r")
  case (Some ev)
  obtain sub dig where sub: "binding_subject r b = (sub, dig)" by (cases "binding_subject r b")
  let ?rs = "evaluations ev clock 0 b sub (binding_contract (rec_contract r) b)
    (empty_epoch\<lparr>subject_digest := dig\<rparr>) (br_controls b)"
  have take: "takeWhile is_ok ?rs = ?rs" if "list_all is_ok ?rs"
    using that by (simp add: takeWhile_eq_all_conv list_all_iff)
  have "worst_state {} = Assured" by (simp add: worst_state_def)
  then have "fst (evaluate_controls ev clock 0 b sub (binding_contract (rec_contract r) b)
      (empty_epoch\<lparr>subject_digest := dig\<rparr>) (br_controls b) Assured []) =
      (if list_all is_ok ?rs then worst_state (ce_state ` projr ` set ?rs) else Failed)"
    using evaluate_controls_worst[of ev clock 0 b sub "binding_contract (rec_contract r) b"
        "empty_epoch\<lparr>subject_digest := dig\<rparr>" "br_controls b" "[]"] take
    by (cases "list_all is_ok ?rs") (simp_all add: Let_def)
  then show ?thesis
    by (simp add: evaluate_binding_def Some sub Let_def case_prod_unfold)
qed (simp add: evaluate_binding_def)

text \<open>
  C5: a binding that the reconciler finds ASSURED with the contract evaluator has controls and a contract that
  requires something, and for every control, at the time of its evaluation, every required
  requirement is supported by evidence the evaluator has for the subject, matching its digest.
\<close>

lemma assured_binding_has_evidence:
  assumes "rec_evaluator r = Some (contract_evaluate e)" and "fst (evaluate_binding r clock b) = Assured"
    and "binding_subject r b = (sub, dig)"
  shows "br_controls b \<noteq> [] \<and> (\<exists>req\<in>set (ct_requirements (binding_contract (rec_contract r) b)). r_required req) \<and>
    (\<forall>k < length (br_controls b). \<forall>req\<in>set (ct_requirements (binding_contract (rec_contract r) b)). r_required req \<longrightarrow>
       (\<exists>env\<in>set (default_source e sub). supports req (empty_epoch\<lparr>subject_digest := dig\<rparr>) (clock k) env))"
  by (rule assured_binding_supported[OF assms])

definition example_binding :: binding_resource where
  "example_binding =
     \<lparr>br_namespace = ''ns'', br_name = ''api'', br_generation = 1, br_controls = [default_control], br_kinds = [],
      br_requirements = [(''r'', [])], br_observed_generation = 0, br_conditions = []\<rparr>"

definition example_reconciler :: "contract_evaluator \<Rightarrow> reconciler" where
  "example_reconciler e =
     \<lparr>rec_binding = (\<lambda>ns n. Found example_binding), rec_contract = (\<lambda>ns n. NotFound), rec_states = (\<lambda>ns. Ok []),
      rec_update_binding = (\<lambda>b. None), rec_resolver = Some (\<lambda>u. Ok example_subject, \<lambda>s. Ok ''d''),
      rec_evaluator = Some (contract_evaluate e), rec_signer = Some Ok\<rparr>"

definition example_evaluator :: contract_evaluator where
  "example_evaluator =
     \<lparr>evidence_source = [example_envelope\<lparr>ev_epoch := empty_epoch\<lparr>subject_digest := ''d''\<rparr>\<rparr>], evidence_repo = None\<rparr>"

lemma example_binding_subject [simp]: "binding_subject (example_reconciler e) example_binding = (example_subject, ''d'')"
  by (simp add: binding_subject_def example_reconciler_def example_binding_def Let_def)

lemma example_binding_assured:
  "fst (evaluate_binding (example_reconciler example_evaluator) (\<lambda>k. 1) example_binding) = Assured"
proof -
  let ?c = "binding_contract (rec_contract (example_reconciler example_evaluator)) example_binding"
  have c: "?c = inline_contract example_binding"
    by (simp add: binding_contract_def example_binding_def example_reconciler_def)
  have "cr_state (evaluate_contract ?c (default_source example_evaluator example_subject)
      (empty_epoch\<lparr>subject_digest := ''d''\<rparr>) 1) = Verified"
    unfolding c
    by (subst evaluate_verified_iff)
      (auto simp: inline_contract_def example_binding_def default_source_def example_evaluator_def supports_def
        relevant_def is_producer_accepted_def is_fresh_def time_sub_def example_envelope_def time_units)
  then show ?thesis
    unfolding evaluate_binding_def example_binding_subject
    by (simp add: example_reconciler_def example_binding_def claim_for_def contract_evaluate_def overall_step_def Let_def)
qed

lemma assured_binding_has_evidence_witness:
  "\<exists>env\<in>set (default_source example_evaluator example_subject).
     supports (hd (ct_requirements (inline_contract example_binding))) (empty_epoch\<lparr>subject_digest := ''d''\<rparr>) 1 env"
proof -
  have e: "rec_evaluator (example_reconciler example_evaluator) = Some (contract_evaluate example_evaluator)"
    by (simp add: example_reconciler_def)
  have c: "binding_contract (rec_contract (example_reconciler example_evaluator)) example_binding = inline_contract example_binding"
    by (simp add: binding_contract_def example_binding_def example_reconciler_def)
  show ?thesis
    using assured_binding_has_evidence[OF e example_binding_assured example_binding_subject]
    unfolding c by (simp add: inline_contract_def example_binding_def)
qed



text \<open>
  Further: the vector the contract evaluator attaches to a VERIFIED or ASSURED evaluation leaves five dimensions
  unresolved, so it never resolves to ASSURED; and its state does not depend on the control of the
  claim, only on the subject, the contract and the epoch.
\<close>

lemma evaluator_vector_and_control:
  "resolve (evaluation_vector st) pol \<noteq> Assured \<and>
   ce_state (projr (contract_evaluate e t cl c ep)) = ce_state (projr (contract_evaluate e t (cl\<lparr>cl_control := ctrl\<rparr>) c ep))"
  by (simp add: contract_evaluate_state) (simp add: resolve_assured dimensions_def evaluation_vector_def new_default_vector_def)

end
