(* ===== verification/Ingest.thy ===== *)
theory Ingest
  imports Validator Reconcile
begin

text \<open>
  internal/reconciler/oscal/ingest.go: component definitions and system security plans turned into
  control bindings and evidence contracts, and what the reconciler of Reconcile sees of them. The
  decoders of the two document types and the YAML converter are arguments, as is the rounding of
  fractions of a duration.
\<close>

section \<open>Resources\<close>

record framework_mapping =
  fm_framework :: string
  fm_control :: string
  fm_version :: string

record binding_item =
  bi_canonical :: control_ref
  bi_mappings :: "framework_mapping list"

record implementation_ref =
  ip_purpose :: string
  ip_provider :: string
  ip_name :: string
  ip_namespace :: string

record requirement_binding =
  rq_id :: string
  rq_implementations :: "implementation_ref list"
  rq_contract :: string

record object_meta =
  om_api_version :: string
  om_kind :: string
  om_name :: string
  om_namespace :: string
  om_labels :: smap

record evidence_contract_resource =
  ec_meta :: object_meta
  ec_requirements :: "contract_requirement list"
  ec_on_missing :: string

record control_binding_resource =
  kb_meta :: object_meta
  kb_controls :: "binding_item list"
  kb_kinds :: "string list"
  kb_match_labels :: smap
  kb_requirements :: "requirement_binding list"

record ingestion =
  in_source_type :: string
  in_source_uuid :: string
  in_title :: string
  in_bindings :: "control_binding_resource list"
  in_contracts :: "evidence_contract_resource list"

section \<open>Names\<close>

definition sanitize_char :: "char \<Rightarrow> string" where
  "sanitize_char c =
     (let n = of_char c :: nat
      in if (97 \<le> n \<and> n \<le> 122) \<or> (48 \<le> n \<and> n \<le> 57) \<or> c = CHR ''-'' then [c]
         else if c \<in> set '' _.'' then ''-''
         else [])"

definition sanitize_k8s_name :: "string \<Rightarrow> string" where
  "sanitize_k8s_name s =
     (let res = trim_char CHR ''-'' (concat (map sanitize_char (to_lower s)));
          res = (if length res > 63 then take 63 res else res)
      in if res = [] then ''resource'' else res)"

section \<open>Requirements\<close>

record evidence_choice =
  ch_type :: string
  ch_freshness :: duration
  ch_producer :: string

definition choose_evidence :: "rounding \<Rightarrow> evidence_choice \<Rightarrow> property \<Rightarrow> evidence_choice" where
  "choose_evidence rnd ch p =
     (let name = to_lower (py_name p)
      in if name \<in> set [''evidence-type'', ''type''] then ch\<lparr>ch_type := py_value p\<rparr>
         else if name \<in> set [''producer'', ''source''] then ch\<lparr>ch_producer := py_value p\<rparr>
         else if name \<in> set [''freshness'', ''max-age'']
         then (case parse_duration rnd (py_value p) of Some d \<Rightarrow> ch\<lparr>ch_freshness := d\<rparr> | None \<Rightarrow> ch)
         else ch)"

definition ingested_item :: "string \<Rightarrow> binding_item" where
  "ingested_item control_id =
     \<lparr>bi_canonical = \<lparr>c_namespace = ''nist-sp-800-53'', c_id = control_id, c_version = []\<rparr>,
      bi_mappings = [\<lparr>fm_framework = ''NIST SP 800-53'', fm_control = control_id, fm_version = ''Rev 5''\<rparr>]\<rparr>"

definition requirement_id :: "string \<Rightarrow> string \<Rightarrow> string" where
  "requirement_id control_id ev_type = ''req-'' @ to_lower control_id @ ''-'' @ ev_type"

type_synonym ingested = "binding_item \<times> contract_requirement \<times> requirement_binding"

definition ingested_requirement :: "string \<Rightarrow> string \<Rightarrow> string \<Rightarrow> string \<Rightarrow> evidence_choice \<Rightarrow> ingested" where
  "ingested_requirement purpose slug ns control_id ch =
     (let rid = requirement_id control_id (ch_type ch)
      in (ingested_item control_id,
          \<lparr>q_id = rid, q_type = ch_type ch, q_required = True, q_freshness = ch_freshness ch,
           q_accepted_producers = [ch_producer ch]\<rparr>,
          \<lparr>rq_id = rid,
           rq_implementations = [\<lparr>ip_purpose = purpose, ip_provider = ch_producer ch, ip_name = slug, ip_namespace = ns\<rparr>],
           rq_contract = slug @ ''-contract''\<rparr>))"

definition component_requirement :: "rounding \<Rightarrow> string \<Rightarrow> string \<Rightarrow> implemented_requirement \<Rightarrow> ingested" where
  "component_requirement rnd slug ns req =
     ingested_requirement ''preventive'' slug ns (ir_control_id req)
       (foldl (choose_evidence rnd) \<lparr>ch_type = ''admission'', ch_freshness = 24 * hour, ch_producer = ''oskal-engine''\<rparr>
         (ir_props req))"

definition plan_requirement :: "rounding \<Rightarrow> string \<Rightarrow> string \<Rightarrow> ssp_requirement \<Rightarrow> ingested" where
  "plan_requirement rnd slug ns req =
     ingested_requirement ''detective'' slug ns (sq_control_id req)
       (foldl (choose_evidence rnd) \<lparr>ch_type = ''compliance'', ch_freshness = 24 * hour, ch_producer = ''oskal-ssp-auditor''\<rparr>
         (sq_props req))"

section \<open>Documents\<close>

definition ingest_labels :: "string \<Rightarrow> string \<Rightarrow> string \<Rightarrow> smap" where
  "ingest_labels source_type key slug =
     [(''assurance.ckodex.io/source'', ''oskal-ingest''), (''assurance.ckodex.io/source-type'', source_type), (key, slug)]"

definition resource_meta :: "string \<Rightarrow> string \<Rightarrow> string \<Rightarrow> smap \<Rightarrow> object_meta" where
  "resource_meta kind name ns labels =
     \<lparr>om_api_version = ''assurance.ckodex.io/v1alpha1'', om_kind = kind, om_name = name, om_namespace = ns, om_labels = labels\<rparr>"

definition ingested_contract :: "string \<Rightarrow> string \<Rightarrow> smap \<Rightarrow> ingested list \<Rightarrow> evidence_contract_resource" where
  "ingested_contract slug ns labels items =
     \<lparr>ec_meta = resource_meta ''EvidenceContract'' (slug @ ''-contract'') ns labels,
      ec_requirements = map (\<lambda>(_, q, _). q) items, ec_on_missing = ''Unknown''\<rparr>"

definition ingested_binding :: "string \<Rightarrow> string \<Rightarrow> smap \<Rightarrow> string \<Rightarrow> ingested list \<Rightarrow> control_binding_resource" where
  "ingested_binding slug ns labels match_key items =
     \<lparr>kb_meta = resource_meta ''ControlBinding'' (slug @ ''-binding'') ns labels,
      kb_controls = map (\<lambda>(i, _, _). i) items, kb_kinds = [''Deployment'', ''StatefulSet'', ''DaemonSet''],
      kb_match_labels = [(match_key, slug)], kb_requirements = map (\<lambda>(_, _, b). b) items\<rparr>"

definition component_slug :: "defined_component \<Rightarrow> string" where
  "component_slug dc =
     (let slug = sanitize_k8s_name (dc_title dc) in if slug = [] then sanitize_k8s_name (dc_uuid dc) else slug)"

definition component_items :: "rounding \<Rightarrow> string \<Rightarrow> defined_component \<Rightarrow> ingested list" where
  "component_items rnd ns dc =
     concat (map (\<lambda>ci. map (component_requirement rnd (component_slug dc) ns) (ci_requirements ci)) (dc_implementations dc))"

definition ingest_component :: "rounding \<Rightarrow> string \<Rightarrow> ingestion \<Rightarrow> defined_component \<Rightarrow> ingestion" where
  "ingest_component rnd ns res dc =
     (let slug = component_slug dc; items = component_items rnd ns dc;
          labels = ingest_labels ''component-definition'' ''assurance.ckodex.io/component'' slug
      in if items = [] then res
         else res\<lparr>in_contracts := in_contracts res @ [ingested_contract slug ns labels items],
                  in_bindings := in_bindings res @ [ingested_binding slug ns labels ''app.kubernetes.io/name'' items]\<rparr>)"

definition ingest_component_definition :: "rounding \<Rightarrow> string \<Rightarrow> component_definition \<Rightarrow> ingestion" where
  "ingest_component_definition rnd ns cd =
     foldl (ingest_component rnd ns)
       \<lparr>in_source_type = ''ComponentDefinition'', in_source_uuid = cd_uuid cd, in_title = md_title (cd_metadata cd),
        in_bindings = [], in_contracts = []\<rparr> (cd_components cd)"

definition system_slug :: "security_plan \<Rightarrow> string" where
  "system_slug sp =
     (let slug = sanitize_k8s_name (sy_name (sp_characteristics sp));
          slug = (if slug = [] then sanitize_k8s_name (md_title (sp_metadata sp)) else slug)
      in if slug = [] then ''oskal-system'' else slug)"

definition ingest_ssp :: "rounding \<Rightarrow> string \<Rightarrow> security_plan \<Rightarrow> ingestion" where
  "ingest_ssp rnd ns sp =
     (let slug = system_slug sp; items = map (plan_requirement rnd slug ns) (sp_requirements sp);
          labels = ingest_labels ''ssp'' ''assurance.ckodex.io/system'' slug
      in \<lparr>in_source_type = ''SystemSecurityPlan'', in_source_uuid = sp_uuid sp, in_title = md_title (sp_metadata sp),
          in_bindings = (if items = [] then [] else [ingested_binding slug ns labels ''app.kubernetes.io/part-of'' items]),
          in_contracts = (if items = [] then [] else [ingested_contract slug ns labels items])\<rparr>)"

record decoders =
  de_yaml :: "string \<Rightarrow> string result"
  de_components :: "string \<Rightarrow> component_definition result"
  de_plan :: "string \<Rightarrow> security_plan result"

definition is_json :: "string \<Rightarrow> bool" where
  "is_json data = (let trimmed = trim_space data in has_prefix trimmed ''{'' \<or> has_prefix trimmed ''['')"

definition ingested_plan :: "rounding \<Rightarrow> decoders \<Rightarrow> string \<Rightarrow> string \<Rightarrow> ingestion result" where
  "ingested_plan rnd de ns json_data =
     (let unsupported =
            Err ''unrecognized or unsupported OSCAL document (expected component-definition or system-security-plan)''
      in case de_plan de json_data of
           Inr sp \<Rightarrow> if sp_uuid sp \<noteq> [] then Ok (ingest_ssp rnd ns sp) else unsupported
         | Inl _ \<Rightarrow> unsupported)"

definition ingest_oscal :: "rounding \<Rightarrow> decoders \<Rightarrow> string \<Rightarrow> string \<Rightarrow> ingestion result" where
  "ingest_oscal rnd de data target =
     (if data = [] then Err ''empty OSCAL data provided''
      else let ns = (if target = [] then ''default'' else target)
        in case (if is_json data then Ok data else de_yaml de data) of
             Inl e \<Rightarrow> Err (''failed to parse YAML to JSON: '' @ e)
           | Inr json_data \<Rightarrow>
               (case de_components de json_data of
                  Inr cd \<Rightarrow> if cd_uuid cd \<noteq> [] then Ok (ingest_component_definition rnd ns cd)
                     else ingested_plan rnd de ns json_data
                | Inl _ \<Rightarrow> ingested_plan rnd de ns json_data))"

section \<open>What the reconciler sees\<close>

text \<open>The fields of the two resources that the reconciler reads when it fetches them.\<close>

definition fetched_contract :: "evidence_contract_resource \<Rightarrow> contract_resource" where
  "fetched_contract ec =
     \<lparr>er_name = om_name (ec_meta ec), er_requirements = ec_requirements ec, er_on_missing = ec_on_missing ec\<rparr>"

definition fetched_binding :: "control_binding_resource \<Rightarrow> binding_resource" where
  "fetched_binding kb =
     \<lparr>br_namespace = om_namespace (kb_meta kb), br_name = om_name (kb_meta kb), br_generation = 0,
      br_controls = map bi_canonical (kb_controls kb), br_kinds = kb_kinds kb,
      br_requirements = map (\<lambda>b. (rq_id b, rq_contract b)) (kb_requirements kb), br_observed_generation = 0,
      br_conditions = []\<rparr>"

section \<open>Lemmas\<close>

definition name_char :: "char \<Rightarrow> bool" where
  "name_char c = (let n = of_char c :: nat in (97 \<le> n \<and> n \<le> 122) \<or> (48 \<le> n \<and> n \<le> 57) \<or> c = CHR ''-'')"

lemma sanitize_char_name: "x \<in> set (sanitize_char c) \<Longrightarrow> name_char x"
  by (auto simp: sanitize_char_def name_char_def Let_def split: if_splits)

lemma sanitized_shape:
  fixes s
  defines "t \<equiv> trim_char CHR ''-'' (concat (map sanitize_char (to_lower s)))"
  shows "sanitize_k8s_name s = (if t = [] then ''resource'' else take 63 t)" and "list_all name_char t"
proof -
  show "sanitize_k8s_name s = (if t = [] then ''resource'' else take 63 t)"
    by (simp add: sanitize_k8s_name_def Let_def flip: t_def)
  have "set t \<subseteq> set (concat (map sanitize_char (to_lower s)))" unfolding t_def by (rule set_trim_char)
  then show "list_all name_char t" by (auto simp: list_all_iff dest!: subsetD sanitize_char_name)
qed

lemma sanitized_nonempty [simp]: "sanitize_k8s_name s \<noteq> []"
  unfolding sanitized_shape(1) by simp

lemma component_slug_title: "component_slug dc = sanitize_k8s_name (dc_title dc)"
  by (simp add: component_slug_def)

lemma system_slug_name: "system_slug sp = sanitize_k8s_name (sy_name (sp_characteristics sp))"
  by (simp add: system_slug_def)

text \<open>A binding and a contract that were made from the same items.\<close>

definition paired :: "control_binding_resource \<Rightarrow> evidence_contract_resource \<Rightarrow> bool" where
  "paired kb ec =
     (om_namespace (kb_meta kb) = om_namespace (ec_meta ec) \<and> kb_controls kb \<noteq> [] \<and>
      length (kb_controls kb) = length (ec_requirements ec) \<and>
      map rq_id (kb_requirements kb) = map q_id (ec_requirements ec) \<and>
      list_all (\<lambda>b. rq_contract b = om_name (ec_meta ec)) (kb_requirements kb) \<and>
      list_all2 (\<lambda>i q. q_id q = requirement_id (c_id (bi_canonical i)) (q_type q) \<and> q_required q)
        (kb_controls kb) (ec_requirements ec) \<and>
      ec_on_missing ec = ''Unknown'')"

lemma ingested_requirement_parts:
  "ingested_requirement purpose slug ns control_id ch = (i, q, b) \<Longrightarrow>
     rq_id b = q_id q \<and> rq_contract b = slug @ ''-contract'' \<and> q_required q \<and>
     q_id q = requirement_id (c_id (bi_canonical i)) (q_type q)"
  by (auto simp: ingested_requirement_def ingested_item_def Let_def)

lemma paired_items:
  assumes "items \<noteq> []" and "\<forall>x\<in>set items. \<exists>purpose control_id ch. x = ingested_requirement purpose slug ns control_id ch"
  shows "paired (ingested_binding slug ns labels key items) (ingested_contract slug ns labels items)"
proof -
  have parts: "rq_id (snd (snd x)) = q_id (fst (snd x)) \<and> rq_contract (snd (snd x)) = slug @ ''-contract'' \<and>
      q_required (fst (snd x)) \<and> q_id (fst (snd x)) = requirement_id (c_id (bi_canonical (fst x))) (q_type (fst (snd x)))"
    if "x \<in> set items" for x
    using assms(2) that by (metis ingested_requirement_parts prod.collapse)
  have "list_all2 (\<lambda>x y. q_id (fst (snd y)) = requirement_id (c_id (bi_canonical (fst x))) (q_type (fst (snd y))) \<and>
      q_required (fst (snd y))) items items"
    using parts by (intro list.rel_refl_strong) simp
  then show ?thesis
    using assms(1) parts
    by (simp add: paired_def ingested_binding_def ingested_contract_def resource_meta_def case_prod_unfold list_all_iff
        list.rel_map)
qed

definition component_binding :: "rounding \<Rightarrow> string \<Rightarrow> defined_component \<Rightarrow> control_binding_resource" where
  "component_binding rnd ns dc =
     ingested_binding (component_slug dc) ns
       (ingest_labels ''component-definition'' ''assurance.ckodex.io/component'' (component_slug dc))
       ''app.kubernetes.io/name'' (component_items rnd ns dc)"

definition component_contract :: "rounding \<Rightarrow> string \<Rightarrow> defined_component \<Rightarrow> evidence_contract_resource" where
  "component_contract rnd ns dc =
     ingested_contract (component_slug dc) ns
       (ingest_labels ''component-definition'' ''assurance.ckodex.io/component'' (component_slug dc))
       (component_items rnd ns dc)"

lemma ingested_components:
  "in_bindings (foldl (ingest_component rnd ns) res dcs) =
     in_bindings res @ map (component_binding rnd ns) (filter (\<lambda>dc. component_items rnd ns dc \<noteq> []) dcs) \<and>
   in_contracts (foldl (ingest_component rnd ns) res dcs) =
     in_contracts res @ map (component_contract rnd ns) (filter (\<lambda>dc. component_items rnd ns dc \<noteq> []) dcs)"
  by (induction dcs arbitrary: res)
    (simp_all add: ingest_component_def component_binding_def component_contract_def Let_def)

lemma ingested_single:
  assumes "cd_components cd = [dc]" and "component_items rnd ns dc \<noteq> []"
  shows "in_bindings (ingest_component_definition rnd ns cd) = [component_binding rnd ns dc]"
    and "in_contracts (ingest_component_definition rnd ns cd) = [component_contract rnd ns dc]"
  using assms ingested_components[of rnd ns _ "[dc]"] by (simp_all add: ingest_component_definition_def del: foldl.simps)

lemma component_items_made:
  "x \<in> set (component_items rnd ns dc) \<Longrightarrow>
     \<exists>purpose control_id ch. x = ingested_requirement purpose (component_slug dc) ns control_id ch"
  by (auto simp: component_items_def component_requirement_def)

lemma component_paired:
  "component_items rnd ns dc \<noteq> [] \<Longrightarrow> paired (component_binding rnd ns dc) (component_contract rnd ns dc)"
  unfolding component_binding_def component_contract_def
  by (intro paired_items ballI component_items_made)

lemma ingest_component_definition_paired:
  "list_all2 paired (in_bindings (ingest_component_definition rnd ns cd)) (in_contracts (ingest_component_definition rnd ns cd))"
  by (auto simp: ingest_component_definition_def ingested_components list.rel_map component_paired intro!: list.rel_refl_strong)

lemma ingest_ssp_paired: "list_all2 paired (in_bindings (ingest_ssp rnd ns sp)) (in_contracts (ingest_ssp rnd ns sp))"
proof -
  have "\<forall>x\<in>set (map (plan_requirement rnd slug ns) rs).
      \<exists>purpose control_id ch. x = ingested_requirement purpose slug ns control_id ch" for slug rs
    by (auto simp: plan_requirement_def)
  then show ?thesis by (auto simp: ingest_ssp_def Let_def intro!: paired_items)
qed

lemma ingest_oscal_cases:
  "ingest_oscal rnd de data target = Ok res \<Longrightarrow>
     (\<exists>ns cd. res = ingest_component_definition rnd ns cd) \<or> (\<exists>ns sp. res = ingest_ssp rnd ns sp)"
  by (auto simp: ingest_oscal_def ingested_plan_def Let_def split: sum.splits if_splits)

lemma ingested_paired: "ingest_oscal rnd de data target = Ok res \<Longrightarrow> list_all2 paired (in_bindings res) (in_contracts res)"
  using ingest_oscal_cases[of rnd de data target res]
  by (auto simp: ingest_component_definition_paired ingest_ssp_paired)

text \<open>The reconciler takes the contract of an ingested binding from the API server, not the inline one.\<close>

lemma fetched_binding_contract:
  assumes "kb_requirements kb = b # bs" and "rq_contract b = name" and "name \<noteq> []" and "ec_requirements ec \<noteq> []"
    and "get (om_namespace (kb_meta kb)) name = Found (fetched_contract ec)"
  shows "binding_contract get (fetched_binding kb) = contract_of_resource (fetched_contract ec)"
  using assms by (simp add: binding_contract_def fetched_binding_def contract_of_resource_def fetched_contract_def Let_def)

lemma paired_contract:
  assumes "paired kb ec"
    and "get (om_namespace (kb_meta kb)) (om_name (ec_meta ec)) = Found (fetched_contract ec)"
    and "om_name (ec_meta ec) \<noteq> []"
  shows "binding_contract get (fetched_binding kb) = contract_of_resource (fetched_contract ec)"
proof -
  have "length (kb_controls kb) = length (ec_requirements ec)" "kb_controls kb \<noteq> []"
    "length (kb_requirements kb) = length (ec_requirements ec)" 
    "list_all (\<lambda>b. rq_contract b = om_name (ec_meta ec)) (kb_requirements kb)"
    using assms(1) by (auto simp: paired_def dest: arg_cong[where f = length])
  moreover from this have "ec_requirements ec \<noteq> []" by auto
  ultimately obtain b bs where "kb_requirements kb = b # bs" "rq_contract b = om_name (ec_meta ec)" "ec_requirements ec \<noteq> []"
    by (cases "kb_requirements kb") auto
  then show ?thesis by (rule fetched_binding_contract[where get = get, OF _ _ assms(3) _ assms(2)])
qed

lemma ingested_contract_name:
  "ingest_oscal rnd de data target = Ok res \<Longrightarrow> ec \<in> set (in_contracts res) \<Longrightarrow> om_name (ec_meta ec) \<noteq> []"
  using ingest_oscal_cases[of rnd de data target res]
  by (auto simp: ingest_component_definition_def ingest_ssp_def ingested_components component_contract_def
      ingested_contract_def resource_meta_def Let_def split: if_splits)

lemma choose_projected:
  "foldl (choose_evidence rnd) ch [oscal_property ''assurance-state'' a, oscal_property ''epoch-composite'' b] = ch"
proof -
  have "to_lower ''assurance-state'' = ''assurance-state''" "to_lower ''epoch-composite'' = ''epoch-composite''"
    by code_simp+
  then show ?thesis by (simp add: choose_evidence_def oscal_property_def)
qed

lemma projected_items:
  "component_items rnd ns (hd (cd_components (project_component_definition u now name evals))) =
     map (\<lambda>eval. ingested_requirement ''preventive'' (sanitize_k8s_name name) ns (projected_control_id (ce_control eval))
       \<lparr>ch_type = ''admission'', ch_freshness = 24 * hour, ch_producer = ''oskal-engine''\<rparr>) evals"
proof -
  have snd: "map (\<lambda>x. f (snd x)) (indexed evals) = map f evals" for f :: "claim_evaluation \<Rightarrow> ingested"
    by (rule nth_equalityI) auto
  show ?thesis
    by (simp add: component_items_def project_component_definition_def component_requirement_def component_slug_title
        case_prod_unfold o_def choose_projected del: foldl.simps) (rule snd)
qed

section \<open>Properties\<close>

text \<open>
  Further: the name made of any text is not empty, has at most 63 characters, all of them lower case letters, digits or
  hyphens, and does not begin with a hyphen; it ends with one only if it was cut at 63.
\<close>

lemma sanitized_name:
  "sanitize_k8s_name s \<noteq> [] \<and> length (sanitize_k8s_name s) \<le> 63 \<and> list_all name_char (sanitize_k8s_name s) \<and>
   hd (sanitize_k8s_name s) \<noteq> CHR ''-'' \<and>
   (last (sanitize_k8s_name s) = CHR ''-'' \<longrightarrow> length (sanitize_k8s_name s) = 63)"
proof -
  define t where "t = trim_char CHR ''-'' (concat (map sanitize_char (to_lower s)))"
  have res: "list_all name_char ''resource''" by code_simp
  show ?thesis
  proof (cases "t = []")
    case True
    then have "sanitize_k8s_name s = ''resource''" unfolding sanitized_shape(1) t_def by simp
    with res show ?thesis by simp
  next
    case False
    then have eq: "sanitize_k8s_name s = take 63 t" unfolding sanitized_shape(1) t_def by simp
    have "hd t \<noteq> CHR ''-''" "last t \<noteq> CHR ''-''" using trim_char_ends[OF False[unfolded t_def]] by (simp_all add: t_def)
    moreover have "list_all name_char (take 63 t)"
      using sanitized_shape(2)[of s] unfolding t_def by (auto simp: list_all_iff dest: in_set_takeD)
    moreover have "last (take 63 t) = CHR ''-'' \<longrightarrow> length (take 63 t) = 63"
      using \<open>last t \<noteq> CHR ''-''\<close> by (cases "length t \<le> 63") simp_all
    moreover have "hd (take 63 t) = hd t" by (rule hd_take) simp
    ultimately show ?thesis unfolding eq using False by auto
  qed
qed

lemma sanitized_name_witness:
  "last (sanitize_k8s_name (replicate 62 CHR ''a'' @ ''. b'')) = CHR ''-'' \<and>
   length (sanitize_k8s_name (replicate 62 CHR ''a'' @ ''. b'')) = 63"
proof
  show "last (sanitize_k8s_name (replicate 62 CHR ''a'' @ ''. b'')) = CHR ''-''" by code_simp
  with sanitized_name[of "replicate 62 CHR ''a'' @ ''. b''"]
  show "length (sanitize_k8s_name (replicate 62 CHR ''a'' @ ''. b'')) = 63" by blast
qed


text \<open>
  Further: whatever document is ingested, bindings and contracts come in pairs, in the same order: same namespace, one
  required requirement for every control, its identifier made of the control and the type of evidence, the
  requirements of the binding referring to its contract, and missing evidence leaving the state UNKNOWN.
\<close>

lemma ingested_resources_paired:
  assumes "ingest_oscal rnd de data target = Ok res"
  shows "list_all2 paired (in_bindings res) (in_contracts res)"
  by (rule ingested_paired[OF assms])

definition example_components :: component_definition where
  "example_components =
     \<lparr>cd_uuid = ''u'', cd_metadata = oscal_metadata ''t'' 0,
      cd_components = [\<lparr>dc_uuid = ''c'', dc_type = ''software'', dc_title = ''API'', dc_description = [], dc_purpose = [],
        dc_implementations = [\<lparr>ci_uuid = ''i'', ci_source = [], ci_description = [],
          ci_requirements = [\<lparr>ir_uuid = ''r'', ir_control_id = ''AC-6'', ir_description = [],
            ir_props = [oscal_property ''Producer'' (authority_canonical empty_authority)]\<rparr>]\<rparr>]\<rparr>]\<rparr>"

definition example_decoders :: decoders where
  "example_decoders = \<lparr>de_yaml = Ok, de_components = \<lambda>_. Ok example_components, de_plan = \<lambda>_. Err ''no plan''\<rparr>"

lemma example_ingested:
  "ingest_oscal rnd example_decoders ''{}'' ''prod'' = Ok (ingest_component_definition rnd ''prod'' example_components)"
  by (simp add: ingest_oscal_def example_decoders_def is_json_def trim_space_def is_space_def example_components_def)

lemma ingested_resources_paired_witness:
  "list_all2 paired (in_bindings (ingest_component_definition (\<lambda>_ _ _. 0) ''prod'' example_components))
     (in_contracts (ingest_component_definition (\<lambda>_ _ _. 0) ''prod'' example_components))"
  by (rule ingested_resources_paired[OF example_ingested])

text \<open>
  Further: from document to state: when the reconciler finds a binding ingested from an OSCAL document ASSURED, its
  contract being the one ingested with it, there is evidence for every requirement of the document's
  component, of the type, from the producer and within the age that the document asks for.
\<close>

lemma assured_ingested_binding:
  assumes "ingest_oscal rnd de data target = Ok res" and "(kb, ec) \<in> set (zip (in_bindings res) (in_contracts res))"
    and "rec_contract r (om_namespace (kb_meta kb)) (om_name (ec_meta ec)) = Found (fetched_contract ec)"
    and "rec_evaluator r = Some (contract_evaluate e)"
    and "fst (evaluate_binding r clock (fetched_binding kb)) = Assured"
    and "binding_subject r (fetched_binding kb) = (sub, dig)"
  shows "ec_requirements ec \<noteq> [] \<and>
    (\<forall>k < length (kb_controls kb). \<forall>q\<in>set (ec_requirements ec). \<exists>env\<in>set (default_source e sub).
       supports (requirement_of q) (empty_epoch\<lparr>subject_digest := dig\<rparr>) (clock k) env)"
proof -
  have p: "paired kb ec" using ingested_paired[OF assms(1)] assms(2) by (auto simp: list_all2_iff)
  have "om_name (ec_meta ec) \<noteq> []" using ingested_contract_name[OF assms(1)] assms(2) by (auto dest: set_zip_rightD)
  then have c: "binding_contract (rec_contract r) (fetched_binding kb) = contract_of_resource (fetched_contract ec)"
    by (rule paired_contract[where get = "rec_contract r", OF p assms(3)])
  have "\<forall>q\<in>set (ec_requirements ec). q_required q"
    using p by (auto simp: paired_def list_all2_conv_all_nth in_set_conv_nth)
  then have req: "r_required (requirement_of q)" if "q \<in> set (ec_requirements ec)" for q
    using that by (simp add: requirement_of_def)
  have "ec_requirements ec \<noteq> []" using p by (auto simp: paired_def)
  moreover have "length (br_controls (fetched_binding kb)) = length (kb_controls kb)" by (simp add: fetched_binding_def)
  ultimately show ?thesis
    using assured_binding_supported[OF assms(4-6)] req
    unfolding c by (simp add: contract_of_resource_def fetched_contract_def)
qed

lemma example_items:
  "component_items rnd ns (hd (cd_components example_components)) =
     [ingested_requirement ''preventive'' ''api'' ns ''AC-6''
       \<lparr>ch_type = ''admission'', ch_freshness = 24 * hour, ch_producer = authority_canonical empty_authority\<rparr>]"
proof -
  have "to_lower ''Producer'' = ''producer''" "sanitize_k8s_name ''API'' = ''api''" by code_simp+
  then show ?thesis
    by (simp add: component_items_def example_components_def component_requirement_def component_slug_title
        choose_evidence_def oscal_property_def)
qed

definition ingested_kb :: control_binding_resource where
  "ingested_kb = component_binding (\<lambda>_ _ _. 0) ''prod'' (hd (cd_components example_components))"

definition ingested_ec :: evidence_contract_resource where
  "ingested_ec = component_contract (\<lambda>_ _ _. 0) ''prod'' (hd (cd_components example_components))"

definition ingested_reconciler :: reconciler where
  "ingested_reconciler = (example_reconciler example_evaluator)\<lparr>rec_contract := \<lambda>ns n. Found (fetched_contract ingested_ec)\<rparr>"

lemma ingested_pair:
  "in_bindings (ingest_component_definition (\<lambda>_ _ _. 0) ''prod'' example_components) = [ingested_kb]"
  "in_contracts (ingest_component_definition (\<lambda>_ _ _. 0) ''prod'' example_components) = [ingested_ec]"
proof -
  have dcs: "cd_components example_components = [hd (cd_components example_components)]" by (simp add: example_components_def)
  have ne: "component_items (\<lambda>_ _ _. 0) ''prod'' (hd (cd_components example_components)) \<noteq> []" unfolding example_items by simp
  show "in_bindings (ingest_component_definition (\<lambda>_ _ _. 0) ''prod'' example_components) = [ingested_kb]"
    "in_contracts (ingest_component_definition (\<lambda>_ _ _. 0) ''prod'' example_components) = [ingested_ec]"
    unfolding ingested_kb_def ingested_ec_def by (rule ingested_single[OF dcs ne])+
qed

lemma ingested_reconciler_subject: "binding_subject ingested_reconciler (fetched_binding ingested_kb) = (example_subject, ''d'')"
  by (simp add: binding_subject_def ingested_reconciler_def example_reconciler_def Let_def)

lemma ingested_kb_assured:
  "fst (evaluate_binding ingested_reconciler (\<lambda>k. 1) (fetched_binding ingested_kb)) = Assured"
proof -
  let ?b = "fetched_binding ingested_kb"
  have p: "paired ingested_kb ingested_ec"
    using ingest_component_definition_paired[of "\<lambda>_ _ _. 0" "''prod''" example_components] by (simp add: ingested_pair)
  have "binding_contract (rec_contract ingested_reconciler) ?b = contract_of_resource (fetched_contract ingested_ec)"
    by (rule paired_contract[OF p])
      (simp_all add: ingested_reconciler_def ingested_ec_def component_contract_def ingested_contract_def resource_meta_def)
  moreover have "ec_requirements ingested_ec = [\<lparr>q_id = requirement_id ''AC-6'' ''admission'', q_type = ''admission'',
      q_required = True, q_freshness = 24 * hour, q_accepted_producers = [authority_canonical empty_authority]\<rparr>]"
    unfolding ingested_ec_def component_contract_def ingested_contract_def example_items
    by (simp add: ingested_requirement_def Let_def)
  ultimately have c: "binding_contract (rec_contract ingested_reconciler) ?b =
      \<lparr>ct_id = om_name (ec_meta ingested_ec), ct_name = [], ct_requirements = [\<lparr>r_id = requirement_id ''AC-6'' ''admission'',
         r_evidence_type = ''admission'', r_required = True, r_max_age = 24 * hour,
         r_accepted_producers = [authority_canonical empty_authority]\<rparr>],
       ct_on_missing = (if ec_on_missing ingested_ec = ''Failed'' then Failed else Unknown)\<rparr>"
    by (simp add: contract_of_resource_def fetched_contract_def requirement_of_def time_units)
  have "cr_state (evaluate_contract (binding_contract (rec_contract ingested_reconciler) ?b)
      (default_source example_evaluator example_subject) (empty_epoch\<lparr>subject_digest := ''d''\<rparr>) 1) = Verified"
    unfolding c
    by (subst evaluate_verified_iff)
      (auto simp: default_source_def example_evaluator_def supports_def
        relevant_def is_producer_accepted_def producer_matches_def is_fresh_def time_sub_def example_envelope_def time_units)
  moreover have "\<exists>x. br_controls ?b = [x]"
    unfolding ingested_kb_def component_binding_def ingested_binding_def example_items fetched_binding_def
    by (simp add: ingested_requirement_def Let_def)
  ultimately show ?thesis
    unfolding evaluate_binding_def ingested_reconciler_subject
    by (auto simp: ingested_reconciler_def example_reconciler_def claim_for_def contract_evaluate_def overall_step_def Let_def)
qed

lemma assured_ingested_binding_witness:
  "\<forall>q\<in>set (ec_requirements ingested_ec). \<exists>env\<in>set (default_source example_evaluator example_subject).
     supports (requirement_of q) (empty_epoch\<lparr>subject_digest := ''d''\<rparr>) 1 env"
proof -
  have z: "(ingested_kb, ingested_ec) \<in> set (zip (in_bindings (ingest_component_definition (\<lambda>_ _ _. 0) ''prod'' example_components))
      (in_contracts (ingest_component_definition (\<lambda>_ _ _. 0) ''prod'' example_components)))"
    unfolding ingested_pair by simp
  have r: "rec_contract ingested_reconciler (om_namespace (kb_meta ingested_kb)) (om_name (ec_meta ingested_ec)) =
      Found (fetched_contract ingested_ec)" "rec_evaluator ingested_reconciler = Some (contract_evaluate example_evaluator)"
    by (simp_all add: ingested_reconciler_def example_reconciler_def)
  have "kb_controls ingested_kb \<noteq> []"
    unfolding ingested_kb_def component_binding_def ingested_binding_def example_items by simp
  then show ?thesis
    using assured_ingested_binding[OF example_ingested z r ingested_kb_assured ingested_reconciler_subject] by auto
qed

lemma ingested_projection:
  fixes u now name evals
  defines "cd \<equiv> project_component_definition u now name evals"
  assumes "evals \<noteq> []"
  shows "\<exists>kb ec. in_bindings (ingest_component_definition rnd ns cd) = [kb] \<and>
    in_contracts (ingest_component_definition rnd ns cd) = [ec] \<and>
    map bi_canonical (kb_controls kb) =
      map (\<lambda>e. \<lparr>c_namespace = ''nist-sp-800-53'', c_id = projected_control_id (ce_control e), c_version = []\<rparr>) evals \<and>
    list_all (\<lambda>q. q_type q = ''admission'' \<and> q_freshness q = 24 * hour \<and> q_accepted_producers q = [''oskal-engine''])
      (ec_requirements ec)"
proof -
  let ?dc = "hd (cd_components cd)"
  have dcs: "cd_components cd = [?dc]" by (simp add: cd_def project_component_definition_def Let_def)
  note items = projected_items[of rnd ns u now name evals, folded cd_def]
  have ne: "component_items rnd ns ?dc \<noteq> []" unfolding items using assms(2) by simp
  note ingested_single[OF dcs ne]
  moreover have "map bi_canonical (kb_controls (component_binding rnd ns ?dc)) =
      map (\<lambda>e. \<lparr>c_namespace = ''nist-sp-800-53'', c_id = projected_control_id (ce_control e), c_version = []\<rparr>) evals"
    unfolding component_binding_def ingested_binding_def items
    by (simp add: ingested_requirement_def ingested_item_def case_prod_unfold Let_def)
  moreover have "list_all (\<lambda>q. q_type q = ''admission'' \<and> q_freshness q = 24 * hour \<and>
      q_accepted_producers q = [''oskal-engine'']) (ec_requirements (component_contract rnd ns ?dc))"
    unfolding component_contract_def ingested_contract_def items
    by (simp add: ingested_requirement_def list_all_iff case_prod_unfold Let_def)
  ultimately show ?thesis by blast
qed

text \<open>
  Further: projecting evaluations as a component definition and ingesting it again gives one binding for the component,
  with the controls of the evaluations in order, but in the namespace nist-sp-800-53 whatever theirs was,
  and a contract that asks for admission evidence of the engine, at most a day old, for each of them.
\<close>

lemma projected_components_ingested:
  fixes u now name evals
  defines "cd \<equiv> project_component_definition u now name evals"
  assumes "evals \<noteq> []"
  shows "\<exists>kb ec. in_bindings (ingest_component_definition rnd ns cd) = [kb] \<and>
    in_contracts (ingest_component_definition rnd ns cd) = [ec] \<and>
    map bi_canonical (kb_controls kb) =
      map (\<lambda>e. \<lparr>c_namespace = ''nist-sp-800-53'', c_id = projected_control_id (ce_control e), c_version = []\<rparr>) evals \<and>
    list_all (\<lambda>q. q_type q = ''admission'' \<and> q_freshness q = 24 * hour \<and> q_accepted_producers q = [''oskal-engine''])
      (ec_requirements ec)"
  unfolding cd_def by (rule ingested_projection[OF assms(2)])

lemma projected_components_ingested_witness:
  "\<exists>kb. in_bindings (ingest_component_definition (\<lambda>_ _ _. 0) ''prod''
      (project_component_definition example_uuid 0 ''api'' [example_evaluation ''AC-6''])) = [kb] \<and>
    map bi_canonical (kb_controls kb) = [\<lparr>c_namespace = ''nist-sp-800-53'', c_id = ''AC-6'', c_version = []\<rparr>]"
  using projected_components_ingested[of "[example_evaluation ''AC-6'']" "\<lambda>_ _ _. 0" "''prod''" example_uuid 0 "''api''"]
  by (auto simp: example_evaluation_def projected_control_id_def)

text \<open>
  Further: ingestion succeeds exactly on a text that can be read as JSON and decodes to a component definition or a system
  security plan with an identifier; a component definition takes precedence.
\<close>

lemma ingestion_succeeds:
  "is_ok (ingest_oscal rnd de data target) =
     (data \<noteq> [] \<and> (case (if is_json data then Ok data else de_yaml de data) of
        Inl _ \<Rightarrow> False
      | Inr j \<Rightarrow> (\<exists>cd. de_components de j = Ok cd \<and> cd_uuid cd \<noteq> [] \<and>
             ingest_oscal rnd de data target = Ok (ingest_component_definition rnd (if target = [] then ''default'' else target) cd)) \<or>
          (\<exists>sp. de_plan de j = Ok sp \<and> sp_uuid sp \<noteq> [] \<and>
             ingest_oscal rnd de data target = Ok (ingest_ssp rnd (if target = [] then ''default'' else target) sp))))"
proof (cases "if is_json data then Ok data else de_yaml de data")
  case (Inr j)
  let ?ns = "if target = [] then ''default'' else target"
  have "ingest_oscal rnd de data target = (if data = [] then Err ''empty OSCAL data provided'' else
      case de_components de j of
        Inr cd \<Rightarrow> if cd_uuid cd \<noteq> [] then Ok (ingest_component_definition rnd ?ns cd) else ingested_plan rnd de ?ns j
      | Inl _ \<Rightarrow> ingested_plan rnd de ?ns j)"
    by (simp only: ingest_oscal_def Inr Let_def sum.case)
  moreover have "ingested_plan rnd de ?ns j = Ok res \<longleftrightarrow>
      (\<exists>sp. de_plan de j = Ok sp \<and> sp_uuid sp \<noteq> [] \<and> res = ingest_ssp rnd ?ns sp)" for res
    by (cases "de_plan de j") (auto simp: ingested_plan_def Let_def)
  moreover have "is_ok x \<longleftrightarrow> (\<exists>res. x = Ok res)" for x :: "ingestion result"
    by (cases x) simp_all
  ultimately show ?thesis
    unfolding Inr sum.case by (cases "de_components de j") auto
qed (simp add: ingest_oscal_def)

end
