(* ===== verification/Scaffold.thy ===== *)
theory Scaffold
  imports Ingest
begin

text \<open>
  internal/scaffold/scaffold.go: the bindings, contracts, policies and the component definition that
  are scaffolded for a compliance profile, their rendering and the files they are written to. The
  YAML and JSON encoders, the file system and the identifiers of the uuid package are arguments.
  Quoting escapes the quote and the backslash; other characters are taken to be printable.
\<close>

section \<open>Plans\<close>

record cel_policy =
  cp_name :: string
  cp_control_id :: string
  cp_expression :: string
  cp_message :: string

record scaffold_plan =
  sf_profile :: string
  sf_namespace :: string
  sf_workload :: string
  sf_bindings :: "control_binding_resource list"
  sf_contracts :: "evidence_contract_resource list"
  sf_components :: "component_definition option"
  sf_policies :: "cel_policy list"

definition quoted :: "string \<Rightarrow> string" where
  "quoted s =
     [CHR 0x22] @ concat (map (\<lambda>c. if c = CHR 0x22 \<or> c = CHR 0x5C then [CHR 0x5C, c] else [c]) s) @ [CHR 0x22]"

definition normalize_profile :: "string \<Rightarrow> string result" where
  "normalize_profile raw =
     (let norm = replace_char CHR ''_'' CHR ''-'' (to_lower (trim_space raw))
      in if norm \<in> set [''nist'', ''nist-sp-800-53'', ''800-53'', ''nist-800-53''] then Ok ''nist-sp-800-53''
         else if norm \<in> set [''pci'', ''pci-dss''] then Ok ''pci-dss''
         else if norm \<in> set [''soc2'', ''soc-2''] then Ok ''soc-2''
         else if norm \<in> set [''iso'', ''iso-27001'', ''iso27001''] then Ok ''iso-27001''
         else Err (''unsupported compliance profile '' @ quoted raw @
           '' (supported: nist-sp-800-53, pci-dss, soc-2, iso-27001)''))"

definition webhook_producer :: string where
  "webhook_producer = ''spiffe://assurance.ckodex.io/ns/ckodex-system/sa/oskal-webhook''"

definition signer_producer :: string where
  "signer_producer = ''spiffe://assurance.ckodex.io/ns/ckodex-system/sa/oskal-signer''"

definition required_evidence :: "string \<Rightarrow> string \<Rightarrow> duration \<Rightarrow> string list \<Rightarrow> contract_requirement" where
  "required_evidence rid etype freshness producers =
     \<lparr>q_id = rid, q_type = etype, q_required = True, q_freshness = freshness, q_accepted_producers = producers\<rparr>"

definition scaffold_item :: "string \<Rightarrow> string \<Rightarrow> string \<Rightarrow> framework_mapping list \<Rightarrow> binding_item" where
  "scaffold_item ns i v maps = \<lparr>bi_canonical = \<lparr>c_namespace = ns, c_id = i, c_version = v\<rparr>, bi_mappings = maps\<rparr>"

definition admission_binding :: "string \<Rightarrow> string \<Rightarrow> string \<Rightarrow> string \<Rightarrow> requirement_binding" where
  "admission_binding rid contract target ns =
     \<lparr>rq_id = rid, rq_implementations = [\<lparr>ip_purpose = ''preventive'', ip_provider = ''kubernetes-validating-admission'',
        ip_name = target, ip_namespace = ns\<rparr>], rq_contract = contract\<rparr>"

definition add_resources ::
  "evidence_contract_resource \<Rightarrow> control_binding_resource \<Rightarrow> cel_policy list \<Rightarrow> scaffold_plan \<Rightarrow> scaffold_plan" where
  "add_resources ec kb policies p =
     p\<lparr>sf_contracts := sf_contracts p @ [ec], sf_bindings := sf_bindings p @ [kb], sf_policies := sf_policies p @ policies\<rparr>"

section \<open>The four profiles\<close>

definition nist_contract :: "scaffold_plan \<Rightarrow> evidence_contract_resource" where
  "nist_contract p =
     \<lparr>ec_meta = resource_meta ''EvidenceContract'' (sf_workload p @ ''-nist-admission-contract'') (sf_namespace p)
        [(''assurance.ckodex.io/profile'', ''nist-sp-800-53''), (''assurance.ckodex.io/target'', sf_workload p)],
      ec_requirements =
        [required_evidence ''req-admission-valid'' ''k8s:admission:review'' (15 * minute) [webhook_producer],
         required_evidence ''req-sigstore-attestation'' ''sigstore:cosign:attestation'' (24 * hour) [signer_producer]],
      ec_on_missing = ''Unknown''\<rparr>"

definition nist_binding :: "scaffold_plan \<Rightarrow> control_binding_resource" where
  "nist_binding p =
     \<lparr>kb_meta = resource_meta ''ControlBinding'' (sf_workload p @ ''-nist-controls'') (sf_namespace p)
        [(''assurance.ckodex.io/profile'', ''nist-sp-800-53''), (''assurance.ckodex.io/target'', sf_workload p)],
      kb_controls = map (\<lambda>i. scaffold_item ''nist-sp-800-53'' i ''Rev5''
          [\<lparr>fm_framework = ''NIST-SP-800-53'', fm_control = i, fm_version = ''5''\<rparr>]) [''AC-6'', ''CM-6'', ''SC-28''],
      kb_kinds = [''Deployment'', ''StatefulSet''], kb_match_labels = [(''app'', sf_workload p)],
      kb_requirements = [admission_binding ''binding-admission-least-privilege'' (om_name (ec_meta (nist_contract p)))
          ''validating-webhook-configuration'' ''ckodex-system'']\<rparr>"

definition nist_policies :: "cel_policy list" where
  "nist_policies =
     [\<lparr>cp_name = ''disallow-privileged-containers'', cp_control_id = ''AC-6'', cp_expression =
         ''!has(spec.template.spec.containers) || spec.template.spec.containers.all(c, !has(c.securityContext) || '' @
         ''!has(c.securityContext.privileged) || c.securityContext.privileged == false)'',
       cp_message = ''AC-6: Privileged containers are strictly prohibited''\<rparr>,
      \<lparr>cp_name = ''disallow-privilege-escalation'', cp_control_id = ''AC-6'', cp_expression =
         ''!has(spec.template.spec.containers) || spec.template.spec.containers.all(c, !has(c.securityContext) || '' @
         ''!has(c.securityContext.allowPrivilegeEscalation) || c.securityContext.allowPrivilegeEscalation == false)'',
       cp_message = ''AC-6: allowPrivilegeEscalation must be false''\<rparr>,
      \<lparr>cp_name = ''enforce-run-as-non-root'', cp_control_id = ''SC-28'', cp_expression =
         ''!has(spec.template.spec.containers) || spec.template.spec.containers.all(c, has(c.securityContext) && '' @
         ''has(c.securityContext.runAsNonRoot) && c.securityContext.runAsNonRoot == true)'',
       cp_message = ''SC-28: Containers must explicitly set runAsNonRoot=true''\<rparr>]"

definition build_nist_scaffold :: "scaffold_plan \<Rightarrow> scaffold_plan" where
  "build_nist_scaffold p = add_resources (nist_contract p) (nist_binding p) nist_policies p"

definition pci_contract :: "scaffold_plan \<Rightarrow> evidence_contract_resource" where
  "pci_contract p =
     \<lparr>ec_meta = resource_meta ''EvidenceContract'' (sf_workload p @ ''-pci-contract'') (sf_namespace p)
        [(''assurance.ckodex.io/profile'', ''pci-dss''), (''assurance.ckodex.io/target'', sf_workload p)],
      ec_requirements = [required_evidence ''pci-req-6-4'' ''k8s:admission:review'' (10 * minute) [webhook_producer]],
      ec_on_missing = []\<rparr>"

definition pci_binding :: "scaffold_plan \<Rightarrow> control_binding_resource" where
  "pci_binding p =
     \<lparr>kb_meta = resource_meta ''ControlBinding'' (sf_workload p @ ''-pci-controls'') (sf_namespace p)
        [(''assurance.ckodex.io/profile'', ''pci-dss'')],
      kb_controls =
        [scaffold_item ''pci-dss'' ''Req-6.4'' ''v4.0'' [\<lparr>fm_framework = ''PCI-DSS'', fm_control = ''6.4'', fm_version = ''4.0''\<rparr>],
         scaffold_item ''pci-dss'' ''Req-7.1'' ''v4.0'' [\<lparr>fm_framework = ''PCI-DSS'', fm_control = ''7.1'', fm_version = ''4.0''\<rparr>]],
      kb_kinds = [''Deployment''], kb_match_labels = [(''app'', sf_workload p)],
      kb_requirements = [admission_binding ''binding-pci-admission'' (om_name (ec_meta (pci_contract p))) [] []]\<rparr>"

definition build_pci_dss_scaffold :: "scaffold_plan \<Rightarrow> scaffold_plan" where
  "build_pci_dss_scaffold p = add_resources (pci_contract p) (pci_binding p)
     [\<lparr>cp_name = ''pci-disallow-host-mounts'', cp_control_id = ''Req-6.4'', cp_expression =
        ''!has(spec.template.spec.volumes) || spec.template.spec.volumes.all(v, !has(v.hostPath))'',
        cp_message = ''PCI-DSS 6.4: hostPath volumes are strictly forbidden''\<rparr>] p"

definition soc2_contract :: "scaffold_plan \<Rightarrow> evidence_contract_resource" where
  "soc2_contract p =
     \<lparr>ec_meta = resource_meta ''EvidenceContract'' (sf_workload p @ ''-soc2-contract'') (sf_namespace p) [],
      ec_requirements = [required_evidence ''soc2-req-cc6-1'' ''k8s:admission:review'' (30 * minute) [webhook_producer]],
      ec_on_missing = []\<rparr>"

definition soc2_binding :: "scaffold_plan \<Rightarrow> control_binding_resource" where
  "soc2_binding p =
     \<lparr>kb_meta = resource_meta ''ControlBinding'' (sf_workload p @ ''-soc2-controls'') (sf_namespace p) [],
      kb_controls = [scaffold_item ''soc-2'' ''CC6.1'' [] [], scaffold_item ''soc-2'' ''CC6.6'' [] []],
      kb_kinds = [''Deployment''], kb_match_labels = [(''app'', sf_workload p)], kb_requirements = []\<rparr>"

definition build_soc2_scaffold :: "scaffold_plan \<Rightarrow> scaffold_plan" where
  "build_soc2_scaffold p = add_resources (soc2_contract p) (soc2_binding p)
     [\<lparr>cp_name = ''soc2-boundary-protection'', cp_control_id = ''CC6.6'', cp_expression =
        ''!has(spec.template.spec.hostNetwork) || spec.template.spec.hostNetwork == false'',
        cp_message = ''SOC 2 CC6.6: hostNetwork is prohibited to preserve logical boundaries''\<rparr>] p"

definition iso_contract :: "scaffold_plan \<Rightarrow> evidence_contract_resource" where
  "iso_contract p =
     \<lparr>ec_meta = resource_meta ''EvidenceContract'' (sf_workload p @ ''-iso-contract'') (sf_namespace p) [],
      ec_requirements = [required_evidence ''iso-req-change-control'' ''k8s:admission:review'' hour []],
      ec_on_missing = []\<rparr>"

definition iso_binding :: "scaffold_plan \<Rightarrow> control_binding_resource" where
  "iso_binding p =
     \<lparr>kb_meta = resource_meta ''ControlBinding'' (sf_workload p @ ''-iso-controls'') (sf_namespace p) [],
      kb_controls = [scaffold_item ''iso-27001'' ''A.12.1.2'' [] []],
      kb_kinds = [''Deployment''], kb_match_labels = [(''app'', sf_workload p)], kb_requirements = []\<rparr>"

definition build_iso_scaffold :: "scaffold_plan \<Rightarrow> scaffold_plan" where
  "build_iso_scaffold p = add_resources (iso_contract p) (iso_binding p) [] p"

section \<open>Generating a plan\<close>

definition build_component_definition :: "string \<Rightarrow> string \<Rightarrow> time \<Rightarrow> scaffold_plan \<Rightarrow> scaffold_plan" where
  "build_component_definition doc_uuid comp_uuid now p =
     p\<lparr>sf_components := Some \<lparr>cd_uuid = doc_uuid,
         cd_metadata = oscal_metadata (''OSCAL Component Definition for '' @ sf_workload p @ '' ('' @ sf_profile p @ '')'') now,
         cd_components = [\<lparr>dc_uuid = comp_uuid, dc_type = ''software'', dc_title = sf_workload p,
           dc_description = ''Scaffolded component definition adhering to '' @ sf_profile p @ '' profile'',
           dc_purpose = ''Continuous assurance governed microservice workload'', dc_implementations = []\<rparr>]\<rparr>\<rparr>"

definition build_profile :: "scaffold_plan \<Rightarrow> scaffold_plan" where
  "build_profile p =
     (if sf_profile p = ''nist-sp-800-53'' then build_nist_scaffold p
      else if sf_profile p = ''pci-dss'' then build_pci_dss_scaffold p
      else if sf_profile p = ''soc-2'' then build_soc2_scaffold p
      else if sf_profile p = ''iso-27001'' then build_iso_scaffold p
      else p)"

definition generate_scaffold ::
  "string \<Rightarrow> string \<Rightarrow> time \<Rightarrow> string \<Rightarrow> string \<Rightarrow> string \<Rightarrow> scaffold_plan result" where
  "generate_scaffold doc_uuid comp_uuid now profile ns workload =
     (case normalize_profile profile of
        Inl e \<Rightarrow> Err e
      | Inr prof \<Rightarrow>
          Ok (build_component_definition doc_uuid comp_uuid now (build_profile
            \<lparr>sf_profile = prof, sf_namespace = (if ns = [] then ''default'' else ns),
             sf_workload = (if workload = [] then ''example-app'' else workload),
             sf_bindings = [], sf_contracts = [], sf_components = None, sf_policies = []\<rparr>)))"

section \<open>Rendering and writing\<close>

record encoders =
  en_contract :: "evidence_contract_resource \<Rightarrow> string result"
  en_binding :: "control_binding_resource \<Rightarrow> string result"
  en_components :: "component_definition option \<Rightarrow> string result"
  en_policies :: "string \<Rightarrow> string \<Rightarrow> cel_policy list \<Rightarrow> string result"

fun encode_all :: "('a \<Rightarrow> string result) \<Rightarrow> ('a \<Rightarrow> string) \<Rightarrow> 'a list \<Rightarrow> string list \<Rightarrow> string list result" where
  "encode_all enc what [] docs = Ok docs"
| "encode_all enc what (x # xs) docs =
     (case enc x of
        Inl e \<Rightarrow> Err (''failed to marshal '' @ what x @ '': '' @ e)
      | Inr y \<Rightarrow> encode_all enc what xs (docs @ [y]))"

definition render_manifests_yaml :: "encoders \<Rightarrow> scaffold_plan \<Rightarrow> string result" where
  "render_manifests_yaml en p =
     (case encode_all (en_contract en) (\<lambda>ec. ''EvidenceContract '' @ om_name (ec_meta ec)) (sf_contracts p) [] of
        Inl e \<Rightarrow> Err e
      | Inr docs \<Rightarrow>
          (case encode_all (en_binding en) (\<lambda>kb. ''ControlBinding '' @ om_name (kb_meta kb)) (sf_bindings p) docs of
             Inl e \<Rightarrow> Err e
           | Inr docs \<Rightarrow> Ok (join_str (nl @ ''---'' @ nl) docs @ nl)))"

text \<open>The file system: creating a directory and writing a file answer with an error or not.\<close>

record file_system =
  fs_mkdir :: "string \<Rightarrow> string option"
  fs_write :: "string \<Rightarrow> string option"

definition write_named :: "file_system \<Rightarrow> string \<Rightarrow> string \<Rightarrow> (string \<times> string) list \<Rightarrow> (string \<times> string) list \<times> string option" where
  "write_named fs path content written =
     (case fs_write fs path of
        Some e \<Rightarrow> (written, Some (''failed to write '' @ path @ '': '' @ e))
      | None \<Rightarrow> (written @ [(path, content)], None))"

definition write_to_directory ::
  "encoders \<Rightarrow> file_system \<Rightarrow> string \<Rightarrow> scaffold_plan \<Rightarrow> (string \<times> string) list \<times> string option" where
  "write_to_directory en fs out p =
     (let path = (\<lambda>suffix. join_str ''/'' [out, sf_workload p @ suffix])
      in case fs_mkdir fs out of
        Some e \<Rightarrow> ([], Some (''failed to create output directory '' @ out @ '': '' @ e))
      | None \<Rightarrow>
          (case render_manifests_yaml en p of
             Inl e \<Rightarrow> ([], Some e)
           | Inr manifests \<Rightarrow>
               (case write_named fs (path ''-crds.yaml'') manifests [] of
                  (written, Some e) \<Rightarrow> (written, Some e)
                | (written, None) \<Rightarrow>
                    (case en_components en (sf_components p) of
                       Inl e \<Rightarrow> (written, Some e)
                     | Inr cd_json \<Rightarrow>
                         (case write_named fs (path ''-oscal-cd.json'') cd_json written of
                            (written, Some e) \<Rightarrow> (written, Some e)
                          | (written, None) \<Rightarrow>
                              if sf_policies p = [] then (written, None)
                              else (case en_policies en (sf_workload p @ ''-cel-rules'') (sf_namespace p) (sf_policies p) of
                                  Inl e \<Rightarrow> (written, Some e)
                                | Inr cel \<Rightarrow> write_named fs (path ''-cel-rules.yaml'') cel written))))))"

section \<open>Lemmas\<close>

lemma normalize_profile_ok:
  "normalize_profile raw = Ok prof \<Longrightarrow> prof \<in> {''nist-sp-800-53'', ''pci-dss'', ''soc-2'', ''iso-27001''}"
  by (auto simp: normalize_profile_def Let_def split: if_splits)

lemma generate_scaffold_ok:
  assumes "generate_scaffold u u' now profile ns workload = Ok p"
  shows "\<exists>base. normalize_profile profile = Ok (sf_profile base) \<and> sf_namespace base = (if ns = [] then ''default'' else ns) \<and>
    sf_workload base = (if workload = [] then ''example-app'' else workload) \<and> sf_bindings base = [] \<and>
    sf_contracts base = [] \<and> sf_policies base = [] \<and> p = build_component_definition u u' now (build_profile base)"
  using assms by (auto simp: generate_scaffold_def split: sum.splits intro!: exI)

lemmas profile_defs = build_profile_def build_nist_scaffold_def build_pci_dss_scaffold_def build_soc2_scaffold_def
  build_iso_scaffold_def add_resources_def

lemmas resource_defs = nist_contract_def nist_binding_def pci_contract_def pci_binding_def soc2_contract_def soc2_binding_def
  iso_contract_def iso_binding_def resource_meta_def admission_binding_def scaffold_item_def required_evidence_def

text \<open>The contract and the binding that a profile adds.\<close>

definition profile_resources :: "scaffold_plan \<Rightarrow> evidence_contract_resource \<times> control_binding_resource" where
  "profile_resources p =
     (if sf_profile p = ''nist-sp-800-53'' then (nist_contract p, nist_binding p)
      else if sf_profile p = ''pci-dss'' then (pci_contract p, pci_binding p)
      else if sf_profile p = ''soc-2'' then (soc2_contract p, soc2_binding p)
      else (iso_contract p, iso_binding p))"

lemma scaffold_resources:
  assumes "generate_scaffold u u' now profile ns workload = Ok p"
  shows "sf_profile p \<in> {''nist-sp-800-53'', ''pci-dss'', ''soc-2'', ''iso-27001''} \<and>
    sf_contracts p = [fst (profile_resources p)] \<and> sf_bindings p = [snd (profile_resources p)]"
proof -
  from generate_scaffold_ok[OF assms] obtain base where base: "sf_profile base \<in> {''nist-sp-800-53'', ''pci-dss'', ''soc-2'', ''iso-27001''}"
    "sf_bindings base = []" "sf_contracts base = []" "p = build_component_definition u u' now (build_profile base)"
    using normalize_profile_ok by blast
  from base(1) consider "sf_profile base = ''nist-sp-800-53''" | "sf_profile base = ''pci-dss''" | "sf_profile base = ''soc-2''"
    | "sf_profile base = ''iso-27001''" by auto
  then show ?thesis
    by cases (simp_all add: base(2-4) build_component_definition_def profile_defs profile_resources_def resource_defs)
qed

text \<open>What the reconciler evaluates for a scaffolded binding: nothing, or the requirements of its contract.\<close>

lemma scaffolded_contract:
  assumes "generate_scaffold u u' now profile ns workload = Ok p" and "kb \<in> set (sf_bindings p)"
    and "\<forall>ec\<in>set (sf_contracts p). get (sf_namespace p) (om_name (ec_meta ec)) = Found (fetched_contract ec)"
  shows "binding_contract get (fetched_binding kb) =
      (if sf_profile p \<in> {''nist-sp-800-53'', ''pci-dss''} then contract_of_resource (fetched_contract (fst (profile_resources p)))
       else inline_contract (fetched_binding kb)) \<and>
    (sf_profile p \<notin> {''nist-sp-800-53'', ''pci-dss''} \<longrightarrow> ct_requirements (inline_contract (fetched_binding kb)) = []) \<and>
    kb_controls kb \<noteq> []"
proof -
  let ?ec = "fst (profile_resources p)"
  note res = scaffold_resources[OF assms(1)]
  then have kb: "kb = snd (profile_resources p)"
    and get: "get (sf_namespace p) (om_name (ec_meta ?ec)) = Found (fetched_contract ?ec)"
    using assms(2,3) by simp_all
  show ?thesis
  proof (cases "sf_profile p \<in> {''nist-sp-800-53'', ''pci-dss''}")
    case False
    then have none: "kb_requirements kb = []" "kb_controls kb \<noteq> []"
      unfolding kb using res by (auto simp: profile_resources_def resource_defs)
    then have "binding_contract get (fetched_binding kb) = inline_contract (fetched_binding kb)"
      "ct_requirements (inline_contract (fetched_binding kb)) = []"
      by (simp_all add: binding_contract_def inline_contract_def fetched_binding_def)
    then show ?thesis using False none(2) by simp
  next
    case True
    then obtain b where b: "kb_requirements kb = [b]" "rq_contract b = om_name (ec_meta ?ec)" "om_name (ec_meta ?ec) \<noteq> []"
      "ec_requirements ?ec \<noteq> []" "om_namespace (kb_meta kb) = sf_namespace p" "kb_controls kb \<noteq> []"
      unfolding kb by (auto simp: profile_resources_def resource_defs)
    have "binding_contract get (fetched_binding kb) = contract_of_resource (fetched_contract ?ec)"
      by (rule fetched_binding_contract[where get = get, OF b(1-4)]) (simp only: b(5) get)
    then show ?thesis using True b(6) by simp
  qed
qed

text \<open>An ASSURED binding has fresh evidence for every requirement of the contract of its profile.\<close>

lemma scaffolded_requirement_supported:
  assumes "generate_scaffold u u' now profile ns workload = Ok p" and "kb \<in> set (sf_bindings p)"
    and "\<forall>ec\<in>set (sf_contracts p). rec_contract r (sf_namespace p) (om_name (ec_meta ec)) = Found (fetched_contract ec)"
    and "rec_evaluator r = Some (contract_evaluate e)" and "binding_subject r (fetched_binding kb) = (sub, dig)"
    and "fst (evaluate_binding r clock (fetched_binding kb)) = Assured"
  shows "sf_profile p \<in> {''nist-sp-800-53'', ''pci-dss''}"
    and "q \<in> set (ec_requirements (fst (profile_resources p))) \<Longrightarrow> q_required q \<Longrightarrow> k < length (kb_controls kb) \<Longrightarrow>
      \<exists>env\<in>set (default_source e sub). supports (requirement_of q) (empty_epoch\<lparr>subject_digest := dig\<rparr>) (clock k) env"
proof -
  note contract = scaffolded_contract[OF assms(1,2), of "rec_contract r", OF assms(3)]
  note sup = assured_binding_supported[OF assms(4,6,5)]
  then show prof: "sf_profile p \<in> {''nist-sp-800-53'', ''pci-dss''}"
    using contract by (auto split: if_splits)
  assume q: "q \<in> set (ec_requirements (fst (profile_resources p)))" "q_required q" and k: "k < length (kb_controls kb)"
  have "requirement_of q \<in> set (ct_requirements (binding_contract (rec_contract r) (fetched_binding kb)))"
    "r_required (requirement_of q)"
    using contract prof q by (auto simp: contract_of_resource_def fetched_contract_def requirement_of_def)
  moreover have "length (br_controls (fetched_binding kb)) = length (kb_controls kb)" by (simp add: fetched_binding_def)
  ultimately show "\<exists>env\<in>set (default_source e sub). supports (requirement_of q) (empty_epoch\<lparr>subject_digest := dig\<rparr>) (clock k) env"
    using sup k by simp
qed

section \<open>Properties\<close>

text \<open>
  C29: on what evidence a scaffolded binding can become ASSURED, when its contract is in the cluster. A binding of the
  profiles SOC 2 and ISO 27001 never does, whatever evidence there is, because it does not refer to its contract and nothing
  is required. A binding of the profiles NIST and PCI DSS does so only on evidence of a type that matches
  k8s:admission:review, by the scaffolded webhook identity, for the digest of the subject, not from the future and at most 15 or 10
  minutes old; and for NIST only if there is also a signature attestation by the scaffolded signer, at most a day old.
\<close>

lemma scaffolded_binding_assured:
  assumes "generate_scaffold u u' now profile ns workload = Ok p" and "kb \<in> set (sf_bindings p)"
    and "\<forall>ec\<in>set (sf_contracts p). rec_contract r (sf_namespace p) (om_name (ec_meta ec)) = Found (fetched_contract ec)"
    and "rec_evaluator r = Some (contract_evaluate e)" and "binding_subject r (fetched_binding kb) = (sub, dig)"
    and "fst (evaluate_binding r clock (fetched_binding kb)) = Assured"
  shows "sf_profile p \<in> {''nist-sp-800-53'', ''pci-dss''} \<and>
    (\<exists>env\<in>set (default_source e sub).
       matches_evidence_type (ev_observation_type env) ''k8s:admission:review'' \<and>
       producer_matches webhook_producer (authority_canonical (ev_producer env)) \<and>
       epoch_matches (ev_epoch env) (empty_epoch\<lparr>subject_digest := dig\<rparr>) \<and> ev_captured_at env \<le> clock 0 \<and>
       clock 0 - ev_captured_at env \<le> (if sf_profile p = ''nist-sp-800-53'' then 15 * minute else 10 * minute)) \<and>
    (if sf_profile p = ''nist-sp-800-53''
     then \<exists>env\<in>set (default_source e sub).
       matches_evidence_type (ev_observation_type env) ''sigstore:cosign:attestation'' \<and>
       producer_matches signer_producer (authority_canonical (ev_producer env)) \<and>
       ev_captured_at env \<le> clock 0 \<and> clock 0 - ev_captured_at env \<le> 24 * hour
     else True)"
proof -
  note supported = scaffolded_requirement_supported[OF assms]
  have prof: "sf_profile p = ''nist-sp-800-53'' \<or> sf_profile p = ''pci-dss''" using supported(1) by simp
  have "0 < length (kb_controls kb)"
    using scaffolded_contract[OF assms(1,2), of "rec_contract r", OF assms(3)] by simp
  note sup = supported(2)[OF _ _ this]
  have review: "required_evidence rid ''k8s:admission:review'' (if sf_profile p = ''nist-sp-800-53'' then 15 * minute else 10 * minute)
      [webhook_producer] \<in> set (ec_requirements (fst (profile_resources p)))"
    if "rid = (if sf_profile p = ''nist-sp-800-53'' then ''req-admission-valid'' else ''pci-req-6-4'')" for rid
    using prof by (auto simp: that profile_resources_def nist_contract_def pci_contract_def)
  have attested: "required_evidence ''req-sigstore-attestation'' ''sigstore:cosign:attestation'' (24 * hour) [signer_producer]
      \<in> set (ec_requirements (fst (profile_resources p)))" if "sf_profile p = ''nist-sp-800-53''"
    using that by (simp add: profile_resources_def nist_contract_def)
  show ?thesis
    using prof sup[OF review[OF refl]] sup[OF attested]
    by (auto simp: required_evidence_def requirement_of_def supports_def relevant_def is_producer_accepted_def
        is_fresh_def time_sub_def time_units split: if_splits)
qed

lemma example_scaffold: "\<exists>p. generate_scaffold ''u'' ''v'' 0 ''SOC2'' ''prod'' ''api'' = Ok p"
proof -
  have "normalize_profile ''SOC2'' = Ok ''soc-2''" by code_simp
  then show ?thesis by (simp add: generate_scaffold_def)
qed

text \<open>A scaffolded PCI DSS binding that is ASSURED.\<close>

definition review_evaluator :: contract_evaluator where
  "review_evaluator =
     \<lparr>evidence_source = [example_envelope\<lparr>ev_observation_type := ''k8s:admission:review'',
        ev_producer := \<lparr>a_scheme = ''spiffe'', a_subject = ''assurance.ckodex.io/ns/ckodex-system/sa/oskal-webhook'', a_trust_domain = []\<rparr>,
        ev_epoch := empty_epoch\<lparr>subject_digest := ''d''\<rparr>\<rparr>], evidence_repo = None\<rparr>"

lemma pci_scaffold: "\<exists>p. generate_scaffold ''u'' ''v'' 0 ''PCI'' ''prod'' ''api'' = Ok p \<and> sf_profile p = ''pci-dss''"
proof -
  have "normalize_profile ''PCI'' = Ok ''pci-dss''" by code_simp
  then show ?thesis
    by (simp add: generate_scaffold_def build_component_definition_def profile_defs)
qed

lemma scaffolded_binding_assured_witness:
  "\<exists>p kb. generate_scaffold ''u'' ''v'' 0 ''PCI'' ''prod'' ''api'' = Ok p \<and> sf_bindings p = [kb] \<and>
     fst (evaluate_binding ((example_reconciler review_evaluator)\<lparr>rec_contract := \<lambda>_ _.
       Found (fetched_contract (fst (profile_resources p)))\<rparr>) (\<lambda>k. 1) (fetched_binding kb)) = Assured \<and>
     (\<exists>env\<in>set (default_source review_evaluator example_subject).
        matches_evidence_type (ev_observation_type env) ''k8s:admission:review'' \<and>
        producer_matches webhook_producer (authority_canonical (ev_producer env)))"
proof -
  obtain p where p: "generate_scaffold ''u'' ''v'' 0 ''PCI'' ''prod'' ''api'' = Ok p" "sf_profile p = ''pci-dss''"
    using pci_scaffold by blast
  note res = scaffold_resources[OF p(1)]
  let ?kb = "snd (profile_resources p)"
  let ?r = "(example_reconciler review_evaluator)\<lparr>rec_contract := \<lambda>_ _. Found (fetched_contract (fst (profile_resources p)))\<rparr>"
  have kb: "?kb \<in> set (sf_bindings p)" using res by simp
  have found: "\<forall>ec\<in>set (sf_contracts p). rec_contract ?r (sf_namespace p) (om_name (ec_meta ec)) = Found (fetched_contract ec)"
    using res by simp
  have sub: "binding_subject ?r (fetched_binding ?kb) = (example_subject, ''d'')"
    by (simp add: binding_subject_def example_reconciler_def Let_def)
  have wired: "rec_evaluator ?r = Some (contract_evaluate review_evaluator)" by (simp add: example_reconciler_def)
  have c: "binding_contract (rec_contract ?r) (fetched_binding ?kb) = contract_of_resource (fetched_contract (pci_contract p))"
    using scaffolded_contract[OF p(1) kb, of "rec_contract ?r", OF found] p(2) by (simp add: profile_resources_def)
  have "cr_state (evaluate_contract (binding_contract (rec_contract ?r) (fetched_binding ?kb))
      (default_source review_evaluator example_subject) (empty_epoch\<lparr>subject_digest := ''d''\<rparr>) 1) = Verified"
    unfolding c
    by (subst evaluate_verified_iff)
      (auto simp: contract_of_resource_def fetched_contract_def pci_contract_def required_evidence_def requirement_of_def
        default_source_def review_evaluator_def supports_def relevant_def is_producer_accepted_def producer_matches_def
        authority_canonical_def webhook_producer_def is_fresh_def time_sub_def example_envelope_def time_units)
  moreover have "\<exists>x y. br_controls (fetched_binding ?kb) = [x, y]"
    using p(2) by (simp add: fetched_binding_def profile_resources_def pci_binding_def)
  ultimately have assured: "fst (evaluate_binding ?r (\<lambda>k. 1) (fetched_binding ?kb)) = Assured"
    unfolding evaluate_binding_def sub
    by (auto simp: example_reconciler_def claim_for_def contract_evaluate_def overall_step_def Let_def)
  from scaffolded_binding_assured[OF p(1) kb found wired sub assured] assured p(1) res show ?thesis by blast
qed

text \<open>
  Further: every scaffolded plan consists of one contract and one binding in its namespace, the requirements of the binding
  refer to the contract and nothing else, there is no control listed twice, and each of its admission policies is
  for one of the controls of the binding.
\<close>

lemma scaffolded_plan_consistent:
  assumes "generate_scaffold u u' now profile ns workload = Ok p"
  shows "\<exists>ec kb. sf_contracts p = [ec] \<and> sf_bindings p = [kb] \<and>
    om_namespace (ec_meta ec) = sf_namespace p \<and> om_namespace (kb_meta kb) = sf_namespace p \<and>
    (\<forall>b\<in>set (kb_requirements kb). rq_contract b = om_name (ec_meta ec)) \<and>
    distinct (map (\<lambda>i. c_id (bi_canonical i)) (kb_controls kb)) \<and>
    (\<forall>pol\<in>set (sf_policies p). cp_control_id pol \<in> (\<lambda>i. c_id (bi_canonical i)) ` set (kb_controls kb))"
proof -
  from generate_scaffold_ok[OF assms] obtain base where base: "sf_profile base \<in> {''nist-sp-800-53'', ''pci-dss'', ''soc-2'', ''iso-27001''}"
    "sf_bindings base = []" "sf_contracts base = []" "sf_policies base = []"
    "p = build_component_definition u u' now (build_profile base)"
    using normalize_profile_ok by blast
  from base(1) consider "sf_profile base = ''nist-sp-800-53''" | "sf_profile base = ''pci-dss''" | "sf_profile base = ''soc-2''"
    | "sf_profile base = ''iso-27001''" by auto
  then show ?thesis
    by cases (simp_all add: base(2-5) build_component_definition_def profile_defs resource_defs nist_policies_def)
qed

lemma scaffolded_plan_consistent_witness:
  "\<exists>p ec kb. generate_scaffold ''u'' ''v'' 0 ''SOC2'' ''prod'' ''api'' = Ok p \<and> sf_contracts p = [ec] \<and> sf_bindings p = [kb] \<and>
     om_namespace (ec_meta ec) = om_namespace (kb_meta kb)"
proof -
  obtain p where p: "generate_scaffold ''u'' ''v'' 0 ''SOC2'' ''prod'' ''api'' = Ok p" using example_scaffold ..
  from scaffolded_plan_consistent[OF p] p show ?thesis by metis
qed

text \<open>
  Further: the component definition that is scaffolded with a plan says nothing about its controls: ingesting it succeeds
  and gives no binding and no contract.
\<close>

lemma scaffolded_components_ingest_to_nothing:
  assumes "generate_scaffold u u' now profile ns workload = Ok p"
  shows "\<exists>cd. sf_components p = Some cd \<and> cd_uuid cd = u \<and> in_bindings (ingest_component_definition rnd target cd) = [] \<and>
    in_contracts (ingest_component_definition rnd target cd) = []"
  using generate_scaffold_ok[OF assms]
  by (auto simp: build_component_definition_def ingest_component_definition_def ingest_component_def component_items_def)

lemma scaffolded_components_ingest_to_nothing_witness:
  "\<exists>p cd. generate_scaffold ''u'' ''v'' 0 ''SOC2'' ''prod'' ''api'' = Ok p \<and> sf_components p = Some cd \<and>
     in_bindings (ingest_component_definition (\<lambda>_ _ _. 0) ''prod'' cd) = []"
proof -
  obtain p where p: "generate_scaffold ''u'' ''v'' 0 ''SOC2'' ''prod'' ''api'' = Ok p" using example_scaffold ..
  from scaffolded_components_ingest_to_nothing[OF p, of "\<lambda>_ _ _. 0" "''prod''"] p show ?thesis by blast
qed

text \<open>The files of a plan, in the order in which they are written.\<close>

definition plan_files :: "string \<Rightarrow> scaffold_plan \<Rightarrow> string list" where
  "plan_files out p =
     map (\<lambda>suffix. join_str ''/'' [out, sf_workload p @ suffix])
       ([''-crds.yaml'', ''-oscal-cd.json''] @ (if sf_policies p = [] then [] else [''-cel-rules.yaml'']))"

lemma write_named_cases:
  "write_named fs path content written = (w, e) \<longleftrightarrow>
     (fs_write fs path = None \<and> w = written @ [(path, content)] \<and> e = None) \<or>
     (\<exists>m. fs_write fs path = Some m \<and> w = written \<and> e = Some (''failed to write '' @ path @ '': '' @ m))"
  by (auto simp: write_named_def split: option.split)

text \<open>
  Further: writing a plan writes its files in order and stops at the first failure: what has been written is a prefix of
  the files of the plan, all of them exactly when there is no error, and the first holds the rendered manifests.
\<close>

lemma written_files:
  assumes "write_to_directory en fs out p = (w, e)"
  shows "prefix (map fst w) (plan_files out p) \<and> (e = None) = (map fst w = plan_files out p) \<and>
    (case w of [] \<Rightarrow> True | f # _ \<Rightarrow> render_manifests_yaml en p = Ok (snd f)) \<and>
    (\<forall>f\<in>set w. fs_write fs (fst f) = None)"
  using assms
  by (auto simp: write_to_directory_def Let_def plan_files_def write_named_def split: option.splits sum.splits prod.splits if_splits)

lemma written_files_witness:
  "\<exists>p w. generate_scaffold ''u'' ''v'' 0 ''SOC2'' ''prod'' ''api'' = Ok p \<and>
     map fst w = plan_files ''out'' p \<and>
     write_to_directory \<lparr>en_contract = \<lambda>_. Ok ''c'', en_binding = \<lambda>_. Ok ''b'', en_components = \<lambda>_. Ok ''d'',
       en_policies = \<lambda>_ _ _. Ok ''e''\<rparr> \<lparr>fs_mkdir = \<lambda>_. None, fs_write = \<lambda>_. None\<rparr> ''out'' p = (w, None)"
proof -
  obtain p where p: "generate_scaffold ''u'' ''v'' 0 ''SOC2'' ''prod'' ''api'' = Ok p" using example_scaffold ..
  have enc: "encode_all (\<lambda>_. Ok x) f xs docs = Ok (docs @ replicate (length xs) x)" for x and f :: "'a \<Rightarrow> string" and xs docs
    by (induction xs arbitrary: docs) simp_all
  let ?en = "\<lparr>en_contract = \<lambda>_. Ok ''c'', en_binding = \<lambda>_. Ok ''b'', en_components = \<lambda>_. Ok ''d'', en_policies = \<lambda>_ _ _. Ok ''e''\<rparr>"
  obtain m where "render_manifests_yaml ?en p = Ok m"
    by (simp add: render_manifests_yaml_def enc)
  then have "\<exists>w. write_to_directory ?en \<lparr>fs_mkdir = \<lambda>_. None, fs_write = \<lambda>_. None\<rparr> ''out'' p = (w, None)"
    by (simp add: write_to_directory_def write_named_def Let_def)
  then obtain w where w: "write_to_directory ?en \<lparr>fs_mkdir = \<lambda>_. None, fs_write = \<lambda>_. None\<rparr> ''out'' p = (w, None)" ..
  from written_files[OF w] p w show ?thesis by blast
qed

end
