(* ===== verification/Mcp.thy ===== *)
theory Mcp
  imports Diagnostics Scaffold Explain
begin

text \<open>
  internal/adapters/mcp/server.go: the stdio server of the Model Context Protocol, from the lines it
  reads to the responses it writes. The decoding of a request and of the parameters of a call, the
  encoders, the host, the clock and the identifiers are arguments, given afresh with every line. A
  call that panics ends the process. A result is kept as JSON; the keys of a map are written in
  order.
\<close>

section \<open>Messages\<close>

text \<open>The identifier of a request is absent or null for a notification.\<close>

record rpc_request =
  rpc_id :: "json option"
  rpc_method :: string
  rpc_params :: string

datatype rpc_outcome = RpcResult json | RpcError int string

record rpc_response =
  rsp_id :: "json option"
  rsp_outcome :: rpc_outcome

type_synonym arguments = "string \<rightharpoonup> json"

definition arg_string :: "arguments \<Rightarrow> string \<Rightarrow> string" where
  "arg_string args k = (case json_string (args k) of Some s \<Rightarrow> s | None \<Rightarrow> [])"

record mcp_env =
  me_request :: "string \<Rightarrow> rpc_request result"
  me_params :: "string \<Rightarrow> (string \<times> arguments) result"
  me_encode :: "json \<Rightarrow> string"
  me_now :: time
  me_uuids :: "nat \<Rightarrow> string"
  me_elapsed :: "nat \<Rightarrow> duration"
  me_codec :: codec
  me_encoders :: encoders
  me_host :: host
  me_probe :: probe
  me_compiled :: "validator result"

record mcp_server =
  ms_evidence_dir :: string
  ms_validator :: "validator option"
  ms_shared :: shared_validator

section \<open>Tools\<close>

record tool_arg =
  ta_name :: string
  ta_description :: string
  ta_default :: "string option"
  ta_required :: bool

record mcp_tool =
  tl_name :: string
  tl_description :: string
  tl_args :: "tool_arg list"

definition needed :: "string \<Rightarrow> string \<Rightarrow> tool_arg" where
  "needed n d = \<lparr>ta_name = n, ta_description = d, ta_default = None, ta_required = True\<rparr>"

definition defaulted :: "string \<Rightarrow> string \<Rightarrow> string \<Rightarrow> tool_arg" where
  "defaulted n d v = \<lparr>ta_name = n, ta_description = d, ta_default = Some v, ta_required = False\<rparr>"

definition subject_arg :: tool_arg where
  "subject_arg = needed ''subject'' ''Subject URI (e.g. k8s://prod/payments/Deployment/payments-api)''"

definition list_tools :: "mcp_tool list" where
  "list_tools =
     [\<lparr>tl_name = ''get_assurance_state'', tl_description =
        ''Retrieve the continuous assurance state vector <P, V, A, C, E, L, tau> for a Kubernetes workload subject.'',
       tl_args = [subject_arg]\<rparr>,
      \<lparr>tl_name = ''explain_claim'', tl_description =
        ''Explain why an assurance claim is justified or failing using a causal decision graph (Section 51).'',
       tl_args = [subject_arg, defaulted ''control'' ''Control identifier (e.g. nist-sp-800-53:AC-6)'' ''nist-sp-800-53:AC-6'']\<rparr>,
      \<lparr>tl_name = ''validate_oscal'', tl_description =
        ''Validate an OSCAL document (AR, CD, SSP, AP, POAM) against strict NIST v1.2.3 JSON schemas.'',
       tl_args = [needed ''content'' ''Raw OSCAL JSON or YAML string'', defaulted ''schema''
         ''Optional schema type override: auto, assessment-results, component-definition, ssp, assessment-plan, poam'' ''auto'']\<rparr>,
      \<lparr>tl_name = ''detect_drift'', tl_description =
        ''Detect semantic drift between observed runtime evidence and recorded epoch digests.'', tl_args = [subject_arg]\<rparr>,
      \<lparr>tl_name = ''scaffold_compliance'', tl_description =
        ''Scaffold Kubernetes ControlBinding, EvidenceContract, and OSCAL Component Definition manifests.'',
       tl_args = [needed ''profile'' ''Compliance profile (nist-sp-800-53, pci-dss, soc-2, iso-27001)'',
         defaulted ''workload'' ''Target workload name'' ''example-app'',
         defaulted ''namespace'' ''Target Kubernetes namespace'' ''default'']\<rparr>,
      \<lparr>tl_name = ''project_oscal'', tl_description =
        ''Project continuous assurance state into a standard NIST OSCAL v1.2.3 document.'',
       tl_args = [needed ''subject'' ''Subject URI'', needed ''document_type''
         ''Document type: assessment-results, component-definition, ssp, assessment-plan, poam'']\<rparr>,
      \<lparr>tl_name = ''run_doctor'', tl_description =
        ''Run deep system preflight diagnostics (Kubernetes, SPIRE, Sigstore, CAS, NIST schemas).'', tl_args = []\<rparr>]"

definition json_tool_arg :: "tool_arg \<Rightarrow> json" where
  "json_tool_arg a =
     JObj ((case ta_default a of None \<Rightarrow> [] | Some v \<Rightarrow> [(''default'', JStr v)]) @
       [(''description'', JStr (ta_description a)), (''type'', JStr ''string'')])"

definition json_tool :: "mcp_tool \<Rightarrow> json" where
  "json_tool t =
     JObj [(''name'', JStr (tl_name t)), (''description'', JStr (tl_description t)),
       (''inputSchema'', JObj (
          [(''properties'', JObj (map (\<lambda>a. (ta_name a, json_tool_arg a)) (sort_key ta_name (tl_args t))))] @
          (if tl_args t = [] then [] else [(''required'', JArr (map (\<lambda>a. JStr (ta_name a)) (filter ta_required (tl_args t))))]) @
          [(''type'', JStr ''object'')]))]"

section \<open>Calls\<close>

datatype tool_outcome = Answer string | Fault string | Panic

definition parse_subject_ref :: "string \<Rightarrow> subject_ref" where
  "parse_subject_ref raw =
     (case split_first raw ''://'' of
        Some (scheme, i) \<Rightarrow> \<lparr>s_scheme = scheme, s_id = i, s_attributes = []\<rparr>
      | None \<Rightarrow> \<lparr>s_scheme = ''k8s'', s_id = raw, s_attributes = []\<rparr>)"

definition parse_control_arg :: "string \<Rightarrow> control_ref" where
  "parse_control_arg raw =
     (if raw = [] then \<lparr>c_namespace = ''nist-sp-800-53'', c_id = ''AC-6'', c_version = []\<rparr>
      else case split_first raw '':'' of
          Some (ns, i) \<Rightarrow> \<lparr>c_namespace = ns, c_id = i, c_version = []\<rparr>
        | None \<Rightarrow> \<lparr>c_namespace = ''nist-sp-800-53'', c_id = raw, c_version = []\<rparr>)"

definition unknown_evaluation :: "time \<Rightarrow> subject_ref \<Rightarrow> control_ref \<Rightarrow> claim_evaluation" where
  "unknown_evaluation now sub ctrl =
     \<lparr>ce_id = ''eval-'' @ c_id ctrl, ce_control = ctrl, ce_subject = sub, ce_state = Unknown, ce_vector = zero_vector,
      ce_epoch = empty_epoch\<lparr>subject_digest := compute_string_digest (subject_uri sub)\<rparr>, ce_evidence = [],
      ce_completeness = zero_completeness, ce_evidence_root = [], ce_evaluated_at = now, ce_valid_until = zero_time,
      ce_trace = []\<rparr>"

definition state_answer :: "time \<Rightarrow> subject_ref \<Rightarrow> json" where
  "state_answer now sub =
     JObj [(''evidence_root'', JStr ''none''), (''last_evaluated'', JStr (rfc3339 now)), (''state'', JStr ''UNKNOWN''),
       (''status'', JStr ''Absence of verified evidence (Section 15: EMPTY != NEGATIVE)''),
       (''subject'', JStr (subject_uri sub)),
       (''vector_state'', JObj [(''coherence'', JStr ''COHERENT''), (''evidence'', JStr ''UNKNOWN''),
          (''lifecycle'', JStr ''UNKNOWN''), (''presence'', JStr ''EMPTY''), (''valence'', JStr ''NEUTRAL'')])]"

definition drift_answer :: "subject_ref \<Rightarrow> json" where
  "drift_answer sub =
     JObj [(''assurance_status'', JStr ''ASSURED''), (''authority_drift'', JBool False), (''drift_dimensions'', JNum 0),
       (''policy_drift'', JBool False), (''status'', JStr ''IN_SYNC''), (''subject'', JStr (subject_uri sub)),
       (''workload_drift'', JBool False)]"

definition json_report :: "report \<Rightarrow> json" where
  "json_report r =
     JObj ([(''valid'', JBool (vr_valid r)), (''document_type'', JStr (doc_type_string (vr_type r)))] @
       opt_str ''oscal_version'' (vr_version r) @ [(''duration_ns'', JNum (vr_duration r))] @
       opt_slice ''errors'' (\<lambda>(p, m). JObj [(''path'', JStr p), (''message'', JStr m)]) (vr_errors r))"

fun status_text :: "check_status \<Rightarrow> string" where
  "status_text StatusPass = ''PASS''"
| "status_text StatusWarn = ''WARN''"
| "status_text StatusFail = ''FAIL''"

definition json_check :: "diagnostic_check \<Rightarrow> json" where
  "json_check c =
     JObj ([(''name'', JStr (dk_name c)), (''target'', JStr (dk_target c)), (''status'', JStr (status_text (dk_status c))),
        (''duration'', JStr (dk_duration c)), (''message'', JStr (dk_message c))] @ opt_str ''remediation'' (dk_remediation c))"

definition json_doctor_report :: "doctor_report \<Rightarrow> json" where
  "json_doctor_report r =
     JObj [(''timestamp'', JStr (rfc3339_nano (dr_timestamp r))), (''overall_state'', JStr (status_text (dr_overall r))),
       (''total_duration'', JStr (dr_duration r)), (''checks'', json_slice json_check (dr_checks r))]"

definition projected_contract :: "subject_ref \<Rightarrow> contract" where
  "projected_contract sub =
     \<lparr>ct_id = ''contract-'' @ s_id sub, ct_name = [],
      ct_requirements = [\<lparr>r_id = ''req-1'', r_evidence_type = ''admission'', r_required = True, r_max_age = 15 * minute,
        r_accepted_producers = []\<rparr>],
      ct_on_missing = Unspecified\<rparr>"

definition projected_document :: "mcp_env \<Rightarrow> subject_ref \<Rightarrow> doc_type \<Rightarrow> document" where
  "projected_document me sub t =
     (let ctrl = \<lparr>c_namespace = ''nist-sp-800-53'', c_id = ''AC-6'', c_version = []\<rparr>;
          evals = [unknown_evaluation (me_now me) sub ctrl]; u = me_uuids me; now = me_now me
      in case t of
           AssessmentResults \<Rightarrow> DocResults (project_assessment_results u [] now now sub evals [])
         | ComponentDefinition \<Rightarrow> DocComponents (project_component_definition u now (s_id sub) evals)
         | SecurityPlan \<Rightarrow> DocPlan (project_ssp u now (s_id sub) evals)
         | AssessmentPlan \<Rightarrow> DocAssessment (project_assessment_plan u now sub (projected_contract sub) [ctrl])
         | ActionPlan \<Rightarrow> DocActions (project_poam u now sub []))"

definition answer_or_fault :: "string result \<Rightarrow> tool_outcome" where
  "answer_or_fault r = (case r of Inl e \<Rightarrow> Fault e | Inr s \<Rightarrow> Answer s)"

definition call_tool :: "mcp_env \<Rightarrow> mcp_server \<Rightarrow> string \<Rightarrow> arguments \<Rightarrow> mcp_server \<times> tool_outcome" where
  "call_tool me sv name args =
     (let raw = arg_string args ''subject''; sub = parse_subject_ref raw
      in if name = ''get_assurance_state''
         then (sv, if raw = [] then Fault ''subject argument is required''
                   else Answer (me_encode me (state_answer (me_now me) sub)))
         else if name = ''explain_claim''
         then (sv, if raw = [] then Fault ''subject argument is required''
                   else let ctrl = parse_control_arg (arg_string args ''control'')
                     in Answer (render_text (build_explain_graph sub ctrl (unknown_evaluation (me_now me) sub ctrl))))
         else if name = ''validate_oscal''
         then (sv, if arg_string args ''content'' = [] then Fault ''content argument is required''
                   else case validate_ptr (me_codec me) (ms_validator sv) (me_elapsed me 0) (arg_string args ''content'')
                            (arg_string args ''schema'') of
                       None \<Rightarrow> Panic
                     | Some (Inl e) \<Rightarrow> Fault (''validation execution failed: '' @ e)
                     | Some (Inr r) \<Rightarrow> Answer (me_encode me (json_report r)))
         else if name = ''detect_drift''
         then (sv, if raw = [] then Fault ''subject argument is required'' else Answer (me_encode me (drift_answer sub)))
         else if name = ''scaffold_compliance''
         then (sv, if arg_string args ''profile'' = [] then Fault ''profile argument is required''
                   else answer_or_fault (case generate_scaffold (me_uuids me 0) (me_uuids me 1) (me_now me)
                          (arg_string args ''profile'') (arg_string args ''namespace'') (arg_string args ''workload'') of
                        Inl e \<Rightarrow> Err e
                      | Inr p \<Rightarrow> render_manifests_yaml (me_encoders me) p))
         else if name = ''project_oscal''
         then (sv, if raw = [] then Fault ''subject argument is required''
                   else let dt = arg_string args ''document_type''
                     in if dt = [] then Fault ''document_type argument is required''
                        else case normalize_document_type dt of
                            Inl _ \<Rightarrow> Fault (''unsupported OSCAL projection document type: '' @ dt)
                          | Inr t \<Rightarrow> (case document_json (projected_document me sub t) of
                                Inl e \<Rightarrow> Fault (''projection error: '' @ e)
                              | Inr j \<Rightarrow> Answer (me_encode me j)))
         else if name = ''run_doctor''
         then (case run_doctor (me_host me) (me_probe me) (me_elapsed me) (me_now me) (me_compiled me) (ms_evidence_dir sv)
                     (ms_shared sv) of
                 (shared, rep) \<Rightarrow> (sv\<lparr>ms_shared := shared\<rparr>,
                   case rep of None \<Rightarrow> Panic | Some r \<Rightarrow> Answer (me_encode me (json_doctor_report r))))
         else (sv, Fault (''unknown tool: '' @ name)))"

definition call_result :: "string \<Rightarrow> bool \<Rightarrow> json" where
  "call_result text_of err =
     JObj ([(''content'', JArr [JObj [(''type'', JStr ''text''), (''text'', JStr text_of)]])] @
       (if err then [(''isError'', JBool True)] else []))"

definition initialize_result :: json where
  "initialize_result =
     JObj [(''protocolVersion'', JStr ''2024-11-05''), (''capabilities'', JObj [(''tools'', JObj [])]),
       (''serverInfo'', JObj [(''name'', JStr ''oskal-mcp''), (''version'', JStr ''v0.3.0'')])]"

section \<open>The server\<close>

definition new_mcp_server :: "validator result \<Rightarrow> shared_validator \<Rightarrow> string \<Rightarrow> mcp_server result" where
  "new_mcp_server compiled shared dir =
     (case default_validator compiled shared of
        (_, Inl e) \<Rightarrow> Err (''failed to init validator for MCP: '' @ e)
      | (shared', Inr v) \<Rightarrow> Ok \<lparr>ms_evidence_dir = dir, ms_validator = v, ms_shared = shared'\<rparr>)"

text \<open>The responses to a request, or none if it panics.\<close>

definition handle_request :: "mcp_env \<Rightarrow> mcp_server \<Rightarrow> rpc_request \<Rightarrow> mcp_server \<times> rpc_response list option" where
  "handle_request me sv req =
     (let reply = (\<lambda>outcome. [\<lparr>rsp_id = rpc_id req, rsp_outcome = outcome\<rparr>])
      in if rpc_id req = None then (sv, Some [])
         else if rpc_method req = ''initialize'' then (sv, Some (reply (RpcResult initialize_result)))
         else if rpc_method req = ''ping'' then (sv, Some (reply (RpcResult (JObj []))))
         else if rpc_method req = ''tools/list''
         then (sv, Some (reply (RpcResult (JObj [(''tools'', JArr (map json_tool list_tools))]))))
         else if rpc_method req = ''tools/call''
         then (case me_params me (rpc_params req) of
                 Inl e \<Rightarrow> (sv, Some (reply (RpcError (-32602) (''Invalid params: '' @ e))))
               | Inr (name, args) \<Rightarrow>
                   (case call_tool me sv name args of
                      (sv', Panic) \<Rightarrow> (sv', None)
                    | (sv', Fault e) \<Rightarrow> (sv', Some (reply (RpcResult (call_result e True))))
                    | (sv', Answer s) \<Rightarrow> (sv', Some (reply (RpcResult (call_result s False))))))
         else (sv, Some (reply (RpcError (-32601) (''Method not found: '' @ rpc_method req)))))"

definition handle_line :: "mcp_env \<Rightarrow> mcp_server \<Rightarrow> string \<Rightarrow> mcp_server \<times> rpc_response list option" where
  "handle_line me sv line =
     (if trim_space line = [] then (sv, Some [])
      else case me_request me line of
          Inl e \<Rightarrow> (sv, Some [\<lparr>rsp_id = None, rsp_outcome = RpcError (-32700) (''Parse error: '' @ e)\<rparr>])
        | Inr req \<Rightarrow> handle_request me sv req)"

text \<open>How a run ends: with the error of the scanner or none, with a cancelled context, or with a panic.\<close>

datatype run_end = Ended "string option" | Cancelled | Crashed

fun mcp_run :: "string option \<Rightarrow> mcp_server \<Rightarrow> (bool \<times> mcp_env \<times> string) list \<Rightarrow> rpc_response list \<times> run_end" where
  "mcp_run scan_err sv [] = ([], Ended scan_err)"
| "mcp_run scan_err sv ((cancelled, me, line) # inputs) =
     (if cancelled then ([], Cancelled)
      else case handle_line me sv line of
          (sv', None) \<Rightarrow> ([], Crashed)
        | (sv', Some out) \<Rightarrow> (case mcp_run scan_err sv' inputs of (outs, fin) \<Rightarrow> (out @ outs, fin)))"

section \<open>Lemmas\<close>

text \<open>A server that was started has a validator, the shared one.\<close>

definition started :: "mcp_server \<Rightarrow> bool" where
  "started sv = (\<exists>v. ms_validator sv = Some v \<and> ms_shared sv = (True, Some v))"

lemma new_server_started: "new_mcp_server compiled (False, None) dir = Ok sv \<Longrightarrow> started sv"
  by (auto simp: new_mcp_server_def default_validator_def started_def split: sum.splits)

lemma doctor_with_validator:
  "\<exists>r. run_doctor h pb el now compiled dir (True, Some v) = ((True, Some v), Some r)"
proof -
  have "check_oscal_schemas pb (Ok (Some v)) d \<noteq> None" for d
    unfolding check_oscal_schemas_def validate_ptr_some Let_def by (simp split: sum.split)
  then obtain c where "check_oscal_schemas pb (Ok (Some v)) (el 1) = Some c" by blast
  then show ?thesis by (simp add: run_doctor_def default_validator_def Let_def)
qed

lemma call_tool_started:
  assumes "started sv"
  shows "fst (call_tool me sv name args) = sv \<and> snd (call_tool me sv name args) \<noteq> Panic"
proof -
  obtain v where v: "ms_validator sv = Some v" "ms_shared sv = (True, Some v)" using assms by (auto simp: started_def)
  obtain r where r: "run_doctor (me_host me) (me_probe me) (me_elapsed me) (me_now me) (me_compiled me) (ms_evidence_dir sv)
      (True, Some v) = ((True, Some v), Some r)" using doctor_with_validator by blast
  have same: "sv\<lparr>ms_shared := (True, Some v)\<rparr> = sv" using v(2) by simp
  have "answer_or_fault x \<noteq> Panic" for x by (simp add: answer_or_fault_def split: sum.split)
  then show ?thesis
    unfolding call_tool_def Let_def v validate_ptr_some r prod.case same
    by (simp split: sum.split)
qed

text \<open>What the protocol asks for a line: the identifier of the answer, and the code of its error or none where a
  result is due.\<close>

definition answers_to :: "mcp_env \<Rightarrow> string \<Rightarrow> (json option \<times> int option) list" where
  "answers_to me line =
     (if trim_space line = [] then []
      else case me_request me line of
          Inl _ \<Rightarrow> [(None, Some (-32700))]
        | Inr req \<Rightarrow>
            (case rpc_id req of
               None \<Rightarrow> []
             | Some i \<Rightarrow>
                 [(Some i,
                   if rpc_method req \<in> {''initialize'', ''ping'', ''tools/list''} then None
                   else if rpc_method req = ''tools/call'' then (if is_ok (me_params me (rpc_params req)) then None else Some (-32602))
                   else Some (-32601))]))"

definition answer_kind :: "rpc_response \<Rightarrow> json option \<times> int option" where
  "answer_kind r = (rsp_id r, case rsp_outcome r of RpcResult _ \<Rightarrow> None | RpcError code _ \<Rightarrow> Some code)"

lemma handle_line_started:
  assumes "started sv"
  shows "\<exists>out. handle_line me sv line = (sv, Some out) \<and> map answer_kind out = answers_to me line"
proof (cases "trim_space line = [] \<or> \<not> is_ok (me_request me line)")
  case True
  then show ?thesis
    by (cases "me_request me line") (auto simp: handle_line_def answers_to_def answer_kind_def)
next
  case False
  then obtain req where req: "me_request me line = Inr req" by (cases "me_request me line") auto
  have "\<exists>out. handle_request me sv req = (sv, Some out) \<and> map answer_kind out = answers_to me line"
  proof (cases "rpc_method req = ''tools/call'' \<and> (\<exists>name args. me_params me (rpc_params req) = Ok (name, args))")
    case call: True
    then obtain name args where params: "me_params me (rpc_params req) = Ok (name, args)" by blast
    obtain outcome where "call_tool me sv name args = (sv, outcome)" "outcome \<noteq> Panic"
      using call_tool_started[OF assms, of me name args] by (metis prod.collapse)
    with call params False req show ?thesis
      by (cases outcome; cases "rpc_id req") (auto simp: handle_request_def answers_to_def answer_kind_def)
  qed (use False req in \<open>auto simp: handle_request_def answers_to_def answer_kind_def Let_def
      split: sum.split option.split\<close>)
  with False req show ?thesis by (simp add: handle_line_def)
qed

lemma mcp_run_started:
  assumes "started sv"
  shows "\<exists>outs. mcp_run scan_err sv inputs =
      (outs, if list_ex (\<lambda>(cancelled, me, line). cancelled) inputs then Cancelled else Ended scan_err) \<and>
    map answer_kind outs =
      concat (map (\<lambda>(_, me, line). answers_to me line) (takeWhile (\<lambda>(cancelled, me, line). \<not> cancelled) inputs))"
proof (induction inputs)
  case (Cons x inputs)
  obtain c me line where x: "x = (c, me, line)" by (cases x)
  obtain out where "handle_line me sv line = (sv, Some out)" "map answer_kind out = answers_to me line"
    using handle_line_started[OF assms] by blast
  with Cons x show ?case by auto
qed simp

lemma projected_document_kind:
  "document_type (projected_document me sub t) = t"
  "md_oscal_version (document_metadata (projected_document me sub t)) = ''1.2.3''"
  by (cases t; simp add: projected_document_def Let_def project_assessment_results_def project_component_definition_def
      project_ssp_def project_assessment_plan_def project_poam_def oscal_metadata_def split: prod.split)+

lemma report_of_document:
  assumes "document_json d = Ok j" and "cx_unmarshal cx data = Ok j" and "cx_decode cx data = Some (Ok j)"
    and "trim_space data = CHR 0x7B # rest" and "v (document_type d) = Some sch"
  shows "\<exists>r. validate cx v elapsed data [] = Ok r \<and> vr_type r = document_type d \<and>
    vr_version r = md_oscal_version (document_metadata d) \<and> vr_valid r = (sch j = None)"
proof -
  have "validation_target cx data [] = Ok (document_type d, data)"
    using document_detected[OF assms(1,2,4)] by (simp add: validation_target_def)
  then show ?thesis
    using assms(3,5) document_json_type[OF assms(1)] by (simp add: validate_def Let_def)
qed

section \<open>Properties\<close>

text \<open>
  C16: a server that could be started, as the first user of the validator of its process, answers every request
  exactly once, in the order of the lines and under the identifier of the request, and answers neither blank lines nor
  notifications. The three methods of the protocol get a result, a tool call gets one when its parameters can be
  decoded, and otherwise the answer is the error -32602, and -32601 for every other method; a line that is no request
  gets the error -32700 without identifier. The server never panics: it stops before the first line that it reads after
  its context was cancelled, or, when that does not happen, at the end of its input with the error of the scanner.
\<close>

lemma requests_are_answered:
  assumes "new_mcp_server compiled (False, None) dir = Ok sv"
  shows "\<exists>outs. mcp_run scan_err sv inputs =
      (outs, if list_ex (\<lambda>(cancelled, me, line). cancelled) inputs then Cancelled else Ended scan_err) \<and>
    map answer_kind outs =
      concat (map (\<lambda>(_, me, line). answers_to me line) (takeWhile (\<lambda>(cancelled, me, line). \<not> cancelled) inputs))"
  by (rule mcp_run_started[OF new_server_started[OF assms]])

definition example_env :: mcp_env where
  "example_env =
     \<lparr>me_request = \<lambda>line. Ok \<lparr>rpc_id = Some (JNum 7), rpc_method = line, rpc_params = []\<rparr>,
      me_params = \<lambda>_. Ok (''run_doctor'', Map.empty), me_encode = \<lambda>_. ''{}'', me_now = 0, me_uuids = example_uuid,
      me_elapsed = \<lambda>_. 0, me_codec = example_codec JNull,
      me_encoders = \<lparr>en_contract = \<lambda>_. Ok ''c'', en_binding = \<lambda>_. Ok ''b'', en_components = \<lambda>_. Ok ''d'',
        en_policies = \<lambda>_ _ _. Ok ''e''\<rparr>,
      me_host = example_host, me_probe = example_probe, me_compiled = Ok Map.empty\<rparr>"

definition example_server :: mcp_server where
  "example_server = \<lparr>ms_evidence_dir = [], ms_validator = Some Map.empty, ms_shared = (True, Some Map.empty)\<rparr>"

lemma example_server_new: "new_mcp_server (Ok Map.empty) (False, None) [] = Ok example_server"
  by (simp add: new_mcp_server_def default_validator_def example_server_def)

lemma requests_are_answered_witness:
  "\<exists>outs. mcp_run None example_server [(False, example_env, ''ping''), (False, example_env, ''''),
      (False, example_env, ''tools/sing'')] = (outs, Ended None) \<and>
     map answer_kind outs = [(Some (JNum 7), None), (Some (JNum 7), Some (-32601))]"
  using requests_are_answered[OF example_server_new, of None
      "[(False, example_env, ''ping''), (False, example_env, ''''), (False, example_env, ''tools/sing'')]"]
  by (auto simp: answers_to_def trim_space_def is_space_def example_env_def)

text \<open>
  Further: what the server lists is what it does: a call of a tool that is not listed is refused as unknown, and a call of a
  listed tool without one of the arguments its schema requires is refused for the first of them.
\<close>

lemma listed_tools_are_the_tools:
  "(name \<notin> tl_name ` set list_tools \<longrightarrow> call_tool me sv name args = (sv, Fault (''unknown tool: '' @ name))) \<and>
   list_all (\<lambda>t. case filter (\<lambda>a. ta_required a \<and> arg_string args (ta_name a) = []) (tl_args t) of
       [] \<Rightarrow> True
     | a # _ \<Rightarrow> call_tool me sv (tl_name t) args = (sv, Fault (ta_name a @ '' argument is required''))) list_tools"
proof
  show "name \<notin> tl_name ` set list_tools \<longrightarrow> call_tool me sv name args = (sv, Fault (''unknown tool: '' @ name))"
    by (simp add: list_tools_def call_tool_def)
  show "list_all (\<lambda>t. case filter (\<lambda>a. ta_required a \<and> arg_string args (ta_name a) = []) (tl_args t) of
       [] \<Rightarrow> True
     | a # _ \<Rightarrow> call_tool me sv (tl_name t) args = (sv, Fault (ta_name a @ '' argument is required''))) list_tools"
    by (simp add: list_tools_def call_tool_def subject_arg_def needed_def defaulted_def)
qed

lemma listed_tools_are_the_tools_witness:
  "call_tool example_env example_server ''delete_evidence'' Map.empty = (example_server, Fault ''unknown tool: delete_evidence'')"
  using listed_tools_are_the_tools[of "''delete_evidence''" example_env example_server Map.empty]
  by (simp add: list_tools_def)

text \<open>
  Further: two tools contradict each other about every subject: get_assurance_state always reports UNKNOWN for want of
  evidence, detect_drift always reports the same subject ASSURED and in sync; neither reads any evidence.
\<close>

lemma state_and_drift_contradict:
  assumes "arg_string args ''subject'' \<noteq> []"
  shows "\<exists>js jd. call_tool me sv ''get_assurance_state'' args = (sv, Answer (me_encode me js)) \<and>
    call_tool me sv ''detect_drift'' args = (sv, Answer (me_encode me jd)) \<and>
    json_field js ''subject'' = json_field jd ''subject'' \<and> json_field js ''state'' = Some (JStr ''UNKNOWN'') \<and>
    json_field jd ''assurance_status'' = Some (JStr ''ASSURED'') \<and> json_field jd ''status'' = Some (JStr ''IN_SYNC'')"
  using assms
  by (intro exI[where x = "state_answer (me_now me) (parse_subject_ref (arg_string args ''subject''))"]
      exI[where x = "drift_answer (parse_subject_ref (arg_string args ''subject''))"])
    (simp add: call_tool_def state_answer_def drift_answer_def)

lemma state_and_drift_contradict_witness:
  "\<exists>js jd. call_tool example_env example_server ''get_assurance_state'' [''subject'' \<mapsto> JStr ''api''] =
      (example_server, Answer (me_encode example_env js)) \<and>
    call_tool example_env example_server ''detect_drift'' [''subject'' \<mapsto> JStr ''api''] =
      (example_server, Answer (me_encode example_env jd)) \<and>
    json_field js ''state'' = Some (JStr ''UNKNOWN'') \<and> json_field jd ''assurance_status'' = Some (JStr ''ASSURED'')"
  using state_and_drift_contradict[of "[''subject'' \<mapsto> JStr ''api'']" example_env example_server]
  by (auto simp: arg_string_def)

text \<open>
  Further: the tools fit together: the document that project_oscal makes for a type, in any accepted spelling, is recognised
  by validate_oscal without a hint as a document of this type and of version 1.2.3, and is valid exactly when the
  schema of the type accepts it; this needs an encoder whose text begins an object and reads back.
\<close>

lemma projected_documents_validate:
  assumes "arg_string args ''subject'' \<noteq> []" and "normalize_document_type (arg_string args ''document_type'') = Ok t"
    and "document_json (projected_document me (parse_subject_ref (arg_string args ''subject'')) t) = Ok j"
    and "trim_space (me_encode me j) = CHR 0x7B # rest" and "cx_unmarshal (me_codec me) (me_encode me j) = Ok j"
    and "cx_decode (me_codec me) (me_encode me j) = Some (Ok j)" and "ms_validator sv = Some v" and "v t = Some sch"
  shows "call_tool me sv ''project_oscal'' args = (sv, Answer (me_encode me j)) \<and>
    (\<exists>r. call_tool me sv ''validate_oscal'' [''content'' \<mapsto> JStr (me_encode me j)] = (sv, Answer (me_encode me (json_report r))) \<and>
       vr_type r = t \<and> vr_version r = ''1.2.3'' \<and> vr_valid r = (sch j = None))"
proof
  have "arg_string args ''document_type'' \<noteq> []" using normalize_needs_name[OF assms(2)] by simp
  then show "call_tool me sv ''project_oscal'' args = (sv, Answer (me_encode me j))"
    using assms(1-3) by (simp add: call_tool_def Let_def)
  have "me_encode me j \<noteq> []" using assms(4) by (auto simp: trim_space_def)
  moreover obtain r where "validate (me_codec me) v (me_elapsed me 0) (me_encode me j) [] = Ok r" "vr_type r = t"
    "vr_version r = ''1.2.3''" "vr_valid r = (sch j = None)"
    using report_of_document[OF assms(3,5,6,4), of v sch "me_elapsed me 0"] assms(8) by (auto simp: projected_document_kind)
  ultimately show "\<exists>r. call_tool me sv ''validate_oscal'' [''content'' \<mapsto> JStr (me_encode me j)] =
      (sv, Answer (me_encode me (json_report r))) \<and> vr_type r = t \<and> vr_version r = ''1.2.3'' \<and> vr_valid r = (sch j = None)"
    using assms(7) by (intro exI[where x = r]) (simp add: call_tool_def arg_string_def)
qed

lemma projected_documents_validate_witness:
  "\<exists>j r. call_tool (example_env\<lparr>me_codec := example_codec j\<rparr>) (example_server\<lparr>ms_validator := Some [ActionPlan \<mapsto> \<lambda>_. None]\<rparr>)
      ''validate_oscal'' [''content'' \<mapsto> JStr ''{}''] =
      (example_server\<lparr>ms_validator := Some [ActionPlan \<mapsto> \<lambda>_. None]\<rparr>, Answer (me_encode example_env (json_report r))) \<and>
    vr_type r = ActionPlan \<and> vr_version r = ''1.2.3'' \<and> vr_valid r"
proof -
  let ?args = "[''subject'' \<mapsto> JStr ''api'', ''document_type'' \<mapsto> JStr ''POAM'']"
  have args: "arg_string ?args ''subject'' = ''api''" "arg_string ?args ''document_type'' = ''POAM''"
    by (simp_all add: arg_string_def)
  have norm: "normalize_document_type (arg_string ?args ''document_type'') = Ok ActionPlan" unfolding args by code_simp
  have "json_year 0" by code_simp
  then have "list_all json_year (metadata_times (pm_metadata (project_poam example_uuid 0 (parse_subject_ref ''api'') [])))"
    by (simp add: metadata_times_def project_poam_def oscal_metadata_def Let_def)
  then have "\<exists>j. json_poam (project_poam example_uuid 0 (parse_subject_ref ''api'') []) = Ok j"
    unfolding json_poam_def json_times_def by simp
  moreover have "projected_document (example_env\<lparr>me_codec := cx\<rparr>) sub ActionPlan = DocActions (project_poam example_uuid 0 sub [])"
    for cx sub by (simp add: projected_document_def example_env_def Let_def)
  ultimately obtain j where j: "document_json (projected_document (example_env\<lparr>me_codec := example_codec j\<rparr>)
      (parse_subject_ref (arg_string ?args ''subject'')) ActionPlan) = Ok j"
    unfolding args by auto
  let ?me = "example_env\<lparr>me_codec := example_codec j\<rparr>" and ?sv = "example_server\<lparr>ms_validator := Some [ActionPlan \<mapsto> \<lambda>_. None]\<rparr>"
  have enc: "me_encode ?me j = ''{}''" "me_encode ?me = me_encode example_env" by (simp_all add: example_env_def)
  have tx: "trim_space (me_encode ?me j) = CHR 0x7B # ''}''" unfolding enc(1) by (rule example_brace)
  have cx: "cx_unmarshal (me_codec ?me) (me_encode ?me j) = Ok j" "cx_decode (me_codec ?me) (me_encode ?me j) = Some (Ok j)"
    by (simp_all add: example_codec_def)
  have sub: "arg_string ?args ''subject'' \<noteq> []" unfolding args by simp
  have sv: "ms_validator ?sv = Some [ActionPlan \<mapsto> \<lambda>_. None]" "[ActionPlan \<mapsto> \<lambda>_. None] ActionPlan = Some (\<lambda>_. None)"
    by simp_all
  from projected_documents_validate[OF sub norm j tx cx sv] show ?thesis unfolding enc(1) unfolding enc(2) by auto
qed

end
