(* ===== verification/Config.thy ===== *)
theory Config
  imports Prelude
begin

text \<open>
  internal/config/config.go and the PersistentPreRunE of cmd/oskal/main.go: where the configuration
  of the command line comes from. The file system, the environment and the codecs of a
  configuration file are arguments; a decoder yields the fields that the file sets and, if it fails,
  an error. Paths are taken to be clean.
\<close>

section \<open>Configurations\<close>

record config =
  cg_server :: string
  cg_evidence_dir :: string
  cg_namespace :: string
  cg_output :: string
  cg_profile :: string

record config_fields =
  cf_server :: "string option"
  cf_evidence_dir :: "string option"
  cf_namespace :: "string option"
  cf_output :: "string option"
  cf_profile :: "string option"

record config_world =
  cw_exists :: "string \<Rightarrow> bool"
  cw_read :: "string \<Rightarrow> string result"
  cw_home :: "string option"
  cw_env :: "string \<Rightarrow> string"
  cw_json :: "string \<Rightarrow> config_fields \<times> string option"
  cw_yaml :: "string \<Rightarrow> config_fields \<times> string option"

definition default_config :: "config_world \<Rightarrow> config" where
  "default_config w =
     \<lparr>cg_server = [], cg_evidence_dir = (if cw_exists w ''evidence'' then ''evidence'' else []), cg_namespace = ''default'',
      cg_output = ''table'', cg_profile = ''nist-sp-800-53''\<rparr>"

definition find_config_file :: "config_world \<Rightarrow> string" where
  "find_config_file w =
     (case filter (cw_exists w) [''.oskal.yaml'', ''.oskal.yml'', ''.oskal.json''] of
        name # _ \<Rightarrow> name
      | [] \<Rightarrow>
          (case cw_home w of
             None \<Rightarrow> []
           | Some home \<Rightarrow>
               let p = join_str ''/'' [home, ''.oskal'', ''config.yaml''] in if cw_exists w p then p else []))"

definition set_fields :: "config_fields \<Rightarrow> config \<Rightarrow> config" where
  "set_fields f c =
     (let pick = (\<lambda>field old. case field of None \<Rightarrow> old | Some v \<Rightarrow> v)
      in \<lparr>cg_server = pick (cf_server f) (cg_server c), cg_evidence_dir = pick (cf_evidence_dir f) (cg_evidence_dir c),
          cg_namespace = pick (cf_namespace f) (cg_namespace c), cg_output = pick (cf_output f) (cg_output c),
          cg_profile = pick (cf_profile f) (cg_profile c)\<rparr>)"

definition override_env :: "config_world \<Rightarrow> config \<Rightarrow> config" where
  "override_env w c =
     (let pick = (\<lambda>name old. if cw_env w name \<noteq> [] then cw_env w name else old)
      in \<lparr>cg_server = pick ''OSKAL_SERVER'' (cg_server c), cg_evidence_dir = pick ''OSKAL_EVIDENCE_DIR'' (cg_evidence_dir c),
          cg_namespace = pick ''OSKAL_NAMESPACE'' (cg_namespace c), cg_output = pick ''OSKAL_OUTPUT'' (cg_output c),
          cg_profile = pick ''OSKAL_PROFILE'' (cg_profile c)\<rparr>)"

definition config_path :: "config_world \<Rightarrow> string \<Rightarrow> string" where
  "config_path w explicit = (if explicit = [] then find_config_file w else explicit)"

text \<open>The configuration, the file it was read from, and an error.\<close>

definition load_config :: "config_world \<Rightarrow> string \<Rightarrow> config \<times> string \<times> string option" where
  "load_config w explicit =
     (let cfg = default_config w; path = config_path w explicit
      in if path = [] then (override_env w cfg, path, None)
         else case cw_read w path of
             Inl e \<Rightarrow> (cfg, path, Some (''failed to read config file '' @ path @ '': '' @ e))
           | Inr data \<Rightarrow>
               let json = has_suffix path ''.json''
               in (case (if json then cw_json w data else cw_yaml w data) of
                     (f, Some e) \<Rightarrow> (set_fields f cfg, path,
                       Some ((if json then ''failed to parse JSON config: '' else ''failed to parse YAML config: '') @ e))
                   | (f, None) \<Rightarrow> (override_env w (set_fields f cfg), path, None)))"

section \<open>Saving\<close>

definition dir_of :: "string \<Rightarrow> string" where
  "dir_of path =
     (let parts = split_on CHR ''/'' path
      in if length parts = 1 then ''.'' else if butlast parts = [[]] then ''/'' else join_str ''/'' (butlast parts))"

text \<open>Empty fields are omitted.\<close>

definition saved_fields :: "config \<Rightarrow> config_fields" where
  "saved_fields c =
     (let opt = (\<lambda>s. if s = [] then None else Some s)
      in \<lparr>cf_server = opt (cg_server c), cf_evidence_dir = opt (cg_evidence_dir c), cf_namespace = opt (cg_namespace c),
          cf_output = opt (cg_output c), cf_profile = opt (cg_profile c)\<rparr>)"

definition config_header :: string where
  "config_header = ''# OSKAL Configuration File (CKODEX Continuous Kubernetes Assurance)'' @ nl"

definition save_config ::
  "(string \<Rightarrow> string option) \<Rightarrow> (config_fields \<Rightarrow> string result) \<Rightarrow> (string \<Rightarrow> string option) \<Rightarrow> config \<Rightarrow> string \<Rightarrow>
     (string \<times> string) option \<times> string option" where
  "save_config mkdir enc write cfg path =
     (let dir = dir_of path; made = (if dir \<noteq> ''.'' \<and> dir \<noteq> [] then mkdir dir else None)
      in case made of
           Some e \<Rightarrow> (None, Some (''failed to create config directory '' @ dir @ '': '' @ e))
         | None \<Rightarrow>
             (case enc (saved_fields cfg) of
                Inl e \<Rightarrow> (None, Some (''failed to marshal config: '' @ e))
              | Inr data \<Rightarrow>
                  (case write path of
                     Some e \<Rightarrow> (None, Some e)
                   | None \<Rightarrow> (Some (path, config_header @ data), None))))"

section \<open>The command line\<close>

text \<open>The values of --server and --evidence-dir where they were given; the two globals afterwards.\<close>

definition pre_run :: "config_world \<Rightarrow> string \<Rightarrow> string option \<Rightarrow> string option \<Rightarrow> (string \<times> string) result" where
  "pre_run w config_flag server_flag dir_flag =
     (case load_config w config_flag of
        (cfg, _, err) \<Rightarrow>
          (case err of
             Some e \<Rightarrow> if config_flag \<noteq> [] then Err e
               else Ok (case server_flag of Some s \<Rightarrow> s | None \<Rightarrow> cg_server cfg,
                        case dir_flag of Some d \<Rightarrow> d | None \<Rightarrow> cg_evidence_dir cfg)
           | None \<Rightarrow> Ok (case server_flag of Some s \<Rightarrow> s | None \<Rightarrow> cg_server cfg,
                        case dir_flag of Some d \<Rightarrow> d | None \<Rightarrow> cg_evidence_dir cfg)))"

section \<open>Lemmas\<close>

lemma load_found:
  assumes "config_path w explicit = path" and "path \<noteq> []" and "cw_read w path = Ok data"
    and "(if has_suffix path ''.json'' then cw_json w data else cw_yaml w data) = (f, err)"
  shows "fst (load_config w explicit) =
      (if err = None then override_env w (set_fields f (default_config w)) else set_fields f (default_config w))"
    and "(snd (snd (load_config w explicit)) = None) = (err = None)"
  using assms by (auto simp: load_config_def Let_def split: option.split)

section \<open>Properties\<close>

text \<open>
  Further: when a configuration is loaded without an error, each of its settings is the environment variable if that is not
  empty, otherwise what the file sets, otherwise the default; the file is the explicit one or the first of the standard
  places that exists.
\<close>

lemma config_precedence:
  assumes "load_config w explicit = (cfg, path, None)"
  shows "path = (if explicit = [] then find_config_file w else explicit) \<and>
    (\<exists>f. (path = [] \<longrightarrow> f = \<lparr>cf_server = None, cf_evidence_dir = None, cf_namespace = None, cf_output = None, cf_profile = None\<rparr>) \<and>
      (path \<noteq> [] \<longrightarrow> (\<exists>data. cw_read w path = Ok data \<and>
         (if has_suffix path ''.json'' then cw_json w data else cw_yaml w data) = (f, None))) \<and>
      cfg = (let pick = (\<lambda>name field dflt. if cw_env w name \<noteq> [] then cw_env w name else case field of None \<Rightarrow> dflt | Some v \<Rightarrow> v)
        in \<lparr>cg_server = pick ''OSKAL_SERVER'' (cf_server f) [],
            cg_evidence_dir = pick ''OSKAL_EVIDENCE_DIR'' (cf_evidence_dir f) (if cw_exists w ''evidence'' then ''evidence'' else []),
            cg_namespace = pick ''OSKAL_NAMESPACE'' (cf_namespace f) ''default'',
            cg_output = pick ''OSKAL_OUTPUT'' (cf_output f) ''table'',
            cg_profile = pick ''OSKAL_PROFILE'' (cf_profile f) ''nist-sp-800-53''\<rparr>))"
proof (cases "path = []")
  case True
  let ?none = "\<lparr>cf_server = None, cf_evidence_dir = None, cf_namespace = None, cf_output = None, cf_profile = None\<rparr>"
  from assms True have "config_path w explicit = []" "cfg = override_env w (default_config w)"
    by (auto simp: load_config_def Let_def split: sum.splits prod.splits option.splits if_splits)
  with True show ?thesis
    by (intro conjI exI[where x = ?none]) (auto simp: config_path_def override_env_def default_config_def Let_def)
next
  case False
  with assms obtain data f where "config_path w explicit = path" "cw_read w path = Ok data"
    "(if has_suffix path ''.json'' then cw_json w data else cw_yaml w data) = (f, None)"
    "cfg = override_env w (set_fields f (default_config w))"
    by (auto simp: load_config_def Let_def split: sum.splits prod.splits option.splits if_splits)
  with False show ?thesis
    by (intro conjI exI[where x = f]) (auto simp: config_path_def override_env_def set_fields_def default_config_def Let_def)
qed

definition example_world :: config_world where
  "example_world =
     \<lparr>cw_exists = (\<lambda>p. p = ''.oskal.yaml''), cw_read = (\<lambda>p. Ok ''namespace: prod''), cw_home = None,
      cw_env = (\<lambda>n. if n = ''OSKAL_SERVER'' then ''host:9090'' else []),
      cw_json = (\<lambda>_. (\<lparr>cf_server = None, cf_evidence_dir = None, cf_namespace = None, cf_output = None, cf_profile = None\<rparr>,
        Some ''bad'')),
      cw_yaml = (\<lambda>_. (\<lparr>cf_server = None, cf_evidence_dir = None, cf_namespace = Some ''prod'', cf_output = None,
        cf_profile = None\<rparr>, None))\<rparr>"

lemma config_precedence_witness:
  "\<exists>cfg. load_config example_world [] = (cfg, ''.oskal.yaml'', None) \<and> cg_server cfg = ''host:9090'' \<and> cg_namespace cfg = ''prod''"
proof -
  have "has_suffix ''.oskal.yaml'' ''.json'' = False" by code_simp
  then obtain cfg where l: "load_config example_world [] = (cfg, ''.oskal.yaml'', None)"
    by (simp add: load_config_def config_path_def find_config_file_def example_world_def Let_def)
  from config_precedence[OF l] have "cg_server cfg = ''host:9090''" "cg_namespace cfg = ''prod''"
    by (auto simp: example_world_def Let_def split: if_splits)
  with l show ?thesis by blast
qed

text \<open>
  Further: a file found in a standard place that cannot be read or parsed is not reported by the commands, but it switches off
  every environment variable: the server is the one of the flag, or what the file could set before the error.
\<close>

lemma broken_config_hides_environment:
  assumes "find_config_file w = path" and "path \<noteq> []"
    and "case cw_read w path of Inl _ \<Rightarrow> f = \<lparr>cf_server = None, cf_evidence_dir = None, cf_namespace = None, cf_output = None,
           cf_profile = None\<rparr>
       | Inr data \<Rightarrow> \<exists>e. (if has_suffix path ''.json'' then cw_json w data else cw_yaml w data) = (f, Some e)"
  shows "pre_run w [] server_flag dir_flag =
    Ok (case server_flag of Some s \<Rightarrow> s | None \<Rightarrow> (case cf_server f of None \<Rightarrow> [] | Some s \<Rightarrow> s),
        case dir_flag of Some d \<Rightarrow> d | None \<Rightarrow> (case cf_evidence_dir f of None \<Rightarrow> cg_evidence_dir (default_config w) | Some d \<Rightarrow> d))"
  using assms
  by (auto simp: pre_run_def load_config_def config_path_def set_fields_def default_config_def Let_def
      split: sum.splits option.splits)

lemma broken_config_hides_environment_witness:
  "pre_run (example_world\<lparr>cw_read := \<lambda>_. Err ''denied''\<rparr>) [] None None = Ok ([], []) \<and>
   cw_env example_world ''OSKAL_SERVER'' = ''host:9090''"
  using broken_config_hides_environment[of "example_world\<lparr>cw_read := \<lambda>_. Err ''denied''\<rparr>" "''.oskal.yaml''" _ None None]
  by (simp add: find_config_file_def example_world_def default_config_def)

text \<open>
  Further: a saved configuration is loaded again from a YAML file, without environment variables, up to its empty fields, which
  are omitted and come back as their defaults; this needs a decoder that reads back what the encoder writes.
\<close>

lemma saved_config_loads:
  assumes "save_config mkdir enc write cfg path = (Some (path, content), None)" and "path \<noteq> []"
    and "\<not> has_suffix path ''.json''" and "cw_read w path = Ok content" and "\<And>n. cw_env w n = []"
    and "\<And>data. enc (saved_fields cfg) = Ok data \<Longrightarrow> cw_yaml w (config_header @ data) = (saved_fields cfg, None)"
  shows "load_config w path =
    (let d = default_config w; pick = (\<lambda>s dflt. if s = [] then dflt else s)
     in \<lparr>cg_server = cg_server cfg, cg_evidence_dir = pick (cg_evidence_dir cfg) (cg_evidence_dir d),
         cg_namespace = pick (cg_namespace cfg) ''default'', cg_output = pick (cg_output cfg) ''table'',
         cg_profile = pick (cg_profile cfg) ''nist-sp-800-53''\<rparr>, path, None)"
proof -
  from assms(1) obtain data where d: "enc (saved_fields cfg) = Ok data" "content = config_header @ data"
    by (auto simp: save_config_def Let_def split: option.splits sum.splits)
  show ?thesis
    using assms(2-5) assms(6)[OF d(1)] d(2)
    by (simp add: load_config_def config_path_def override_env_def set_fields_def saved_fields_def default_config_def Let_def)
qed

lemma saved_config_loads_witness:
  "let cfg = \<lparr>cg_server = ''s'', cg_evidence_dir = [], cg_namespace = [], cg_output = ''json'', cg_profile = ''soc-2''\<rparr>
   in load_config (example_world\<lparr>cw_env := \<lambda>_. [], cw_read := \<lambda>_. Ok (config_header @ ''y''),
        cw_yaml := \<lambda>_. (saved_fields cfg, None)\<rparr>) ''c.yaml'' = (cfg\<lparr>cg_namespace := ''default''\<rparr>, ''c.yaml'', None)"
proof -
  let ?cfg = "\<lparr>cg_server = ''s'', cg_evidence_dir = [], cg_namespace = [], cg_output = ''json'', cg_profile = ''soc-2''\<rparr>"
  let ?w = "example_world\<lparr>cw_env := \<lambda>_. [], cw_read := \<lambda>_. Ok (config_header @ ''y''), cw_yaml := \<lambda>_. (saved_fields ?cfg, None)\<rparr>"
  have save: "save_config (\<lambda>_. None) (\<lambda>_. Ok ''y'') (\<lambda>_. None) ?cfg ''c.yaml'' = (Some (''c.yaml'', config_header @ ''y''), None)"
    by (simp add: save_config_def Let_def)
  have "\<not> has_suffix ''c.yaml'' ''.json''" by code_simp
  from saved_config_loads[OF save _ this, of ?w] show ?thesis
    by (simp add: Let_def default_config_def example_world_def)
qed

end
