(* ===== verification/Terminal.thy ===== *)
theory Terminal
  imports Prelude
begin

text \<open>
  internal/ui/format/format.go: the names of the output formats, structured output, and tables and
  trees in ASCII. Output is the text written; the encoders of structured output are arguments. The
  width of a column is computed from bytes and padded in runes, as in the code; in UTF-8 every rune
  has one byte that is not a continuation byte.
\<close>

section \<open>Formats\<close>

datatype output_format = TableFormat | TreeFormat | JsonFormat | YamlFormat

fun format_text :: "output_format \<Rightarrow> string" where
  "format_text TableFormat = ''table''"
| "format_text TreeFormat = ''tree''"
| "format_text JsonFormat = ''json''"
| "format_text YamlFormat = ''yaml''"

definition normalize_format :: "(string \<Rightarrow> string) \<Rightarrow> string \<Rightarrow> output_format result" where
  "normalize_format quote raw =
     (let norm = to_lower (trim_space raw)
      in if norm = [] \<or> norm = ''table'' \<or> norm = ''tbl'' then Ok TableFormat
         else if norm = ''tree'' then Ok TreeFormat
         else if norm = ''json'' then Ok JsonFormat
         else if norm = ''yaml'' \<or> norm = ''yml'' then Ok YamlFormat
         else Err (''unsupported output format: '' @ quote raw @ '' (supported: table, tree, json, yaml)''))"

definition render_structured ::
  "('a \<Rightarrow> string result) \<Rightarrow> ('a \<Rightarrow> string result) \<Rightarrow> 'a \<Rightarrow> output_format \<Rightarrow> string result" where
  "render_structured json yaml x f =
     (case f of
        JsonFormat \<Rightarrow> (case json x of Inl e \<Rightarrow> Err (''failed to marshal JSON: '' @ e) | Inr s \<Rightarrow> Ok (s @ nl))
      | YamlFormat \<Rightarrow> (case yaml x of Inl e \<Rightarrow> Err (''failed to marshal YAML: '' @ e) | Inr s \<Rightarrow> Ok s)
      | f \<Rightarrow> Err (''RenderStructured does not support format: '' @ format_text f))"

section \<open>Tables\<close>

definition rune_count :: "string \<Rightarrow> nat" where
  "rune_count s = length (filter (\<lambda>c. let n = of_char c :: nat in \<not> (128 \<le> n \<and> n < 192)) s)"

definition pad_right :: "nat \<Rightarrow> string \<Rightarrow> string" where
  "pad_right w s = s @ replicate (w - rune_count s) CHR '' ''"

definition widen :: "nat list \<Rightarrow> string list \<Rightarrow> nat list" where
  "widen widths row = map (\<lambda>(i, w). if i < length row then max w (length (row ! i)) else w) (zip [0..<length widths] widths)"

definition column_widths :: "string list \<Rightarrow> string list list \<Rightarrow> nat list" where
  "column_widths headers rows = foldl widen (map length headers) rows"

definition table_row :: "nat list \<Rightarrow> string list \<Rightarrow> string" where
  "table_row widths row =
     join_str ''   '' (map (\<lambda>(i, w). pad_right w (if i < length row then row ! i else [])) (zip [0..<length widths] widths))"

definition table_lines :: "string list \<Rightarrow> string list list \<Rightarrow> string list" where
  "table_lines headers rows =
     (if headers = [] then []
      else let widths = column_widths headers rows
        in table_row widths headers # join_str ''   '' (map (\<lambda>w. replicate w CHR ''-'') widths) # map (table_row widths) rows)"

definition render_table :: "string list \<Rightarrow> string list list \<Rightarrow> string" where
  "render_table headers rows = concat (map (\<lambda>l. l @ nl) (table_lines headers rows))"

section \<open>Trees\<close>

datatype tree_node = TreeNode string string "tree_node list"

definition titled :: "string \<Rightarrow> string \<Rightarrow> string" where
  "titled title details = (if details = [] then title else title @ '': '' @ details)"

fun child_lines :: "string \<Rightarrow> tree_node list \<Rightarrow> string list" where
  "child_lines pre [] = []"
| "child_lines pre (TreeNode title details children # cs) =
     (pre @ (if cs = [] then [CHR 0x5C] @ ''-- '' else ''+-- '') @ titled title details) #
     child_lines (pre @ (if cs = [] then ''    '' else ''|   '')) children @ child_lines pre cs"

fun tree_lines :: "tree_node option \<Rightarrow> string list" where
  "tree_lines None = []"
| "tree_lines (Some (TreeNode title details children)) =
     (if details = [] then title else title @ '' ('' @ details @ '')'') # child_lines [] children"

definition render_tree :: "tree_node option \<Rightarrow> string" where
  "render_tree t = concat (map (\<lambda>l. l @ nl) (tree_lines t))"

section \<open>Lemmas\<close>

lemma rune_count_append [simp]: "rune_count (a @ b) = rune_count a + rune_count b"
  by (simp add: rune_count_def)

lemma rune_count_replicate [simp]: "rune_count (replicate n CHR '' '') = n" "rune_count (replicate n CHR ''-'') = n"
  by (simp_all add: rune_count_def filter_replicate)

lemma rune_count_le: "rune_count s \<le> length s"
  by (simp add: rune_count_def)

lemma rune_count_pad [simp]: "length s \<le> w \<Longrightarrow> rune_count (pad_right w s) = w"
  using rune_count_le[of s] by (simp add: pad_right_def)

lemma length_widen [simp]: "length (widen ws row) = length ws"
  by (simp add: widen_def)

lemma widen_nth: "i < length ws \<Longrightarrow> widen ws row ! i = (if i < length row then max (ws ! i) (length (row ! i)) else ws ! i)"
  by (simp add: widen_def)

lemma length_widths [simp]: "length (foldl widen ws rows) = length ws"
  by (induction rows arbitrary: ws) simp_all

lemma widths_ge:
  "i < length ws \<Longrightarrow> ws ! i \<le> foldl widen ws rows ! i \<and>
     (\<forall>row\<in>set rows. i < length row \<longrightarrow> length (row ! i) \<le> foldl widen ws rows ! i)"
proof (induction rows arbitrary: ws)
  case (Cons row rows)
  have "ws ! i \<le> widen ws row ! i" "i < length row \<longrightarrow> length (row ! i) \<le> widen ws row ! i"
    using Cons.prems by (auto simp: widen_nth)
  moreover have "widen ws row ! i \<le> foldl widen (widen ws row) rows ! i"
    using Cons by simp
  ultimately show ?case using Cons.IH[of "widen ws row"] Cons.prems by auto
qed simp

lemma rune_count_join:
  "rune_count (join_str ''   '' xs) = sum_list (map rune_count xs) + 3 * (length xs - 1)"
proof (induction xs rule: induct_list012)
  case (3 x y zs)
  have "rune_count (''   '' @ s) = 3 + rune_count s" for s by (simp add: rune_count_def)
  from this[of "join_str ''   '' (y # zs)"] 3 show ?case by simp
qed (simp_all add: rune_count_def)

lemma table_row_runes:
  assumes "\<forall>i < length ws. i < length row \<longrightarrow> length (row ! i) \<le> ws ! i"
  shows "rune_count (table_row ws row) = sum_list ws + 3 * (length ws - 1)"
proof -
  have "map rune_count (map (\<lambda>(i, w). pad_right w (if i < length row then row ! i else [])) (zip [0..<length ws] ws)) = ws"
    using assms by (intro nth_equalityI) auto
  then show ?thesis unfolding table_row_def rune_count_join by simp
qed

fun preorder :: "tree_node \<Rightarrow> string list" where
  "preorder (TreeNode title details children) = titled title details # concat (map preorder children)"

lemma child_lines_preorder: "list_all2 has_suffix (child_lines pre cs) (concat (map preorder cs))"
proof (induction pre cs rule: child_lines.induct)
  case (2 pre title details children cs)
  have "has_suffix (pre @ (if cs = [] then [CHR 0x5C] @ ''-- '' else ''+-- '') @ titled title details) (titled title details)"
    by (metis append.assoc has_suffix_append)
  with 2 show ?case by (auto intro!: list_all2_appendI)
qed simp

section \<open>Properties\<close>

text \<open>
  Further: a table is aligned whatever its cells: rows that are too short are filled, cells in surplus are dropped, and all
  lines, the header and the rule included, have the same number of characters, also where cells are not ASCII.
\<close>

lemma table_aligned:
  "list_all (\<lambda>l. rune_count l = sum_list (column_widths headers rows) + 3 * (length headers - 1)) (table_lines headers rows)"
proof -
  let ?ws = "column_widths headers rows"
  have len: "length ?ws = length headers" by (simp add: column_widths_def)
  have ge: "i < length headers \<Longrightarrow> length (headers ! i) \<le> ?ws ! i \<and> (\<forall>row\<in>set rows. i < length row \<longrightarrow> length (row ! i) \<le> ?ws ! i)" for i
    using widths_ge[of i "map length headers" rows] by (simp add: column_widths_def)
  have "rune_count (table_row ?ws row) = sum_list ?ws + 3 * (length headers - 1)" if "row = headers \<or> row \<in> set rows" for row
    using table_row_runes[of ?ws row] ge that len by auto
  moreover have "rune_count (join_str ''   '' (map (\<lambda>w. replicate w CHR ''-'') ?ws)) = sum_list ?ws + 3 * (length headers - 1)"
    unfolding rune_count_join by (simp add: o_def len)
  ultimately show ?thesis by (simp add: table_lines_def list_all_iff Let_def)
qed

text \<open>
  Further: a tree is written with one line for every node, in pre-order, and every line ends with the title and the details
  of its node.
\<close>

lemma tree_lines_are_nodes:
  "list_all2 has_suffix (tree_lines (Some (TreeNode title details children)))
     ((if details = [] then title else title @ '' ('' @ details @ '')'') # concat (map preorder children))"
  using child_lines_preorder[of "[]" children] has_suffix_append[of "[]"] by simp

end
