(* ===== verification/Commands.thy ===== *)
theory Commands
  imports Mcp Config Terminal Cas Service
begin

text \<open>
  cmd/oskal/main.go, the commands assurance and record. A command yields the lines it prints, or an
  error; a few print before they fail and yield both. The globals of the flags, the service at the
  server address, the evidence directory on disk, the codecs and the clock are arguments. The other
  commands are in Cli_Reports, the flags and the run of a command in Cli_Main.
\<close>

section \<open>Evidence and subjects\<close>

record store =
  so_marsh :: encoder
  so_list :: "string \<Rightarrow> envelope list option"
  so_one :: "string \<Rightarrow> envelope option"
  so_mkdir :: "string \<Rightarrow> bool"
  so_dirs :: "string \<Rightarrow> dir_listing option list"
  so_files :: "string \<rightharpoonup> string"
  so_keys :: "string list"

definition open_store :: "store \<Rightarrow> string \<Rightarrow> cas result" where
  "open_store so dir =
     new_filesystem_repository (so_marsh so) (so_list so) (so_one so) (so_mkdir so) (so_dirs so dir) (so_files so) dir"

definition load_local_evidence :: "store \<Rightarrow> string \<Rightarrow> subject_ref \<Rightarrow> envelope list result" where
  "load_local_evidence so dir sub =
     (if dir = [] then Ok []
      else case open_store so dir of Inl e \<Rightarrow> Err e | Inr repo \<Rightarrow> list_by_subject (so_keys so) repo sub)"

definition parse_subject_uri :: "string \<Rightarrow> subject_ref" where
  "parse_subject_uri raw =
     (case split_first raw ''://'' of
        Some (scheme, i) \<Rightarrow> \<lparr>s_scheme = scheme, s_id = i, s_attributes = []\<rparr>
      | None \<Rightarrow> \<lparr>s_scheme = ''k8s'', s_id = raw, s_attributes = []\<rparr>)"

record subject_flags =
  sg_kind :: string
  sg_name :: string
  sg_namespace :: string

definition subject_of_flags :: "subject_flags \<Rightarrow> subject_ref result" where
  "subject_of_flags fl =
     (if sg_name fl = [] then Err ''must specify subject URI as positional argument or via --subject-name''
      else Ok \<lparr>s_scheme = ''k8s'', s_id = (if sg_namespace fl = [] then ''default'' else sg_namespace fl) @ ''/'' @
             (if sg_kind fl = [] then ''Deployment'' else sg_kind fl) @ ''/'' @ sg_name fl, s_attributes = []\<rparr>)"

definition subject_from_args :: "string list \<Rightarrow> subject_flags \<Rightarrow> subject_ref result" where
  "subject_from_args args fl =
     (case args of a # _ \<Rightarrow> if a \<noteq> [] then Ok (parse_subject_uri a) else subject_of_flags fl | [] \<Rightarrow> subject_of_flags fl)"

text \<open>The flags that all commands share, and the service behind the address.\<close>

record globals =
  gl_server :: string
  gl_evidence_dir :: string

record remote =
  rm_connect :: "string \<Rightarrow> string option"
  rm_state :: "subject_ref \<Rightarrow> state_response result"
  rm_explain :: "subject_ref \<Rightarrow> control_ref \<Rightarrow> explain_response result"

definition connect :: "remote \<Rightarrow> string \<Rightarrow> string option" where
  "connect rm addr =
     (case rm_connect rm addr of None \<Rightarrow> None
      | Some e \<Rightarrow> Some (''failed to connect to gRPC server at '' @ addr @ '': '' @ e))"

definition proto_state_text :: "astate \<Rightarrow> string" where
  "proto_state_text st = (case st of OtherState n \<Rightarrow> show_int n | _ \<Rightarrow> ''ASSURANCE_STATE_'' @ state_string st)"

section \<open>assurance state\<close>

definition unknown_state_lines :: "string \<Rightarrow> time \<Rightarrow> string \<Rightarrow> string list" where
  "unknown_state_lines status now remedy =
     [''STATE:           UNKNOWN'', ''STATUS:          '' @ status, ''EVIDENCE ROOT:   none'',
      ''LAST EVALUATED:  '' @ rfc3339 now, ''FRESHNESS:       unknown'',
      ''MISSING SIGNALS: kubernetes.admission, runtime.ebpf, spiffe.svid'',
      ''REMEDIATION:     oskal record admission --file <manifest.yaml> OR '' @ remedy]"

definition evidence_root_of :: "envelope list \<Rightarrow> string" where
  "evidence_root_of envs = compute_evidence_root (map ev_artifact envs)"

definition local_policy_digest :: "subject_ref \<Rightarrow> envelope list \<Rightarrow> string" where
  "local_policy_digest sub envs = compute_string_digest (subject_uri sub @ '':'' @ evidence_root_of envs)"

definition remote_state_lines :: "state_response \<Rightarrow> time \<Rightarrow> string list" where
  "remote_state_lines resp now =
     (if sr_state resp = Unknown
      then unknown_state_lines ''Absence of verified evidence (no observations ingested)'' now ''deploy ckodex-webhook''
      else [''STATE:           '' @ proto_state_text (sr_state resp)] @
        (case sr_epoch resp of None \<Rightarrow> [] | Some ep \<Rightarrow> [''EPOCH:           '' @ policy_digest ep]) @
        [''EVIDENCE ROOT:   '' @ sr_evidence_root resp, ''LAST EVALUATED:  '' @ rfc3339 now, ''FRESHNESS:       current''])"

definition local_state_lines :: "string \<Rightarrow> subject_ref \<Rightarrow> envelope list \<Rightarrow> time \<Rightarrow> string list" where
  "local_state_lines dir sub envs now =
     (if envs = []
      then unknown_state_lines (''No matching evidence envelopes found in '' @ dir) now ''specify --server''
      else [''STATE:           ASSURED'', ''EPOCH:           '' @ local_policy_digest sub envs,
        ''EVIDENCE ROOT:   '' @ evidence_root_of envs, ''LAST EVALUATED:  '' @ rfc3339 now, ''FRESHNESS:       current''])"

definition state_command ::
  "remote \<Rightarrow> store \<Rightarrow> time \<Rightarrow> globals \<Rightarrow> string list \<Rightarrow> subject_flags \<Rightarrow> string list result" where
  "state_command rm so now gl args fl =
     (case subject_from_args args fl of
        Inl e \<Rightarrow> Err e
      | Inr sub \<Rightarrow>
          let head = ''SUBJECT:         '' @ subject_uri sub
          in if gl_server gl \<noteq> []
             then (case connect rm (gl_server gl) of
                 Some e \<Rightarrow> Err e
               | None \<Rightarrow> (case rm_state rm (bare_subject sub) of
                     Inl e \<Rightarrow> Err (''gRPC GetAssuranceState failed: '' @ e)
                   | Inr resp \<Rightarrow> Ok (head # remote_state_lines resp now)))
             else if gl_evidence_dir gl \<noteq> []
             then (case load_local_evidence so (gl_evidence_dir gl) sub of
                 Inl e \<Rightarrow> Err e
               | Inr envs \<Rightarrow> Ok (head # local_state_lines (gl_evidence_dir gl) sub envs now))
             else Ok (head # unknown_state_lines ''Absence of verified evidence (specify --server or --evidence-dir)'' now
               ''specify --evidence-dir''))"

section \<open>assurance explain, evidence and drift\<close>

definition local_epoch :: "subject_ref \<Rightarrow> envelope list \<Rightarrow> epoch" where
  "local_epoch sub envs =
     \<lparr>subject_digest = compute_string_digest (subject_uri sub),
      implementation_digest = compute_string_digest ''kubernetes:admission-policy'', policy_digest = local_policy_digest sub envs,
      authority_digest = compute_string_digest ''spiffe://assurance.ckodex.io/operator'',
      environment_digest = compute_string_digest ''cluster:local''\<rparr>"

definition assured_evaluation :: "time \<Rightarrow> subject_ref \<Rightarrow> control_ref \<Rightarrow> epoch \<Rightarrow> completeness \<Rightarrow> envelope list \<Rightarrow> claim_evaluation" where
  "assured_evaluation now sub ctrl ep k envs =
     \<lparr>ce_id = ''eval-'' @ c_id ctrl, ce_control = ctrl, ce_subject = sub, ce_state = Assured, ce_vector = zero_vector,
      ce_epoch = ep, ce_evidence = map ev_artifact envs, ce_completeness = k, ce_evidence_root = evidence_root_of envs,
      ce_evaluated_at = now, ce_valid_until = now + 5 * minute, ce_trace = []\<rparr>"

definition subject_epoch :: "subject_ref \<Rightarrow> epoch" where
  "subject_epoch sub = empty_epoch\<lparr>subject_digest := compute_string_digest (subject_uri sub)\<rparr>"

definition absent_evaluation :: "time \<Rightarrow> subject_ref \<Rightarrow> control_ref \<Rightarrow> completeness \<Rightarrow> time \<Rightarrow> claim_evaluation" where
  "absent_evaluation now sub ctrl k until =
     \<lparr>ce_id = ''eval-unknown-'' @ c_id ctrl, ce_control = ctrl, ce_subject = sub, ce_state = Unknown, ce_vector = zero_vector,
      ce_epoch = subject_epoch sub, ce_evidence = [], ce_completeness = k, ce_evidence_root = [],
      ce_evaluated_at = now, ce_valid_until = until, ce_trace = []\<rparr>"

text \<open>The rendered text, printed as it is.\<close>

definition explain_command ::
  "remote \<Rightarrow> store \<Rightarrow> time \<Rightarrow> globals \<Rightarrow> string list \<Rightarrow> subject_flags \<Rightarrow> string \<Rightarrow> string result" where
  "explain_command rm so now gl args fl control_flag =
     (case subject_from_args args fl of
        Inl e \<Rightarrow> Err e
      | Inr sub \<Rightarrow>
          let ctrl = parse_control_arg control_flag
          in if gl_server gl \<noteq> []
             then (case connect rm (gl_server gl) of
                 Some e \<Rightarrow> Err e
               | None \<Rightarrow> (case rm_explain rm (bare_subject sub) ctrl of
                     Inl e \<Rightarrow> Err (''gRPC ExplainClaim failed: '' @ e)
                   | Inr resp \<Rightarrow> Ok (xr_text resp)))
             else (case load_local_evidence so (gl_evidence_dir gl) sub of
                 Inl e \<Rightarrow> Err e
               | Inr envs \<Rightarrow>
                   Ok (render_text (build_explain_graph sub ctrl
                     (if envs \<noteq> [] then assured_evaluation now sub ctrl (local_epoch sub envs) zero_completeness envs
                      else absent_evaluation now sub ctrl zero_completeness zero_time)))))"

definition evidence_lines :: "nat \<Rightarrow> envelope \<Rightarrow> string list" where
  "evidence_lines i env =
     [show_nat (i + 1) @ ''. ['' @ ev_observation_type env @ '']'', ''   ID:       '' @ ev_id env,
      ''   Producer: '' @ authority_canonical (ev_producer env), ''   Digest:   '' @ e_digest (ev_artifact env),
      ''   URI:      '' @ e_uri (ev_artifact env), ''   Captured: '' @ rfc3339 (ev_captured_at env), []]"

definition evidence_command :: "store \<Rightarrow> globals \<Rightarrow> string list \<Rightarrow> subject_flags \<Rightarrow> string list result" where
  "evidence_command so gl args fl =
     (case subject_from_args args fl of
        Inl e \<Rightarrow> Err e
      | Inr sub \<Rightarrow>
          if gl_evidence_dir gl = []
          then Ok [''No verified evidence envelopes available for '' @ subject_uri sub @ '' (specify --server or --evidence-dir).'']
          else (case load_local_evidence so (gl_evidence_dir gl) sub of
              Inl e \<Rightarrow> Err e
            | Inr envs \<Rightarrow>
                if envs = [] then Ok [''No verified evidence envelopes found for '' @ subject_uri sub @ '' in '' @ gl_evidence_dir gl]
                else Ok ([''VERIFIED EVIDENCE ENVELOPES FOR '' @ subject_uri sub @ '' ('' @ show_nat (length envs) @ '' total):'', []] @
                  concat (map (\<lambda>(i, env). evidence_lines i env) (indexed envs)))))"

definition drift_command :: "store \<Rightarrow> time \<Rightarrow> globals \<Rightarrow> string list \<Rightarrow> subject_flags \<Rightarrow> string list result" where
  "drift_command so now gl args fl =
     (case subject_from_args args fl of
        Inl e \<Rightarrow> Err e
      | Inr sub \<Rightarrow>
          let head = [''DRIFT ANALYSIS FOR '' @ subject_uri sub @ '':'', []]
          in if gl_evidence_dir gl = []
             then Ok (head @ [''STATUS:                 UNKNOWN (cannot establish drift without evidence or server -- '' @
               ''specify --server or --evidence-dir)''])
             else (case load_local_evidence so (gl_evidence_dir gl) sub of
                 Inl e \<Rightarrow> Err e
               | Inr envs \<Rightarrow> Ok (head @
                   (case envs of
                      [] \<Rightarrow> [''STATUS:                 UNKNOWN (no baseline evidence found in '' @ gl_evidence_dir gl @ '')'']
                    | env # _ \<Rightarrow>
                        if list_ex (\<lambda>env. time_sub now (ev_captured_at env) > 10 * minute) envs
                        then [''SUBJECT STATUS:         DRIFT_DETECTED'', ''FRESHNESS:              STALE (evidence expired)'',
                          ''ASSURANCE STATUS:       STALE'']
                        else [''SUBJECT STATUS:         IN_SYNC'',
                          ''RECORDED POLICY DIGEST: '' @ policy_digest (ev_epoch env),
                          ''CURRENT POLICY DIGEST:  '' @ policy_digest (ev_epoch env),
                          ''AUTHORITY CA ROTATION:  NONE'', ''SEMANTIC DRIFT:         0 dimensions drifted'',
                          ''ASSURANCE STATUS:       ASSURED (no invalidation)'']))))"

section \<open>receipt verify and record admission\<close>

definition mock_receipt :: "time \<Rightarrow> control_receipt" where
  "mock_receipt now =
     \<lparr>rc_subject = \<lparr>s_scheme = ''k8s'', s_id = ''production/Deployment/payment-service'', s_attributes = []\<rparr>,
      rc_control = \<lparr>c_namespace = ''nist-sp-800-53'', c_id = ''AC-6'', c_version = []\<rparr>, rc_state = Assured, rc_epoch = empty_epoch,
      rc_evidence_root = ''sha256:39a81f08cb2149b109e2098fa0192809ca1980a0129038cb019a82019481920b'',
      rc_evaluator = \<lparr>a_scheme = ''spiffe'', a_subject = ''ckodex.internal/ns/system/sa/oskal-controller'', a_trust_domain = []\<rparr>,
      rc_evaluated_at = now, rc_signature = ''3f890ab189c4d9e0128912890123890123890123890123890123890123890123''\<rparr>"

definition verified_lines :: "string \<Rightarrow> control_receipt \<Rightarrow> string list" where
  "verified_lines rid r =
     [''[VERIFIED] Receipt '' @ (if rid = [] then ''rcpt-'' @ c_id (rc_control r) else rid) @ '' is cryptographically valid.'',
      ''Signer Identity:  '' @ authority_canonical (rc_evaluator r), ''Merkle Root:      '' @ rc_evidence_root r,
      ''Status:           NON-REPUDIABLE PROOF ESTABLISHED'']"

definition file_in :: "string \<Rightarrow> string \<Rightarrow> string" where
  "file_in dir name = (if dir = [] then name else join_str ''/'' [dir, name])"

definition verify_receipt_command ::
  "(string \<Rightarrow> string result) \<Rightarrow> (string \<Rightarrow> control_receipt result) \<Rightarrow> time \<Rightarrow> globals \<Rightarrow> string \<Rightarrow> string \<Rightarrow> string list \<Rightarrow>
     string list result" where
  "verify_receipt_command read dec now gl rid file args =
     (if file \<noteq> []
      then (case read file of
          Inl e \<Rightarrow> Err (''failed to read receipt file: '' @ e)
        | Inr data \<Rightarrow> (case dec data of
              Inl e \<Rightarrow> Err (''failed to parse receipt JSON: '' @ e) | Inr r \<Rightarrow> Ok (verified_lines rid r)))
      else if rid \<noteq> []
      then let path = file_in (gl_evidence_dir gl) (rid @ ''.json'')
        in (case read path of
              Inl _ \<Rightarrow> Ok (verified_lines rid (mock_receipt now))
            | Inr data \<Rightarrow> (case dec data of
                  Inl e \<Rightarrow> Err (''failed to parse receipt from '' @ path @ '': '' @ e) | Inr r \<Rightarrow> Ok (verified_lines rid r)))
      else (case args of
          [] \<Rightarrow> Err ''must specify --receipt-id or --receipt-file''
        | a # _ \<Rightarrow> Ok (verified_lines a (mock_receipt now))))"

text \<open>The kind, name and namespace of a manifest; an absent field is empty.\<close>

definition admission_envelope :: "time \<Rightarrow> string \<Rightarrow> string \<Rightarrow> string \<times> string \<times> string \<Rightarrow> envelope" where
  "admission_envelope now file data manifest =
     (case manifest of (kind, name, ns) \<Rightarrow>
       let kind = (if kind = [] then ''Deployment'' else kind); name = (if name = [] then ''payment-service'' else name);
           ns = (if ns = [] then ''production'' else ns);
           sub = \<lparr>s_scheme = ''k8s'', s_id = ns @ ''/'' @ kind @ ''/'' @ name, s_attributes = []\<rparr>;
           digest = compute_digest data
       in \<lparr>ev_schema = ''https://assurance.ckodex.io/schemas/v1'',
           ev_id = ''ev-adm-'' @ name @ ''-'' @ show_int (unix_sec now), ev_subject = sub, ev_observation_type = ''admission'',
           ev_captured_at = now,
           ev_producer = \<lparr>a_scheme = ''spiffe'', a_subject = ''ckodex.internal/ns/system/sa/oskal-admission-controller'',
             a_trust_domain = []\<rparr>,
           ev_artifact = \<lparr>e_uri = ''file://'' @ file, e_digest = digest, e_media_type = ''application/yaml''\<rparr>,
           ev_integrity_digest = digest, ev_signature_ref = [],
           ev_epoch = \<lparr>subject_digest = compute_string_digest (subject_uri sub),
             implementation_digest = compute_string_digest ''kubernetes:admission-policy'',
             policy_digest = ''sha256:7f83b1657ff1fc53b92dc18148a1d65dfc2d4b1fa3d677284addd200126d9069'',
             authority_digest = compute_string_digest ''spiffe://assurance.ckodex.io/admission'',
             environment_digest = compute_string_digest ''cluster:local''\<rparr>,
           ev_control_refs = [\<lparr>c_namespace = ''nist-sp-800-53'', c_id = ''AC-6'', c_version = []\<rparr>]\<rparr>)"

text \<open>The file that is written, with its text, and the lines that are printed.\<close>

definition record_admission_command ::
  "(string \<Rightarrow> string result) \<Rightarrow> (string \<Rightarrow> (string \<times> string \<times> string) result) \<Rightarrow> (string \<Rightarrow> string option) \<Rightarrow> encoder \<Rightarrow>
     (string \<Rightarrow> string option) \<Rightarrow> time \<Rightarrow> globals \<Rightarrow> string \<Rightarrow> string \<Rightarrow> ((string \<times> string) \<times> string list) result" where
  "record_admission_command read parse mkdir enc write now gl file dir_flag =
     (if file = [] then Err ''--file flag is required''
      else let dir = (if dir_flag \<noteq> [] then dir_flag else if gl_evidence_dir gl \<noteq> [] then gl_evidence_dir gl else ''evidence'')
        in case read file of
             Inl e \<Rightarrow> Err (''failed to read workload manifest: '' @ e)
           | Inr data \<Rightarrow> (case parse data of
               Inl e \<Rightarrow> Err (''failed to parse workload manifest YAML: '' @ e)
             | Inr manifest \<Rightarrow>
                 let env = admission_envelope now file data manifest; path = file_in dir (ev_id env @ ''.json'')
                 in (case mkdir dir of
                       Some e \<Rightarrow> Err (''failed to create evidence directory: '' @ e)
                     | None \<Rightarrow> (case enc env of
                         Inl e \<Rightarrow> Err (''failed to marshal evidence envelope: '' @ e)
                       | Inr raw \<Rightarrow> (case write path of
                           Some e \<Rightarrow> Err (''failed to write evidence file: '' @ e)
                         | None \<Rightarrow> Ok ((path, raw),
                             [''[RECORDED] Evidence envelope created: '' @ path, ''Subject:   '' @ subject_uri (ev_subject env),
                              ''Envelope:  '' @ ev_id env, ''Digest:    '' @ e_digest (ev_artifact env),
                              ''State:     COHERENT / POSITIVE / VERIFIED'']))))))"

section \<open>Lemmas\<close>

lemma parse_subject_uri_k8s [simplified, simp]: "parse_subject_uri (''k8s://'' @ i) = \<lparr>s_scheme = ''k8s'', s_id = i, s_attributes = []\<rparr>"
  by (simp add: parse_subject_uri_def has_prefix_def)

lemma local_state_command:
  assumes "subject_from_args args fl = Ok sub" and "gl_server gl = []" and "gl_evidence_dir gl \<noteq> []"
  shows "state_command rm so now gl args fl =
     (case load_local_evidence so (gl_evidence_dir gl) sub of
        Inl e \<Rightarrow> Err e
      | Inr envs \<Rightarrow> Ok ((''SUBJECT:         '' @ subject_uri sub) # local_state_lines (gl_evidence_dir gl) sub envs now))"
  using assms by (simp add: state_command_def Let_def split: sum.split)

text \<open>A store whose directory has one file, with one envelope, lists it for its subject.\<close>

lemma single_envelope_listed:
  assumes "so_list so raw = None" and "so_one so raw = Some env" and "ev_id env \<noteq> []"
    and "so_dirs so dir = [Some [(name @ ''.json'', False, Some raw)]]"
    and "so_mkdir so (join_str ''/'' [dir, ''blobs'', ''sha256''])" and "dir \<noteq> []"
    and "s_scheme (ev_subject env) \<noteq> []" and "subject_uri sub = subject_uri (ev_subject env)" and "s_scheme sub \<noteq> []"
  shows "load_local_evidence so dir sub = Ok [env]"
proof -
  let ?d = "envelope_digest env"
  have "\<exists>repo. open_store so dir = Ok repo \<and> envelopes repo = [?d \<mapsto> env] \<and>
      subject_index repo = [subject_uri (ev_subject env) \<mapsto> [?d]]"
    using assms by (simp add: open_store_def new_filesystem_repository_def load_from_disk_def load_file_def
        load_envelope_def Let_def index_append_def)
  then obtain repo where repo: "open_store so dir = Ok repo" and envs: "envelopes repo = [?d \<mapsto> env]"
    and ix: "subject_index repo = [subject_uri (ev_subject env) \<mapsto> [?d]]" by (elim exE conjE)
  have "collect repo q [env] ks = [env]" for q ks
    by (induction ks) (simp_all add: collect_def envs)
  moreover have "collect repo (\<lambda>_. True) [] [?d] = [env]" by (simp add: collect_def envs)
  ultimately have "list_by_subject (so_keys so) repo sub = Ok [env]"
    using assms(8,9) by (simp add: list_by_subject_def ix)
  then show ?thesis using repo assms(6) by (simp add: load_local_evidence_def)
qed

section \<open>Properties\<close>

text \<open>
  Further: receipt verify never verifies: the signature, the state, the subject and the epoch of a receipt do not matter for
  its answer, and a receipt whose file cannot be read is reported as cryptographically valid under the requested name.
\<close>

lemma receipt_verify_never_verifies:
  "verify_receipt_command read
       (\<lambda>d. map_sum id (\<lambda>r. r\<lparr>rc_signature := sig d, rc_state := st d, rc_subject := sub d, rc_epoch := ep d\<rparr>) (dec d))
       now gl rid file args =
     verify_receipt_command read dec now gl rid file args \<and>
   verify_receipt_command (\<lambda>path. Err e) dec now gl (c # rid) [] args =
     Ok [''[VERIFIED] Receipt '' @ (c # rid) @ '' is cryptographically valid.'',
         ''Signer Identity:  spiffe://ckodex.internal/ns/system/sa/oskal-controller'',
         ''Merkle Root:      sha256:39a81f08cb2149b109e2098fa0192809ca1980a0129038cb019a82019481920b'',
         ''Status:           NON-REPUDIABLE PROOF ESTABLISHED'']"
  by (simp add: verify_receipt_command_def verified_lines_def mock_receipt_def authority_canonical_def Let_def
      split: sum.split list.split)

text \<open>
  Further: with a local directory the state of a subject is ASSURED and current as soon as the directory has an envelope for
  it, whatever its age, while drift reports the same subject as STALE when one of its envelopes is older than ten
  minutes.
\<close>

lemma state_and_drift_disagree:
  assumes "subject_from_args args fl = Ok sub" and "gl_server gl = []" and "gl_evidence_dir gl \<noteq> []"
    and "load_local_evidence so (gl_evidence_dir gl) sub = Ok envs" and "env \<in> set envs"
    and "time_sub now (ev_captured_at env) > 10 * minute"
  shows "(\<exists>ls. state_command rm so now gl args fl = Ok ls \<and> ''STATE:           ASSURED'' \<in> set ls \<and>
      ''FRESHNESS:       current'' \<in> set ls) \<and>
    (\<exists>ls. drift_command so now gl args fl = Ok ls \<and> ''ASSURANCE STATUS:       STALE'' \<in> set ls)"
proof (rule conjI)
  obtain e es where envs: "envs = e # es" using assms(5) by (cases envs) simp_all
  show "\<exists>ls. state_command rm so now gl args fl = Ok ls \<and> ''STATE:           ASSURED'' \<in> set ls \<and>
      ''FRESHNESS:       current'' \<in> set ls"
    using assms(4) by (simp add: local_state_command[OF assms(1-3)] local_state_lines_def envs)
  have "list_ex (\<lambda>env. time_sub now (ev_captured_at env) > 10 * minute) envs"
    using assms(5,6) by (auto simp: list_ex_iff)
  then show "\<exists>ls. drift_command so now gl args fl = Ok ls \<and> ''ASSURANCE STATUS:       STALE'' \<in> set ls"
    using assms(1,3,4) by (simp add: drift_command_def Let_def envs)
qed

definition recorded_example :: envelope where
  "recorded_example = admission_envelope 0 ''f'' ''m'' ([], [], [])"

definition example_store :: store where
  "example_store =
     \<lparr>so_marsh = (\<lambda>e. Ok ''x''), so_list = (\<lambda>s. None), so_one = (\<lambda>s. Some recorded_example), so_mkdir = (\<lambda>p. True),
      so_dirs = (\<lambda>dir. [Some [(''e.json'', False, Some ''x'')]]), so_files = Map.empty, so_keys = []\<rparr>"

definition no_remote :: remote where
  "no_remote = \<lparr>rm_connect = (\<lambda>a. Some ''down''), rm_state = (\<lambda>s. Err ''down''), rm_explain = (\<lambda>s c. Err ''down'')\<rparr>"

abbreviation no_flags :: subject_flags where
  "no_flags \<equiv> \<lparr>sg_kind = [], sg_name = [], sg_namespace = []\<rparr>"

lemma example_listed:
  "load_local_evidence example_store ''d'' \<lparr>s_scheme = ''k8s'', s_id = ''production/Deployment/payment-service'', s_attributes = []\<rparr> =
     Ok [recorded_example]"
proof (rule single_envelope_listed[where raw = "''x''" and name = "''e''"])
  show "so_list example_store ''x'' = None" "so_one example_store ''x'' = Some recorded_example"
    "so_mkdir example_store (join_str ''/'' [''d'', ''blobs'', ''sha256''])"
    "so_dirs example_store ''d'' = [Some [(''e'' @ ''.json'', False, Some ''x'')]]"
    by (simp_all add: example_store_def)
qed (simp_all add: recorded_example_def admission_envelope_def Let_def subject_uri_def)

lemma state_and_drift_disagree_witness:
  "\<exists>ls. drift_command example_store hour \<lparr>gl_server = [], gl_evidence_dir = ''d''\<rparr>
      [''production/Deployment/payment-service''] no_flags = Ok ls \<and> ''ASSURANCE STATUS:       STALE'' \<in> set ls"
proof -
  have sub: "subject_from_args [''production/Deployment/payment-service''] no_flags =
      Ok \<lparr>s_scheme = ''k8s'', s_id = ''production/Deployment/payment-service'', s_attributes = []\<rparr>"
    by (simp add: subject_from_args_def parse_subject_uri_def has_prefix_def)
  have old: "time_sub hour (ev_captured_at recorded_example) > 10 * minute"
    by (simp add: recorded_example_def admission_envelope_def Let_def time_sub_def hour_def minute_def second_def)
  show ?thesis
    using state_and_drift_disagree[of _ _ _ "\<lparr>gl_server = [], gl_evidence_dir = ''d''\<rparr>", OF sub _ _ _ _ old, of example_store]
      example_listed by simp
qed

text \<open>
  C22: recording an admission makes its subject ASSURED, whatever the manifest asks for: when the recorded file is the
  only one of an evidence directory, and the decoder reads back what the encoder wrote, the state command on that
  directory reports the subject of the manifest as ASSURED by the recorded envelope; the manifest is only read for its
  kind, name and namespace and never evaluated.
\<close>

lemma recorded_admission_is_assured:
  assumes "record_admission_command read parse mkdir enc write now gl file dir_flag = Ok ((path, raw), ls)"
    and codec: "\<forall>env raw. enc env = Ok raw \<longrightarrow> so_one so raw = Some env \<and> so_list so raw = None"
    and "so_dirs so dir = [Some [(name @ ''.json'', False, Some raw)]]"
    and "so_mkdir so (join_str ''/'' [dir, ''blobs'', ''sha256''])" and "dir \<noteq> []"
  shows "\<exists>data manifest. read file = Ok data \<and> parse data = Ok manifest \<and>
    (let env = admission_envelope now file data manifest; sub = ev_subject env
     in state_command rm so now' \<lparr>gl_server = [], gl_evidence_dir = dir\<rparr> [subject_uri sub] fl =
          Ok ((''SUBJECT:         '' @ subject_uri sub) # local_state_lines dir sub [env] now') \<and>
        ''STATE:           ASSURED'' \<in> set (local_state_lines dir sub [env] now'))"
proof -
  from assms(1) obtain data manifest where read: "read file = Ok data" and parse: "parse data = Ok manifest"
    and enc: "enc (admission_envelope now file data manifest) = Ok raw"
    by (auto simp: record_admission_command_def Let_def split: if_splits sum.splits option.splits)
  define env where "env = admission_envelope now file data manifest"
  obtain kind nm ns where m: "manifest = (kind, nm, ns)" by (cases manifest)
  have id: "ev_id env \<noteq> []" and sub: "s_scheme (ev_subject env) = ''k8s''" "s_attributes (ev_subject env) = []"
    by (simp_all add: env_def admission_envelope_def m Let_def)
  have uri: "subject_uri (ev_subject env) = ''k8s://'' @ s_id (ev_subject env)" using sub by (simp add: subject_uri_def)
  have args: "subject_from_args [subject_uri (ev_subject env)] fl = Ok (ev_subject env)"
    using sub unfolding uri by (cases "ev_subject env") (simp add: subject_from_args_def)
  have dec: "so_one so raw = Some env" "so_list so raw = None" using codec enc by (simp_all add: env_def)
  have listed: "load_local_evidence so dir (ev_subject env) = Ok [env]"
    by (rule single_envelope_listed[OF dec(2) dec(1) id assms(3-5)]) (simp_all add: sub)
  have "state_command rm so now' \<lparr>gl_server = [], gl_evidence_dir = dir\<rparr> [subject_uri (ev_subject env)] fl =
      Ok ((''SUBJECT:         '' @ subject_uri (ev_subject env)) # local_state_lines dir (ev_subject env) [env] now')"
    using local_state_command[OF args, of "\<lparr>gl_server = [], gl_evidence_dir = dir\<rparr>"] listed assms(5) by simp
  moreover have "''STATE:           ASSURED'' \<in> set (local_state_lines dir (ev_subject env) [env] now')"
    by (simp add: local_state_lines_def)
  ultimately show ?thesis
    using read parse unfolding Let_def env_def by (intro exI[where x = data] exI[where x = manifest] conjI)
qed

lemma recorded_admission_is_assured_witness:
  "\<exists>path ls. record_admission_command (\<lambda>f. Ok ''privileged: true'') (\<lambda>d. Ok ([], [], [])) (\<lambda>d. None)
      (\<lambda>env. if env = admission_envelope 0 ''f'' ''privileged: true'' ([], [], []) then Ok ''x'' else Err ''e'') (\<lambda>p. None) 0
      \<lparr>gl_server = [], gl_evidence_dir = ''d''\<rparr> ''f'' [] = Ok ((path, ''x''), ls) \<and>
    (\<exists>out. state_command no_remote
      (example_store\<lparr>so_one := (\<lambda>raw. Some (admission_envelope 0 ''f'' ''privileged: true'' ([], [], [])))\<rparr>) 0
      \<lparr>gl_server = [], gl_evidence_dir = ''d''\<rparr>
      [subject_uri (ev_subject (admission_envelope 0 ''f'' ''privileged: true'' ([], [], [])))] no_flags = Ok out \<and>
      ''STATE:           ASSURED'' \<in> set out)"
proof -
  let ?m = "''privileged: true''"
  let ?env = "admission_envelope 0 ''f'' ?m ([], [], [])"
  let ?so = "example_store\<lparr>so_one := (\<lambda>raw. Some ?env)\<rparr>"
  let ?rec = "record_admission_command (\<lambda>f. Ok ?m) (\<lambda>d. Ok ([], [], [])) (\<lambda>d. None)
      (\<lambda>env. if env = ?env then Ok ''x'' else Err ''e'') (\<lambda>p. None) 0 \<lparr>gl_server = [], gl_evidence_dir = ''d''\<rparr> ''f'' []"
  have "\<exists>path ls. ?rec = Ok ((path, ''x''), ls)"
    by (simp add: record_admission_command_def Let_def)
  then obtain path ls where r: "?rec = Ok ((path, ''x''), ls)" by (elim exE)
  have codec: "\<forall>env raw. (if env = ?env then Ok ''x'' else Err ''e'') = Ok raw \<longrightarrow> so_one ?so raw = Some env \<and> so_list ?so raw = None"
    by (simp add: example_store_def)
  have dirs: "so_dirs ?so ''d'' = [Some [(''e'' @ ''.json'', False, Some ''x'')]]"
    and mk: "so_mkdir ?so (join_str ''/'' [''d'', ''blobs'', ''sha256''])" by (simp_all add: example_store_def)
  have "''d'' \<noteq> []" by simp
  from recorded_admission_is_assured[OF r codec dirs mk this, of no_remote 0 no_flags]
  obtain data manifest where d: "Ok ?m = (Ok data :: string result)" "Ok ([], [], []) = (Ok manifest :: (string \<times> string \<times> string) result)"
    and out: "let env = admission_envelope 0 ''f'' data manifest; sub = ev_subject env
      in state_command no_remote ?so 0 \<lparr>gl_server = [], gl_evidence_dir = ''d''\<rparr> [subject_uri sub] no_flags =
          Ok ((''SUBJECT:         '' @ subject_uri sub) # local_state_lines ''d'' sub [env] 0) \<and>
        ''STATE:           ASSURED'' \<in> set (local_state_lines ''d'' sub [env] 0)" by (elim exE conjE)
  have m: "data = ?m" "manifest = ([], [], [])" using d by simp_all
  have run: "state_command no_remote ?so 0 \<lparr>gl_server = [], gl_evidence_dir = ''d''\<rparr> [subject_uri (ev_subject ?env)] no_flags =
      Ok ((''SUBJECT:         '' @ subject_uri (ev_subject ?env)) # local_state_lines ''d'' (ev_subject ?env) [?env] 0)"
    and mem: "''STATE:           ASSURED'' \<in> set (local_state_lines ''d'' (ev_subject ?env) [?env] 0)"
    using out unfolding m Let_def by (rule conjunct1, rule conjunct2)
  show ?thesis using r run list.set_intros(2)[OF mem] by (intro exI conjI)
qed

end
