(* ===== verification/Cli_Reports.thy ===== *)
theory Cli_Reports
  imports Commands
begin

text \<open>
  cmd/oskal/main.go, the commands that write documents and reports: export, import, validate,
  scaffold, doctor, inspect, config and prune. A command
  yields what it writes to standard output and standard error, the files it writes, and an error.
  The environment of the process, with the codecs, is an argument; every command runs in a fresh
  process, so the shared validator is not initialised.
\<close>

section \<open>The process\<close>

record cli_env =
  cl_now :: time
  cl_uuids :: "nat \<Rightarrow> string"
  cl_elapsed :: "nat \<Rightarrow> duration"
  cl_keys :: "string list"
  cl_read :: "string \<Rightarrow> string result"
  cl_fs :: file_system
  cl_json :: "json \<Rightarrow> string result"
  cl_yaml :: "json \<Rightarrow> string result"
  cl_plan :: "scaffold_plan \<Rightarrow> string result"
  cl_quote :: "string \<Rightarrow> string"
  cl_codec :: codec
  cl_compiled :: "validator result"
  cl_round :: rounding
  cl_decoders :: decoders
  cl_encoders :: encoders
  cl_host :: host
  cl_probe :: probe

record outcome =
  oc_out :: string
  oc_err :: string
  oc_files :: "(string \<times> string) list"
  oc_error :: "string option"

definition done_with :: "string \<Rightarrow> outcome" where
  "done_with out = \<lparr>oc_out = out, oc_err = [], oc_files = [], oc_error = None\<rparr>"

definition failed_with :: "string \<Rightarrow> outcome" where
  "failed_with e = \<lparr>oc_out = [], oc_err = [], oc_files = [], oc_error = Some e\<rparr>"

definition printed :: "string result \<Rightarrow> outcome" where
  "printed r = (case r of Inl e \<Rightarrow> failed_with e | Inr s \<Rightarrow> done_with s)"

definition lines_text :: "string list \<Rightarrow> string" where
  "lines_text ls = concat (map (\<lambda>l. l @ nl) ls)"

definition fresh :: shared_validator where
  "fresh = (False, None)"

section \<open>export\<close>

definition exported_control :: control_ref where
  "exported_control = \<lparr>c_namespace = ''nist-sp-800-53'', c_id = ''AC-6'', c_version = []\<rparr>"

definition export_subject :: "string \<Rightarrow> subject_ref" where
  "export_subject flag =
     parse_subject_uri (if flag = [] then ''k8s://prod/payments/Deployment/payments-api'' else flag)"

text \<open>An error of the store is ignored: there is no evidence then.\<close>

definition evidence_or_none :: "store \<Rightarrow> string \<Rightarrow> subject_ref \<Rightarrow> envelope list" where
  "evidence_or_none so dir sub = (case load_local_evidence so dir sub of Inl e \<Rightarrow> [] | Inr envs \<Rightarrow> envs)"

definition counted :: "int \<Rightarrow> int \<Rightarrow> completeness" where
  "counted required verified = zero_completeness\<lparr>k_required := required, k_verified := verified\<rparr>"

definition exported_results :: "cli_env \<Rightarrow> store \<Rightarrow> globals \<Rightarrow> string \<Rightarrow> document" where
  "exported_results cl so gl flag =
     (let sub = export_subject flag; envs = evidence_or_none so (gl_evidence_dir gl) sub; now = cl_now cl; n = int (length envs);
          eval = (if envs \<noteq> [] then assured_evaluation now sub exported_control (local_epoch sub envs) (counted n n) envs
                  else absent_evaluation now sub exported_control (counted 1 0) (now + 5 * minute))
      in DocResults (project_assessment_results (cl_uuids cl) (cl_keys cl) now now sub [eval] []))"

definition component_subject :: "string \<Rightarrow> subject_ref" where
  "component_subject name = \<lparr>s_scheme = ''k8s'', s_id = ''components/'' @ name, s_attributes = []\<rparr>"

definition exported_components :: "cli_env \<Rightarrow> store \<Rightarrow> globals \<Rightarrow> string \<Rightarrow> document" where
  "exported_components cl so gl flag =
     (let name = (if flag = [] then ''payments-api'' else flag); sub = component_subject name;
          envs = evidence_or_none so (gl_evidence_dir gl) sub; now = cl_now cl;
          eval = (if envs \<noteq> [] then assured_evaluation now sub exported_control (subject_epoch sub) zero_completeness envs
                  else absent_evaluation now sub exported_control zero_completeness zero_time)
      in DocComponents (project_component_definition (cl_uuids cl) now name [eval]))"

definition exported_contract :: "subject_ref \<Rightarrow> contract" where
  "exported_contract sub =
     \<lparr>ct_id = ''contract-'' @ s_id sub, ct_name = [],
      ct_requirements = [\<lparr>r_id = ''req-1'', r_evidence_type = ''admission'', r_required = True, r_max_age = 5 * minute,
        r_accepted_producers = []\<rparr>],
      ct_on_missing = Unspecified\<rparr>"

definition exported_plan :: "cli_env \<Rightarrow> string \<Rightarrow> document" where
  "exported_plan cl flag =
     (let sub = export_subject flag
      in DocAssessment (project_assessment_plan (cl_uuids cl) (cl_now cl) sub (exported_contract sub) [exported_control]))"

definition exported_actions :: "cli_env \<Rightarrow> string \<Rightarrow> document" where
  "exported_actions cl flag = DocActions (project_poam (cl_uuids cl) (cl_now cl) (export_subject flag) [])"

definition planned_evaluation :: "time \<Rightarrow> subject_ref \<Rightarrow> claim_evaluation" where
  "planned_evaluation now sub =
     \<lparr>ce_id = ''eval-'' @ c_id exported_control, ce_control = exported_control, ce_subject = sub, ce_state = Assured,
      ce_vector = zero_vector, ce_epoch = subject_epoch sub, ce_evidence = [], ce_completeness = zero_completeness,
      ce_evidence_root = compute_string_digest (subject_uri sub @ '':root''), ce_evaluated_at = now,
      ce_valid_until = now + 5 * minute, ce_trace = []\<rparr>"

definition exported_security_plan :: "cli_env \<Rightarrow> string \<Rightarrow> document" where
  "exported_security_plan cl flag =
     (let sub = export_subject flag
      in DocPlan (project_ssp (cl_uuids cl) (cl_now cl) (s_id sub) [planned_evaluation (cl_now cl) sub]))"

definition export_command :: "cli_env \<Rightarrow> store \<Rightarrow> globals \<Rightarrow> doc_type \<Rightarrow> string \<Rightarrow> outcome" where
  "export_command cl so gl t flag =
     (case document_json (case t of
              AssessmentResults \<Rightarrow> exported_results cl so gl flag
            | ComponentDefinition \<Rightarrow> exported_components cl so gl flag
            | SecurityPlan \<Rightarrow> exported_security_plan cl flag
            | AssessmentPlan \<Rightarrow> exported_plan cl flag
            | ActionPlan \<Rightarrow> exported_actions cl flag) of
        Inl e \<Rightarrow> failed_with e
      | Inr j \<Rightarrow> (case cl_json cl j of Inl e \<Rightarrow> failed_with e | Inr s \<Rightarrow> done_with (s @ nl)))"

section \<open>import\<close>

fun encode_each :: "('a \<Rightarrow> string result) \<Rightarrow> 'a list \<Rightarrow> string list result" where
  "encode_each enc [] = Ok []"
| "encode_each enc (x # xs) =
     (case enc x of
        Inl e \<Rightarrow> Err e
      | Inr s \<Rightarrow> (case encode_each enc xs of Inl e \<Rightarrow> Err e | Inr ss \<Rightarrow> Ok (s # ss)))"

definition import_notice :: "ingestion \<Rightarrow> string" where
  "import_notice res =
     lines_text [''[PASS] Ingested OSCAL '' @ in_source_type res @ '': '' @ in_title res @ '' (UUID: '' @ in_source_uuid res @ '')'',
       ''[INFO] Generated '' @ show_nat (length (in_bindings res)) @ '' ControlBinding(s) and '' @
         show_nat (length (in_contracts res)) @ '' EvidenceContract(s)'', ''---'']"

definition import_manifests :: "encoders \<Rightarrow> ingestion \<Rightarrow> string result" where
  "import_manifests en res =
     (case encode_each (en_contract en) (in_contracts res) of
        Inl e \<Rightarrow> Err e
      | Inr cs \<Rightarrow> (case encode_each (en_binding en) (in_bindings res) of
            Inl e \<Rightarrow> Err e
          | Inr bs \<Rightarrow> Ok (join_str (nl @ ''---'' @ nl) (cs @ bs))))"

definition import_command :: "cli_env \<Rightarrow> string \<Rightarrow> string \<Rightarrow> string \<Rightarrow> outcome" where
  "import_command cl file ns out =
     (if file = [] then failed_with ''--file flag is required''
      else case cl_read cl file of
        Inl e \<Rightarrow> failed_with (''failed to read input OSCAL file: '' @ e)
      | Inr data \<Rightarrow>
          (case ingest_oscal (cl_round cl) (cl_decoders cl) data ns of
             Inl e \<Rightarrow> failed_with (''failed to ingest OSCAL document: '' @ e)
           | Inr res \<Rightarrow>
               let notice = import_notice res
               in (case import_manifests (cl_encoders cl) res of
                     Inl e \<Rightarrow> (failed_with e)\<lparr>oc_err := notice\<rparr>
                   | Inr output \<Rightarrow>
                       if out = [] then (done_with (output @ nl))\<lparr>oc_err := notice\<rparr>
                       else (case fs_mkdir (cl_fs cl) out of
                           Some e \<Rightarrow> (failed_with e)\<lparr>oc_err := notice\<rparr>
                         | None \<Rightarrow>
                             let target = file_in out (sanitize_k8s_name (in_title res) @ ''-crds.yaml'')
                             in (case fs_write (cl_fs cl) target of
                                   Some e \<Rightarrow> (failed_with e)\<lparr>oc_err := notice\<rparr>
                                 | None \<Rightarrow> \<lparr>oc_out = [], oc_err = notice @ lines_text [''[PASS] Manifests written to '' @ target],
                                     oc_files = [(target, output)], oc_error = None\<rparr>)))))"

section \<open>validate\<close>

definition validation_text :: "report \<Rightarrow> string" where
  "validation_text r =
     lines_text ([''OSCAL VALIDATION REPORT'', replicate 70 CHR ''-'', ''Document Type: '' @ doc_type_string (vr_type r)] @
       (if vr_version r = [] then [] else [''OSCAL Version: '' @ vr_version r @ '' (NIST Release)'']) @
       [''Duration:      '' @ format_duration_ascii (vr_duration r)]) @
     (if vr_valid r then lines_text [''Status:        [PASS] Document conforms strictly to NIST OSCAL v1.2.3'']
      else lines_text [''Status:        [FAIL] '' @ show_nat (length (vr_errors r)) @ '' schema validation error(s) detected'', []] @
        render_table [''PATH'', ''ERROR MESSAGE''] (map (\<lambda>(p, m). [p, m]) (vr_errors r)))"

definition validation_outcome :: "cli_env \<Rightarrow> report \<Rightarrow> output_format \<Rightarrow> outcome" where
  "validation_outcome cl r f =
     (if f = JsonFormat \<or> f = YamlFormat
      then printed (render_structured (\<lambda>r. cl_json cl (json_report r)) (\<lambda>r. cl_yaml cl (json_report r)) r f)
      else (done_with (validation_text r))\<lparr>oc_error :=
        (if vr_valid r then None else Some (''validation failed: '' @ show_nat (length (vr_errors r)) @ '' errors''))\<rparr>)"

text \<open>None where a nil pointer is dereferenced.\<close>

definition validate_command :: "cli_env \<Rightarrow> string \<Rightarrow> string \<Rightarrow> string \<Rightarrow> outcome option" where
  "validate_command cl file schema output =
     (case cl_read cl file of
        Inl e \<Rightarrow> Some (failed_with (''failed to read document: '' @ e))
      | Inr data \<Rightarrow>
          (case snd (default_validator (cl_compiled cl) fresh) of
             Inl e \<Rightarrow> Some (failed_with (''failed to initialize schema validator: '' @ e))
           | Inr val \<Rightarrow>
               (case validate_ptr (cl_codec cl) val (cl_elapsed cl 0) data schema of
                  None \<Rightarrow> None
                | Some (Inl e) \<Rightarrow> Some (failed_with (''validation execution failed: '' @ e))
                | Some (Inr r) \<Rightarrow> Some
                    (case normalize_format (cl_quote cl) output of
                       Inl e \<Rightarrow> failed_with e
                     | Inr f \<Rightarrow> validation_outcome cl r f))))"

section \<open>scaffold\<close>

definition scaffold_command :: "cli_env \<Rightarrow> string list \<Rightarrow> string \<Rightarrow> string \<Rightarrow> string \<Rightarrow> string \<Rightarrow> outcome" where
  "scaffold_command cl args ns workload out output =
     (case generate_scaffold (cl_uuids cl 0) (cl_uuids cl 1) (cl_now cl)
         (case args of [] \<Rightarrow> ''nist-sp-800-53'' | p # _ \<Rightarrow> p) ns workload of
        Inl e \<Rightarrow> failed_with e
      | Inr plan \<Rightarrow>
          if out \<noteq> []
          then (case write_to_directory (cl_encoders cl) (cl_fs cl) out plan of
              (written, Some e) \<Rightarrow> (failed_with e)\<lparr>oc_files := written\<rparr>
            | (written, None) \<Rightarrow>
                (done_with (lines_text [''[PASS] Compliance scaffolding generated in '' @ out,
                   ''       Profile:   '' @ sf_profile plan, ''       Workload:  '' @ sf_workload plan,
                   ''       Namespace: '' @ sf_namespace plan]))\<lparr>oc_files := written\<rparr>)
          else (case normalize_format (cl_quote cl) output of
              Inl e \<Rightarrow> failed_with e
            | Inr f \<Rightarrow> printed (if f = JsonFormat then render_structured (cl_plan cl) (\<lambda>p. Ok []) plan JsonFormat
                else render_manifests_yaml (cl_encoders cl) plan)))"

section \<open>doctor\<close>

definition check_message :: "diagnostic_check \<Rightarrow> string" where
  "check_message c =
     (if dk_remediation c = [] then dk_message c else dk_message c @ '' (Fix: '' @ dk_remediation c @ '')'')"

definition doctor_text :: "doctor_report \<Rightarrow> string" where
  "doctor_text r =
     lines_text [''OSKAL SYSTEM DIAGNOSTIC DOCTOR'', replicate 70 CHR ''-'',
       ''Overall State:  ['' @ status_text (dr_overall r) @ '']'', ''Evaluated In:   '' @ dr_duration r,
       ''Timestamp:      '' @ rfc3339 (dr_timestamp r), []] @
     render_table [''CHECK'', ''TARGET'', ''STATUS'', ''DURATION'', ''DETAILS'']
       (map (\<lambda>c. [dk_name c, dk_target c, status_text (dk_status c), dk_duration c, check_message c]) (dr_checks r))"

definition doctor_outcome :: "cli_env \<Rightarrow> doctor_report \<Rightarrow> output_format \<Rightarrow> outcome" where
  "doctor_outcome cl r f =
     (if f = JsonFormat \<or> f = YamlFormat
      then printed (render_structured (\<lambda>r. cl_json cl (json_doctor_report r)) (\<lambda>r. cl_yaml cl (json_doctor_report r)) r f)
      else (done_with (doctor_text r))\<lparr>oc_error :=
        (if dr_overall r = StatusFail then Some ''system doctor detected critical health failures'' else None)\<rparr>)"

definition doctor_command :: "cli_env \<Rightarrow> globals \<Rightarrow> string \<Rightarrow> outcome option" where
  "doctor_command cl gl output =
     (case snd (run_doctor (cl_host cl) (cl_probe cl) (cl_elapsed cl) (cl_now cl) (cl_compiled cl) (gl_evidence_dir gl) fresh) of
        None \<Rightarrow> None
      | Some r \<Rightarrow> Some
          (case normalize_format (cl_quote cl) output of Inl e \<Rightarrow> failed_with e | Inr f \<Rightarrow> doctor_outcome cl r f))"

section \<open>inspect\<close>

definition inspected_evaluation :: "time \<Rightarrow> subject_ref \<Rightarrow> control_ref \<Rightarrow> envelope list \<Rightarrow> claim_evaluation" where
  "inspected_evaluation now sub ctrl envs =
     (if envs \<noteq> []
      then \<lparr>ce_id = ''eval-'' @ c_id ctrl, ce_control = ctrl, ce_subject = sub, ce_state = Assured, ce_vector = zero_vector,
        ce_epoch = (subject_epoch sub)\<lparr>policy_digest := compute_string_digest ''cel:policy:ac-6''\<rparr>,
        ce_evidence = map ev_artifact envs, ce_completeness = zero_completeness, ce_evidence_root = evidence_root_of envs,
        ce_evaluated_at = now, ce_valid_until = zero_time, ce_trace = []\<rparr>
      else \<lparr>ce_id = ''eval-'' @ c_id ctrl, ce_control = ctrl, ce_subject = sub, ce_state = Unknown, ce_vector = zero_vector,
        ce_epoch = subject_epoch sub, ce_evidence = [], ce_completeness = zero_completeness, ce_evidence_root = [],
        ce_evaluated_at = now, ce_valid_until = zero_time, ce_trace = []\<rparr>)"

definition inspect_tree :: "inspection_report \<Rightarrow> tree_node" where
  "inspect_tree r =
     TreeNode ''Subject'' (ir_subject r)
       ([TreeNode ''Channel 1: Telemetry'' (''Duration: '' @ tt_evaluation_duration (ir_telemetry r) @ '', Mem: '' @
           show_int (tt_memory_kb (ir_telemetry r)) @ '' KB'') [],
         TreeNode ''Channel 2: Execution Path'' (xt_path_id (ir_execution r))
           (map (\<lambda>s. TreeNode (''['' @ show_int (es_order s) @ ''] '' @ es_stage s) (es_action s @ '' -> '' @ es_outcome s) [])
             (xt_steps (ir_execution r))),
         TreeNode ''Channel 3: Decision Trace'' (''Disposition: '' @ dt_disposition (ir_decision r) @ '' ('' @
           dt_rationale (ir_decision r) @ '')'') [],
         TreeNode ''Channel 4: Evidence Trace'' (''Root: '' @ et_root (ir_evidence r) @ '', Signer: '' @
           et_signer (ir_evidence r) @ '' ('' @ show_nat (length (et_artifacts (ir_evidence r))) @ '' artifacts)'') []] @
        (case ir_remediation r of
           None \<Rightarrow> []
         | Some a \<Rightarrow> [TreeNode ''Channel 5: Actionable Remediation'' (''Action: '' @ ra_command a)
             [TreeNode ''Missing Signals'' (join_str '', '' (ra_missing a)) [], TreeNode ''Explanation'' (ra_explanation a) []]]))"

definition telemetry_lines :: "telemetry_trace \<Rightarrow> string list" where
  "telemetry_lines t =
     [''1. TELEMETRY TRACE:'', ''   Evaluation Duration: '' @ tt_evaluation_duration t,
      ''   Evidence Fetch Time: '' @ tt_fetch_time t, ''   Rule Execution Time: '' @ tt_rule_time t,
      ''   Memory Allocated:    '' @ show_int (tt_memory_kb t) @ '' KB'', []]"

definition execution_lines :: "execution_trace \<Rightarrow> string list" where
  "execution_lines x =
     [''2. EXECUTION TRACE (Path: '' @ xt_path_id x @ ''):''] @
     map (\<lambda>s. ''   ['' @ show_int (es_order s) @ ''] '' @ pad_right 25 (es_stage s) @ '' '' @ pad_right 40 (es_action s) @
       '' ['' @ es_outcome s @ '']'') (xt_steps x) @ [[]]"

definition decision_lines :: "decision_trace \<Rightarrow> string list" where
  "decision_lines d =
     [''3. DECISION TRACE:'', ''   Control:         '' @ dt_control_id d, ''   Policy Digest:   '' @ dt_policy_digest d,
      ''   Disposition:     '' @ dt_disposition d, ''   Rationale:       '' @ dt_rationale d, []]"

definition evidence_trace_lines :: "evidence_trace \<Rightarrow> string list" where
  "evidence_trace_lines e =
     [''4. EVIDENCE TRACE:'', ''   Evidence Root:   '' @ et_root e, ''   Signer Identity: '' @ et_signer e,
      ''   Merkle Valid:    '' @ (if et_merkle_valid e then ''true'' else ''false''),
      ''   Artifact Count:  '' @ show_nat (length (et_artifacts e))] @
     map (\<lambda>(i, a). ''   ['' @ show_nat (i + 1) @ ''] '' @ it_digest a @ '' (Type: '' @ it_type a @ '', Freshness: '' @
       it_freshness a @ '')'') (indexed (et_artifacts e))"

definition remediation_lines :: "remediation_action option \<Rightarrow> string list" where
  "remediation_lines r =
     (case r of
        None \<Rightarrow> []
      | Some a \<Rightarrow> [[], ''5. ACTIONABLE REMEDIATION:'', ''   Target Control:  '' @ ra_control a,
          ''   Disposition:     '' @ ra_disposition a, ''   Missing Signals: '' @ join_str '', '' (ra_missing a),
          ''   Remediation Cmd: '' @ ra_command a, ''   Explanation:     '' @ ra_explanation a])"

definition inspect_lines :: "inspection_report \<Rightarrow> string list" where
  "inspect_lines r =
     [''OSKAL 4 TRUTH CHANNELS INSPECTION REPORT'', replicate 70 CHR ''='', ''Subject:         '' @ ir_subject r,
      ''Assurance State: '' @ ir_state r, ''Timestamp:       '' @ rfc3339 (ir_timestamp r), []] @
     telemetry_lines (ir_telemetry r) @ execution_lines (ir_execution r) @ decision_lines (ir_decision r) @
     evidence_trace_lines (ir_evidence r) @ remediation_lines (ir_remediation r)"

text \<open>A report as JSON: the keys of a map are sorted.\<close>

definition json_telemetry :: "telemetry_trace \<Rightarrow> json" where
  "json_telemetry t =
     JObj [(''evaluation_duration'', JStr (tt_evaluation_duration t)), (''evidence_fetch_time'', JStr (tt_fetch_time t)),
       (''rule_execution_time'', JStr (tt_rule_time t)), (''memory_allocated_kb'', JNum (tt_memory_kb t)),
       (''cache_hit'', JBool (tt_cache_hit t))]"

definition json_execution :: "execution_trace \<Rightarrow> json" where
  "json_execution x =
     JObj [(''path_id'', JStr (xt_path_id x)),
       (''steps'', json_slice (\<lambda>s. JObj [(''order'', JNum (es_order s)), (''stage'', JStr (es_stage s)),
         (''action'', JStr (es_action s)), (''outcome'', JStr (es_outcome s))]) (xt_steps x))]"

definition json_decision :: "decision_trace \<Rightarrow> json" where
  "json_decision d =
     JObj ([(''control_id'', JStr (dt_control_id d)), (''policy_digest'', JStr (dt_policy_digest d)),
        (''effective_policy'', JStr (dt_effective_policy d)), (''disposition'', JStr (dt_disposition d))] @
       opt_slice ''obligations'' JStr (dt_obligations d) @
       [(''input_bindings'', JObj (map (\<lambda>(k, v). (k, JStr v)) (sort_key fst (dt_inputs d)))),
        (''rationale'', JStr (dt_rationale d))])"

definition json_evidence_item :: "evidence_item \<Rightarrow> json" where
  "json_evidence_item a =
     JObj [(''envelope_id'', JStr (it_envelope_id a)), (''type'', JStr (it_type a)), (''digest'', JStr (it_digest a)),
       (''producer'', JStr (it_producer a)), (''timestamp'', JStr (it_timestamp a)), (''freshness'', JStr (it_freshness a))]"

definition json_evidence :: "evidence_trace \<Rightarrow> json" where
  "json_evidence e =
     JObj [(''evidence_root'', JStr (et_root e)), (''signer_identity'', JStr (et_signer e)),
       (''artifacts'', json_slice json_evidence_item (et_artifacts e)), (''merkle_valid'', JBool (et_merkle_valid e)),
       (''lineage_verified'', JBool (et_lineage_verified e))]"

definition json_remediation :: "remediation_action \<Rightarrow> json" where
  "json_remediation a =
     JObj [(''target_control'', JStr (ra_control a)), (''disposition'', JStr (ra_disposition a)),
       (''missing_signals'', json_slice JStr (ra_missing a)), (''remediation_cmd'', JStr (ra_command a)),
       (''explanation'', JStr (ra_explanation a))]"

definition json_inspection :: "inspection_report \<Rightarrow> json" where
  "json_inspection r =
     JObj ([(''subject'', JStr (ir_subject r)), (''assurance_state'', JStr (ir_state r)),
        (''timestamp'', JStr (rfc3339_nano (ir_timestamp r))), (''telemetry_trace'', json_telemetry (ir_telemetry r)),
        (''execution_trace'', json_execution (ir_execution r)), (''decision_trace'', json_decision (ir_decision r)),
        (''evidence_trace'', json_evidence (ir_evidence r))] @
       opt_ptr ''remediation'' json_remediation (ir_remediation r))"

definition inspection_outcome :: "cli_env \<Rightarrow> inspection_report \<Rightarrow> output_format \<Rightarrow> outcome" where
  "inspection_outcome cl r f =
     (if f = JsonFormat \<or> f = YamlFormat
      then printed (render_structured (\<lambda>r. cl_json cl (json_inspection r)) (\<lambda>r. cl_yaml cl (json_inspection r)) r f)
      else if f = TreeFormat then done_with (render_tree (Some (inspect_tree r)))
      else done_with (lines_text (inspect_lines r)))"

definition inspect_report :: "cli_env \<Rightarrow> store \<Rightarrow> globals \<Rightarrow> string \<Rightarrow> string \<Rightarrow> inspection_report" where
  "inspect_report cl so gl uri flag =
     (let sub = parse_subject_uri uri; envs = evidence_or_none so (gl_evidence_dir gl) sub
      in inspect_subject (cl_now cl) (cl_elapsed cl 0) sub
           (inspected_evaluation (cl_now cl) sub (parse_control_arg flag) envs) envs)"

definition inspect_command :: "cli_env \<Rightarrow> store \<Rightarrow> globals \<Rightarrow> string \<Rightarrow> string \<Rightarrow> string \<Rightarrow> outcome" where
  "inspect_command cl so gl uri flag output =
     (case normalize_format (cl_quote cl) output of
        Inl e \<Rightarrow> failed_with e
      | Inr f \<Rightarrow> inspection_outcome cl (inspect_report cl so gl uri flag) f)"

section \<open>config and prune\<close>

definition config_view_command :: "config_world \<Rightarrow> string \<Rightarrow> outcome" where
  "config_view_command w flag =
     (case load_config w flag of
        (cfg, src, Some e) \<Rightarrow> failed_with e
      | (cfg, src, None) \<Rightarrow> done_with (lines_text
          [''CONFIG FILE:  '' @ (if src = [] then ''none (using smart defaults)'' else src), ''SERVER:       '' @ cg_server cfg,
           ''EVIDENCE DIR: '' @ cg_evidence_dir cfg, ''NAMESPACE:    '' @ cg_namespace cfg,
           ''OUTPUT:       '' @ cg_output cfg, ''PROFILE:      '' @ cg_profile cfg]))"

definition config_init_command ::
  "config_world \<Rightarrow> (string \<Rightarrow> string option) \<Rightarrow> (config_fields \<Rightarrow> string result) \<Rightarrow> (string \<Rightarrow> string option) \<Rightarrow>
     string list \<Rightarrow> outcome" where
  "config_init_command w mkdir enc write args =
     (let target = (case args of [] \<Rightarrow> ''.oskal.yaml'' | a # _ \<Rightarrow> a)
      in case save_config mkdir enc write (default_config w) target of
           (written, Some e) \<Rightarrow> (failed_with e)\<lparr>oc_files := (case written of None \<Rightarrow> [] | Some f \<Rightarrow> [f])\<rparr>
         | (written, None) \<Rightarrow> (done_with (lines_text [''Created default configuration file: '' @ target]))
             \<lparr>oc_files := (case written of None \<Rightarrow> [] | Some f \<Rightarrow> [f])\<rparr>)"

text \<open>The store afterwards, where it could be opened.\<close>

definition prune_command ::
  "store \<Rightarrow> string list \<Rightarrow> time \<Rightarrow> duration \<Rightarrow> globals \<Rightarrow> duration \<Rightarrow> bool \<Rightarrow> cas option \<times> outcome" where
  "prune_command so keys start elapsed gl older dry =
     (let dir = (if gl_evidence_dir gl = [] then ''evidence'' else gl_evidence_dir gl)
      in case open_store so dir of
           Inl e \<Rightarrow> (None, failed_with (''failed to open evidence repository at '' @ dir @ '': '' @ e))
         | Inr repo \<Rightarrow>
             (case prune (so_keys so) keys start elapsed repo older dry of
                (repo', rep) \<Rightarrow> (Some repo', done_with (lines_text
                  [(if dry then ''DRY-RUN (would prune)'' else ''PRUNED'') @ '': '' @ show_int (p_pruned_count rep) @
                   '' envelopes (freed '' @ show_int (p_pruned_bytes rep) @ '' bytes) older than '' @ duration_text older @
                   '' from '' @ dir]))))"

section \<open>Lemmas\<close>

lemma encode_each_ok: "encode_each enc xs = Ok ys \<longleftrightarrow> list_all2 (\<lambda>x y. enc x = Ok y) xs ys"
proof (induction xs arbitrary: ys)
  case (Cons x xs)
  show ?case
  proof (cases "enc x")
    case (Inr y)
    show ?thesis
    proof (cases "encode_each enc xs")
      case rest: (Inr ss)
      have "list_all2 (\<lambda>x y. enc x = Ok y) xs zs \<longleftrightarrow> zs = ss" for zs using Cons.IH[of zs] rest by auto
      then show ?thesis using Inr rest by (auto simp: list_all2_Cons1)
    qed (use Cons.IH Inr in \<open>auto simp: list_all2_Cons1\<close>)
  qed (auto simp: list_all2_Cons1)
qed auto

lemma import_manifests_ok:
  "import_manifests en res = Ok s \<longleftrightarrow>
     (\<exists>cs bs. list_all2 (\<lambda>x y. en_contract en x = Ok y) (in_contracts res) cs \<and>
        list_all2 (\<lambda>x y. en_binding en x = Ok y) (in_bindings res) bs \<and> s = join_str (nl @ ''---'' @ nl) (cs @ bs))"
  unfolding encode_each_ok[symmetric]
  by (cases "encode_each (en_contract en) (in_contracts res)"; cases "encode_each (en_binding en) (in_bindings res)")
    (auto simp: import_manifests_def)

lemma render_structured_ok:
  "f = JsonFormat \<or> f = YamlFormat \<Longrightarrow> is_ok (json x) \<Longrightarrow> is_ok (yaml x) \<Longrightarrow> is_ok (render_structured json yaml x f)"
  by (auto simp: render_structured_def is_ok_def split: sum.splits)

lemma printed_error: "is_ok r \<Longrightarrow> oc_error (printed r) = None"
  by (auto simp: printed_def done_with_def is_ok_def split: sum.splits)

lemma structured_error:
  "f = JsonFormat \<or> f = YamlFormat \<Longrightarrow> \<forall>j. is_ok (cl_json cl j) \<and> is_ok (cl_yaml cl j) \<Longrightarrow>
     oc_error (printed (render_structured (\<lambda>x. cl_json cl (g x)) (\<lambda>x. cl_yaml cl (g x)) x f)) = None"
  by (rule printed_error, rule render_structured_ok) simp_all

section \<open>Properties\<close>

text \<open>
  C37: the exit status of validate tells a valid from an invalid document only in the formats table and tree: with the
  output json or yaml the command succeeds for an invalid document too.
\<close>

lemma validation_exit_status:
  assumes "cl_read cl file = Ok data" and "cl_compiled cl = Ok v"
    and "validate (cl_codec cl) v (cl_elapsed cl 0) data schema = Ok r"
    and "normalize_format (cl_quote cl) output = Ok f" and "\<forall>j. is_ok (cl_json cl j) \<and> is_ok (cl_yaml cl j)"
  shows "\<exists>oc. validate_command cl file schema output = Some oc \<and>
    (oc_error oc = None \<longleftrightarrow> vr_valid r \<or> f = JsonFormat \<or> f = YamlFormat)"
proof -
  have "validate_command cl file schema output = Some (validation_outcome cl r f)"
    using assms(1-4) by (simp add: validate_command_def default_validator_def fresh_def)
  moreover have "oc_error (validation_outcome cl r f) = None \<longleftrightarrow> vr_valid r \<or> f = JsonFormat \<or> f = YamlFormat"
    using structured_error[OF _ assms(5), of f json_report r] by (auto simp: validation_outcome_def done_with_def)
  ultimately show ?thesis by simp
qed

definition example_cli :: cli_env where
  "example_cli =
     \<lparr>cl_now = 0, cl_uuids = (\<lambda>n. CHR ''u'' # example_uuid n), cl_elapsed = \<lambda>_. 0, cl_keys = [], cl_read = \<lambda>_. Ok ''{}'',
      cl_fs = \<lparr>fs_mkdir = \<lambda>_. None, fs_write = \<lambda>_. None\<rparr>, cl_json = \<lambda>_. Ok ''{}'', cl_yaml = \<lambda>_. Ok ''{}'', cl_plan = \<lambda>_. Ok ''{}'',
      cl_quote = \<lambda>s. s, cl_codec = example_codec (JObj [(''assessment-plan'', JNull)]),
      cl_compiled = Ok [AssessmentPlan \<mapsto> \<lambda>_. Some (Inl ''no'')], cl_round = \<lambda>_ _ _. 0, cl_decoders = example_decoders,
      cl_encoders = \<lparr>en_contract = \<lambda>_. Ok ''c'', en_binding = \<lambda>_. Ok ''b'', en_components = \<lambda>_. Ok ''d'', en_policies = \<lambda>_ _ _. Ok ''e''\<rparr>,
      cl_host = example_host, cl_probe = example_probe\<rparr>"

lemma example_formats: "normalize_format q ''json'' = Ok JsonFormat" "normalize_format q [] = Ok TableFormat"
proof -
  have "to_lower ''json'' = ''json''" "to_lower [] = []" by code_simp+
  then show "normalize_format q ''json'' = Ok JsonFormat" "normalize_format q [] = Ok TableFormat"
    by (simp_all add: normalize_format_def trim_space_def is_space_def)
qed

lemma example_encodes: "\<forall>j. is_ok (cl_json example_cli j) \<and> is_ok (cl_yaml example_cli j)"
  by (simp add: example_cli_def)

lemma example_invalid:
  "\<exists>r. validate (cl_codec example_cli) [AssessmentPlan \<mapsto> \<lambda>_. Some (Inl ''no'')] (cl_elapsed example_cli 0) ''{}'' ''auto'' = Ok r \<and> \<not> vr_valid r"
  by (simp add: validate_def auto_target example_detected example_decode Let_def extract_errors_def example_cli_def)

lemma validation_exit_status_witness:
  "\<exists>oc. validate_command example_cli ''f'' ''auto'' ''json'' = Some oc \<and> oc_error oc = None"
proof -
  obtain r where r: "validate (cl_codec example_cli) [AssessmentPlan \<mapsto> \<lambda>_. Some (Inl ''no'')] (cl_elapsed example_cli 0) ''{}'' ''auto'' = Ok r"
    using example_invalid by blast
  have "cl_read example_cli ''f'' = Ok ''{}''" "cl_compiled example_cli = Ok [AssessmentPlan \<mapsto> \<lambda>_. Some (Inl ''no'')]"
    by (simp_all add: example_cli_def)
  from validation_exit_status[OF this r example_formats(1) example_encodes] show ?thesis by auto
qed

text \<open>
  Further: the doctor fails exactly when its overall state is FAIL, and only in the formats table and tree.
\<close>

lemma doctor_exit_status:
  assumes "normalize_format (cl_quote cl) output = Ok f" and "\<forall>j. is_ok (cl_json cl j) \<and> is_ok (cl_yaml cl j)"
    and "snd (run_doctor (cl_host cl) (cl_probe cl) (cl_elapsed cl) (cl_now cl) (cl_compiled cl) (gl_evidence_dir gl) fresh) = Some r"
  shows "\<exists>oc. doctor_command cl gl output = Some oc \<and>
    (oc_error oc = None \<longleftrightarrow> dr_overall r \<noteq> StatusFail \<or> f = JsonFormat \<or> f = YamlFormat)"
proof -
  have "doctor_command cl gl output = Some (doctor_outcome cl r f)"
    using assms(1,3) by (simp add: doctor_command_def)
  moreover have "oc_error (doctor_outcome cl r f) = None \<longleftrightarrow> dr_overall r \<noteq> StatusFail \<or> f = JsonFormat \<or> f = YamlFormat"
    using structured_error[OF _ assms(2), of f json_doctor_report r] by (auto simp: doctor_outcome_def done_with_def)
  ultimately show ?thesis by simp
qed

lemma doctor_exit_status_witness:
  "\<exists>oc. doctor_command (example_cli\<lparr>cl_compiled := Err ''bad''\<rparr>) \<lparr>gl_server = [], gl_evidence_dir = ''/var''\<rparr> ''json'' = Some oc \<and>
     oc_error oc = None"
proof -
  let ?cl = "example_cli\<lparr>cl_compiled := Err ''bad''\<rparr>"
  have enc: "\<forall>j. is_ok (cl_json ?cl j) \<and> is_ok (cl_yaml ?cl j)" by (simp add: example_cli_def)
  have "\<exists>r. snd (run_doctor (cl_host ?cl) (cl_probe ?cl) (cl_elapsed ?cl) (cl_now ?cl) (cl_compiled ?cl) (gl_evidence_dir
      \<lparr>gl_server = [], gl_evidence_dir = ''/var''\<rparr>) fresh) = Some r"
    by (simp add: run_doctor_def default_validator_def check_oscal_schemas_def Let_def fresh_def)
  then obtain r where r: "snd (run_doctor (cl_host ?cl) (cl_probe ?cl) (cl_elapsed ?cl) (cl_now ?cl) (cl_compiled ?cl)
      (gl_evidence_dir \<lparr>gl_server = [], gl_evidence_dir = ''/var''\<rparr>) fresh) = Some r" ..
  show ?thesis
    using doctor_exit_status[OF example_formats(1) enc r] by auto
qed

lemma import_outcome:
  fixes cl path ns out
  defines "oc \<equiv> import_command cl path ns out"
  shows "if oc_error oc = None
    then \<exists>data res cs bs. cl_read cl path = Ok data \<and> ingest_oscal (cl_round cl) (cl_decoders cl) data ns = Ok res \<and>
        list_all2 (\<lambda>x y. en_contract (cl_encoders cl) x = Ok y) (in_contracts res) cs \<and>
        list_all2 (\<lambda>x y. en_binding (cl_encoders cl) x = Ok y) (in_bindings res) bs \<and>
        (let text = join_str (nl @ ''---'' @ nl) (cs @ bs)
         in if out = [] then oc_out oc = text @ nl \<and> oc_files oc = []
            else oc_out oc = [] \<and> oc_files oc = [(file_in out (sanitize_k8s_name (in_title res) @ ''-crds.yaml''), text)])
    else oc_out oc = [] \<and> oc_files oc = []"
proof (cases "path = []")
  case False
  show ?thesis
  proof (cases "cl_read cl path")
    case (Inr data)
    show ?thesis
    proof (cases "ingest_oscal (cl_round cl) (cl_decoders cl) data ns")
      case res: (Inr res)
      show ?thesis
      proof (cases "import_manifests (cl_encoders cl) res")
        case out: (Inr s)
        have "oc = (if out = [] then (done_with (s @ nl))\<lparr>oc_err := import_notice res\<rparr>
            else (case fs_mkdir (cl_fs cl) out of
                Some e \<Rightarrow> (failed_with e)\<lparr>oc_err := import_notice res\<rparr>
              | None \<Rightarrow> (let target = file_in out (sanitize_k8s_name (in_title res) @ ''-crds.yaml'')
                  in (case fs_write (cl_fs cl) target of
                     Some e \<Rightarrow> (failed_with e)\<lparr>oc_err := import_notice res\<rparr>
                   | None \<Rightarrow> \<lparr>oc_out = [], oc_err = import_notice res @ lines_text [''[PASS] Manifests written to '' @ target],
                       oc_files = [(target, s)], oc_error = None\<rparr>))))"
          by (simp only: oc_def import_command_def False Inr res out Let_def sum.case if_False)
        then show ?thesis using out res Inr unfolding import_manifests_ok
          by (auto simp: done_with_def failed_with_def Let_def split: if_splits option.splits)
      qed (use False Inr res in \<open>simp add: oc_def import_command_def failed_with_def Let_def\<close>)
    qed (use False Inr in \<open>simp add: oc_def import_command_def failed_with_def\<close>)
  qed (use False in \<open>simp add: oc_def import_command_def failed_with_def\<close>)
qed (simp add: oc_def import_command_def failed_with_def)

text \<open>
  Further: an import that succeeds writes the contracts and then the bindings of the document, one manifest for each, to
  standard output or to one file named after the document; an import that fails writes no file and no manifest.
\<close>

lemma import_is_complete:
  "let oc = import_command cl path ns out
   in if oc_error oc = None
     then \<exists>data res cs bs. cl_read cl path = Ok data \<and> ingest_oscal (cl_round cl) (cl_decoders cl) data ns = Ok res \<and>
         list_all2 (\<lambda>x y. en_contract (cl_encoders cl) x = Ok y) (in_contracts res) cs \<and>
         list_all2 (\<lambda>x y. en_binding (cl_encoders cl) x = Ok y) (in_bindings res) bs \<and>
         (let text = join_str (nl @ ''---'' @ nl) (cs @ bs)
          in if out = [] then oc_out oc = text @ nl \<and> oc_files oc = []
             else oc_out oc = [] \<and> oc_files oc = [(file_in out (sanitize_k8s_name (in_title res) @ ''-crds.yaml''), text)])
     else oc_out oc = [] \<and> oc_files oc = []"
  using import_outcome[of cl path ns out] by (simp only: Let_def)

text \<open>
  Further: the exported security plan declares the control AC-6 as ASSURED for every subject, without looking at any
  evidence, while the exported assessment results of the same subject report it as UNKNOWN when there is none.
\<close>

lemma exports_contradict:
  assumes "evidence_or_none so (gl_evidence_dir gl) (export_subject flag) = []"
  shows "(\<exists>sp q. exported_security_plan cl flag = DocPlan sp \<and> sp_requirements sp = [q] \<and> sq_control_id q = ''AC-6'' \<and>
      oscal_property ''state'' ''ASSURED'' \<in> set (sq_props q)) \<and>
    (\<exists>ar rs obs. exported_results cl so gl flag = DocResults ar \<and> ar_results ar = [rs] \<and> rs_observations rs = [obs] \<and>
      oscal_property ''assurance-state'' ''UNKNOWN'' \<in> set (ob_props obs))"
proof (rule conjI)
  show "\<exists>sp q. exported_security_plan cl flag = DocPlan sp \<and> sp_requirements sp = [q] \<and> sq_control_id q = ''AC-6'' \<and>
      oscal_property ''state'' ''ASSURED'' \<in> set (sq_props q)"
    by (simp add: exported_security_plan_def project_ssp_def planned_evaluation_def exported_control_def Let_def)
  show "\<exists>ar rs obs. exported_results cl so gl flag = DocResults ar \<and> ar_results ar = [rs] \<and> rs_observations rs = [obs] \<and>
      oscal_property ''assurance-state'' ''UNKNOWN'' \<in> set (ob_props obs)"
    using assms by (simp add: exported_results_def project_assessment_results_def projected_def project_observation_def
        absent_evaluation_def Let_def)
qed

lemma exports_contradict_witness:
  "evidence_or_none example_store [] (export_subject []) = [] \<and>
   (\<exists>ar rs obs. exported_results example_cli example_store \<lparr>gl_server = [], gl_evidence_dir = []\<rparr> [] = DocResults ar \<and>
      ar_results ar = [rs] \<and> rs_observations rs = [obs] \<and>
      oscal_property ''assurance-state'' ''UNKNOWN'' \<in> set (ob_props obs))"
proof (rule conjI)
  show e: "evidence_or_none example_store [] (export_subject []) = []"
    by (simp add: evidence_or_none_def load_local_evidence_def)
  have "evidence_or_none example_store (gl_evidence_dir \<lparr>gl_server = [], gl_evidence_dir = []\<rparr>) (export_subject []) = []"
    using e by simp
  from exports_contradict[OF this, of example_cli]
  show "\<exists>ar rs obs. exported_results example_cli example_store \<lparr>gl_server = [], gl_evidence_dir = []\<rparr> [] = DocResults ar \<and>
      ar_results ar = [rs] \<and> rs_observations rs = [obs] \<and> oscal_property ''assurance-state'' ''UNKNOWN'' \<in> set (ob_props obs)"
    by (rule conjunct2)
qed


text \<open>A file with what export wrote: the export succeeded, its text begins like JSON, and the decoder of the
  import reads back the document that the encoder of the export wrote.\<close>

definition exported_file :: "cli_env \<Rightarrow> cli_env \<Rightarrow> store \<Rightarrow> globals \<Rightarrow> string \<Rightarrow> string \<Rightarrow> bool" where
  "exported_file cl cl' so gl flag path =
     (let oc = export_command cl so gl ComponentDefinition flag
      in oc_error oc = None \<and> path \<noteq> [] \<and> cl_read cl' path = Ok (oc_out oc) \<and> is_json (oc_out oc) \<and>
         (case exported_components cl so gl flag of
            DocComponents cd \<Rightarrow> de_components (cl_decoders cl') (oc_out oc) = Ok cd
          | _ \<Rightarrow> False))"

definition exported_name :: "string \<Rightarrow> string" where
  "exported_name flag = (if flag = [] then ''payments-api'' else flag)"

definition exported_requirements :: "component_definition \<Rightarrow> implemented_requirement list" where
  "exported_requirements cd = concat (map (\<lambda>dc. concat (map ci_requirements (dc_implementations dc))) (cd_components cd))"

lemma exported_components_cases:
  "\<exists>eval. exported_components cl so gl flag =
      DocComponents (project_component_definition (cl_uuids cl) (cl_now cl) (exported_name flag) [eval]) \<and>
    ce_control eval = exported_control \<and>
    ce_state eval = (if evidence_or_none so (gl_evidence_dir gl) (component_subject (exported_name flag)) = [] then Unknown else Assured)"
proof -
  let ?sub = "component_subject (exported_name flag)"
  let ?envs = "evidence_or_none so (gl_evidence_dir gl) ?sub"
  let ?eval = "if ?envs \<noteq> [] then assured_evaluation (cl_now cl) ?sub exported_control (subject_epoch ?sub) zero_completeness ?envs
      else absent_evaluation (cl_now cl) ?sub exported_control zero_completeness zero_time"
  have "exported_components cl so gl flag =
      DocComponents (project_component_definition (cl_uuids cl) (cl_now cl) (exported_name flag) [?eval])"
    by (simp only: exported_components_def exported_name_def Let_def)
  moreover have "ce_control ?eval = exported_control" "ce_state ?eval = (if ?envs = [] then Unknown else Assured)"
    by (simp_all add: assured_evaluation_def absent_evaluation_def)
  ultimately show ?thesis by blast
qed

text \<open>What import makes of an exported component definition depends on its name, the namespace and its identifiers,
  and not on its evaluation.\<close>

lemma ingested_evaluation_lost:
  assumes "ce_control e = ce_control e'"
  shows "ingest_component_definition rnd ns (project_component_definition u now name [e]) =
    ingest_component_definition rnd ns (project_component_definition u now name [e'])"
proof -
  define d where "d e = hd (cd_components (project_component_definition u now name [e]))" for e
  have dc: "cd_components (project_component_definition u now name [e]) = [d e]"
    and slug: "component_slug (d e) = sanitize_k8s_name name"
    and head: "cd_uuid (project_component_definition u now name [e]) = u 0"
      "cd_metadata (project_component_definition u now name [e]) = oscal_metadata (''OSKAL Component Definition: '' @ name) now" for e
    by (simp_all add: d_def project_component_definition_def component_slug_title Let_def)
  have "component_items rnd ns (d e) = component_items rnd ns (d e')"
    using assms unfolding d_def projected_items by simp
  then have "ingest_component rnd ns res (d e) = ingest_component rnd ns res (d e')" for res
    by (simp add: ingest_component_def slug)
  then show ?thesis by (simp add: ingest_component_definition_def dc head)
qed

lemma exported_file_ingested:
  assumes "exported_file cl cl' so gl flag path" and "cl_uuids cl 0 \<noteq> []"
  shows "\<exists>data eval. cl_read cl' path = Ok data \<and> path \<noteq> [] \<and> ce_control eval = exported_control \<and>
    ingest_oscal (cl_round cl') (cl_decoders cl') data ns =
      Ok (ingest_component_definition (cl_round cl') (if ns = [] then ''default'' else ns)
        (project_component_definition (cl_uuids cl) (cl_now cl) (exported_name flag) [eval]))"
proof -
  let ?data = "oc_out (export_command cl so gl ComponentDefinition flag)"
  obtain eval where eval: "exported_components cl so gl flag =
      DocComponents (project_component_definition (cl_uuids cl) (cl_now cl) (exported_name flag) [eval])"
    "ce_control eval = exported_control" using exported_components_cases by blast
  have f: "cl_read cl' path = Ok ?data" "path \<noteq> []" "is_json ?data"
    "de_components (cl_decoders cl') ?data = Ok (project_component_definition (cl_uuids cl) (cl_now cl) (exported_name flag) [eval])"
    using assms(1) by (simp_all add: exported_file_def eval(1) Let_def)
  from f(3) have "?data \<noteq> []" by (auto simp: is_json_def trim_space_def has_prefix_def)
  moreover have "cd_uuid (project_component_definition (cl_uuids cl) (cl_now cl) (exported_name flag) [eval]) \<noteq> []"
    using assms(2) by (simp add: project_component_definition_def Let_def)
  ultimately show ?thesis using f eval(2) by (intro exI[of _ ?data] exI[of _ eval]) (simp add: ingest_oscal_def Let_def)
qed

text \<open>
  C23: what export writes, import reads, but the state is lost. A component definition declares the control AC-6 of its
  component as ASSURED when the store has any evidence for the component and as UNKNOWN otherwise. Imported from a file
  with the exported text, where the decoder reads back what the encoder wrote, it gives one contract and one binding,
  for the exported control, that are printed when they can be encoded; and two exports under one name, made from any
  two stores at the same time with the same identifiers, are imported to the same outcome, whatever state they declared.
\<close>

lemma exported_components_import:
  assumes "exported_file cl cl' so gl flag path" and "exported_file cl cl' so' gl' flag path'" and "cl_uuids cl 0 \<noteq> []"
  shows "(\<exists>cd r. exported_components cl so gl flag = DocComponents cd \<and> exported_requirements cd = [r] \<and>
      ir_control_id r = ''AC-6'' \<and>
      oscal_property ''assurance-state'' (if evidence_or_none so (gl_evidence_dir gl) (component_subject (exported_name flag)) = []
        then ''UNKNOWN'' else ''ASSURED'') \<in> set (ir_props r)) \<and>
    (\<exists>(kb :: control_binding_resource) ec. map bi_canonical (kb_controls kb) = [exported_control] \<and>
      (case (en_contract (cl_encoders cl') ec, en_binding (cl_encoders cl') kb) of
         (Inr c, Inr b) \<Rightarrow> oc_out (import_command cl' path ns []) = c @ nl @ ''---'' @ nl @ b @ nl \<and>
           oc_error (import_command cl' path ns []) = None
       | (Inr c, Inl e) \<Rightarrow> oc_error (import_command cl' path ns []) = Some e
       | (Inl e, _) \<Rightarrow> oc_error (import_command cl' path ns []) = Some e)) \<and>
    import_command cl' path ns [] = import_command cl' path' ns []"
proof (intro conjI)
  let ?ns = "if ns = [] then ''default'' else ns"
  let ?cd = "\<lambda>eval. project_component_definition (cl_uuids cl) (cl_now cl) (exported_name flag) [eval]"
  obtain data eval where one: "cl_read cl' path = Ok data" "path \<noteq> []" "ce_control eval = exported_control"
    "ingest_oscal (cl_round cl') (cl_decoders cl') data ns = Ok (ingest_component_definition (cl_round cl') ?ns (?cd eval))"
    using exported_file_ingested[OF assms(1,3)] by blast
  obtain data' eval' where two: "cl_read cl' path' = Ok data'" "path' \<noteq> []" "ce_control eval' = exported_control"
    "ingest_oscal (cl_round cl') (cl_decoders cl') data' ns = Ok (ingest_component_definition (cl_round cl') ?ns (?cd eval'))"
    using exported_file_ingested[OF assms(2,3)] by blast
  have "ingest_component_definition (cl_round cl') ?ns (?cd eval) = ingest_component_definition (cl_round cl') ?ns (?cd eval')"
    by (rule ingested_evaluation_lost) (simp add: one two)
  then show "import_command cl' path ns [] = import_command cl' path' ns []"
    using one two by (simp add: import_command_def)
  obtain kb ec where kb: "in_bindings (ingest_component_definition (cl_round cl') ?ns (?cd eval)) = [kb]"
    "in_contracts (ingest_component_definition (cl_round cl') ?ns (?cd eval)) = [ec]"
    "map bi_canonical (kb_controls kb) =
      map (\<lambda>e. \<lparr>c_namespace = ''nist-sp-800-53'', c_id = projected_control_id (ce_control e), c_version = []\<rparr>) [eval]"
    using ingested_projection[of "[eval]" "cl_round cl'" ?ns "cl_uuids cl" "cl_now cl" "exported_name flag"] by blast
  have "map bi_canonical (kb_controls kb) = [exported_control]"
    using kb(3) one(3) by (simp add: projected_control_id_def exported_control_def)
  then show "\<exists>(kb :: control_binding_resource) ec. map bi_canonical (kb_controls kb) = [exported_control] \<and>
      (case (en_contract (cl_encoders cl') ec, en_binding (cl_encoders cl') kb) of
         (Inr c, Inr b) \<Rightarrow> oc_out (import_command cl' path ns []) = c @ nl @ ''---'' @ nl @ b @ nl \<and>
           oc_error (import_command cl' path ns []) = None
       | (Inr c, Inl e) \<Rightarrow> oc_error (import_command cl' path ns []) = Some e
       | (Inl e, _) \<Rightarrow> oc_error (import_command cl' path ns []) = Some e)"
    using one kb(1,2)
    by (intro exI[of _ kb] exI[of _ ec] conjI)
      (simp_all add: import_command_def import_manifests_def Let_def done_with_def failed_with_def split: sum.split)
next
  obtain eval where eval: "exported_components cl so gl flag =
      DocComponents (project_component_definition (cl_uuids cl) (cl_now cl) (exported_name flag) [eval])"
    "ce_control eval = exported_control"
    "ce_state eval = (if evidence_or_none so (gl_evidence_dir gl) (component_subject (exported_name flag)) = [] then Unknown else Assured)"
    using exported_components_cases by blast
  then show "\<exists>cd r. exported_components cl so gl flag = DocComponents cd \<and> exported_requirements cd = [r] \<and>
      ir_control_id r = ''AC-6'' \<and>
      oscal_property ''assurance-state'' (if evidence_or_none so (gl_evidence_dir gl) (component_subject (exported_name flag)) = []
        then ''UNKNOWN'' else ''ASSURED'') \<in> set (ir_props r)"
    by (simp add: exported_requirements_def project_component_definition_def projected_control_id_def exported_control_def Let_def)
qed

text \<open>A store with evidence for the exported component, and two exports, with and without it.\<close>

definition component_store :: store where
  "component_store = example_store\<lparr>so_one := \<lambda>s. Some (recorded_example\<lparr>ev_subject := component_subject ''payments-api''\<rparr>)\<rparr>"

abbreviation local_globals :: "string \<Rightarrow> globals" where
  "local_globals dir \<equiv> \<lparr>gl_server = [], gl_evidence_dir = dir\<rparr>"

definition component_json :: "component_definition \<Rightarrow> json" where
  "component_json cd =
     JObj [(''component-definition'', JObj [(''uuid'', JStr (cd_uuid cd)),
       (''metadata'', json_metadata (cd_metadata cd)), (''components'', json_slice json_component (cd_components cd))])]"

lemma component_evidence:
  "evidence_or_none component_store ''d'' (component_subject ''payments-api'') \<noteq> []"
  "evidence_or_none component_store [] (component_subject ''payments-api'') = []"
proof -
  let ?env = "recorded_example\<lparr>ev_subject := component_subject ''payments-api''\<rparr>"
  have "load_local_evidence component_store ''d'' (component_subject ''payments-api'') = Ok [?env]"
  proof (rule single_envelope_listed[where raw = "''x''" and name = "''e''"])
    show "so_list component_store ''x'' = None" "so_one component_store ''x'' = Some ?env"
      "so_mkdir component_store (join_str ''/'' [''d'', ''blobs'', ''sha256''])"
      "so_dirs component_store ''d'' = [Some [(''e'' @ ''.json'', False, Some ''x'')]]"
      by (simp_all add: component_store_def example_store_def)
  qed (simp_all add: recorded_example_def admission_envelope_def component_subject_def Let_def)
  then show "evidence_or_none component_store ''d'' (component_subject ''payments-api'') \<noteq> []"
    by (simp add: evidence_or_none_def)
  show "evidence_or_none component_store [] (component_subject ''payments-api'') = []"
    by (simp add: evidence_or_none_def load_local_evidence_def)
qed

lemma exported_components_import_witness:
  "\<exists>cl cl'. exported_file cl cl' component_store (local_globals ''d'') [] ''f'' \<and>
     exported_file cl cl' component_store (local_globals []) [] ''g'' \<and>
     oc_out (import_command cl' ''f'' ''prod'' []) = ''c'' @ nl @ ''---'' @ nl @ ''b'' @ nl \<and>
     import_command cl' ''g'' ''prod'' [] = import_command cl' ''f'' ''prod'' []"
proof -
  let ?doc = "\<lambda>e. project_component_definition (cl_uuids example_cli) (cl_now example_cli) (exported_name []) [e]"
  obtain e where e: "exported_components example_cli component_store (local_globals ''d'') [] = DocComponents (?doc e)"
    "ce_state e = Assured"
    using exported_components_cases[of example_cli component_store "local_globals ''d''" "[]"] component_evidence(1)
    by (auto simp: exported_name_def)
  obtain e' where e': "exported_components example_cli component_store (local_globals []) [] = DocComponents (?doc e')"
    "ce_state e' = Unknown"
    using exported_components_cases[of example_cli component_store "local_globals []" "[]"] component_evidence(2)
    by (auto simp: exported_name_def)
  have docs: "document_json (DocComponents (?doc x)) = Ok (component_json (?doc x))" for x
  proof -
    have "json_year 0" by code_simp
    then show ?thesis
      by (simp add: json_component_definition_def json_times_def component_json_def project_component_definition_def
          example_cli_def metadata_times_def oscal_metadata_def Let_def)
  qed
  have ne: "component_json (?doc e') \<noteq> component_json (?doc e)"
    using e(2) e'(2)
    by (simp add: component_json_def project_component_definition_def json_slice_def opt_slice_def json_component_def
        json_implementation_def json_requirement_def json_property_def oscal_property_def Let_def)
  define cl where "cl = example_cli\<lparr>cl_json := \<lambda>j. Ok (if j = component_json (?doc e) then ''{1'' else ''{2'')\<rparr>"
  define cl' where "cl' = example_cli\<lparr>cl_read := \<lambda>path. Ok (if path = ''f'' then ''{1'' @ nl else ''{2'' @ nl),
    cl_decoders := example_decoders\<lparr>de_components := \<lambda>t. Ok (if t = ''{1'' @ nl then ?doc e else ?doc e')\<rparr>\<rparr>"
  have same: "exported_components cl so gl flag = exported_components example_cli so gl flag" for so gl flag
    by (simp add: exported_components_def cl_def)
  have out: "export_command cl component_store (local_globals ''d'') ComponentDefinition [] = done_with (''{1'' @ nl)"
    "export_command cl component_store (local_globals []) ComponentDefinition [] = done_with (''{2'' @ nl)"
    unfolding export_command_def doc_type.case same e(1) e'(1) docs sum.case
    using ne by (simp_all add: cl_def)
  have js: "is_json (''{1'' @ nl)" "is_json (''{2'' @ nl)" by code_simp+
  have files: "exported_file cl cl' component_store (local_globals ''d'') [] ''f''"
    "exported_file cl cl' component_store (local_globals []) [] ''g''"
    unfolding exported_file_def Let_def out same e(1) e'(1) document.case using js
    by (simp_all add: done_with_def cl'_def)
  have "cl_uuids cl 0 \<noteq> []" by (simp add: cl_def example_cli_def)
  note imported = exported_components_import[OF files this, of "''prod''", THEN conjunct2]
  from imported[THEN conjunct1] obtain kb :: control_binding_resource and ec where
    "case (en_contract (cl_encoders cl') ec, en_binding (cl_encoders cl') kb) of
       (Inr c, Inr b) \<Rightarrow> oc_out (import_command cl' ''f'' ''prod'' []) = c @ nl @ ''---'' @ nl @ b @ nl \<and>
         oc_error (import_command cl' ''f'' ''prod'' []) = None
     | (Inr c, Inl e) \<Rightarrow> oc_error (import_command cl' ''f'' ''prod'' []) = Some e
     | (Inl e, _) \<Rightarrow> oc_error (import_command cl' ''f'' ''prod'' []) = Some e" by (elim exE conjE)
  moreover have "en_contract (cl_encoders cl') ec = Ok ''c''" "en_binding (cl_encoders cl') kb = Ok ''b''"
    by (simp_all add: cl'_def example_cli_def)
  ultimately have "oc_out (import_command cl' ''f'' ''prod'' []) = ''c'' @ nl @ ''---'' @ nl @ ''b'' @ nl" by simp
  then show ?thesis using files imported[THEN conjunct2] by (intro exI[of _ cl] exI[of _ cl'] conjI) simp_all
qed

end
