(* ===== verification/Webhook.thy ===== *)
theory Webhook
  imports Claim
begin

text \<open>
  internal/adapters/cel/admission.go and internal/adapters/webhook/server.go: the observer that
  turns an admission into evidence, and the validating webhook that checks pods against the
  least-privilege invariants. Decoding of requests and pods is an argument. A response carries the
  evidence handed to the sink, if any. The TLS listener is not modelled.
\<close>

section \<open>Evidence of an admission\<close>

definition new_admission_observer :: "authority_ref \<Rightarrow> authority_ref" where
  "new_admission_observer identity =
     (if a_scheme identity = []
      then \<lparr>a_scheme = ''spiffe'', a_subject = ''prod/ns/ckodex-assurance/sa/cel-admission-observer'',
            a_trust_domain = ''prod''\<rparr>
      else identity)"

record admission_policy =
  vp_name :: string
  vp_generation :: int
  vp_validations :: "(string \<times> string) list"

definition policy_raw :: "admission_policy \<Rightarrow> string" where
  "policy_raw policy =
     vp_name policy @ ''|'' @ show_int (vp_generation policy) @ ''|'' @
     concat (map (\<lambda>(expression, message). expression @ '';'' @ (if message \<noteq> [] then message @ '';'' else []))
       (vp_validations policy))"

definition compute_policy_digest :: "admission_policy \<Rightarrow> string" where
  "compute_policy_digest policy = ''sha256:'' @ hex_encode (sha256 (policy_raw policy))"

definition generate_admission_evidence ::
  "authority_ref \<Rightarrow> subject_ref \<Rightarrow> admission_policy \<Rightarrow> bool \<Rightarrow> epoch \<Rightarrow> time \<Rightarrow> envelope result" where
  "generate_admission_evidence observer subject policy allowed ep now =
     (if \<not> allowed then Err (''resource admission was denied by policy '' @ vp_name policy)
      else
        let policy_dig = compute_policy_digest policy;
            raw_payload = ''admission|'' @ subject_uri subject @ ''|'' @ vp_name policy @ ''|allowed=true|'' @
              show_int (unix_sec now);
            artifact_digest = compute_string_digest raw_payload
        in Ok \<lparr>ev_schema = evidence_schema, ev_id = ''ev-adm-'' @ show_int (unix_nano now),
               ev_subject = subject, ev_observation_type = ''kubernetes.admission'', ev_captured_at = now,
               ev_producer = observer,
               ev_artifact = \<lparr>e_uri = ''evidence://admission/'' @ smap_get (s_attributes subject) ''namespace'' @
                   ''/'' @ smap_get (s_attributes subject) ''name'',
                 e_digest = artifact_digest, e_media_type = ''application/vnd.ckodex.evidence+json''\<rparr>,
               ev_integrity_digest = artifact_digest, ev_signature_ref = [],
               ev_epoch = ep\<lparr>policy_digest := policy_dig\<rparr>,
               ev_control_refs = [control ''ckodex'' ''container.least-privilege'']\<rparr>)"

definition sample_restricted_policy :: admission_policy where
  "sample_restricted_policy =
     \<lparr>vp_name = ''workloads-least-privilege-cel'', vp_generation = 1,
      vp_validations =
        [(''object.spec.template.spec.securityContext.runAsNonRoot == true'',
          ''Pod must configure runAsNonRoot to true''),
         (''!has(object.spec.template.spec.containers[0].securityContext.privileged) || object.spec.template.spec.containers[0].securityContext.privileged == false'',
          ''Privileged containers are strictly prohibited'')]\<rparr>"

section \<open>Pods\<close>

record pod_security =
  ps_run_as_non_root :: "bool option"
  ps_run_as_user :: "int option"

record security_context =
  sc_run_as_user :: "int option"
  sc_run_as_non_root :: "bool option"
  sc_privileged :: "bool option"
  sc_allow_privilege_escalation :: "bool option"
  sc_capabilities_add :: "string list option"

record container =
  cn_name :: string
  cn_security :: "security_context option"

record pod =
  pd_name :: string
  pd_generate_name :: string
  pd_security :: "pod_security option"
  pd_containers :: "container list"
  pd_init_containers :: "container list"

definition all_containers :: "pod \<Rightarrow> container list" where
  "all_containers p = pd_containers p @ pd_init_containers p"

definition pod_non_root :: "pod \<Rightarrow> bool" where
  "pod_non_root p = (case pd_security p of Some sc \<Rightarrow> ps_run_as_non_root sc = Some True | None \<Rightarrow> False)"

definition pod_user_zero :: "pod \<Rightarrow> bool" where
  "pod_user_zero p = (case pd_security p of Some sc \<Rightarrow> ps_run_as_user sc = Some 0 | None \<Rightarrow> False)"

definition non_root_violations :: "bool \<Rightarrow> container \<Rightarrow> string list" where
  "non_root_violations default_non_root c =
     (let default_missing = ''container '' @ cn_name c @ '' does not specify runAsNonRoot and pod default is not enforced''
      in case cn_security c of
           Some sc \<Rightarrow>
             (if sc_run_as_user sc = Some 0 then [''container '' @ cn_name c @ '' defines runAsUser=0 (root)''] else []) @
             (if sc_run_as_non_root sc = Some False
              then [''container '' @ cn_name c @ '' explicitly sets runAsNonRoot=false''] else []) @
             (if sc_run_as_non_root sc = None \<and> \<not> default_non_root then [default_missing] else [])
         | None \<Rightarrow> if \<not> default_non_root then [default_missing] else [])"

definition check_non_root_compliance :: "pod \<Rightarrow> string list" where
  "check_non_root_compliance p =
     (if pod_user_zero p then [''pod SecurityContext defines runAsUser=0 (root)''] else []) @
     concat (map (non_root_violations (pod_non_root p)) (all_containers p))"

definition prohibited_capability :: "string \<Rightarrow> bool" where
  "prohibited_capability c = (c = ''CAP_SYS_ADMIN'' \<or> c = ''SYS_ADMIN'' \<or> c = ''CAP_NET_ADMIN'' \<or> c = ''NET_ADMIN'')"

definition capability_violations :: "container \<Rightarrow> string list" where
  "capability_violations c =
     (case cn_security c of
        None \<Rightarrow> []
      | Some sc \<Rightarrow>
          (if sc_privileged sc = Some True then [''container '' @ cn_name c @ '' requests privileged mode''] else []) @
          (if sc_allow_privilege_escalation sc = Some True
           then [''container '' @ cn_name c @ '' allows privilege escalation''] else []) @
          (case sc_capabilities_add sc of
             None \<Rightarrow> []
           | Some caps \<Rightarrow> map (\<lambda>cap. ''container '' @ cn_name c @ '' adds prohibited capability '' @ cap)
               (filter prohibited_capability caps)))"

definition check_capability_compliance :: "pod \<Rightarrow> string list" where
  "check_capability_compliance p = concat (map capability_violations (all_containers p))"

section \<open>The decision\<close>

record webhook_config =
  w_observer :: authority_ref
  w_has_sink :: bool
  w_mode :: string

record admission_request =
  q_kind :: string
  q_name :: string
  q_namespace :: string
  q_uid :: string
  q_object :: string

record admission_response =
  p_uid :: string
  p_allowed :: bool
  p_message :: "string option"
  p_annotations :: smap
  p_warnings :: "string list"

definition response :: "bool \<Rightarrow> string option \<Rightarrow> smap \<Rightarrow> string list \<Rightarrow> admission_response" where
  "response allowed message annotations warnings =
     \<lparr>p_uid = [], p_allowed = allowed, p_message = message, p_annotations = annotations, p_warnings = warnings\<rparr>"

definition pod_name :: "admission_request \<Rightarrow> pod \<Rightarrow> string" where
  "pod_name req p =
     (let n = q_name req;
          n = (if n = [] \<and> pd_name p \<noteq> [] then pd_name p else n);
          n = (if n = [] \<and> pd_generate_name p \<noteq> [] then pd_generate_name p @ q_uid req else n)
      in if n = [] then q_uid req else n)"

definition request_subject :: "admission_request \<Rightarrow> pod \<Rightarrow> subject_ref" where
  "request_subject req p =
     \<lparr>s_scheme = ''k8s'', s_id = q_namespace req @ ''/Pod/'' @ pod_name req p,
      s_attributes = [(''namespace'', q_namespace req), (''name'', pod_name req p), (''uid'', q_uid req)]\<rparr>"

definition webhook_epoch :: "authority_ref \<Rightarrow> subject_ref \<Rightarrow> epoch" where
  "webhook_epoch observer sub =
     \<lparr>subject_digest = subject_ref_digest sub,
      implementation_digest = compute_string_digest ''kubernetes:validating-webhook'',
      policy_digest = [],
      authority_digest = compute_string_digest (authority_canonical observer),
      environment_digest = compute_string_digest ''cluster:kubernetes''\<rparr>"

definition all_violations :: "pod \<Rightarrow> string list" where
  "all_violations p = check_non_root_compliance p @ check_capability_compliance p"

definition effective_mode :: "webhook_config \<Rightarrow> string" where
  "effective_mode cfg = (if w_mode cfg = [] then ''enforcing'' else w_mode cfg)"

text \<open>The response, and the evidence given to the sink. The observer of the server is made from
  the configured authority; the epoch of the evidence names the configured authority itself.\<close>

definition validate_request ::
  "(string \<Rightarrow> pod result) \<Rightarrow> webhook_config \<Rightarrow> time \<Rightarrow> admission_request \<Rightarrow> admission_response \<times> envelope option" where
  "validate_request dec cfg now req =
     (if q_kind req \<noteq> ''Pod'' then (response True None [] [], None)
      else case dec (q_object req) of
          Inl e \<Rightarrow> (response False (Some (''failed to unmarshal Pod object: '' @ e)) [] [], None)
        | Inr p \<Rightarrow>
            let sub = request_subject req p;
                ep = webhook_epoch (w_observer cfg) sub;
                violations = all_violations p;
                mode = effective_mode cfg;
                summary = join_str ''; '' violations
            in if violations \<noteq> [] then
                 if mode = ''enforcing''
                 then (response False (Some (''Admission denied by policy: '' @ summary)) [] [], None)
                 else (response True None
                        [(''assurance.ckodex.io/admitted-in-degraded-mode'', ''true''),
                         (''assurance.ckodex.io/webhook-mode'', mode),
                         (''assurance.ckodex.io/violations'', summary)]
                        (if mode = ''warn'' then violations else []), None)
               else (case generate_admission_evidence (new_admission_observer (w_observer cfg)) sub
                            sample_restricted_policy True ep now of
                   Inl e \<Rightarrow> (response False (Some (''Failed to generate in-flight admission evidence: '' @ e)) [] [], None)
                 | Inr env \<Rightarrow>
                     (response True None
                        [(''assurance.ckodex.io/admission-envelope-id'', ev_id env),
                         (''assurance.ckodex.io/admission-envelope-digest'', ev_integrity_digest env),
                         (''assurance.ckodex.io/assurance-epoch'', composite_digest (ev_epoch env))] [],
                      if w_has_sink cfg then Some env else None)))"

text \<open>The HTTP handler: a status with its text, or the review that is sent.\<close>

definition handle_validate ::
  "(string \<Rightarrow> admission_request option result) \<Rightarrow> (string \<Rightarrow> pod result) \<Rightarrow> (admission_response \<Rightarrow> string result) \<Rightarrow>
     webhook_config \<Rightarrow> time \<Rightarrow> string \<Rightarrow> string result \<Rightarrow> (int \<times> string) \<times> envelope option" where
  "handle_validate dec_review dec_pod enc cfg now meth body =
     (if meth \<noteq> ''POST'' then ((405, ''method not allowed''), None)
      else case body of
          Inl e \<Rightarrow> ((400, ''could not read request body: '' @ e), None)
        | Inr data \<Rightarrow>
            (case dec_review data of
               Inl e \<Rightarrow> ((400, ''could not decode admission review: '' @ e), None)
             | Inr None \<Rightarrow> ((400, ''admission review request is nil''), None)
             | Inr (Some req) \<Rightarrow>
                 (case validate_request dec_pod cfg now req of
                   (resp, env) \<Rightarrow>
                     (case enc (resp\<lparr>p_uid := q_uid req\<rparr>) of
                        Inl e \<Rightarrow> ((500, ''could not encode response: '' @ e), env)
                      | Inr out \<Rightarrow> ((200, out), env)))))"

definition handle_healthz :: "int \<times> string" where
  "handle_healthz = (200, ''ok'')"

definition handle_readyz :: "int \<times> string" where
  "handle_readyz = (200, ''ready'')"

section \<open>The least-privilege invariants\<close>

definition container_least_privilege :: "bool \<Rightarrow> container \<Rightarrow> bool" where
  "container_least_privilege default_non_root c =
     (case cn_security c of
        None \<Rightarrow> default_non_root
      | Some sc \<Rightarrow>
          (sc_run_as_non_root sc = Some True \<or> (sc_run_as_non_root sc = None \<and> default_non_root)) \<and>
          sc_run_as_user sc \<noteq> Some 0 \<and> sc_privileged sc \<noteq> Some True \<and>
          sc_allow_privilege_escalation sc \<noteq> Some True \<and>
          (\<forall>caps. sc_capabilities_add sc = Some caps \<longrightarrow> \<not> list_ex prohibited_capability caps))"

definition least_privilege :: "pod \<Rightarrow> bool" where
  "least_privilege p =
     (\<not> pod_user_zero p \<and> list_all (container_least_privilege (pod_non_root p)) (all_containers p))"

lemma container_violations_empty:
  "non_root_violations d c = [] \<and> capability_violations c = [] \<longleftrightarrow> container_least_privilege d c"
proof (cases "cn_security c")
  case (Some sc)
  have "non_root_violations d c = [] \<longleftrightarrow>
      (sc_run_as_non_root sc = Some True \<or> (sc_run_as_non_root sc = None \<and> d)) \<and> sc_run_as_user sc \<noteq> Some 0"
    by (cases "sc_run_as_non_root sc") (auto simp: Some non_root_violations_def Let_def)
  moreover have "capability_violations c = [] \<longleftrightarrow>
      sc_privileged sc \<noteq> Some True \<and> sc_allow_privilege_escalation sc \<noteq> Some True \<and>
      (\<forall>caps. sc_capabilities_add sc = Some caps \<longrightarrow> \<not> list_ex prohibited_capability caps)"
    by (cases "sc_capabilities_add sc") (simp_all add: Some capability_violations_def filter_empty_conv list_ex_iff)
  ultimately show ?thesis by (auto simp: Some container_least_privilege_def)
qed (simp add: non_root_violations_def capability_violations_def container_least_privilege_def Let_def)

lemma all_violations_empty: "all_violations p = [] \<longleftrightarrow> least_privilege p"
proof -
  have "all_violations p = [] \<longleftrightarrow> \<not> pod_user_zero p \<and>
      (\<forall>c\<in>set (all_containers p). non_root_violations (pod_non_root p) c = [] \<and> capability_violations c = [])"
    by (auto simp: all_violations_def check_non_root_compliance_def check_capability_compliance_def)
  then show ?thesis by (simp add: container_violations_empty least_privilege_def list_all_iff)
qed

lemma admission_evidence_ok:
  "\<exists>env. generate_admission_evidence ob s pol True ep now = Ok env \<and> ev_subject env = s \<and>
     ev_observation_type env = ''kubernetes.admission'' \<and> ev_captured_at env = now \<and> ev_producer env = ob \<and>
     ev_epoch env = ep\<lparr>policy_digest := compute_policy_digest pol\<rparr> \<and>
     ev_integrity_digest env = e_digest (ev_artifact env)"
  by (simp add: generate_admission_evidence_def Let_def)

lemma response_simps [simp]:
  "p_allowed (response a m n w) = a" "p_message (response a m n w) = m" "p_annotations (response a m n w) = n"
  "p_warnings (response a m n w) = w"
  by (simp_all add: response_def)

lemma validate_pod:
  assumes "q_kind req = ''Pod''" and "dec (q_object req) = Inr p"
  shows "p_allowed (fst (validate_request dec cfg now req)) \<longleftrightarrow> least_privilege p \<or> effective_mode cfg \<noteq> ''enforcing''"
    "snd (validate_request dec cfg now req) \<noteq> None \<longleftrightarrow> least_privilege p \<and> w_has_sink cfg"
    "p_warnings (fst (validate_request dec cfg now req)) =
       (if effective_mode cfg = ''warn'' then all_violations p else [])"
proof -
  obtain env where env: "generate_admission_evidence (new_admission_observer (w_observer cfg)) (request_subject req p)
      sample_restricted_policy True (webhook_epoch (w_observer cfg) (request_subject req p)) now = Ok env"
    using admission_evidence_ok by blast
  note d = validate_request_def[of dec cfg now req] and v = all_violations_empty[of p]
  show "p_allowed (fst (validate_request dec cfg now req)) \<longleftrightarrow> least_privilege p \<or> effective_mode cfg \<noteq> ''enforcing''"
    using assms env v by (simp add: d Let_def)
  show "snd (validate_request dec cfg now req) \<noteq> None \<longleftrightarrow> least_privilege p \<and> w_has_sink cfg"
    using assms env v by (simp add: d Let_def)
  show "p_warnings (fst (validate_request dec cfg now req)) =
       (if effective_mode cfg = ''warn'' then all_violations p else [])"
    using assms env v by (auto simp: d Let_def)
qed

section \<open>Properties\<close>

text \<open>
  C14: in its default and in its enforcing mode the webhook admits a pod exactly when all of its containers and
  its defaults keep least privilege, and it hands evidence to the sink exactly for the pods that do;
  in every other mode, known or not, it admits all pods that parse. Requests for other kinds are
  admitted, and pods that do not parse refused, in every mode.
\<close>

lemma admission_decision:
  "let (resp, sunk) = validate_request dec cfg now req in
     if q_kind req \<noteq> ''Pod'' then p_allowed resp \<and> sunk = None
     else case dec (q_object req) of
         Inl e \<Rightarrow> \<not> p_allowed resp \<and> sunk = None
       | Inr p \<Rightarrow>
           (p_allowed resp \<longleftrightarrow> \<not> (w_mode cfg \<in> {[], ''enforcing''} \<and> \<not> least_privilege p)) \<and>
           (sunk \<noteq> None \<longleftrightarrow> least_privilege p \<and> w_has_sink cfg) \<and>
           p_warnings resp = (if w_mode cfg = ''warn'' then all_violations p else [])"
proof (cases "q_kind req = ''Pod''")
  case False
  then show ?thesis by (simp add: validate_request_def)
next
  case True
  show ?thesis
  proof (cases "dec (q_object req)")
    case (Inr p)
    have "effective_mode cfg = ''enforcing'' \<longleftrightarrow> w_mode cfg \<in> {[], ''enforcing''}"
      "effective_mode cfg = ''warn'' \<longleftrightarrow> w_mode cfg = ''warn''"
      by (simp_all add: effective_mode_def)
    then show ?thesis using validate_pod[of req dec p cfg now, OF True Inr]
      by (auto simp: Inr True case_prod_unfold)
  qed (simp add: True validate_request_def)
qed

text \<open>
  Further: the evidence of an admission is about the pod, at the time of the request and by the observer, carries
  the digest of the policy in its epoch and matches the epoch of the request up to the policy; it
  supports every requirement for admission evidence that accepts the observer, as long as it is fresh.
\<close>

lemma admission_evidence:
  "case generate_admission_evidence ob s pol allowed ep now of
     Inl e \<Rightarrow> \<not> allowed
   | Inr env \<Rightarrow> allowed \<and> ev_subject env = s \<and> ev_captured_at env = now \<and> ev_producer env = ob \<and>
       epoch_diff (ev_epoch env) (ep\<lparr>policy_digest := compute_policy_digest pol\<rparr>) = [] \<and>
       (supports req (ep\<lparr>policy_digest := []\<rparr>) t env \<longleftrightarrow>
          matches_evidence_type ''kubernetes.admission'' (r_evidence_type req) \<and>
          is_producer_accepted req (authority_canonical ob) \<and> is_fresh req now t)"
proof (cases allowed)
  case True
  then show ?thesis
    using admission_evidence_ok[of ob s pol ep now]
    by (auto simp: supports_def relevant_def epoch_diff_empty epoch_matches_def)
qed (simp add: generate_admission_evidence_def)

end
