(* ===== verification/Webhook_Server.thy ===== *)
theory Webhook_Server
  imports Webhook
begin

text \<open>
  internal/adapters/webhook/tls.go and the server of internal/adapters/webhook/server.go, with the
  set-up of the webhook command in cmd/oskal/main.go: the certificate, the routes, the evidence
  sink and the start of the listener. Key generation, X.509, PEM, the listener and the file system
  are arguments; keys are opaque.
\<close>

section \<open>The self-signed certificate\<close>

record cert_template =
  tc_serial :: int
  tc_common_name :: string
  tc_organization :: "string list"
  tc_not_before :: time
  tc_not_after :: time
  tc_key_usage :: "string list"
  tc_ext_key_usage :: "string list"
  tc_basic_constraints :: bool
  tc_is_ca :: bool
  tc_dns_names :: "string list"
  tc_ip_addresses :: "string list"

record 'k cert_library =
  xl_generate :: "'k result"
  xl_serial :: "int \<Rightarrow> int result"
  xl_create :: "cert_template \<Rightarrow> 'k \<Rightarrow> string result"
  xl_marshal :: "'k \<Rightarrow> string result"
  xl_pem :: "string \<Rightarrow> string \<Rightarrow> string result"

definition cert_of :: "int \<Rightarrow> time \<Rightarrow> string \<Rightarrow> string list \<Rightarrow> string list \<Rightarrow> cert_template" where
  "cert_of serial now common_name dns_names ips =
     (let not_before = now - 5 * minute
      in \<lparr>tc_serial = serial, tc_common_name = common_name, tc_organization = [''CKODEX Assurance''],
          tc_not_before = not_before, tc_not_after = not_before + 365 * 24 * hour,
          tc_key_usage = [''KeyEncipherment'', ''DigitalSignature'', ''CertSign''], tc_ext_key_usage = [''ServerAuth''],
          tc_basic_constraints = True, tc_is_ca = True, tc_dns_names = dns_names, tc_ip_addresses = ips\<rparr>)"

definition generate_self_signed_cert ::
  "'k cert_library \<Rightarrow> time \<Rightarrow> string \<Rightarrow> string list \<Rightarrow> string list \<Rightarrow> (string \<times> string) result" where
  "generate_self_signed_cert xl now common_name dns_names ips =
     (case xl_generate xl of
        Inl e \<Rightarrow> Err (''failed to generate RSA private key: '' @ e)
      | Inr priv \<Rightarrow>
          (case xl_serial xl (2 ^ 128) of
             Inl e \<Rightarrow> Err (''failed to generate serial number: '' @ e)
           | Inr serial \<Rightarrow>
               (case xl_create xl (cert_of serial now common_name dns_names ips) priv of
                  Inl e \<Rightarrow> Err (''failed to create x509 certificate: '' @ e)
                | Inr der \<Rightarrow>
                    (case xl_pem xl ''CERTIFICATE'' der of
                       Inl e \<Rightarrow> Err (''failed to encode certificate PEM: '' @ e)
                     | Inr cert_pem \<Rightarrow>
                         (case xl_marshal xl priv of
                            Inl e \<Rightarrow> Err (''failed to marshal private key: '' @ e)
                          | Inr bytes \<Rightarrow>
                              (case xl_pem xl ''PRIVATE KEY'' bytes of
                                 Inl e \<Rightarrow> Err (''failed to encode private key PEM: '' @ e)
                               | Inr key_pem \<Rightarrow> Ok (cert_pem, key_pem)))))))"

section \<open>The server\<close>

record server_config =
  sv_listen :: string
  sv_cert_path :: string
  sv_key_path :: string
  sv_cert :: string
  sv_key :: string
  sv_hook :: webhook_config

text \<open>The routes of the server; the answer of another path is the one of the standard library.\<close>

definition serve ::
  "(string \<Rightarrow> admission_request option result) \<Rightarrow> (string \<Rightarrow> pod result) \<Rightarrow> (admission_response \<Rightarrow> string result) \<Rightarrow>
     webhook_config \<Rightarrow> time \<Rightarrow> string \<Rightarrow> string \<Rightarrow> string result \<Rightarrow> (int \<times> string) \<times> envelope option" where
  "serve dec_review dec_pod enc cfg now path meth body =
     (if path = ''/validate'' then handle_validate dec_review dec_pod enc cfg now meth body
      else if path = ''/healthz'' then (handle_healthz, None)
      else if path = ''/readyz'' then (handle_readyz, None)
      else ((404, ''404 page not found''), None))"

text \<open>How listening ended: the server was closed, or failed.\<close>

datatype listen_end = ServerClosed | ListenFailed string

text \<open>The error of the start; a pair in memory takes precedence over the files.\<close>

definition start_server ::
  "(string \<Rightarrow> string \<Rightarrow> string option) \<Rightarrow> (string \<Rightarrow> string \<Rightarrow> listen_end) \<Rightarrow> server_config \<Rightarrow> string option" where
  "start_server key_pair listen cfg =
     (let finish = (\<lambda>end. case end of ServerClosed \<Rightarrow> None | ListenFailed e \<Rightarrow> Some e)
      in if sv_cert cfg \<noteq> [] \<and> sv_key cfg \<noteq> []
         then (case key_pair (sv_cert cfg) (sv_key cfg) of
             Some e \<Rightarrow> Some (''failed to parse in-memory TLS key pair: '' @ e)
           | None \<Rightarrow> finish (listen [] []))
         else finish (listen (sv_cert_path cfg) (sv_key_path cfg)))"

section \<open>The webhook command\<close>

record webhook_flags =
  wf_listen :: string
  wf_cert_file :: string
  wf_key_file :: string
  wf_self_signed :: bool
  wf_service :: string
  wf_namespace :: string
  wf_evidence_dir :: string
  wf_mode :: string

definition service_dns_names :: "string \<Rightarrow> string \<Rightarrow> string list" where
  "service_dns_names service ns =
     [service, service @ ''.'' @ ns, service @ ''.'' @ ns @ ''.svc'', service @ ''.'' @ ns @ ''.svc.cluster.local'', ''localhost'']"

definition flags_hook :: "webhook_flags \<Rightarrow> webhook_config" where
  "flags_hook fl =
     \<lparr>w_observer = \<lparr>a_scheme = ''k8s:admission-controller'', a_subject = wf_namespace fl @ ''/'' @ wf_service fl, a_trust_domain = []\<rparr>,
      w_has_sink = (wf_evidence_dir fl \<noteq> []), w_mode = wf_mode fl\<rparr>"

definition webhook_server_config :: "(string \<Rightarrow> string option) \<Rightarrow> 'k cert_library \<Rightarrow> time \<Rightarrow> webhook_flags \<Rightarrow> server_config result" where
  "webhook_server_config mkdir xl now fl =
     (let cfg = \<lparr>sv_listen = wf_listen fl, sv_cert_path = wf_cert_file fl, sv_key_path = wf_key_file fl, sv_cert = [], sv_key = [],
            sv_hook = flags_hook fl\<rparr>;
          made = (if wf_evidence_dir fl \<noteq> [] then mkdir (wf_evidence_dir fl) else None)
      in case made of
           Some e \<Rightarrow> Err (''failed to create evidence directory: '' @ e)
         | None \<Rightarrow>
             if wf_self_signed fl \<and> (wf_cert_file fl = [] \<or> wf_key_file fl = [])
             then (case generate_self_signed_cert xl now (wf_service fl) (service_dns_names (wf_service fl) (wf_namespace fl))
                       [''127.0.0.1''] of
                 Inl e \<Rightarrow> Err (''failed to generate self-signed cert: '' @ e)
               | Inr (cert, key) \<Rightarrow> Ok (cfg\<lparr>sv_cert := cert, sv_key := key\<rparr>))
             else Ok cfg)"

definition webhook_banner :: "webhook_flags \<Rightarrow> string" where
  "webhook_banner fl =
     ''OSKAL Validating Admission Webhook listening on '' @ wf_listen fl @ '' (TLS enabled, mode: '' @
     (if wf_mode fl = [] then ''enforcing'' else wf_mode fl) @ '')''"

text \<open>The file that the sink of the command writes, if it can be written; the errors of the encoder and of the
  write are dropped.\<close>

definition sink_file ::
  "(envelope \<Rightarrow> string result) \<Rightarrow> (string \<Rightarrow> string option) \<Rightarrow> string \<Rightarrow> envelope \<Rightarrow> (string \<times> string) option" where
  "sink_file enc write dir env =
     (case enc env of
        Inl e \<Rightarrow> None
      | Inr data \<Rightarrow>
          let filename = join_str ''/'' [dir, ev_id env @ ''.json'']
          in case write filename of Some e \<Rightarrow> None | None \<Rightarrow> Some (filename, data))"

section \<open>Lemmas\<close>

lemma handle_validate_answer:
  assumes "handle_validate dec_review dec_pod enc cfg now meth body = ((status, out), env)"
  shows "status \<in> {200, 400, 405, 500} \<and> (env = None \<or> (meth = ''POST'' \<and> status \<in> {200, 500} \<and>
    (\<exists>req. env = snd (validate_request dec_pod cfg now req))))"
proof (cases "meth = ''POST''")
  case True
  show ?thesis
  proof (cases body)
    case (Inr data)
    show ?thesis
    proof (cases "dec_review data")
      case review: (Inr r)
      show ?thesis
      proof (cases r)
        case (Some req)
        obtain resp e where v: "validate_request dec_pod cfg now req = (resp, e)" by (metis prod.exhaust)
        have "env = e \<and> status \<in> {200, 500}"
          using assms True Inr review Some v by (cases "enc (resp\<lparr>p_uid := q_uid req\<rparr>)") (auto simp: handle_validate_def)
        then show ?thesis using True v by (metis insertCI insertE singletonD snd_conv)
      qed (use assms True Inr review in \<open>simp add: handle_validate_def\<close>)
    qed (use assms True Inr in \<open>simp add: handle_validate_def\<close>)
  qed (use assms True in \<open>simp add: handle_validate_def\<close>)
qed (use assms in \<open>simp add: handle_validate_def\<close>)

lemma evidence_needs_sink: "snd (validate_request dec_pod cfg now req) \<noteq> None \<Longrightarrow> w_has_sink cfg"
  by (auto simp: validate_request_def Let_def split: if_splits sum.splits)

section \<open>Properties\<close>

text \<open>
  Further: the certificate that is generated for the webhook names the service under all its cluster names, is valid from five
  minutes before its creation for exactly a year, and is an authority; the error of any step of its generation
  fails it, and a successful start of the command has a certificate in memory or both files.
\<close>

lemma webhook_certificate:
  assumes "webhook_server_config mkdir xl now fl = Ok cfg"
    and "\<forall>kind data pem. xl_pem xl kind data = Ok pem \<longrightarrow> pem \<noteq> []" and "wf_self_signed fl"
  shows "if wf_cert_file fl \<noteq> [] \<and> wf_key_file fl \<noteq> []
    then sv_cert cfg = [] \<and> sv_key cfg = [] \<and> sv_cert_path cfg = wf_cert_file fl \<and> sv_key_path cfg = wf_key_file fl
    else \<exists>priv serial der bytes. xl_generate xl = Ok priv \<and> xl_marshal xl priv = Ok bytes \<and>
      (let tc = cert_of serial now (wf_service fl) (service_dns_names (wf_service fl) (wf_namespace fl)) [''127.0.0.1'']
       in xl_create xl tc priv = Ok der \<and> tc_not_before tc < now \<and> now < tc_not_after tc \<and>
          set (tc_dns_names tc) \<supseteq> {wf_service fl, wf_service fl @ ''.'' @ wf_namespace fl @ ''.svc''}) \<and>
      sv_cert cfg \<noteq> [] \<and> sv_key cfg \<noteq> [] \<and>
      xl_pem xl ''CERTIFICATE'' der = Ok (sv_cert cfg) \<and> xl_pem xl ''PRIVATE KEY'' bytes = Ok (sv_key cfg)"
proof (cases "wf_cert_file fl \<noteq> [] \<and> wf_key_file fl \<noteq> []")
  case True
  with assms(1) show ?thesis
    by (auto simp: webhook_server_config_def Let_def split: option.splits if_splits)
next
  case False
  let ?names = "service_dns_names (wf_service fl) (wf_namespace fl)"
  from assms(1,3) False obtain cert key where gen: "generate_self_signed_cert xl now (wf_service fl) ?names [''127.0.0.1''] = Ok (cert, key)"
    and cfg: "sv_cert cfg = cert" "sv_key cfg = key"
    by (auto simp: webhook_server_config_def Let_def split: option.splits if_splits sum.splits)
  from gen obtain priv serial der bytes where steps: "xl_generate xl = Ok priv"
    "xl_create xl (cert_of serial now (wf_service fl) ?names [''127.0.0.1'']) priv = Ok der"
    "xl_pem xl ''CERTIFICATE'' der = Ok cert" "xl_marshal xl priv = Ok bytes" "xl_pem xl ''PRIVATE KEY'' bytes = Ok key"
    by (auto simp: generate_self_signed_cert_def split: sum.splits)
  have pem: "cert \<noteq> []" "key \<noteq> []" using assms(2) steps(3,5) by blast+
  have times: "now - 5 * minute < now" "now < now - 5 * minute + 365 * 24 * hour" by (simp_all add: minute_def hour_def second_def)
  show ?thesis
    unfolding if_not_P[OF False] cfg Let_def
    by (intro exI[where x = priv] exI[where x = serial] exI[where x = der] exI[where x = bytes] conjI steps pem)
      (use times in \<open>simp_all add: cert_of_def service_dns_names_def Let_def\<close>)
qed

lemma webhook_certificate_witness:
  "\<exists>cfg. webhook_server_config (\<lambda>d. None)
      \<lparr>xl_generate = Ok (), xl_serial = Ok, xl_create = (\<lambda>t k. Ok ''der''), xl_marshal = (\<lambda>k. Ok ''key''), xl_pem = (\<lambda>kind d. Ok ''pem'')\<rparr> 0
      \<lparr>wf_listen = [], wf_cert_file = [], wf_key_file = [], wf_self_signed = True, wf_service = ''svc'', wf_namespace = ''ns'',
       wf_evidence_dir = [], wf_mode = []\<rparr> = Ok cfg \<and> sv_cert cfg \<noteq> []"
proof -
  let ?xl = "\<lparr>xl_generate = Ok (), xl_serial = Ok, xl_create = (\<lambda>t k. Ok ''der''), xl_marshal = (\<lambda>k. Ok ''key''), xl_pem = (\<lambda>kind d. Ok ''pem'')\<rparr>"
  let ?fl = "\<lparr>wf_listen = [], wf_cert_file = [], wf_key_file = [], wf_self_signed = True, wf_service = ''svc'', wf_namespace = ''ns'',
       wf_evidence_dir = [], wf_mode = []\<rparr>"
  have "\<exists>cfg. webhook_server_config (\<lambda>d. None) ?xl 0 ?fl = Ok cfg"
    by (simp add: webhook_server_config_def generate_self_signed_cert_def Let_def)
  then obtain cfg where cfg: "webhook_server_config (\<lambda>d. None) ?xl 0 ?fl = Ok cfg" ..
  from webhook_certificate[OF cfg] cfg show ?thesis by (auto simp: Let_def)
qed

text \<open>
  Further: every path has an answer, evidence only comes from an admitted POST to the validating route, and a path that is
  not one of the three routes is not found.
\<close>

lemma served_requests:
  assumes "serve dec_review dec_pod enc cfg now path meth body = ((status, out), env)"
  shows "status \<in> {200, 400, 404, 405, 500} \<and>
    (env \<noteq> None \<longrightarrow> path = ''/validate'' \<and> meth = ''POST'' \<and> status \<in> {200, 500} \<and> w_has_sink cfg) \<and>
    (status = 404 \<longleftrightarrow> path \<notin> {''/validate'', ''/healthz'', ''/readyz''})"
proof (cases "path = ''/validate''")
  case True
  have "handle_validate dec_review dec_pod enc cfg now meth body = ((status, out), env)"
    using assms True by (simp add: serve_def)
  from handle_validate_answer[OF this] show ?thesis using True evidence_needs_sink[of dec_pod cfg now] by auto
next
  case False
  with assms show ?thesis by (auto simp: serve_def handle_healthz_def handle_readyz_def split: if_splits)
qed

lemma served_requests_witness:
  "fst (fst (serve (\<lambda>d. Ok None) (\<lambda>p. Err ''e'') (\<lambda>r. Ok ''r'') \<lparr>w_observer = \<lparr>a_scheme = [], a_subject = [], a_trust_domain = []\<rparr>,
     w_has_sink = True, w_mode = []\<rparr> 0 ''/metrics'' ''GET'' (Ok []))) = 404"
proof -
  let ?cfg = "\<lparr>w_observer = \<lparr>a_scheme = [], a_subject = [], a_trust_domain = []\<rparr>, w_has_sink = True, w_mode = []\<rparr>"
  obtain st out env where s: "serve (\<lambda>d. Ok None) (\<lambda>p. Err ''e'') (\<lambda>r. Ok ''r'') ?cfg 0 ''/metrics'' ''GET'' (Ok []) = ((st, out), env)"
    by (metis prod.exhaust)
  from served_requests[OF s] show ?thesis by (simp add: s)
qed

end
