(* ===== verification/Cockpit.thy ===== *)
theory Cockpit
  imports Terminal Receipts Json
begin

text \<open>
  internal/ui/cockpit/cockpit.go: the dashboard. A frame is the text written at a time; the loop
  consumes the ticks of its timer, the signal to stop and the end of its context, one at a time.
\<close>

record cockpit =
  cp_refresh :: duration
  cp_once :: bool
  cp_evidence_dir :: string
  cp_subject :: string

definition new_cockpit :: "cockpit \<Rightarrow> cockpit" where
  "new_cockpit cfg = (if cp_refresh cfg \<le> 0 then cfg\<lparr>cp_refresh := 2 * second\<rparr> else cfg)"

record workload_status =
  ws_subject :: string
  ws_state :: string
  ws_presence :: string
  ws_valence :: string
  ws_coherence :: string
  ws_evidence_root :: string
  ws_freshness :: string
  ws_controls :: string

definition cockpit_evidence :: evidence_ref where
  "cockpit_evidence =
     \<lparr>e_uri = ''cas://sha256/admission-payments-api.json'',
      e_digest = compute_string_digest (subject_uri \<lparr>s_scheme = ''k8s'', s_id = ''prod/payments/Deployment/payments-api'', s_attributes = []\<rparr>),
      e_media_type = ''application/json''\<rparr>"

definition gather_workloads :: "cockpit \<Rightarrow> workload_status list" where
  "gather_workloads c =
     [\<lparr>ws_subject = (if cp_subject c = [] then ''k8s://prod/payments/Deployment/payments-api'' else cp_subject c),
       ws_state = ''ASSURED'', ws_presence = ''PRESENT'', ws_valence = ''POSITIVE'', ws_coherence = ''COHERENT'',
       ws_evidence_root = compute_evidence_root [cockpit_evidence], ws_freshness = ''FRESH (<5m)'',
       ws_controls = ''AC-6, CM-6, SC-28''\<rparr>,
      \<lparr>ws_subject = ''k8s://prod/auth/Deployment/auth-service'', ws_state = ''ASSURED'', ws_presence = ''PRESENT'',
       ws_valence = ''POSITIVE'', ws_coherence = ''COHERENT'', ws_evidence_root = compute_string_digest ''auth-service-root'',
       ws_freshness = ''FRESH (<2m)'', ws_controls = ''AC-6, SC-28''\<rparr>]"

definition short_root :: "string \<Rightarrow> string" where
  "short_root root = (if length root > 12 then take 12 root @ ''...'' else root)"

definition workload_row :: "workload_status \<Rightarrow> string list" where
  "workload_row ws =
     [ws_subject ws, ws_state ws, ws_presence ws, ws_valence ws, ws_coherence ws, short_root (ws_evidence_root ws), ws_freshness ws]"

definition lineage_lines :: "workload_status list \<Rightarrow> string list" where
  "lineage_lines wss =
     (case wss of
        ws # _ \<Rightarrow> [''  * Active Root:     '' @ ws_evidence_root ws,
          ''  * Authority Trust: spiffe://assurance.ckodex.io/server (SPIRE verified)'',
          ''  * Semantic Drift:  0 dimensions drifted (In Sync)'']
      | [] \<Rightarrow> [''  * Active Root:     none (no workloads observed)''])"

definition render_snapshot :: "cockpit \<Rightarrow> time \<Rightarrow> string" where
  "render_snapshot c now =
     (let divider = replicate 78 CHR ''=''; thin = replicate 78 CHR ''-''; wss = gather_workloads c;
          written = (\<lambda>ls. concat (map (\<lambda>l. l @ nl) ls))
      in written [divider, ''  OSKAL ASSURANCE COCKPIT -- CONTINUOUS KUBERNETES ASSURANCE'',
           ''  Time: '' @ rfc3339 now @ '' | Mode: NORMAL | OSCAL: v1.2.3 | Spec: NIST SP 800-53'', divider] @
         render_table [''SUBJECT'', ''STATE'', ''PRESENCE'', ''VALENCE'', ''COHERENCE'', ''EVIDENCE ROOT'', ''FRESHNESS'']
           (map workload_row wss) @
         written ([thin, ''  CRYPTOGRAPHIC MERKLE LINEAGE & RECONCILIATION:''] @ lineage_lines wss @
           [thin, ''  [Press Ctrl+C to exit cockpit]'', divider]))"

section \<open>The loop\<close>

datatype cockpit_event = Tick time | StopSignal | ContextDone string

datatype cockpit_end = Running | Returned "string option"

definition clear_screen :: string where
  "clear_screen = [CHR 0x1B] @ ''[H'' @ [CHR 0x1B] @ ''[2J''"

fun cockpit_loop :: "cockpit \<Rightarrow> cockpit_event list \<Rightarrow> string \<times> cockpit_end" where
  "cockpit_loop c [] = ([], Running)"
| "cockpit_loop c (Tick now # evs) =
     (case cockpit_loop c evs of (out, end) \<Rightarrow> (clear_screen @ render_snapshot c now @ out, end))"
| "cockpit_loop c (StopSignal # evs) = (nl @ ''[OSKAL Cockpit exited gracefully]'' @ nl, Returned None)"
| "cockpit_loop c (ContextDone e # evs) = ([], Returned (Some e))"

definition cockpit_run :: "cockpit \<Rightarrow> time \<Rightarrow> cockpit_event list \<Rightarrow> string \<times> cockpit_end" where
  "cockpit_run c start evs =
     (if cp_once c then (render_snapshot c start, Returned None)
      else case cockpit_loop c evs of (out, end) \<Rightarrow> (render_snapshot c start @ out, end))"

section \<open>Properties\<close>

text \<open>
  Further: the dashboard does not look at any evidence: whatever the evidence directory, it shows the same frames, in which
  every workload, also one named by the filter that does not exist, is ASSURED, present and fresh.
\<close>

lemma cockpit_ignores_evidence:
  "cockpit_run (c\<lparr>cp_evidence_dir := dir\<rparr>) start evs = cockpit_run c start evs \<and>
   list_all (\<lambda>ws. ws_state ws = ''ASSURED'' \<and> ws_presence ws = ''PRESENT'' \<and> has_prefix (ws_freshness ws) ''FRESH'') (gather_workloads c) \<and>
   ws_subject (hd (gather_workloads c)) = (if cp_subject c = [] then ''k8s://prod/payments/Deployment/payments-api'' else cp_subject c)"
proof -
  have snap: "render_snapshot (c\<lparr>cp_evidence_dir := dir\<rparr>) now = render_snapshot c now" for now
    by (simp add: render_snapshot_def gather_workloads_def)
  have "cockpit_loop (c\<lparr>cp_evidence_dir := dir\<rparr>) evs = cockpit_loop c evs"
  proof (induction evs)
    case (Cons ev evs)
    then show ?case by (cases ev) (simp_all add: snap split: prod.split)
  qed simp
  then show ?thesis by (simp add: cockpit_run_def snap gather_workloads_def has_prefix_def split: prod.split)
qed

text \<open>
  Further: the loop ends exactly when it is stopped or its context ends, and only the latter is an error; until then it keeps
  running.
\<close>

lemma cockpit_ends:
  "snd (cockpit_loop c evs) =
     (case filter (\<lambda>ev. case ev of Tick now \<Rightarrow> False | _ \<Rightarrow> True) evs of
        [] \<Rightarrow> Running
      | ev # _ \<Rightarrow> Returned (case ev of ContextDone e \<Rightarrow> Some e | _ \<Rightarrow> None))"
  by (induction c evs rule: cockpit_loop.induct) (auto split: prod.split)

end
