(* ===== verification/Cli_Main.thy ===== *)
theory Cli_Main
  imports Cli_Reports Webhook_Server Cockpit
begin

text \<open>
  cmd/oskal/main.go, the command tree: the commands with their flags and defaults, the daemons, and
  a run of the program from its parsed command line to its exit status. Parsing the line is the
  library's; the process with its files, services, codecs and clock is an argument.
\<close>

section \<open>Daemons\<close>

text \<open>How a run stands: it waits, has panicked, or has returned.\<close>

datatype run_state = Waiting outcome | Panicked | Exited outcome

text \<open>
  What a daemon meets: evidence of an admission, the signal to stop, with the error of the shutdown,
  and the end of its listener.
\<close>

datatype daemon_event = Admitted envelope | StopRequested "string option" | ListenerEnded listen_end

definition says :: "string \<Rightarrow> outcome \<Rightarrow> outcome" where
  "says line oc = oc\<lparr>oc_out := oc_out oc @ line @ nl\<rparr>"

text \<open>A listener that was closed without an error is not noticed.\<close>

fun webhook_wait ::
  "(envelope \<Rightarrow> string result) \<Rightarrow> (string \<Rightarrow> string option) \<Rightarrow> (listen_end \<Rightarrow> string option) \<Rightarrow> string \<Rightarrow> outcome \<Rightarrow>
     daemon_event list \<Rightarrow> run_state" where
  "webhook_wait enc write start dir oc [] = Waiting oc"
| "webhook_wait enc write start dir oc (Admitted env # evs) =
     webhook_wait enc write start dir
       (if dir = [] then oc else (case sink_file enc write dir env of None \<Rightarrow> oc | Some f \<Rightarrow> oc\<lparr>oc_files := oc_files oc @ [f]\<rparr>)) evs"
| "webhook_wait enc write start dir oc (StopRequested e # evs) =
     Exited ((says ''Shutting down OSKAL Validating Admission Webhook...'' oc)\<lparr>oc_error := e\<rparr>)"
| "webhook_wait enc write start dir oc (ListenerEnded how # evs) =
     (case start how of
        None \<Rightarrow> webhook_wait enc write start dir oc evs
      | Some e \<Rightarrow> Exited (oc\<lparr>oc_error := Some (''webhook server error: '' @ e)\<rparr>))"

definition webhook_command ::
  "(string \<Rightarrow> string option) \<Rightarrow> 'k cert_library \<Rightarrow> (string \<Rightarrow> string \<Rightarrow> string option) \<Rightarrow> (envelope \<Rightarrow> string result) \<Rightarrow>
     (string \<Rightarrow> string option) \<Rightarrow> time \<Rightarrow> webhook_flags \<Rightarrow> daemon_event list \<Rightarrow> run_state" where
  "webhook_command mkdir xl key_pair enc write now fl evs =
     (case webhook_server_config mkdir xl now fl of
        Inl e \<Rightarrow> Exited (failed_with e)
      | Inr cfg \<Rightarrow> webhook_wait enc write (\<lambda>how. start_server key_pair (\<lambda>c k. how) cfg) (wf_evidence_dir fl)
          (done_with (webhook_banner fl @ nl)) evs)"

text \<open>The gRPC daemon returns when its server does, after a graceful stop without an error.\<close>

fun serve_wait :: "bool \<Rightarrow> outcome \<Rightarrow> daemon_event list \<Rightarrow> run_state" where
  "serve_wait stopping oc [] = Waiting oc"
| "serve_wait stopping oc (Admitted env # evs) = serve_wait stopping oc evs"
| "serve_wait stopping oc (StopRequested e # evs) =
     serve_wait True (if stopping then oc else says ''Shutting down OSKAL AssuranceService gRPC daemon...'' oc) evs"
| "serve_wait stopping oc (ListenerEnded how # evs) =
     (case how of
        ServerClosed \<Rightarrow> Exited oc
      | ListenFailed e \<Rightarrow> Exited (oc\<lparr>oc_error := Some (''gRPC server error: '' @ e)\<rparr>))"

definition serve_command :: "(int \<Rightarrow> string option) \<Rightarrow> int \<Rightarrow> daemon_event list \<Rightarrow> run_state" where
  "serve_command listen port evs =
     (case listen port of
        Some e \<Rightarrow> Exited (failed_with (''failed to listen on port '' @ show_int port @ '': '' @ e))
      | None \<Rightarrow> serve_wait False (done_with (''OSKAL AssuranceService gRPC daemon listening on port '' @ show_int port @ nl)) evs)"

section \<open>The command tree\<close>

datatype cli_command =
    StateCmd | ExplainCmd | EvidenceCmd | DriftCmd | VerifyReceiptCmd | RecordAdmissionCmd | ExportCmd doc_type | ImportCmd
  | ServeCmd | WebhookCmd | ValidateCmd | ScaffoldCmd | DoctorCmd | InspectCmd | McpCmd | CockpitCmd | ConfigViewCmd
  | ConfigInitCmd | PruneCmd

definition command_table :: "(string list \<times> cli_command) list" where
  "command_table =
     [([''assurance'', ''state''], StateCmd), ([''assurance'', ''explain''], ExplainCmd), ([''assurance'', ''evidence''], EvidenceCmd),
      ([''assurance'', ''drift''], DriftCmd), ([''assurance'', ''receipt'', ''verify''], VerifyReceiptCmd),
      ([''record'', ''admission''], RecordAdmissionCmd), ([''export'', ''assessment-results''], ExportCmd AssessmentResults),
      ([''export'', ''component-definition''], ExportCmd ComponentDefinition), ([''export'', ''assessment-plan''], ExportCmd AssessmentPlan),
      ([''export'', ''ssp''], ExportCmd SecurityPlan), ([''export'', ''poam''], ExportCmd ActionPlan),
      ([''import'', ''oscal''], ImportCmd), ([''serve''], ServeCmd), ([''webhook''], WebhookCmd), ([''validate''], ValidateCmd),
      ([''scaffold''], ScaffoldCmd), ([''doctor''], DoctorCmd), ([''inspect''], InspectCmd), ([''mcp''], McpCmd),
      ([''cockpit''], CockpitCmd), ([''config'', ''view''], ConfigViewCmd), ([''config'', ''init''], ConfigInitCmd), ([''prune''], PruneCmd)]"

datatype flag_value = FString string | FBool bool | FInt int | FDuration duration

definition subject_flag_table :: "(string \<times> flag_value) list" where
  "subject_flag_table = [(''subject-kind'', FString []), (''subject-name'', FString []), (''subject-namespace'', FString [])]"

text \<open>The flags of each command with their defaults.\<close>

definition explain_flag_table :: "(string \<times> flag_value) list" where
  "explain_flag_table = (''control'', FString ''nist-sp-800-53:AC-6'') # subject_flag_table"

definition verify_flag_table :: "(string \<times> flag_value) list" where
  "verify_flag_table = [(''receipt-id'', FString []), (''receipt-file'', FString [])]"

definition record_flag_table :: "(string \<times> flag_value) list" where
  "record_flag_table = [(''file'', FString []), (''evidence-dir'', FString [])]"

definition import_flag_table :: "(string \<times> flag_value) list" where
  "import_flag_table = [(''file'', FString []), (''namespace'', FString ''default''), (''output-dir'', FString [])]"

definition webhook_flag_table :: "(string \<times> flag_value) list" where
  "webhook_flag_table =
     [(''listen'', FString '':8443''), (''tls-cert-file'', FString []), (''tls-key-file'', FString []), (''self-signed'', FBool True),
      (''service-name'', FString ''oskal-webhook''), (''namespace'', FString ''ckodex-system''), (''evidence-dir'', FString []),
      (''mode'', FString ''enforcing'')]"

definition validate_flag_table :: "(string \<times> flag_value) list" where
  "validate_flag_table = [(''schema'', FString ''auto''), (''output'', FString ''table'')]"

definition scaffold_flag_table :: "(string \<times> flag_value) list" where
  "scaffold_flag_table =
     [(''workload'', FString ''example-app''), (''namespace'', FString ''default''), (''output-dir'', FString []), (''output'', FString ''yaml'')]"

definition inspect_flag_table :: "(string \<times> flag_value) list" where
  "inspect_flag_table = [(''output'', FString ''table''), (''control'', FString ''nist-sp-800-53:AC-6'')]"

definition cockpit_flag_table :: "(string \<times> flag_value) list" where
  "cockpit_flag_table = [(''refresh'', FDuration (2 * second)), (''once'', FBool False), (''subject'', FString [])]"

definition prune_flag_table :: "(string \<times> flag_value) list" where
  "prune_flag_table = [(''older-than'', FDuration (720 * hour)), (''dry-run'', FBool False)]"

fun command_flags :: "cli_command \<Rightarrow> (string \<times> flag_value) list" where
  "command_flags StateCmd = subject_flag_table"
| "command_flags ExplainCmd = explain_flag_table"
| "command_flags EvidenceCmd = subject_flag_table"
| "command_flags DriftCmd = subject_flag_table"
| "command_flags VerifyReceiptCmd = verify_flag_table"
| "command_flags RecordAdmissionCmd = record_flag_table"
| "command_flags (ExportCmd t) = [(if t = ComponentDefinition then ''component'' else ''subject'', FString [])]"
| "command_flags ImportCmd = import_flag_table"
| "command_flags ServeCmd = [(''port'', FInt 9090)]"
| "command_flags WebhookCmd = webhook_flag_table"
| "command_flags ValidateCmd = validate_flag_table"
| "command_flags ScaffoldCmd = scaffold_flag_table"
| "command_flags DoctorCmd = [(''output'', FString ''table'')]"
| "command_flags InspectCmd = inspect_flag_table"
| "command_flags McpCmd = []"
| "command_flags CockpitCmd = cockpit_flag_table"
| "command_flags ConfigViewCmd = []"
| "command_flags ConfigInitCmd = []"
| "command_flags PruneCmd = prune_flag_table"

text \<open>How many arguments a command takes, checked before anything else.\<close>

definition args_error :: "cli_command \<Rightarrow> nat \<Rightarrow> string option" where
  "args_error cmd n =
     (if cmd \<in> {ValidateCmd, InspectCmd} \<and> n \<noteq> 1 then Some (''accepts 1 arg(s), received '' @ show_nat n)
      else if cmd \<in> {StateCmd, ExplainCmd, EvidenceCmd, DriftCmd, ScaffoldCmd} \<and> n > 1
      then Some (''accepts at most 1 arg(s), received '' @ show_nat n)
      else None)"

section \<open>Runs\<close>

type_synonym given = "string \<Rightarrow> flag_value option"

definition flag_of :: "cli_command \<Rightarrow> given \<Rightarrow> string \<Rightarrow> flag_value" where
  "flag_of cmd given name =
     (case given name of
        Some v \<Rightarrow> v
      | None \<Rightarrow> (case map_of (command_flags cmd) name of Some v \<Rightarrow> v | None \<Rightarrow> FString []))"

definition string_flag :: "cli_command \<Rightarrow> given \<Rightarrow> string \<Rightarrow> string" where
  "string_flag cmd given name = (case flag_of cmd given name of FString s \<Rightarrow> s | _ \<Rightarrow> [])"

definition bool_flag :: "cli_command \<Rightarrow> given \<Rightarrow> string \<Rightarrow> bool" where
  "bool_flag cmd given name = (case flag_of cmd given name of FBool b \<Rightarrow> b | _ \<Rightarrow> False)"

definition int_flag :: "cli_command \<Rightarrow> given \<Rightarrow> string \<Rightarrow> int" where
  "int_flag cmd given name = (case flag_of cmd given name of FInt i \<Rightarrow> i | FDuration d \<Rightarrow> d | _ \<Rightarrow> 0)"

definition subject_flags_of :: "cli_command \<Rightarrow> given \<Rightarrow> subject_flags" where
  "subject_flags_of cmd given =
     \<lparr>sg_kind = string_flag cmd given ''subject-kind'', sg_name = string_flag cmd given ''subject-name'',
      sg_namespace = string_flag cmd given ''subject-namespace''\<rparr>"

definition webhook_flags_of :: "given \<Rightarrow> webhook_flags" where
  "webhook_flags_of given =
     (let s = string_flag WebhookCmd given
      in \<lparr>wf_listen = s ''listen'', wf_cert_file = s ''tls-cert-file'', wf_key_file = s ''tls-key-file'',
          wf_self_signed = bool_flag WebhookCmd given ''self-signed'', wf_service = s ''service-name'', wf_namespace = s ''namespace'',
          wf_evidence_dir = s ''evidence-dir'', wf_mode = s ''mode''\<rparr>)"

text \<open>A flag of the root command, unless the command declares one of the same name itself.\<close>

definition root_flag :: "cli_command \<Rightarrow> given \<Rightarrow> string \<Rightarrow> string option" where
  "root_flag cmd given name =
     (if name \<in> fst ` set (command_flags cmd) then None
      else case given name of Some (FString s) \<Rightarrow> Some s | _ \<Rightarrow> None)"

definition config_flag :: "given \<Rightarrow> string" where
  "config_flag given = (case given ''config'' of Some (FString f) \<Rightarrow> f | _ \<Rightarrow> [])"

record 'k process =
  pr_cli :: cli_env
  pr_store :: store
  pr_remote :: remote
  pr_config :: config_world
  pr_receipt :: "string \<Rightarrow> control_receipt result"
  pr_manifest :: "string \<Rightarrow> (string \<times> string \<times> string) result"
  pr_envelope :: "envelope \<Rightarrow> string result"
  pr_config_text :: "config_fields \<Rightarrow> string result"
  pr_certs :: "'k cert_library"
  pr_key_pair :: "string \<Rightarrow> string \<Rightarrow> string option"
  pr_listen :: "int \<Rightarrow> string option"
  pr_events :: "daemon_event list"
  pr_lines :: "(bool \<times> mcp_env \<times> string) list"
  pr_scan_error :: "string option"
  pr_response :: "rpc_response \<Rightarrow> string"
  pr_ticks :: "cockpit_event list"

definition printed_lines :: "string list result \<Rightarrow> outcome" where
  "printed_lines r = (case r of Inl e \<Rightarrow> failed_with e | Inr ls \<Rightarrow> done_with (lines_text ls))"

definition mcp_command :: "'k process \<Rightarrow> globals \<Rightarrow> run_state" where
  "mcp_command pr gl =
     (case new_mcp_server (cl_compiled (pr_cli pr)) fresh (gl_evidence_dir gl) of
        Inl e \<Rightarrow> Exited (failed_with e)
      | Inr sv \<Rightarrow>
          (case mcp_run (pr_scan_error pr) sv (pr_lines pr) of
             (outs, Ended e) \<Rightarrow> Exited ((done_with (lines_text (map (pr_response pr) outs)))\<lparr>oc_error := e\<rparr>)
           | (outs, Cancelled) \<Rightarrow> Exited ((done_with (lines_text (map (pr_response pr) outs)))\<lparr>oc_error := Some ''context canceled''\<rparr>)
           | (outs, Crashed) \<Rightarrow> Panicked))"

definition cockpit_command :: "'k process \<Rightarrow> globals \<Rightarrow> given \<Rightarrow> run_state" where
  "cockpit_command pr gl given =
     (case cockpit_run (new_cockpit \<lparr>cp_refresh = int_flag CockpitCmd given ''refresh'', cp_once = bool_flag CockpitCmd given ''once'',
             cp_evidence_dir = gl_evidence_dir gl, cp_subject = string_flag CockpitCmd given ''subject''\<rparr>)
         (cl_now (pr_cli pr)) (pr_ticks pr) of
        (out, Running) \<Rightarrow> Waiting (done_with out)
      | (out, Returned e) \<Rightarrow> Exited ((done_with out)\<lparr>oc_error := e\<rparr>))"

definition or_panic :: "outcome option \<Rightarrow> run_state" where
  "or_panic oc = (case oc of None \<Rightarrow> Panicked | Some oc \<Rightarrow> Exited oc)"

definition execute :: "'k process \<Rightarrow> globals \<Rightarrow> cli_command \<Rightarrow> given \<Rightarrow> string list \<Rightarrow> run_state" where
  "execute pr gl cmd given args =
     (let cl = pr_cli pr; so = pr_store pr; now = cl_now cl; s = string_flag cmd given; fl = subject_flags_of cmd given;
          arg = (case args of a # _ \<Rightarrow> a | [] \<Rightarrow> []); mkdir = fs_mkdir (cl_fs cl); write = fs_write (cl_fs cl)
      in case cmd of
           StateCmd \<Rightarrow> Exited (printed_lines (state_command (pr_remote pr) so now gl args fl))
         | ExplainCmd \<Rightarrow> Exited (printed (explain_command (pr_remote pr) so now gl args fl (s ''control'')))
         | EvidenceCmd \<Rightarrow> Exited (printed_lines (evidence_command so gl args fl))
         | DriftCmd \<Rightarrow> Exited (printed_lines (drift_command so now gl args fl))
         | VerifyReceiptCmd \<Rightarrow> Exited (printed_lines
             (verify_receipt_command (cl_read cl) (pr_receipt pr) now gl (s ''receipt-id'') (s ''receipt-file'') args))
         | RecordAdmissionCmd \<Rightarrow>
             (case record_admission_command (cl_read cl) (pr_manifest pr) mkdir (pr_envelope pr) write now gl
                 (s ''file'') (s ''evidence-dir'') of
                Inl e \<Rightarrow> Exited (failed_with e)
              | Inr (f, ls) \<Rightarrow> Exited ((done_with (lines_text ls))\<lparr>oc_files := [f]\<rparr>))
         | ExportCmd t \<Rightarrow> Exited (export_command cl so gl t (s (if t = ComponentDefinition then ''component'' else ''subject'')))
         | ImportCmd \<Rightarrow> Exited (import_command cl (s ''file'') (s ''namespace'') (s ''output-dir''))
         | ServeCmd \<Rightarrow> serve_command (pr_listen pr) (int_flag ServeCmd given ''port'') (pr_events pr)
         | WebhookCmd \<Rightarrow> webhook_command mkdir (pr_certs pr) (pr_key_pair pr) (pr_envelope pr) write now (webhook_flags_of given)
             (pr_events pr)
         | ValidateCmd \<Rightarrow> or_panic (validate_command cl arg (s ''schema'') (s ''output''))
         | ScaffoldCmd \<Rightarrow> Exited (scaffold_command cl args (s ''namespace'') (s ''workload'') (s ''output-dir'') (s ''output''))
         | DoctorCmd \<Rightarrow> or_panic (doctor_command cl gl (s ''output''))
         | InspectCmd \<Rightarrow> Exited (inspect_command cl so gl arg (s ''control'') (s ''output''))
         | McpCmd \<Rightarrow> mcp_command pr gl
         | CockpitCmd \<Rightarrow> cockpit_command pr gl given
         | ConfigViewCmd \<Rightarrow> Exited (config_view_command (pr_config pr) (config_flag given))
         | ConfigInitCmd \<Rightarrow> Exited (config_init_command (pr_config pr) mkdir (pr_config_text pr) write args)
         | PruneCmd \<Rightarrow> Exited (snd (prune_command so (cl_keys cl) now (cl_elapsed cl 0) gl (int_flag PruneCmd given ''older-than'')
             (bool_flag PruneCmd given ''dry-run''))))"

text \<open>The path is that of a command that runs; for the path of a group the library prints its help instead.\<close>

definition run_cli :: "'k process \<Rightarrow> string list \<Rightarrow> given \<Rightarrow> string list \<Rightarrow> run_state" where
  "run_cli pr path given args =
     (case map_of command_table path of
        None \<Rightarrow> Exited (failed_with ''unknown command'')
      | Some cmd \<Rightarrow>
          (case args_error cmd (length args) of
             Some e \<Rightarrow> Exited (failed_with e)
           | None \<Rightarrow>
               (case pre_run (pr_config pr) (config_flag given) (root_flag cmd given ''server'') (root_flag cmd given ''evidence-dir'') of
                  Inl e \<Rightarrow> Exited (failed_with e)
                | Inr (server, dir) \<Rightarrow> execute pr \<lparr>gl_server = server, gl_evidence_dir = dir\<rparr> cmd given args)))"

text \<open>main: the exit status, of a run that has ended.\<close>

definition exit_status :: "run_state \<Rightarrow> int option" where
  "exit_status r =
     (case r of
        Waiting oc \<Rightarrow> None
      | Panicked \<Rightarrow> Some 2
      | Exited oc \<Rightarrow> Some (if oc_error oc = None then 0 else 1))"

section \<open>Lemmas\<close>

text \<open>The error of a key pair in memory, where one is used, and the events that leave the webhook running: evidence, and
  a listener that was closed without an error.\<close>

definition pair_error :: "(string \<Rightarrow> string \<Rightarrow> string option) \<Rightarrow> server_config \<Rightarrow> string option" where
  "pair_error key_pair cfg = (if sv_cert cfg \<noteq> [] \<and> sv_key cfg \<noteq> [] then key_pair (sv_cert cfg) (sv_key cfg) else None)"

definition quiet :: "bool \<Rightarrow> daemon_event \<Rightarrow> bool" where
  "quiet usable ev = (case ev of Admitted env \<Rightarrow> True | StopRequested e \<Rightarrow> False | ListenerEnded how \<Rightarrow> usable \<and> how = ServerClosed)"

definition admitted :: "daemon_event list \<Rightarrow> envelope list" where
  "admitted evs = concat (map (\<lambda>ev. case ev of Admitted env \<Rightarrow> [env] | _ \<Rightarrow> []) evs)"

lemma admitted_simps [simp]:
  "admitted [] = []" "admitted (ev # evs) = (case ev of Admitted env \<Rightarrow> [env] | _ \<Rightarrow> []) @ admitted evs"
  by (simp_all add: admitted_def)

text \<open>The files of the evidence directory: the evidence that can be encoded and whose file can be written.\<close>

definition evidence_files ::
  "(envelope \<Rightarrow> string result) \<Rightarrow> (string \<Rightarrow> string option) \<Rightarrow> string \<Rightarrow> envelope list \<Rightarrow> (string \<times> string) list" where
  "evidence_files enc write dir envs =
     (if dir = [] then []
      else map (\<lambda>env. (join_str ''/'' [dir, ev_id env @ ''.json''], projr (enc env)))
        (filter (\<lambda>env. is_ok (enc env) \<and> write (join_str ''/'' [dir, ev_id env @ ''.json'']) = None) envs))"

lemma evidence_files_Cons:
  "evidence_files enc write dir (env # envs) =
     (if dir = [] then [] else (case sink_file enc write dir env of None \<Rightarrow> [] | Some f \<Rightarrow> [f])) @ evidence_files enc write dir envs"
  by (simp add: evidence_files_def sink_file_def Let_def split: sum.split option.split)

lemma start_server_ended:
  "start_server key_pair (\<lambda>c k. how) cfg =
     (case pair_error key_pair cfg of
        Some e \<Rightarrow> Some (''failed to parse in-memory TLS key pair: '' @ e)
      | None \<Rightarrow> (case how of ServerClosed \<Rightarrow> None | ListenFailed e \<Rightarrow> Some e))"
  by (simp add: start_server_def pair_error_def Let_def split: option.split)

lemma webhook_wait_run:
  fixes key_pair cfg enc wr dir
  defines "q \<equiv> quiet (pair_error key_pair cfg = None)"
    and "wait \<equiv> webhook_wait enc wr (\<lambda>how. start_server key_pair (\<lambda>c k. how) cfg) dir"
  shows "let files = oc_files oc @ evidence_files enc wr dir (admitted (takeWhile q evs))
    in case dropWhile q evs of
      [] \<Rightarrow> wait oc evs = Waiting (oc\<lparr>oc_files := files\<rparr>)
    | StopRequested e # _ \<Rightarrow>
        wait oc evs = Exited ((says ''Shutting down OSKAL Validating Admission Webhook...'' oc)\<lparr>oc_files := files, oc_error := e\<rparr>)
    | ListenerEnded how # _ \<Rightarrow>
        wait oc evs = Exited (oc\<lparr>oc_files := files, oc_error := Some (''webhook server error: '' @
          (case pair_error key_pair cfg of
             Some e \<Rightarrow> ''failed to parse in-memory TLS key pair: '' @ e
           | None \<Rightarrow> (case how of ListenFailed e \<Rightarrow> e | ServerClosed \<Rightarrow> [])))\<rparr>)
    | Admitted env # _ \<Rightarrow> False"
proof (induction evs arbitrary: oc)
  case Nil
  then show ?case by (simp add: wait_def evidence_files_def)
next
  case (Cons ev evs)
  show ?case
  proof (cases "q ev")
    case True
    have step: "\<exists>fs. wait oc (ev # evs) = wait (oc\<lparr>oc_files := oc_files oc @ fs\<rparr>) evs \<and>
        evidence_files enc wr dir (admitted (ev # xs)) = fs @ evidence_files enc wr dir (admitted xs)" for xs
    proof (cases ev)
      case (Admitted env)
      then show ?thesis by (auto simp: wait_def evidence_files_Cons split: option.split)
    next
      case (ListenerEnded how)
      with True have "start_server key_pair (\<lambda>c k. how) cfg = None" by (simp add: q_def quiet_def start_server_ended)
      with ListenerEnded show ?thesis by (intro exI[of _ "[]"]) (simp add: wait_def)
    qed (use True in \<open>simp add: q_def quiet_def\<close>)
    then obtain fs where fs: "wait oc (ev # evs) = wait (oc\<lparr>oc_files := oc_files oc @ fs\<rparr>) evs"
      "evidence_files enc wr dir (admitted (ev # takeWhile q evs)) = fs @ evidence_files enc wr dir (admitted (takeWhile q evs))"
      by blast
    have head: "takeWhile q (ev # evs) = ev # takeWhile q evs" "dropWhile q (ev # evs) = dropWhile q evs"
      using True by simp_all
    note IH = Cons.IH[of "oc\<lparr>oc_files := oc_files oc @ fs\<rparr>"]
    show ?thesis
    proof (cases "dropWhile q evs")
      case Nil
      from IH[unfolded Nil Let_def list.case] show ?thesis unfolding head fs Nil Let_def list.case by simp
    next
      case rest: (Cons e es)
      with IH show ?thesis unfolding head fs Let_def by (cases e) (simp_all add: says_def)
    qed
  next
    case False
    then show ?thesis
      by (cases ev) (auto simp: q_def quiet_def wait_def start_server_ended says_def evidence_files_def split: option.split listen_end.split)
  qed
qed

definition run_files :: "run_state \<Rightarrow> (string \<times> string) list" where
  "run_files r = (case r of Waiting oc \<Rightarrow> oc_files oc | Panicked \<Rightarrow> [] | Exited oc \<Rightarrow> oc_files oc)"

lemma mcp_command_config [simp]: "mcp_command (pr\<lparr>pr_config := w\<rparr>) gl = mcp_command pr gl"
  by (simp add: mcp_command_def split: sum.split prod.split run_end.split)

lemma cockpit_command_config [simp]: "cockpit_command (pr\<lparr>pr_config := w\<rparr>) gl given = cockpit_command pr gl given"
  by (simp add: cockpit_command_def)

section \<open>Properties\<close>

text \<open>
  C36: when and how the webhook daemon ends, whatever it meets. It fails at once when its configuration does. Otherwise
  it prints its banner and runs on through admissions and through the closing of its listener without an error, which it does not
  notice. The first other event ends it: a request to stop, with a message and the error of the shutdown, or the end of its
  server, with the error of the key pair in memory or of the listener. Without such an event it waits. The files it has
  written by then are, in order, those of the evidence admitted before that event, as far as it could be encoded and the file
  written, and none without an evidence directory.
\<close>

lemma webhook_runs_until_stopped:
  "case webhook_server_config mkdir xl now fl of
     Inl e \<Rightarrow> webhook_command mkdir xl key_pair enc write now fl evs = Exited (failed_with e)
   | Inr cfg \<Rightarrow>
       (let r = webhook_command mkdir xl key_pair enc write now fl evs;
            q = quiet (pair_error key_pair cfg = None);
            banner = webhook_banner fl @ nl;
            files = evidence_files enc write (wf_evidence_dir fl) (admitted (takeWhile q evs))
        in case dropWhile q evs of
             [] \<Rightarrow> r = Waiting \<lparr>oc_out = banner, oc_err = [], oc_files = files, oc_error = None\<rparr>
           | StopRequested e # _ \<Rightarrow>
               r = Exited \<lparr>oc_out = banner @ ''Shutting down OSKAL Validating Admission Webhook...'' @ nl, oc_err = [],
                 oc_files = files, oc_error = e\<rparr>
           | ListenerEnded how # _ \<Rightarrow>
               r = Exited \<lparr>oc_out = banner, oc_err = [], oc_files = files,
                 oc_error = Some (''webhook server error: '' @
                   (case pair_error key_pair cfg of
                      Some e \<Rightarrow> ''failed to parse in-memory TLS key pair: '' @ e
                    | None \<Rightarrow> (case how of ListenFailed e \<Rightarrow> e | ServerClosed \<Rightarrow> [])))\<rparr>
           | Admitted env # _ \<Rightarrow> False)"
proof (cases "webhook_server_config mkdir xl now fl")
  case (Inr cfg)
  let ?rest = "dropWhile (quiet (pair_error key_pair cfg = None)) evs"
  note run = webhook_wait_run[where oc = "done_with (webhook_banner fl @ nl)" and enc = enc and wr = "write"
      and dir = "wf_evidence_dir fl" and evs = evs and key_pair = key_pair and cfg = cfg]
  show ?thesis
  proof (cases ?rest)
    case Nil
    from run[unfolded Nil Let_def list.case] show ?thesis
      unfolding Inr sum.case Nil Let_def list.case by (simp add: Inr webhook_command_def done_with_def)
  next
    case (Cons e es)
    from run[unfolded Cons Let_def list.case] show ?thesis
      unfolding Inr sum.case Cons Let_def list.case
      by (cases e) (simp_all add: Inr webhook_command_def done_with_def says_def)
  qed
qed (simp add: webhook_command_def)

text \<open>
  Further: of a configuration file only the server and the evidence directory are used: two processes whose configurations
  give the same of these two run every command but those that view and write configurations in the same way, so that a
  configured namespace, output format or profile has no effect.
\<close>

lemma configured_defaults_unused:
  assumes "load_config w' (config_flag given) = (cfg', src', err)" and "load_config (pr_config pr) (config_flag given) = (cfg, src, err)"
    and "cg_server cfg' = cg_server cfg" and "cg_evidence_dir cfg' = cg_evidence_dir cfg"
    and "map_of command_table path \<notin> {Some ConfigViewCmd, Some ConfigInitCmd}"
  shows "run_cli (pr\<lparr>pr_config := w'\<rparr>) path given args = run_cli pr path given args"
proof (cases "map_of command_table path")
  case (Some cmd)
  have exec: "execute (pr\<lparr>pr_config := w'\<rparr>) gl cmd given args = execute pr gl cmd given args" for gl
    using assms(5) Some
    by (cases cmd) (simp_all add: execute_def Let_def)
  have "pre_run w' (config_flag given) sf df = pre_run (pr_config pr) (config_flag given) sf df" for sf df
    using assms(1-4) by (simp add: pre_run_def split: option.split)
  then show ?thesis by (simp add: run_cli_def Some exec split: option.split sum.split prod.split)
qed (simp add: run_cli_def)

definition example_process :: "unit process" where
  "example_process =
     \<lparr>pr_cli = example_cli, pr_store = example_store, pr_remote = no_remote, pr_config = example_world\<lparr>cw_exists := \<lambda>p. False\<rparr>,
      pr_receipt = \<lambda>d. Err ''e'', pr_manifest = \<lambda>d. Err ''e'', pr_envelope = \<lambda>e. Ok ''x'', pr_config_text = \<lambda>c. Ok ''c'',
      pr_certs = \<lparr>xl_generate = Ok (), xl_serial = Ok, xl_create = \<lambda>t k. Ok ''d'', xl_marshal = \<lambda>k. Ok ''k'', xl_pem = \<lambda>kind d. Ok ''p''\<rparr>,
      pr_key_pair = \<lambda>c k. None, pr_listen = \<lambda>p. None, pr_events = [], pr_lines = [], pr_scan_error = None, pr_response = \<lambda>r. [],
      pr_ticks = []\<rparr>"

lemma example_configs:
  "\<exists>c src. load_config example_world [] = (c, src, None) \<and> cg_server c = ''host:9090'' \<and> cg_evidence_dir c = [] \<and> cg_namespace c = ''prod''"
  "\<exists>c src. load_config (example_world\<lparr>cw_exists := \<lambda>p. False\<rparr>) [] = (c, src, None) \<and> cg_server c = ''host:9090'' \<and>
     cg_evidence_dir c = [] \<and> cg_namespace c = ''default''"
proof -
  have "has_suffix ''.oskal.yaml'' ''.json'' = False" by code_simp
  then show "\<exists>c src. load_config example_world [] = (c, src, None) \<and> cg_server c = ''host:9090'' \<and> cg_evidence_dir c = [] \<and>
      cg_namespace c = ''prod''"
    "\<exists>c src. load_config (example_world\<lparr>cw_exists := \<lambda>p. False\<rparr>) [] = (c, src, None) \<and> cg_server c = ''host:9090'' \<and>
      cg_evidence_dir c = [] \<and> cg_namespace c = ''default''"
    by (simp_all add: load_config_def config_path_def find_config_file_def example_world_def set_fields_def override_env_def
        default_config_def Let_def)
qed

lemma configured_defaults_unused_witness:
  "cg_namespace (fst (load_config example_world [])) = ''prod'' \<and>
   cg_namespace (fst (load_config (pr_config example_process) [])) = ''default'' \<and>
   run_cli (example_process\<lparr>pr_config := example_world\<rparr>) [''scaffold''] Map.empty [] = run_cli example_process [''scaffold''] Map.empty []"
proof -
  obtain c1 s1 c2 s2 where 1: "load_config example_world [] = (c1, s1, None)" "cg_server c1 = ''host:9090''" "cg_evidence_dir c1 = []"
      "cg_namespace c1 = ''prod''"
    and 2: "load_config (example_world\<lparr>cw_exists := \<lambda>p. False\<rparr>) [] = (c2, s2, None)" "cg_server c2 = ''host:9090''"
      "cg_evidence_dir c2 = []" "cg_namespace c2 = ''default''"
    using example_configs by (elim exE conjE)
  have c: "pr_config example_process = example_world\<lparr>cw_exists := \<lambda>p. False\<rparr>" by (simp add: example_process_def)
  have "run_cli (example_process\<lparr>pr_config := example_world\<rparr>) [''scaffold''] Map.empty [] = run_cli example_process [''scaffold''] Map.empty []"
    by (rule configured_defaults_unused[where cfg' = c1 and cfg = c2 and src' = s1 and src = s2 and err = None])
      (simp_all add: c 1 2 config_flag_def command_table_def)
  then show ?thesis using 1 2 by (simp add: c)
qed

text \<open>
  Further: a known command with too many or too few arguments exits with status 1, writes nothing, and does so whatever the
  configuration: arguments are checked before the configuration is read.
\<close>

lemma wrong_arguments_exit:
  assumes "map_of command_table path = Some cmd" and "args_error cmd (length args) \<noteq> None"
  shows "exit_status (run_cli pr path given args) = Some 1 \<and> run_files (run_cli pr path given args) = [] \<and>
    run_cli (pr\<lparr>pr_config := w\<rparr>) path given args = run_cli pr path given args"
  using assms by (auto simp: run_cli_def exit_status_def failed_with_def run_files_def)

lemma wrong_arguments_exit_witness:
  "exit_status (run_cli example_process [''validate''] Map.empty [])  = Some 1"
  using wrong_arguments_exit[of "[''validate'']" ValidateCmd "[]" example_process Map.empty "pr_config example_process"]
  by (simp add: command_table_def args_error_def)

end
