(* ===== verification/Lease.thy ===== *)
theory Lease
  imports Sha256
begin

text \<open>
  core/assurance/lease.go and internal/adapters/workcell/broker.go: capability leases, the receipts
  that chain their turns, and the broker that gates the requests of agents. The int counters of the
  code are 64-bit words. The broker's map holds pointers; the model holds the leases themselves, so
  a caller that keeps a pointer and writes through it outside the broker is not covered. Telemetry
  is the list of records it receives.
\<close>

section \<open>Leases\<close>

datatype lease_phase = LeaseActive | LeaseExhausted | LeaseExpired | LeaseRevoked

fun phase_string :: "lease_phase \<Rightarrow> string" where
  "phase_string LeaseActive = ''ACTIVE''"
| "phase_string LeaseExhausted = ''EXHAUSTED''"
| "phase_string LeaseExpired = ''EXPIRED''"
| "phase_string LeaseRevoked = ''REVOKED''"

record check_receipt =
  rp_receipt_id :: string
  rp_lease_id :: string
  rp_turn :: int64
  rp_capability :: string
  rp_disposition :: string
  rp_reason :: string
  rp_payload_hash :: string
  rp_prev_hash :: string
  rp_hash :: string
  rp_timestamp :: time

definition check_receipt_raw :: "check_receipt \<Rightarrow> string" where
  "check_receipt_raw r =
     join_str ''|'' [rp_receipt_id r, rp_lease_id r, show_int (sint (rp_turn r)), rp_capability r,
       rp_disposition r, rp_payload_hash r, rp_prev_hash r, show_int (unix_nano (rp_timestamp r))]"

definition compute_hash :: "check_receipt \<Rightarrow> string" where
  "compute_hash r = hex_encode (sha256 (check_receipt_raw r))"

record lease =
  l_id :: string
  l_principal :: string
  l_scope :: string
  l_allowed :: "string list"
  l_max_turns :: int64
  l_current_turn :: int64
  l_issued_at :: time
  l_expires_at :: time
  l_revoked :: bool
  l_revocation_reason :: string
  l_last_hash :: string

definition genesis_hash :: string where
  "genesis_hash = replicate 64 CHR ''0''"

definition new_lease ::
  "time \<Rightarrow> string \<Rightarrow> string \<Rightarrow> string \<Rightarrow> string list \<Rightarrow> int64 \<Rightarrow> duration \<Rightarrow> lease" where
  "new_lease now i princ scope allowed max_turns ttl =
     \<lparr>l_id = i, l_principal = princ, l_scope = scope, l_allowed = allowed,
      l_max_turns = max_turns, l_current_turn = 0, l_issued_at = now, l_expires_at = now + ttl,
      l_revoked = False, l_revocation_reason = [], l_last_hash = genesis_hash\<rparr>"

definition phase :: "lease \<Rightarrow> time \<Rightarrow> lease_phase" where
  "phase l now =
     (if l_revoked l then LeaseRevoked
      else if l_expires_at l < now then LeaseExpired
      else if sint (l_max_turns l) > 0 \<and> sint (l_current_turn l) \<ge> sint (l_max_turns l) then LeaseExhausted
      else LeaseActive)"

definition revoke :: "lease \<Rightarrow> string \<Rightarrow> lease" where
  "revoke l reason = l\<lparr>l_revoked := True, l_revocation_reason := reason\<rparr>"

definition capability_allowed :: "lease \<Rightarrow> string \<Rightarrow> bool" where
  "capability_allowed l c = list_ex (\<lambda>a. a = c \<or> a = ''*'') (l_allowed l)"

definition seal_receipt :: "check_receipt \<Rightarrow> check_receipt" where
  "seal_receipt r = r\<lparr>rp_hash := compute_hash r\<rparr>"

definition turn_receipt :: "lease \<Rightarrow> string \<Rightarrow> string \<Rightarrow> string \<Rightarrow> time \<Rightarrow> check_receipt" where
  "turn_receipt l c payload prev_hash now =
     \<lparr>rp_receipt_id = ''rcpt-'' @ l_id l @ ''-turn-'' @ show_int (sint (l_current_turn l + 1)),
      rp_lease_id = l_id l, rp_turn = l_current_turn l + 1, rp_capability = c,
      rp_disposition = [], rp_reason = [], rp_payload_hash = hex_encode (sha256 payload),
      rp_prev_hash = prev_hash, rp_hash = [], rp_timestamp = now\<rparr>"

text \<open>The new lease, the receipt and the error, if any.\<close>

definition evaluate_turn ::
  "lease \<Rightarrow> string \<Rightarrow> string \<Rightarrow> string \<Rightarrow> time \<Rightarrow> lease \<times> check_receipt \<times> string option" where
  "evaluate_turn l c payload prev_hash now =
     (let current_phase = phase l now; receipt = turn_receipt l c payload prev_hash now;
          deny = (\<lambda>reason. receipt\<lparr>rp_disposition := ''DENY'', rp_reason := reason\<rparr>)
      in if prev_hash \<noteq> l_last_hash l then
           let r = deny (''chain violation: expected prev_receipt_hash '' @ l_last_hash l @ '', got '' @ prev_hash)
           in (l, seal_receipt r, Some (''cryptographic turn chain broken: '' @ rp_reason r))
         else if current_phase \<noteq> LeaseActive then
           let r = deny (''lease not active: current phase is '' @ phase_string current_phase)
           in (l, seal_receipt r, Some (''lease inactive: '' @ rp_reason r))
         else if \<not> capability_allowed l c then
           let r = deny (''capability '' @ quote1 @ c @ quote1 @ '' exceeds granted lease permissions'')
           in (l, seal_receipt r, Some (''capability denied: '' @ rp_reason r))
         else
           let r = seal_receipt (receipt\<lparr>rp_disposition := ''ADMIT'',
                     rp_reason := ''capability verified and admitted under active lease''\<rparr>)
           in (l\<lparr>l_current_turn := l_current_turn l + 1, l_last_hash := rp_hash r\<rparr>, r, None))"

section \<open>What a turn does\<close>

definition admissible :: "lease \<Rightarrow> string \<Rightarrow> string \<Rightarrow> time \<Rightarrow> bool" where
  "admissible l c prev_hash now =
     (prev_hash = l_last_hash l \<and> phase l now = LeaseActive \<and> capability_allowed l c)"

definition admitted_receipt :: "lease \<Rightarrow> string \<Rightarrow> string \<Rightarrow> time \<Rightarrow> check_receipt" where
  "admitted_receipt l c payload now =
     seal_receipt ((turn_receipt l c payload (l_last_hash l) now)
       \<lparr>rp_disposition := ''ADMIT'', rp_reason := ''capability verified and admitted under active lease''\<rparr>)"

lemma compute_hash_update [simp]:
  "compute_hash (r\<lparr>rp_hash := h\<rparr>) = compute_hash r" "compute_hash (r\<lparr>rp_reason := s\<rparr>) = compute_hash r"
  by (simp_all add: compute_hash_def check_receipt_raw_def)

lemma seal_receipt_simps [simp]:
  "rp_hash (seal_receipt r) = compute_hash r" "compute_hash (seal_receipt r) = compute_hash r"
  "rp_lease_id (seal_receipt r) = rp_lease_id r" "rp_turn (seal_receipt r) = rp_turn r"
  "rp_prev_hash (seal_receipt r) = rp_prev_hash r" "rp_capability (seal_receipt r) = rp_capability r"
  "rp_payload_hash (seal_receipt r) = rp_payload_hash r"
  "rp_disposition (seal_receipt r) = rp_disposition r" "rp_reason (seal_receipt r) = rp_reason r"
  by (simp_all add: seal_receipt_def)

lemma turn_receipt_simps [simp]:
  "rp_lease_id (turn_receipt l c p h now) = l_id l" "rp_turn (turn_receipt l c p h now) = l_current_turn l + 1"
  "rp_prev_hash (turn_receipt l c p h now) = h" "rp_capability (turn_receipt l c p h now) = c"
  "rp_payload_hash (turn_receipt l c p h now) = hex_encode (sha256 p)"
  by (simp_all add: turn_receipt_def)

lemma evaluate_turn_admit:
  "admissible l c prev_hash now \<Longrightarrow> evaluate_turn l c payload prev_hash now =
     (l\<lparr>l_current_turn := l_current_turn l + 1, l_last_hash := rp_hash (admitted_receipt l c payload now)\<rparr>,
      admitted_receipt l c payload now, None)"
  by (simp add: evaluate_turn_def admissible_def admitted_receipt_def Let_def)

lemma evaluate_turn_deny:
  assumes "\<not> admissible l c prev_hash now"
  shows "\<exists>r m. evaluate_turn l c payload prev_hash now = (l, r, Some m) \<and> rp_disposition r = ''DENY''"
  using assms by (auto simp: evaluate_turn_def admissible_def Let_def)

lemma evaluate_turn_receipt:
  "evaluate_turn l c payload prev_hash now = (l', r, err) \<Longrightarrow>
     rp_hash r = compute_hash r \<and> rp_lease_id r = l_id l \<and> rp_turn r = l_current_turn l + 1 \<and>
     rp_prev_hash r = prev_hash \<and> rp_capability r = c \<and> rp_payload_hash r = hex_encode (sha256 payload)"
  by (auto simp: evaluate_turn_def Let_def split: if_splits)

lemma evaluate_turn_frame:
  "evaluate_turn l c payload prev_hash now = (l', r, err) \<Longrightarrow>
     l_id l' = l_id l \<and> l_max_turns l' = l_max_turns l \<and> l_allowed l' = l_allowed l \<and>
     l_expires_at l' = l_expires_at l \<and> l_revoked l' = l_revoked l"
  by (auto simp: evaluate_turn_def Let_def split: if_splits)

text \<open>A lease that bounds its turns never counts beyond the bound; in particular the counter of
  such a lease never wraps.\<close>

definition turns_bounded :: "lease \<Rightarrow> bool" where
  "turns_bounded l =
     (0 \<le> sint (l_current_turn l) \<and> (0 < sint (l_max_turns l) \<longrightarrow> sint (l_current_turn l) \<le> sint (l_max_turns l)))"

lemma sint_succ:
  fixes a b :: int64
  assumes "sint a < sint b"
  shows "sint (a + 1) = sint a + 1"
proof -
  have "sint a < 2 ^ 63 - 1" using assms sint_lt[of b] by simp
  moreover have "- (2 ^ 63) \<le> sint a" using sint_ge[of a] by simp
  ultimately show ?thesis
    by (simp add: signed_take_bit_int_eq_self sint_word_ariths(1))
qed

lemma admit_bounded:
  assumes "turns_bounded l" and "phase l now = LeaseActive" and "0 < sint (l_max_turns l)"
  shows "sint (l_current_turn l + 1) = sint (l_current_turn l) + 1 \<and>
    sint (l_current_turn l) + 1 \<le> sint (l_max_turns l)"
proof -
  have "sint (l_current_turn l) < sint (l_max_turns l)"
    using assms(2,3) by (auto simp: phase_def split: if_splits)
  then show ?thesis using sint_succ by fastforce
qed

section \<open>The broker\<close>

datatype broker_log =
    EvidenceProcessed string string
  | ReceiptIssued string string
  | DriftInvalidation string string

record broker =
  b_leases :: "string \<rightharpoonup> lease"
  b_log :: "broker_log list"

definition new_broker :: broker where
  "new_broker = \<lparr>b_leases = Map.empty, b_log = []\<rparr>"

definition register_lease :: "broker \<Rightarrow> lease \<Rightarrow> broker" where
  "register_lease b l = b\<lparr>b_leases := (b_leases b)(l_id l \<mapsto> l)\<rparr>"

definition get_lease :: "broker \<Rightarrow> string \<Rightarrow> lease option" where
  "get_lease b i = b_leases b i"

definition request_execution ::
  "broker \<Rightarrow> string \<Rightarrow> string \<Rightarrow> string \<Rightarrow> string \<Rightarrow> time \<Rightarrow> broker \<times> check_receipt option \<times> string option" where
  "request_execution b lease_id c payload prev_hash now =
     (case b_leases b lease_id of
       None \<Rightarrow> (b\<lparr>b_log := b_log b @ [EvidenceProcessed c ''DENIED_NO_LEASE'']\<rparr>, None,
                Some (''no capability lease found with id '' @ quote1 @ lease_id @ quote1))
     | Some l \<Rightarrow>
         (case evaluate_turn l c payload prev_hash now of
           (l', rcpt, err) \<Rightarrow>
             (b\<lparr>b_leases := (b_leases b)(lease_id \<mapsto> l'),
                b_log := b_log b @ [EvidenceProcessed c (rp_disposition rcpt)] @
                  (if rp_disposition rcpt = ''ADMIT'' then [ReceiptIssued lease_id ''ADMITTED''] else [])\<rparr>,
              Some rcpt, err)))"

definition broker_revoke :: "broker \<Rightarrow> string \<Rightarrow> string \<Rightarrow> broker \<times> string option" where
  "broker_revoke b lease_id reason =
     (case b_leases b lease_id of
       None \<Rightarrow> (b, Some (''lease '' @ quote1 @ lease_id @ quote1 @ '' not found''))
     | Some l \<Rightarrow> (b\<lparr>b_leases := (b_leases b)(lease_id \<mapsto> revoke l reason),
                    b_log := b_log b @ [DriftInvalidation lease_id ''lease_revoked'']\<rparr>, None))"

text \<open>The calls a client makes once its leases are registered, each at the time of the clock.\<close>

datatype broker_call =
    Request string string string string time
  | Revoke string string

fun broker_step :: "broker \<Rightarrow> broker_call \<Rightarrow> broker" where
  "broker_step b (Request i c payload prev_hash now) = fst (request_execution b i c payload prev_hash now)"
| "broker_step b (Revoke i reason) = fst (broker_revoke b i reason)"

definition broker_receipt :: "broker \<Rightarrow> broker_call \<Rightarrow> check_receipt option" where
  "broker_receipt b call =
     (case call of Request i c payload prev_hash now \<Rightarrow> fst (snd (request_execution b i c payload prev_hash now))
      | Revoke i reason \<Rightarrow> None)"

fun broker_receipts :: "broker \<Rightarrow> broker_call list \<Rightarrow> check_receipt list" where
  "broker_receipts b [] = []"
| "broker_receipts b (call # calls) =
     (case broker_receipt b call of None \<Rightarrow> [] | Some r \<Rightarrow> [r]) @ broker_receipts (broker_step b call) calls"

definition admissions :: "string \<Rightarrow> broker \<Rightarrow> broker_call list \<Rightarrow> check_receipt list" where
  "admissions i b calls =
     filter (\<lambda>r. rp_disposition r = ''ADMIT'' \<and> rp_lease_id r = i) (broker_receipts b calls)"

text \<open>Every lease is filed under its own name, within its turn budget.\<close>

definition broker_ok :: "broker \<Rightarrow> bool" where
  "broker_ok b = (\<forall>i l. b_leases b i = Some l \<longrightarrow> l_id l = i)"

definition broker_bounded :: "broker \<Rightarrow> bool" where
  "broker_bounded b =
     (\<forall>i l. b_leases b i = Some l \<longrightarrow> sint (l_max_turns l) > 0 \<longrightarrow> turns_bounded l)"

lemma request_some:
  assumes "b_leases b i = Some l"
  shows "b_leases (fst (request_execution b i c payload prev_hash now)) =
    (b_leases b)(i \<mapsto> fst (evaluate_turn l c payload prev_hash now))"
    and "fst (snd (request_execution b i c payload prev_hash now)) =
    Some (fst (snd (evaluate_turn l c payload prev_hash now)))"
  using assms by (simp_all add: request_execution_def split: prod.split)

lemma request_none:
  assumes "b_leases b i = None"
  shows "b_leases (fst (request_execution b i c payload prev_hash now)) = b_leases b"
    and "fst (snd (request_execution b i c payload prev_hash now)) = None"
  using assms by (simp_all add: request_execution_def)

lemma revoke_leases:
  "b_leases (fst (broker_revoke b i reason)) =
     (case b_leases b i of None \<Rightarrow> b_leases b | Some l \<Rightarrow> (b_leases b)(i \<mapsto> revoke l reason))"
  by (simp add: broker_revoke_def split: option.split)

lemma broker_step_ok:
  assumes "broker_ok b"
  shows "broker_ok (broker_step b call)"
proof (cases call)
  case (Request i c payload prev_hash now)
  show ?thesis
  proof (cases "b_leases b i")
    case (Some l)
    obtain l' r err where ev: "evaluate_turn l c payload prev_hash now = (l', r, err)"
      by (cases "evaluate_turn l c payload prev_hash now")
    show ?thesis
      using assms Some evaluate_turn_frame[OF ev] ev
      by (simp add: Request broker_ok_def request_some)
  qed (use assms in \<open>simp add: Request broker_ok_def request_none\<close>)
qed (use assms in \<open>auto simp: broker_ok_def revoke_leases revoke_def split: option.splits if_splits\<close>)

interpretation broker_names: step_invariant broker_step broker_ok
  by unfold_locales (rule broker_step_ok)

lemma evaluate_turn_bounded:
  assumes "0 < sint (l_max_turns l)" and "turns_bounded l"
    and "evaluate_turn l c payload prev_hash now = (l', r, err)"
  shows "turns_bounded l'"
proof (cases "admissible l c prev_hash now")
  case True
  then have "l' = l\<lparr>l_current_turn := l_current_turn l + 1, l_last_hash := rp_hash r\<rparr>"
    and "phase l now = LeaseActive"
    using assms(3) evaluate_turn_admit[OF True, of payload] by (auto simp: admissible_def)
  with admit_bounded[OF assms(2) _ assms(1)] assms(2) show ?thesis
    by (simp add: turns_bounded_def)
next
  case False
  from evaluate_turn_deny[OF False, of payload] assms show ?thesis by auto
qed

lemma broker_step_bounded:
  assumes "broker_bounded b"
  shows "broker_bounded (broker_step b call)"
proof (cases call)
  case (Request i c payload prev_hash now)
  show ?thesis
  proof (cases "b_leases b i")
    case (Some l)
    obtain l' r err where ev: "evaluate_turn l c payload prev_hash now = (l', r, err)"
      by (cases "evaluate_turn l c payload prev_hash now")
    from assms Some have "sint (l_max_turns l) > 0 \<longrightarrow> turns_bounded l"
      by (simp add: broker_bounded_def)
    then have "sint (l_max_turns l') > 0 \<longrightarrow> turns_bounded l'"
      using evaluate_turn_bounded[OF _ _ ev] evaluate_turn_frame[OF ev] by simp
    with assms ev show ?thesis
      by (simp add: Request broker_bounded_def request_some[OF Some])
  qed (use assms in \<open>simp add: Request broker_bounded_def request_none\<close>)
next
  case (Revoke i reason)
  with assms show ?thesis
    by (auto simp: broker_bounded_def revoke_leases revoke_def turns_bounded_def split: option.splits if_splits)
qed

interpretation broker_turns: step_invariant broker_step broker_bounded
  by unfold_locales (rule broker_step_bounded)

section \<open>The receipts of a lease form a chain\<close>

fun receipt_chain :: "string \<Rightarrow> int64 \<Rightarrow> check_receipt list \<Rightarrow> bool" where
  "receipt_chain h t [] = True"
| "receipt_chain h t (r # rs) =
     (rp_prev_hash r = h \<and> rp_turn r = t + 1 \<and> rp_hash r = compute_hash r \<and> receipt_chain (rp_hash r) (t + 1) rs)"

text \<open>What a call leaves of the lease i, with the receipts of i it admits.\<close>

definition permitted :: "lease \<Rightarrow> check_receipt \<Rightarrow> bool" where
  "permitted l r =
     (capability_allowed l (rp_capability r) \<and> rp_timestamp r \<le> l_expires_at l \<and> \<not> l_revoked l)"

definition same_terms :: "lease \<Rightarrow> lease \<Rightarrow> bool" where
  "same_terms l l' =
     (l_id l' = l_id l \<and> l_allowed l' = l_allowed l \<and> l_expires_at l' = l_expires_at l \<and>
      l_max_turns l' = l_max_turns l \<and> (l_revoked l \<longrightarrow> l_revoked l'))"

lemma same_terms_trans: "same_terms l m \<Longrightarrow> same_terms m n \<Longrightarrow> same_terms l n"
  by (auto simp: same_terms_def)

lemma same_terms_permitted: "same_terms l m \<Longrightarrow> permitted m r \<Longrightarrow> permitted l r"
  by (auto simp: same_terms_def permitted_def capability_allowed_def)

lemma admissions_Cons:
  "admissions i b (call # calls) =
     (case broker_receipt b call of
        Some r \<Rightarrow> (if rp_disposition r = ''ADMIT'' \<and> rp_lease_id r = i then [r] else []) | None \<Rightarrow> []) @
     admissions i (broker_step b call) calls"
  by (simp add: admissions_def split: option.split)

lemma admitted_receipt_simps [simp]:
  "rp_hash (admitted_receipt l c p now) = compute_hash (admitted_receipt l c p now)"
  "rp_lease_id (admitted_receipt l c p now) = l_id l" "rp_disposition (admitted_receipt l c p now) = ''ADMIT''"
  "rp_turn (admitted_receipt l c p now) = l_current_turn l + 1"
  "rp_prev_hash (admitted_receipt l c p now) = l_last_hash l" "rp_capability (admitted_receipt l c p now) = c"
  "rp_timestamp (admitted_receipt l c p now) = now"
  by (simp_all add: admitted_receipt_def) (simp add: seal_receipt_def turn_receipt_def)

lemma broker_step_at:
  assumes "broker_ok b" and "b_leases b i = Some l"
  obtains (admits) r where "admissions i b [call] = [r]" "permitted l r" "phase l (rp_timestamp r) = LeaseActive"
      "rp_prev_hash r = l_last_hash l" "rp_turn r = l_current_turn l + 1" "rp_hash r = compute_hash r"
      "b_leases (broker_step b call) i = Some (l\<lparr>l_current_turn := l_current_turn l + 1, l_last_hash := rp_hash r\<rparr>)"
  | (stays) l' where "admissions i b [call] = []" "same_terms l l'" "b_leases (broker_step b call) i = Some l'"
      "l_current_turn l' = l_current_turn l" "l_last_hash l' = l_last_hash l"
proof (cases call)
  case (Request j c payload prev_hash now)
  show thesis
  proof (cases "b_leases b j")
    case None
    with assms have "j \<noteq> i" by auto
    with None assms show thesis
      by (intro stays[of l]) (auto simp: Request admissions_Cons broker_receipt_def request_none admissions_def same_terms_def)
  next
    case (Some m)
    then have id: "l_id m = j" using assms(1) by (simp add: broker_ok_def)
    show thesis
    proof (cases "j = i \<and> admissible m c prev_hash now")
      case True
      then have m: "m = l" using Some assms(2) by simp
      note ev = evaluate_turn_admit[of m c prev_hash now payload]
      show thesis
        using True Some ev id
        by (intro admits[of "admitted_receipt l c payload now"])
          (auto simp: Request admissions_Cons broker_receipt_def request_some admissions_def m
            permitted_def admissible_def phase_def split: if_splits)
    next
      case False
      obtain m' r err where ev: "evaluate_turn m c payload prev_hash now = (m', r, err)"
        by (cases "evaluate_turn m c payload prev_hash now")
      have r: "rp_lease_id r = j" using evaluate_turn_receipt[OF ev] id by simp
      have adm: "\<not> (rp_disposition r = ''ADMIT'' \<and> rp_lease_id r = i)" "j = i \<Longrightarrow> m' = m"
        using False r ev evaluate_turn_deny[of m c prev_hash now payload] by auto
      then show thesis
        using Some assms(2) ev
        by (intro stays[of l])
          (auto simp: Request admissions_Cons broker_receipt_def request_some admissions_def same_terms_def)
    qed
  qed
next
  case (Revoke j reason)
  show thesis
    using assms(2)
    by (intro stays[of "if j = i then revoke l reason else l"])
      (auto simp: Revoke admissions_Cons broker_receipt_def admissions_def revoke_leases revoke_def
        same_terms_def split: option.split)
qed

lemma receipt_chain_run:
  assumes "broker_ok b" and "b_leases b i = Some l"
  shows "\<exists>l'. b_leases (foldl broker_step b calls) i = Some l' \<and> same_terms l l' \<and>
    receipt_chain (l_last_hash l) (l_current_turn l) (admissions i b calls) \<and>
    l_last_hash l' = (if admissions i b calls = [] then l_last_hash l else rp_hash (last (admissions i b calls))) \<and>
    l_current_turn l' = l_current_turn l + of_nat (length (admissions i b calls)) \<and>
    (\<forall>r\<in>set (admissions i b calls). permitted l r)"
  using assms
proof (induction calls arbitrary: b l)
  case Nil
  then show ?case by (auto simp: admissions_def same_terms_def)
next
  case (Cons call calls)
  have split: "admissions i b (call # calls) = admissions i b [call] @ admissions i (broker_step b call) calls"
    by (simp add: admissions_Cons[of i b call] admissions_def)
  note ok = broker_step_ok[OF Cons.prems(1), of call]
  from Cons.prems show ?case
  proof (cases rule: broker_step_at[where call = call])
    case (admits r)
    let ?l = "l\<lparr>l_current_turn := l_current_turn l + 1, l_last_hash := rp_hash r\<rparr>"
    from Cons.IH[OF ok admits(7)] obtain l' where IH:
      "b_leases (foldl broker_step (broker_step b call) calls) i = Some l'" "same_terms ?l l'"
      "receipt_chain (rp_hash r) (l_current_turn l + 1) (admissions i (broker_step b call) calls)"
      "l_last_hash l' = (if admissions i (broker_step b call) calls = [] then rp_hash r
         else rp_hash (last (admissions i (broker_step b call) calls)))"
      "l_current_turn l' = l_current_turn l + 1 + of_nat (length (admissions i (broker_step b call) calls))"
      "\<forall>r\<in>set (admissions i (broker_step b call) calls). permitted ?l r" by auto
    have "same_terms l ?l" by (simp add: same_terms_def)
    with IH(2,6) have "same_terms l l'" "\<forall>r\<in>set (admissions i (broker_step b call) calls). permitted l r"
      using same_terms_trans same_terms_permitted by blast+
    then show ?thesis
      using IH admits unfolding split by (intro exI[of _ l']) (simp add: algebra_simps)
  next
    case (stays m)
    from Cons.IH[OF ok stays(3)] obtain l' where IH:
      "b_leases (foldl broker_step (broker_step b call) calls) i = Some l'" "same_terms m l'"
      "receipt_chain (l_last_hash l) (l_current_turn l) (admissions i (broker_step b call) calls)"
      "l_last_hash l' = (if admissions i (broker_step b call) calls = [] then l_last_hash l
         else rp_hash (last (admissions i (broker_step b call) calls)))"
      "l_current_turn l' = l_current_turn l + of_nat (length (admissions i (broker_step b call) calls))"
      "\<forall>r\<in>set (admissions i (broker_step b call) calls). permitted m r"
      using stays(4,5) by auto
    with stays same_terms_trans same_terms_permitted show ?thesis
      unfolding split by (intro exI[of _ l']) auto
  qed
qed

lemma revoked_admits_nothing:
  assumes "broker_ok b" and "b_leases b i = Some l" and "l_revoked l"
  shows "admissions i b calls = []"
proof (rule ccontr)
  assume "admissions i b calls \<noteq> []"
  then obtain r where "r \<in> set (admissions i b calls)" by (cases "admissions i b calls") auto
  with receipt_chain_run[OF assms(1,2), of calls] have "permitted l r" by auto
  with assms(3) show False by (simp add: permitted_def)
qed

lemma admissions_bounded:
  assumes "broker_ok b" and "b_leases b i = Some l" and "0 < sint (l_max_turns l)" and "turns_bounded l"
  shows "int (length (admissions i b calls)) + sint (l_current_turn l) \<le> sint (l_max_turns l)"
  using assms
proof (induction calls arbitrary: b l)
  case Nil
  then show ?case by (simp add: admissions_def turns_bounded_def)
next
  case (Cons call calls)
  have split: "admissions i b (call # calls) = admissions i b [call] @ admissions i (broker_step b call) calls"
    by (simp add: admissions_Cons[of i b call] admissions_def)
  note ok = broker_step_ok[OF Cons.prems(1), of call]
  from Cons.prems(1,2) show ?case
  proof (cases rule: broker_step_at[where call = call])
    case (admits r)
    note bound = admit_bounded[OF Cons.prems(4) admits(3) Cons.prems(3)]
    then have "turns_bounded (l\<lparr>l_current_turn := l_current_turn l + 1, l_last_hash := rp_hash r\<rparr>)"
      using Cons.prems(4) by (simp add: turns_bounded_def)
    from Cons.IH[OF ok admits(7) _ this] Cons.prems(3) bound show ?thesis
      unfolding split admits(1) by simp
  next
    case (stays m)
    then have "turns_bounded m" "l_max_turns m = l_max_turns l"
      using Cons.prems(4) by (auto simp: turns_bounded_def same_terms_def)
    with Cons.IH[OF ok stays(3)] Cons.prems(3) stays show ?thesis
      unfolding split stays(1) by simp
  qed
qed

section \<open>Properties\<close>

lemma register_lease_ok: "broker_ok b \<Longrightarrow> broker_ok (register_lease b l)"
  by (simp add: broker_ok_def register_lease_def)

lemma broker_ok_registered: "broker_ok b \<Longrightarrow> broker_ok (foldl register_lease b ls)"
  by (induction ls arbitrary: b) (simp_all add: register_lease_ok)

lemma registered_leases:
  "b_leases (foldl register_lease b ls) i = Some l \<Longrightarrow> l \<in> set ls \<or> b_leases b i = Some l"
proof (induction ls arbitrary: b)
  case (Cons a ls)
  from Cons.prems have "b_leases (foldl register_lease (register_lease b a) ls) i = Some l" by simp
  from Cons.IH[OF this] show ?case by (auto simp: register_lease_def split: if_splits)
qed simp

definition started :: "lease list \<Rightarrow> broker_call list \<Rightarrow> broker" where
  "started ls calls = foldl broker_step (foldl register_lease new_broker ls) calls"

lemma started_ok: "broker_ok (started ls calls)"
  unfolding started_def
  by (rule broker_names.run_inv, rule broker_ok_registered) (simp add: broker_ok_def new_broker_def)

lemma started_bounded:
  assumes "list_all (\<lambda>l. l_current_turn l = 0) ls"
  shows "broker_bounded (started ls calls)"
  unfolding started_def
proof (rule broker_turns.run_inv)
  show "broker_bounded (foldl register_lease new_broker ls)"
    unfolding broker_bounded_def turns_bounded_def
  proof (intro allI impI conjI)
    fix i l
    assume "b_leases (foldl register_lease new_broker ls) i = Some l"
    with registered_leases[of new_broker ls i l] have "l \<in> set ls" by (simp add: new_broker_def)
    with assms have "l_current_turn l = 0" by (simp add: list_all_iff)
    then show "0 \<le> sint (l_current_turn l)"
      and "sint (l_current_turn l) \<le> sint (l_max_turns l)" if "0 < sint (l_max_turns l)"
      using that by simp_all
  qed
qed

text \<open>
  C32: a turn is admitted exactly when it continues the chain of receipts, the lease is active and
  grants the capability; only then does the lease change, by one turn and the hash of the receipt.
  Every receipt, admitted or denied, carries its own hash, the next turn and the hash of the payload.
\<close>

lemma turn_decision:
  "case evaluate_turn l c payload prev_hash now of (l', r, err) \<Rightarrow>
     (err = None \<longleftrightarrow> prev_hash = l_last_hash l \<and> phase l now = LeaseActive \<and> (c \<in> set (l_allowed l) \<or> ''*'' \<in> set (l_allowed l))) \<and>
     rp_disposition r = (if err = None then ''ADMIT'' else ''DENY'') \<and>
     l' = (if err = None then l\<lparr>l_current_turn := l_current_turn l + 1, l_last_hash := rp_hash r\<rparr> else l) \<and>
     rp_hash r = compute_hash r \<and> rp_turn r = l_current_turn l + 1 \<and> rp_prev_hash r = prev_hash \<and>
     rp_capability r = c \<and> rp_payload_hash r = hex_encode (sha256 payload)"
proof -
  obtain l' r err where ev: "evaluate_turn l c payload prev_hash now = (l', r, err)"
    by (cases "evaluate_turn l c payload prev_hash now")
  have adm: "admissible l c prev_hash now \<longleftrightarrow>
      prev_hash = l_last_hash l \<and> phase l now = LeaseActive \<and> (c \<in> set (l_allowed l) \<or> ''*'' \<in> set (l_allowed l))"
    by (auto simp: admissible_def capability_allowed_def list_ex_iff)
  show ?thesis
    using evaluate_turn_receipt[OF ev] evaluate_turn_admit[of l c prev_hash now payload]
      evaluate_turn_deny[of l c prev_hash now payload] ev
    by (cases "admissible l c prev_hash now") (auto simp: adm)
qed

text \<open>
  C6: whatever a broker has been through, the receipts it then admits for a lease form one hash chain that
  starts at the last hash of the lease, with consecutive turns, and each of them asks for a granted
  capability no later than the expiry of the lease.
\<close>

lemma admitted_receipts_chain:
  assumes "b_leases (started ls calls) i = Some l"
  shows "receipt_chain (l_last_hash l) (l_current_turn l) (admissions i (started ls calls) calls') \<and>
    list_all (\<lambda>r. (rp_capability r \<in> set (l_allowed l) \<or> ''*'' \<in> set (l_allowed l)) \<and> rp_timestamp r \<le> l_expires_at l)
      (admissions i (started ls calls) calls')"
  using receipt_chain_run[OF started_ok assms, of calls']
  by (auto simp: list_all_iff permitted_def capability_allowed_def list_ex_iff)

definition example_lease :: lease where
  "example_lease = new_lease 0 ''l'' ''p'' [] [''read''] 1 hour"

lemma admitted_receipts_chain_witness:
  "receipt_chain genesis_hash 0 (admissions ''l'' (started [example_lease] []) [Request ''l'' ''read'' [] genesis_hash 1])"
  using admitted_receipts_chain[of "[example_lease]" "[]" "''l''" example_lease "[Request ''l'' ''read'' [] genesis_hash 1]"]
  by (simp add: started_def register_lease_def new_broker_def example_lease_def new_lease_def)

text \<open>
  C13: the admissions of a lease with a positive bound never exceed what is left of it, counted at the
  width of the code, whatever leases with fresh counters the broker was started with.
\<close>

lemma turn_budget:
  assumes "list_all (\<lambda>l. l_current_turn l = 0) ls" and "b_leases (started ls calls) i = Some l"
    and "0 < sint (l_max_turns l)"
  shows "int (length (admissions i (started ls calls) calls')) \<le> sint (l_max_turns l) - sint (l_current_turn l) \<and>
    0 \<le> sint (l_current_turn l)"
proof -
  have "turns_bounded l"
    using started_bounded[OF assms(1)] assms(2,3) by (auto simp: broker_bounded_def)
  with admissions_bounded[OF started_ok assms(2,3)] show ?thesis
    by (simp add: turns_bounded_def algebra_simps)
qed

lemma turn_budget_witness:
  "int (length (admissions ''l'' (started [example_lease] [])
     [Request ''l'' ''read'' [] genesis_hash 1, Request ''l'' ''read'' [] genesis_hash 2])) \<le> 1"
  using turn_budget[of "[example_lease]" "[]" "''l''" example_lease
    "[Request ''l'' ''read'' [] genesis_hash 1, Request ''l'' ''read'' [] genesis_hash 2]"]
  by (simp add: started_def register_lease_def new_broker_def example_lease_def new_lease_def)

text \<open>
  C25: once a lease is revoked the broker never admits another turn of it.
\<close>

lemma revoked_lease_is_dead:
  assumes "b_leases (started ls calls) i = Some l"
  shows "admissions i (fst (broker_revoke (started ls calls) i reason)) calls' = []"
proof -
  let ?b = "broker_step (started ls calls) (Revoke i reason)"
  have "broker_ok ?b" by (rule broker_step_ok[OF started_ok])
  moreover have "b_leases ?b i = Some (revoke l reason)"
    using assms by (simp add: revoke_leases)
  ultimately have "admissions i ?b calls' = []"
    by (rule revoked_admits_nothing) (simp add: revoke_def)
  then show ?thesis by simp
qed

lemma revoked_lease_is_dead_witness:
  "admissions ''l'' (fst (broker_revoke (started [example_lease] []) ''l'' ''r'')) [Request ''l'' ''read'' [] genesis_hash 1] = []"
  by (rule revoked_lease_is_dead[where l = example_lease])
    (simp add: started_def register_lease_def new_broker_def example_lease_def new_lease_def)

end
