(* ===== verification/Telemetry.thy ===== *)
theory Telemetry
  imports Reconcile Lease
begin

text \<open>
  internal/telemetry/metrics.go: the metrics of the process, a map from label values to a value for
  each vector, and what the reconcilers and the broker record in them. A series exists once it has
  been recorded. Counters count in floating point, exact up to 2 to the power 53; they are unbounded
  here. The registry, the histogram of durations and the spans of tracing.go go to their libraries.
\<close>

section \<open>Recording\<close>

record metrics =
  mt_state :: "string \<times> string \<times> string \<times> string \<rightharpoonup> int"
  mt_evidence :: "string \<times> string \<times> string \<rightharpoonup> nat"
  mt_receipts :: "string \<times> string \<rightharpoonup> nat"
  mt_drift :: "string \<times> string \<rightharpoonup> nat"

definition no_metrics :: metrics where
  "no_metrics = \<lparr>mt_state = Map.empty, mt_evidence = Map.empty, mt_receipts = Map.empty, mt_drift = Map.empty\<rparr>"

definition inc :: "('k \<rightharpoonup> nat) \<Rightarrow> 'k \<Rightarrow> ('k \<rightharpoonup> nat)" where
  "inc m k = m(k \<mapsto> (case m k of None \<Rightarrow> 1 | Some n \<Rightarrow> n + 1))"

definition counter :: "('k \<rightharpoonup> nat) \<Rightarrow> 'k \<Rightarrow> nat" where
  "counter m k = (case m k of None \<Rightarrow> 0 | Some n \<Rightarrow> n)"

definition record_assurance_state :: "string \<Rightarrow> string \<Rightarrow> string \<Rightarrow> string \<Rightarrow> bool \<Rightarrow> metrics \<Rightarrow> metrics" where
  "record_assurance_state ns binding status generation active m =
     m\<lparr>mt_state := (mt_state m)((ns, binding, status, generation) \<mapsto> (if active then 1 else 0))\<rparr>"

definition record_evidence_processed :: "string \<Rightarrow> string \<Rightarrow> string \<Rightarrow> metrics \<Rightarrow> metrics" where
  "record_evidence_processed source evidence_type status m =
     m\<lparr>mt_evidence := inc (mt_evidence m) (source, evidence_type, status)\<rparr>"

definition record_receipt_issued :: "string \<Rightarrow> string \<Rightarrow> metrics \<Rightarrow> metrics" where
  "record_receipt_issued contract_id status m = m\<lparr>mt_receipts := inc (mt_receipts m) (contract_id, status)\<rparr>"

definition record_drift_invalidation :: "string \<Rightarrow> string \<Rightarrow> metrics \<Rightarrow> metrics" where
  "record_drift_invalidation binding reason m = m\<lparr>mt_drift := inc (mt_drift m) (binding, reason)\<rparr>"

section \<open>What the components record\<close>

text \<open>The reconcilers always record an active state; the broker records its requests.\<close>

fun observe_effect :: "metrics \<Rightarrow> effect \<Rightarrow> metrics" where
  "observe_effect m (DriftRecorded binding reason) = record_drift_invalidation binding reason m"
| "observe_effect m (BindingUpdated b) = m"
| "observe_effect m (StateUpdated s) = m"
| "observe_effect m (AssuranceRecorded ns binding status generation) =
     record_assurance_state ns binding status generation True m"
| "observe_effect m (ReceiptRecorded contract_id status) = record_receipt_issued contract_id status m"

definition observe_effects :: "metrics \<Rightarrow> effect list \<Rightarrow> metrics" where
  "observe_effects = foldl observe_effect"

fun observe_log :: "metrics \<Rightarrow> broker_log \<Rightarrow> metrics" where
  "observe_log m (EvidenceProcessed capability status) = record_evidence_processed ''workcell'' capability status m"
| "observe_log m (ReceiptIssued lease_id status) = record_receipt_issued lease_id status m"
| "observe_log m (DriftInvalidation lease_id reason) = record_drift_invalidation lease_id reason m"

definition broker_metrics :: "broker \<Rightarrow> metrics" where
  "broker_metrics b = foldl observe_log no_metrics (b_log b)"

section \<open>Lemmas\<close>

lemma counter_inc [simp]: "counter (inc m k) k' = counter m k' + (if k' = k then 1 else 0)"
  by (simp add: counter_def inc_def split: option.split)

lemma state_gauge:
  "mt_state (observe_effects m es) k =
     (if \<exists>ns b st gen. k = (ns, b, st, gen) \<and> AssuranceRecorded ns b st gen \<in> set es then Some 1 else mt_state m k)"
proof (induction es arbitrary: m)
  case (Cons e es)
  then show ?case
    by (cases e) (auto simp: observe_effects_def record_assurance_state_def record_drift_invalidation_def record_receipt_issued_def)
qed (simp add: observe_effects_def)

lemma receipt_counter:
  "counter (mt_receipts (foldl observe_log m ls)) k =
     counter (mt_receipts m) k + length (filter (\<lambda>l. l = ReceiptIssued (fst k) (snd k)) ls)"
proof (induction ls arbitrary: m)
  case (Cons l ls)
  then show ?case
    by (cases l; cases k)
      (auto simp: record_evidence_processed_def record_receipt_issued_def record_drift_invalidation_def)
qed simp

definition admitted_in :: "string \<Rightarrow> broker_log list \<Rightarrow> nat" where
  "admitted_in i ls = length (filter (\<lambda>l. l = ReceiptIssued i ''ADMITTED'') ls)"

lemma admitted_in_append [simp]: "admitted_in i (ls @ ls') = admitted_in i ls + admitted_in i ls'"
  by (simp add: admitted_in_def)

text \<open>A receipt is logged for a lease exactly when the broker admits a turn of it.\<close>

lemma step_log:
  assumes "broker_ok b"
  shows "admitted_in i (b_log (broker_step b call)) = admitted_in i (b_log b) + length (admissions i b [call])"
proof (cases call)
  case (Request j c payload prev_hash now)
  show ?thesis
  proof (cases "b_leases b j")
    case (Some l)
    obtain l' r err where ev: "evaluate_turn l c payload prev_hash now = (l', r, err)"
      by (cases "evaluate_turn l c payload prev_hash now")
    have "rp_lease_id r = j"
      using evaluate_turn_receipt[OF ev] Some assms by (simp add: broker_ok_def)
    then show ?thesis
      using Some ev by (simp add: Request admissions_Cons broker_receipt_def request_execution_def admissions_def admitted_in_def)
  qed (simp add: Request admissions_Cons broker_receipt_def request_execution_def admissions_def admitted_in_def)
qed (simp add: admissions_Cons broker_receipt_def broker_revoke_def admissions_def admitted_in_def split: option.split)

lemma run_log:
  "broker_ok b \<Longrightarrow> admitted_in i (b_log (foldl broker_step b calls)) = admitted_in i (b_log b) + length (admissions i b calls)"
proof (induction calls arbitrary: b)
  case (Cons call calls)
  have "length (admissions i b (call # calls)) = length (admissions i b [call]) + length (admissions i (broker_step b call) calls)"
    by (simp add: admissions_Cons[of i b call] admissions_def[of i "broker_step b call" "[]"])
  with Cons step_log[OF Cons.prems, of i call] broker_step_ok[OF Cons.prems, of call] show ?case by simp
qed (simp add: admissions_def)

section \<open>Properties\<close>

text \<open>
  Further: the gauge of assurance states never falls: after any effects of the reconcilers it is 1 exactly for the states
  that were ever recorded, also for a state that a binding has left, and it is never 0.
\<close>

lemma state_gauge_never_falls:
  "mt_state (observe_effects no_metrics es) (ns, b, st, gen) =
     (if AssuranceRecorded ns b st gen \<in> set es then Some 1 else None)"
  using state_gauge[of no_metrics es "(ns, b, st, gen)"] by (simp add: no_metrics_def)

lemma started_log: "b_log (started ls []) = []"
proof -
  have "b_log (foldl register_lease b ls) = b_log b" for b
    by (induction ls arbitrary: b) (simp_all add: register_lease_def)
  then show ?thesis by (simp add: started_def new_broker_def)
qed

lemma no_metrics_counters [simp]: "counter (mt_receipts no_metrics) k = 0"
  by (simp add: no_metrics_def counter_def)

text \<open>
  C33: the counter of the receipts issued under a lease is the number of turns that the broker admitted under it, for
  every sequence of calls on a broker with any leases.
\<close>

lemma receipts_counted:
  "counter (mt_receipts (broker_metrics (foldl broker_step (started ls []) calls))) (i, ''ADMITTED'') =
     length (admissions i (started ls []) calls)"
  using run_log[OF started_ok, of i ls "[]" calls] started_log[of ls]
  by (simp add: broker_metrics_def receipt_counter admitted_in_def)

end
