(* ===== verification/Controller.thy ===== *)
theory Controller
  imports Commands Webhook_Server Telemetry
begin

text \<open>
  cmd/oskal-controller/main.go: the process that composes the admission webhook, the evidence
  repository, the contract evaluator, the resolvers, the signer and the reconcilers. A run is a
  sequence of events: requests to the webhook, whose evidence goes to the repository, and bindings
  and states that the manager hands to their reconcilers, in any order. The manager, the API server
  and the clock are arguments; logging, health checks and leader election are the manager's.
\<close>

section \<open>Start\<close>

record controller_flags =
  kf_metrics_address :: string
  kf_probe_address :: string
  kf_leader_elect :: bool
  kf_enable_webhook :: bool
  kf_webhook_port :: int
  kf_evidence_dir :: string

definition default_controller_flags :: controller_flags where
  "default_controller_flags =
     \<lparr>kf_metrics_address = '':8080'', kf_probe_address = '':8081'', kf_leader_elect = False, kf_enable_webhook = True,
      kf_webhook_port = 8443, kf_evidence_dir = ''/tmp/oskal/evidence''\<rparr>"

text \<open>Without a directory, or when it cannot be opened, evidence is kept in memory.\<close>

definition controller_repository :: "store \<Rightarrow> string \<Rightarrow> cas" where
  "controller_repository so dir =
     (if dir \<noteq> []
      then (case open_store so dir of Inl e \<Rightarrow> new_memory_repository (so_files so) | Inr r \<Rightarrow> r)
      else new_memory_repository (so_files so))"

definition controller_authority :: authority_ref where
  "controller_authority =
     \<lparr>a_scheme = ''spiffe'', a_subject = ''prod/ns/ckodex-system/sa/oskal-controller'', a_trust_domain = ''prod''\<rparr>"

definition controller_hook :: webhook_config where
  "controller_hook =
     \<lparr>w_observer = \<lparr>a_scheme = ''k8s:admission-controller'', a_subject = ''ckodex-system/oskal-webhook'', a_trust_domain = []\<rparr>,
      w_has_sink = True, w_mode = []\<rparr>"

text \<open>The errors of the manager at each step of the set-up, and what the libraries answer.\<close>

record 'k boot =
  bo_manager :: "string option"
  bo_keys :: "(string \<times> string) result"
  bo_setup_binding :: "string option"
  bo_setup_state :: "string option"
  bo_health :: "string option"
  bo_ready :: "string option"
  bo_certs :: "'k cert_library"
  bo_add_webhook :: "string option"

record controller =
  ko_repo :: cas
  ko_signer :: receipt_manager
  ko_webhook :: "server_config option"
  ko_metrics :: metrics

definition controller_webhook :: "'k boot \<Rightarrow> time \<Rightarrow> controller_flags \<Rightarrow> server_config option result" where
  "controller_webhook bo now fl =
     (if \<not> kf_enable_webhook fl then Ok None
      else case generate_self_signed_cert (bo_certs bo) now ''oskal-webhook'' (service_dns_names ''oskal-webhook'' ''ckodex-system'')
                  [''127.0.0.1''] of
          Inl e \<Rightarrow> Err ''unable to generate self-signed cert for webhook''
        | Inr (cert, key) \<Rightarrow>
            (case bo_add_webhook bo of
               Some e \<Rightarrow> Err ''unable to register webhook server with manager''
             | None \<Rightarrow> Ok (Some \<lparr>sv_listen = CHR '':'' # show_int (kf_webhook_port fl), sv_cert_path = [], sv_key_path = [],
                 sv_cert = cert, sv_key = key, sv_hook = controller_hook\<rparr>)))"

text \<open>The controller, or the message with which the process exits.\<close>

definition start_controller :: "'k boot \<Rightarrow> store \<Rightarrow> time \<Rightarrow> controller_flags \<Rightarrow> controller result" where
  "start_controller bo so now fl =
     (if bo_manager bo \<noteq> None then Err ''unable to start manager''
      else case new_receipt_manager (bo_keys bo) controller_authority of
          Inl e \<Rightarrow> Err ''unable to initialize receipt manager''
        | Inr signer \<Rightarrow>
            if bo_setup_binding bo \<noteq> None \<or> bo_setup_state bo \<noteq> None then Err ''unable to create controller''
            else if bo_health bo \<noteq> None then Err ''unable to set up health check''
            else if bo_ready bo \<noteq> None then Err ''unable to set up ready check''
            else (case controller_webhook bo now fl of
                Inl e \<Rightarrow> Err e
              | Inr hook \<Rightarrow> Ok \<lparr>ko_repo = controller_repository so (kf_evidence_dir fl), ko_signer = signer,
                  ko_webhook = hook, ko_metrics = no_metrics\<rparr>))"

section \<open>Events\<close>

text \<open>What the running controller asks: the codecs of the webhook, the disk, the API server, Ed25519.\<close>

record controller_world =
  kw_review :: "string \<Rightarrow> admission_request option result"
  kw_pod :: "string \<Rightarrow> pod result"
  kw_reply :: "admission_response \<Rightarrow> string result"
  kw_encode :: encoder
  kw_disk_ok :: "string \<Rightarrow> bool"
  kw_cluster :: cluster
  kw_binding :: "string \<Rightarrow> string \<Rightarrow> binding_resource fetched"
  kw_contract :: "string \<Rightarrow> string \<Rightarrow> contract_resource fetched"
  kw_states :: "string \<Rightarrow> state_resource list result"
  kw_update :: "binding_resource \<Rightarrow> string option"
  kw_state :: "string \<Rightarrow> string \<Rightarrow> (string \<times> string \<times> string \<times> int) fetched"
  kw_sign :: sign_fun

text \<open>The evaluator lists the repository; ks enumerates the keys of its envelopes.\<close>

definition controller_reconciler :: "controller_world \<Rightarrow> controller \<Rightarrow> time \<Rightarrow> string list \<Rightarrow> reconciler" where
  "controller_reconciler w k now ks =
     \<lparr>rec_binding = kw_binding w, rec_contract = kw_contract w, rec_states = kw_states w, rec_update_binding = kw_update w,
      rec_resolver = Some (\<lambda>uri. Ok (resolve_subject (Some (kw_cluster w)) uri),
        \<lambda>sub. Ok (compute_subject_digest (Some (kw_cluster w)) sub)),
      rec_evaluator = Some (contract_evaluate \<lparr>evidence_source = [], evidence_repo = Some (list_by_subject ks (ko_repo k))\<rparr>),
      rec_signer = Some (\<lambda>rcpt. Ok (sign_receipt (kw_sign w) (ko_signer k) now rcpt))\<rparr>"

text \<open>The sink stores the evidence without a payload; its errors are only logged.\<close>

definition persist :: "controller_world \<Rightarrow> controller \<Rightarrow> envelope option \<Rightarrow> controller" where
  "persist w k found =
     (case found of
        None \<Rightarrow> k
      | Some env \<Rightarrow> k\<lparr>ko_repo := fst (put (kw_encode w) (kw_disk_ok w) (ko_repo k) env None)\<rparr>)"

datatype controller_event =
    HttpCall time string string "string result"
  | BindingQueued string string "nat \<Rightarrow> time" time "string list"
  | StateQueued string string

fun controller_step :: "controller_world \<Rightarrow> controller \<Rightarrow> controller_event \<Rightarrow> controller" where
  "controller_step w k (HttpCall now path meth body) =
     (case ko_webhook k of
        None \<Rightarrow> k
      | Some cfg \<Rightarrow> persist w k (snd (serve (kw_review w) (kw_pod w) (kw_reply w) (sv_hook cfg) now path meth body)))"
| "controller_step w k (BindingQueued ns name clock now ks) =
     k\<lparr>ko_metrics := observe_effects (ko_metrics k) (fst (reconcile (controller_reconciler w k now ks) clock now ns name))\<rparr>"
| "controller_step w k (StateQueued ns name) =
     k\<lparr>ko_metrics := observe_effects (ko_metrics k) (fst (reconcile_state (kw_state w ns name)))\<rparr>"

inductive reachable :: "controller_world \<Rightarrow> controller \<Rightarrow> controller \<Rightarrow> bool" for w k where
  start: "reachable w k k"
| event: "reachable w k k' \<Longrightarrow> reachable w k (controller_step w k' ev)"

section \<open>The evidence of the controller\<close>

text \<open>Evidence of the webhook: a subject of the cluster, and an epoch with the digest of that subject.\<close>

definition from_admission :: "envelope \<Rightarrow> bool" where
  "from_admission env =
     (s_scheme (ev_subject env) = ''k8s'' \<and> subject_digest (ev_epoch env) = subject_ref_digest (ev_subject env))"

definition only_admissions :: "controller \<Rightarrow> bool" where
  "only_admissions k = (\<forall>env\<in>ran (envelopes (ko_repo k)). from_admission env)"

lemma put_envelopes: "ran (envelopes (fst (put enc ok r env payload))) \<subseteq> insert env (ran (envelopes r))"
proof -
  have "ran (m(d \<mapsto> env)) \<subseteq> insert env (ran m)" for m :: "string \<rightharpoonup> envelope" and d
    by (auto simp: ran_def)
  then show ?thesis by (auto simp: put_def Let_def split: sum.split option.split)
qed

lemma validated_from_admission: "snd (validate_request dec cfg now req) = Some env \<Longrightarrow> from_admission env"
  by (auto simp: validate_request_def generate_admission_evidence_def webhook_epoch_def request_subject_def from_admission_def
      Let_def split: if_splits sum.splits)

lemma served_from_admission:
  assumes "snd (serve dec_review dec_pod enc cfg now path meth body) = Some env"
  shows "from_admission env"
proof -
  obtain st out where v: "handle_validate dec_review dec_pod enc cfg now meth body = ((st, out), Some env)"
    using assms by (cases "handle_validate dec_review dec_pod enc cfg now meth body") (auto simp: serve_def split: if_splits)
  from handle_validate_answer[OF v] obtain req where "Some env = snd (validate_request dec_pod cfg now req)" by auto
  then show ?thesis using validated_from_admission by metis
qed

lemma step_only_admissions:
  assumes "only_admissions k"
  shows "only_admissions (controller_step w k ev)"
proof (cases ev)
  case (HttpCall now path meth body)
  show ?thesis
  proof (cases "ko_webhook k")
    case (Some cfg)
    let ?env = "snd (serve (kw_review w) (kw_pod w) (kw_reply w) (sv_hook cfg) now path meth body)"
    show ?thesis
    proof (cases ?env)
      case env: (Some env)
      have "from_admission env" using env by (rule served_from_admission)
      then show ?thesis
        using assms put_envelopes[of "kw_encode w" "kw_disk_ok w" "ko_repo k" env None]
        by (auto simp: HttpCall Some env persist_def only_admissions_def)
    qed (use assms in \<open>simp add: HttpCall Some persist_def\<close>)
  qed (use assms in \<open>simp add: HttpCall\<close>)
qed (use assms in \<open>simp_all add: only_admissions_def\<close>)

interpretation admissions_only: step_invariant "controller_step w" only_admissions for w
  by unfold_locales (rule step_only_admissions)

lemma reachable_run: "reachable w k k' \<Longrightarrow> \<exists>evs. k' = foldl (controller_step w) k evs"
proof (induction rule: reachable.induct)
  case start
  show ?case by (rule exI[where x = "[]"]) simp
next
  case (event k' ev)
  then obtain evs where "k' = foldl (controller_step w) k evs" by blast
  then show ?case by (intro exI[where x = "evs @ [ev]"]) simp
qed

lemma reachable_only_admissions: "reachable w k k' \<Longrightarrow> only_admissions k \<Longrightarrow> only_admissions k'"
  using reachable_run admissions_only.run_inv by metis

section \<open>Digests of subjects\<close>

text \<open>The workload that the resolver finds for a subject, and the text that it hashes.\<close>

definition subject_workload :: "cluster \<Rightarrow> subject_ref \<Rightarrow> (bool \<times> workload) option" where
  "subject_workload cl sub =
     (let ns = smap_get (s_attributes sub) ''namespace'';
          kind = smap_get (s_attributes sub) ''kind'';
          name = smap_get (s_attributes sub) ''name'';
          (ns, kind, name) =
            (if ns = [] \<or> name = []
             then (case parse_k8s_uri (subject_uri sub) of (_, pns, pkind, pname) \<Rightarrow>
                     (if ns = [] then pns else ns, if kind = [] then pkind else kind, if name = [] then pname else name))
             else (ns, kind, name))
      in if ns \<noteq> [] \<and> name \<noteq> [] then lookup_workload (Some cl) kind ns name else None)"

definition subject_source :: "cluster \<Rightarrow> subject_ref \<Rightarrow> string" where
  "subject_source cl sub =
     (case subject_workload cl sub of
        Some (is_deploy, wl) \<Rightarrow> if is_deploy then deployment_raw wl else pod_raw wl
      | None \<Rightarrow> attributes_raw sub)"

lemma subject_source_digest: "compute_subject_digest (Some cl) sub = compute_digest (subject_source cl sub)"
proof -
  have "compute_subject_digest (Some cl) sub =
      (case subject_workload cl sub of
         Some (is_deploy, wl) \<Rightarrow> if is_deploy then compute_deployment_digest wl else compute_pod_digest wl
       | None \<Rightarrow> ''sha256:'' @ hex_encode (sha256 (attributes_raw sub)))"
    by (simp only: compute_subject_digest_def subject_workload_def Let_def case_prod_beta)
  also have "\<dots> = compute_digest (subject_source cl sub)"
    unfolding prefix_digest subject_source_def
    by (cases "subject_workload cl sub") (auto simp: deployment_dig.dig_canon pod_dig.dig_canon)
  finally show ?thesis .
qed

text \<open>It is never the text that the webhook hashes for the subject of a pod.\<close>

lemma sources_differ:
  assumes "s_scheme sub = ''k8s''" and "s_scheme p = ''k8s''"
  shows "subject_raw p \<noteq> subject_source cl sub"
proof (cases "subject_workload cl sub")
  case None
  then show ?thesis using assms by (simp add: subject_source_def subject_raw_def attributes_raw_def)
next
  case (Some found)
  obtain d wl where "found = (d, wl)" by (cases found)
  with Some show ?thesis using assms
    by (simp add: subject_source_def subject_raw_def deployment_raw_def pod_raw_def)
qed

lemma resolved_scheme: "s_scheme (resolve_subject client uri) = ''k8s''"
  by (simp add: resolve_subject_def build_deployment_subject_ref_def build_pod_subject_ref_def split: prod.split option.split)

lemma controller_binding_subject:
  "\<exists>sub. s_scheme sub = ''k8s'' \<and>
     binding_subject (controller_reconciler w k now ks) b = (sub, compute_digest (subject_source (kw_cluster w) sub))"
proof -
  let ?sub = "resolve_subject (Some (kw_cluster w)) (''k8s://'' @ br_namespace b @ ''/'' @
      (case br_kinds b of kd # _ \<Rightarrow> if kd \<noteq> ''*'' then kd else ''Deployment'' | [] \<Rightarrow> ''Deployment'') @ ''/'' @
      trim_suffix (br_name b) ''-binding'')"
  have "binding_subject (controller_reconciler w k now ks) b = (?sub, compute_digest (subject_source (kw_cluster w) ?sub))"
    by (simp add: binding_subject_def controller_reconciler_def Let_def subject_source_digest split: list.split)
  then show ?thesis using resolved_scheme by blast
qed

lemma listed_from_repo: "list_by_subject ks r sub = Ok envs \<Longrightarrow> set envs \<subseteq> ran (envelopes r)"
proof -
  have c: "set (collect r q acc ds) \<subseteq> set acc \<union> ran (envelopes r)" for q acc ds
    using collect_spec[of r q acc ds] by (auto intro: ranI)
  assume "list_by_subject ks r sub = Ok envs"
  then show ?thesis
    using c[of _ "[]"] c
    by (fastforce simp: list_by_subject_def Let_def split: if_splits option.splits)
qed

section \<open>Properties\<close>

text \<open>A controller that keeps its evidence in memory starts without any.\<close>

lemma started_only_admissions:
  assumes "start_controller bo so now fl = Ok k" and "kf_evidence_dir fl = []"
  shows "only_admissions k"
  using assms by (auto simp: start_controller_def controller_repository_def only_admissions_def new_memory_repository_def
      split: if_splits sum.splits)

text \<open>
  C4: the controller never assures a binding by its own admission evidence: started with a repository that has only such
  evidence, after any events, no binding evaluates to ASSURED, unless for one of the stored envelopes the texts hashed
  for its pod and for the subject of the binding, which are always different, have the same SHA-256 digest: the
  webhook and the resolver of the reconciler compute the digest of a subject in different ways.
\<close>

lemma controller_never_assures:
  assumes "reachable w k k'" and "only_admissions k"
  shows "fst (evaluate_binding (controller_reconciler w k' now ks) clock b) \<noteq> Assured \<or>
    (\<exists>env\<in>ran (envelopes (ko_repo k')). \<exists>sub. fst (binding_subject (controller_reconciler w k' now ks) b) = sub \<and>
       collides (subject_raw (ev_subject env)) (subject_source (kw_cluster w) sub))"
proof (cases "fst (evaluate_binding (controller_reconciler w k' now ks) clock b) = Assured")
  case True
  let ?r = "controller_reconciler w k' now ks"
  let ?e = "\<lparr>evidence_source = [], evidence_repo = Some (list_by_subject ks (ko_repo k'))\<rparr>"
  obtain sub where k8s: "s_scheme sub = ''k8s''"
    and sub: "binding_subject ?r b = (sub, compute_digest (subject_source (kw_cluster w) sub))"
    using controller_binding_subject by blast
  have "rec_evaluator ?r = Some (contract_evaluate ?e)" by (simp add: controller_reconciler_def)
  from assured_binding_supported[OF this True sub]
  obtain req env where env: "env \<in> set (default_source ?e sub)"
    and sup: "supports req (empty_epoch\<lparr>subject_digest := compute_digest (subject_source (kw_cluster w) sub)\<rparr>) (clock 0) env"
    by (metis length_greater_0_conv)
  have mem: "env \<in> ran (envelopes (ko_repo k'))"
    using env listed_from_repo[of ks "ko_repo k'" sub]
    by (cases "list_by_subject ks (ko_repo k') sub") (auto simp: default_source_def)
  then have adm: "from_admission env"
    using reachable_only_admissions[OF assms(1,2)] by (simp add: only_admissions_def)
  have "compute_digest (subject_raw (ev_subject env)) = compute_digest (subject_source (kw_cluster w) sub)"
    using sup adm by (auto simp: supports_def epoch_matches_def from_admission_def subject_ref_digest_def split: if_splits)
  moreover have "subject_raw (ev_subject env) \<noteq> subject_source (kw_cluster w) sub"
    using adm k8s by (intro sources_differ) (simp_all add: from_admission_def)
  ultimately have "collides (subject_raw (ev_subject env)) (subject_source (kw_cluster w) sub)"
    using compute_digest_cases by blast
  then show ?thesis using mem sub by (intro disjI2 bexI[OF _ mem] exI[where x = sub]) simp
qed simp

definition example_pod :: pod where
  "example_pod =
     \<lparr>pd_name = ''api'', pd_generate_name = [], pd_security = Some \<lparr>ps_run_as_non_root = Some True, ps_run_as_user = None\<rparr>,
      pd_containers = [], pd_init_containers = []\<rparr>"

definition example_world :: controller_world where
  "example_world =
     \<lparr>kw_review = \<lambda>d. Ok (Some \<lparr>q_kind = ''Pod'', q_name = ''api'', q_namespace = ''ns'', q_uid = ''u'', q_object = []\<rparr>),
      kw_pod = \<lambda>d. Ok example_pod, kw_reply = \<lambda>r. Ok [], kw_encode = \<lambda>e. Ok ''x'', kw_disk_ok = \<lambda>p. True,
      kw_cluster = \<lparr>get_deployment = \<lambda>ns n. None, get_pod = \<lambda>ns n. None\<rparr>, kw_binding = \<lambda>ns n. Found example_binding,
      kw_contract = \<lambda>ns n. NotFound, kw_states = \<lambda>ns. Ok [], kw_update = \<lambda>b. None, kw_state = \<lambda>ns n. NotFound,
      kw_sign = \<lambda>k m. []\<rparr>"

definition example_boot :: "unit boot" where
  "example_boot =
     \<lparr>bo_manager = None, bo_keys = Ok ([], []), bo_setup_binding = None, bo_setup_state = None, bo_health = None, bo_ready = None,
      bo_certs = \<lparr>xl_generate = Ok (), xl_serial = Ok, xl_create = \<lambda>t k. Ok [], xl_marshal = \<lambda>k. Ok [], xl_pem = \<lambda>kind d. Ok ''pem''\<rparr>,
      bo_add_webhook = None\<rparr>"

lemma controller_never_assures_witness:
  "\<exists>k k'. start_controller example_boot example_store 0 (default_controller_flags\<lparr>kf_evidence_dir := []\<rparr>) = Ok k \<and>
     k' = controller_step example_world k (HttpCall 0 ''/validate'' ''POST'' (Ok [])) \<and> envelopes (ko_repo k') \<noteq> Map.empty \<and>
     (fst (evaluate_binding (controller_reconciler example_world k' 1 [compute_digest ''x'']) (\<lambda>i. 1) example_binding) \<noteq> Assured \<or>
      (\<exists>env\<in>ran (envelopes (ko_repo k')). \<exists>sub.
         fst (binding_subject (controller_reconciler example_world k' 1 [compute_digest ''x'']) example_binding) = sub \<and>
         collides (subject_raw (ev_subject env)) (subject_source (kw_cluster example_world) sub)))"
proof -
  let ?fl = "default_controller_flags\<lparr>kf_evidence_dir := []\<rparr>" and ?ev = "HttpCall 0 ''/validate'' ''POST'' (Ok [])"
  have "\<exists>k. start_controller example_boot example_store 0 ?fl = Ok k \<and> envelopes (ko_repo (controller_step example_world k ?ev)) \<noteq> Map.empty"
    by (simp add: start_controller_def example_boot_def new_receipt_manager_def controller_webhook_def default_controller_flags_def
        generate_self_signed_cert_def controller_repository_def new_memory_repository_def serve_def handle_validate_def
        validate_request_def example_world_def example_pod_def all_violations_def check_non_root_compliance_def pod_user_zero_def
        all_containers_def check_capability_compliance_def generate_admission_evidence_def controller_hook_def persist_def put_def
        Let_def)
  then obtain k where k: "start_controller example_boot example_store 0 ?fl = Ok k"
    and ne: "envelopes (ko_repo (controller_step example_world k ?ev)) \<noteq> Map.empty" by blast
  have "only_admissions k" by (rule started_only_admissions[OF k]) simp
  moreover have "reachable example_world k (controller_step example_world k ?ev)" by (rule reachable.event[OF reachable.start])
  ultimately show ?thesis
    using k ne controller_never_assures[of example_world k "controller_step example_world k ?ev" 1 "[compute_digest ''x'']" "\<lambda>i. 1"
        example_binding] by blast
qed

end
