(* ===== verification/State_Repo.thy ===== *)
theory State_Repo
  imports Cas
begin

text \<open>
  internal/adapters/storage/assurance_repo.go and observation_source.go: the latest state of every
  subject, cached and written to one file after each change, and the observations read back from
  stored evidence. The JSON codec of the state map is an argument, and ok tells which files can be
  written.
\<close>

section \<open>The latest state of a subject\<close>

record state_record =
  sr_subject :: subject_ref
  sr_state :: astate
  sr_epoch :: epoch
  sr_evidence_root :: string

type_synonym state_map = "string \<rightharpoonup> state_record"

record state_repo =
  sr_base :: string
  sr_states :: state_map
  sr_files :: "string \<rightharpoonup> string"

definition states_path :: "string \<Rightarrow> string" where
  "states_path base = join_str ''/'' [base, ''assurance_states.json'']"

definition load_states :: "(string \<Rightarrow> state_map option) \<Rightarrow> state_repo \<Rightarrow> state_repo" where
  "load_states dec r =
     (case sr_files r (states_path (sr_base r)) of
       None \<Rightarrow> r
     | Some data \<Rightarrow> (case dec data of Some loaded \<Rightarrow> r\<lparr>sr_states := loaded\<rparr> | None \<Rightarrow> r))"

definition new_state_repository ::
  "(string \<Rightarrow> state_map option) \<Rightarrow> (string \<rightharpoonup> string) \<Rightarrow> string \<Rightarrow> state_repo" where
  "new_state_repository dec fs base =
     (let repo = \<lparr>sr_base = base, sr_states = Map.empty, sr_files = fs\<rparr>
      in if base \<noteq> [] then load_states dec repo else repo)"

definition persist_states ::
  "(state_map \<Rightarrow> string result) \<Rightarrow> (string \<Rightarrow> bool) \<Rightarrow> state_repo \<Rightarrow> state_repo \<times> string option" where
  "persist_states enc ok r =
     (if sr_base r = [] then (r, None)
      else case enc (sr_states r) of
          Inl e \<Rightarrow> (r, Some e)
        | Inr data \<Rightarrow>
            if ok (states_path (sr_base r))
            then (r\<lparr>sr_files := (sr_files r)(states_path (sr_base r) \<mapsto> data)\<rparr>, None)
            else (r, Some ''write failed''))"

definition get_state :: "state_repo \<Rightarrow> subject_ref \<Rightarrow> astate \<times> epoch \<times> string option" where
  "get_state r subject =
     (let key = subject_uri subject
      in case sr_states r key of
           None \<Rightarrow> (Unknown, empty_epoch, Some (''no state recorded for subject: '' @ key))
         | Some rc \<Rightarrow> (sr_state rc, sr_epoch rc, None))"

definition save_state ::
  "(state_map \<Rightarrow> string result) \<Rightarrow> (string \<Rightarrow> bool) \<Rightarrow> state_repo \<Rightarrow> subject_ref \<Rightarrow> astate \<Rightarrow> epoch \<Rightarrow> string \<Rightarrow>
     state_repo \<times> string option" where
  "save_state enc ok r subject st ep root =
     persist_states enc ok
       (r\<lparr>sr_states := (sr_states r)(subject_uri subject \<mapsto>
          \<lparr>sr_subject = subject, sr_state = st, sr_epoch = ep, sr_evidence_root = root\<rparr>)\<rparr>)"

lemma persist_states_same [simp]:
  "sr_states (fst (persist_states enc ok r)) = sr_states r" "sr_base (fst (persist_states enc ok r)) = sr_base r"
  by (simp_all add: persist_states_def split: sum.split)

lemma save_state_states:
  "sr_states (fst (save_state enc ok r s st ep root)) =
     (sr_states r)(subject_uri s \<mapsto> \<lparr>sr_subject = s, sr_state = st, sr_epoch = ep, sr_evidence_root = root\<rparr>)"
  by (simp add: save_state_def)

lemma save_state_durable:
  assumes "sr_base r \<noteq> []" and "save_state enc ok r s st ep root = (r', None)"
    and "\<And>m x. enc m = Inr x \<Longrightarrow> dec x = Some m"
  shows "sr_states (new_state_repository dec (sr_files r') (sr_base r)) = sr_states r'"
  using assms
  by (auto simp: save_state_def persist_states_def new_state_repository_def load_states_def Let_def
      split: sum.splits if_splits)

section \<open>The contract of a state repository\<close>

locale assurance_repository =
  fixes get :: "'s \<Rightarrow> subject_ref \<Rightarrow> astate \<times> epoch \<times> string option"
    and save :: "'s \<Rightarrow> subject_ref \<Rightarrow> astate \<Rightarrow> epoch \<Rightarrow> string \<Rightarrow> 's"
  assumes get_save: "get (save r s st ep root) t =
    (if subject_uri s = subject_uri t then (st, ep, None) else get r t)"
begin

lemma save_commute:
  "subject_uri s \<noteq> subject_uri t \<Longrightarrow>
     get (save (save r s st ep root) t st' ep' root') u = get (save (save r t st' ep' root') s st ep root) u"
  by (auto simp: get_save)

lemma last_save:
  "get (foldl (\<lambda>r (s, st, ep, root). save r s st ep root) r ws) t =
     (case filter (\<lambda>(s, st, ep, root). subject_uri s = subject_uri t) ws of
        [] \<Rightarrow> get r t
      | w # v \<Rightarrow> (case last (w # v) of (s, st, ep, root) \<Rightarrow> (st, ep, None)))"
  by (induction ws rule: rev_induct) (auto simp: get_save split: list.splits)

end

interpretation state_repo: assurance_repository get_state
  "\<lambda>r s st ep root. fst (save_state enc ok r s st ep root)" for enc ok
  by unfold_locales (simp add: get_state_def save_state_states Let_def)

section \<open>Observations\<close>

definition observation_of :: "envelope \<Rightarrow> observation" where
  "observation_of env =
     \<lparr>o_id = ''obs-'' @ ev_id env, o_subject = ev_subject env, o_type = ev_observation_type env,
      o_observed_at = ev_captured_at env, o_observer = ev_producer env, o_evidence = [ev_artifact env],
      o_attributes = [(''epochComposite'', composite_digest (ev_epoch env)),
                      (''producer'', authority_canonical (ev_producer env))]\<rparr>"

text \<open>The repository, where there is one, is what it lists for the subject.\<close>

definition list_observations ::
  "(subject_ref \<Rightarrow> envelope list result) option \<Rightarrow> subject_ref \<Rightarrow> time \<Rightarrow> observation list result" where
  "list_observations repo subject since =
     (case repo of
       None \<Rightarrow> Ok []
     | Some lst \<Rightarrow>
         (case lst subject of
           Inl e \<Rightarrow> Err e
         | Inr envs \<Rightarrow>
             Ok (map observation_of (filter (\<lambda>env. \<not> (\<not> is_zero_time since \<and> ev_captured_at env < since)) envs))))"

section \<open>Properties\<close>

text \<open>
  Further: the state read for a subject is that of the last save for its URI, whether or not the saves reached the
  disk, and UNKNOWN with an error where there was none; when the last save reports no error, a
  repository opened over the same files reads the same states.
\<close>

lemma states_read_back:
  fixes enc ok r ws
  defines "save \<equiv> \<lambda>r (s, st, ep, root). fst (save_state enc ok r s st ep root)"
  assumes "sr_base r \<noteq> []" and "sr_states r = Map.empty" and "\<And>m x. enc m = Inr x \<Longrightarrow> dec x = Some m"
    and "save_state enc ok (foldl save r ws) s st ep root = (r', None)"
  shows "get_state (foldl save r ws) t =
      (case filter (\<lambda>(s, st, ep, root). subject_uri s = subject_uri t) ws of
         [] \<Rightarrow> (Unknown, empty_epoch, Some (''no state recorded for subject: '' @ subject_uri t))
       | w # v \<Rightarrow> (case last (w # v) of (s, st, ep, root) \<Rightarrow> (st, ep, None))) \<and>
    get_state (new_state_repository dec (sr_files r') (sr_base r)) s = (st, ep, None)"
proof
  have none: "get_state r t = (Unknown, empty_epoch, Some (''no state recorded for subject: '' @ subject_uri t))"
    using assms(3) by (simp add: get_state_def Let_def)
  show "get_state (foldl save r ws) t =
      (case filter (\<lambda>(s, st, ep, root). subject_uri s = subject_uri t) ws of
         [] \<Rightarrow> (Unknown, empty_epoch, Some (''no state recorded for subject: '' @ subject_uri t))
       | w # v \<Rightarrow> (case last (w # v) of (s, st, ep, root) \<Rightarrow> (st, ep, None)))"
    unfolding save_def state_repo.last_save none ..
  have "sr_base (foldl save r ws) = sr_base r"
    by (induction ws arbitrary: r) (auto simp: save_def save_state_def)
  with save_state_durable[OF _ assms(5,4)] assms(2)
  have "sr_states (new_state_repository dec (sr_files r') (sr_base r)) = sr_states r'" by simp
  moreover have "sr_states r' = (sr_states (foldl save r ws))(subject_uri s \<mapsto>
      \<lparr>sr_subject = s, sr_state = st, sr_epoch = ep, sr_evidence_root = root\<rparr>)"
    using save_state_states[of enc ok "foldl save r ws" s st ep root] assms(5) by simp
  ultimately show "get_state (new_state_repository dec (sr_files r') (sr_base r)) s = (st, ep, None)"
    by (simp add: get_state_def Let_def)
qed

text \<open>A codec that knows a single map shows that the hypotheses can hold.\<close>

definition example_states :: state_map where
  "example_states = [subject_uri (ev_subject example_put) \<mapsto>
     \<lparr>sr_subject = ev_subject example_put, sr_state = Assured, sr_epoch = empty_epoch, sr_evidence_root = []\<rparr>]"

definition example_encoder :: "state_map \<Rightarrow> string result" where
  "example_encoder m = (if m = example_states then Ok ''1'' else Err [])"

lemma states_read_back_witness:
  "\<exists>r'. save_state example_encoder (\<lambda>p. True) \<lparr>sr_base = ''/d'', sr_states = Map.empty, sr_files = Map.empty\<rparr>
       (ev_subject example_put) Assured empty_epoch [] = (r', None) \<and>
     get_state (new_state_repository (\<lambda>x. Some example_states) (sr_files r') ''/d'') (ev_subject example_put) =
       (Assured, empty_epoch, None)"
proof -
  let ?r = "\<lparr>sr_base = ''/d'', sr_states = Map.empty, sr_files = Map.empty\<rparr>"
  have "\<exists>r'. save_state example_encoder (\<lambda>p. True) ?r (ev_subject example_put) Assured empty_epoch [] = (r', None)"
    by (simp add: save_state_def persist_states_def example_encoder_def example_states_def)
  then obtain r' where r': "save_state example_encoder (\<lambda>p. True) ?r (ev_subject example_put) Assured empty_epoch [] = (r', None)"
    by blast
  have codec: "Some example_states = Some m" if "example_encoder m = Inr x" for m x
    using that by (simp add: example_encoder_def split: if_splits)
  show ?thesis
    using states_read_back[of ?r example_encoder "\<lambda>x. Some example_states" "\<lambda>p. True" "[]"
      "ev_subject example_put" Assured empty_epoch "[]" r' "ev_subject example_put", OF _ _ codec] r'
    by auto
qed

end
