(* ===== verification/Airgap.thy ===== *)
theory Airgap
  imports Cas Receipts
begin

text \<open>
  internal/adapters/airgap/bundle.go: exporting evaluations, receipts, envelopes and blobs as one
  bundle under a manifest digest, and importing a bundle into a repository. The JSON codec of
  bundles is an argument; the repository that is read is its Get, the one that is written is the
  state of Cas; the signer that checks receipts is its VerifyReceipt.
\<close>

record bundle_metadata =
  md_bundle_id :: string
  md_exported_at :: time
  md_subject_uri :: string
  md_epoch_composite :: string
  md_generator :: string

record airgap_bundle =
  bd_metadata :: bundle_metadata
  bd_evaluations :: "claim_evaluation list"
  bd_receipts :: "control_receipt list"
  bd_envelopes :: "envelope list"
  bd_blobs :: smap
  bd_manifest_digest :: string

definition manifest_entries :: "airgap_bundle \<Rightarrow> string list" where
  "manifest_entries b =
     map (\<lambda>ev. ''eval:'' @ evaluation_digest ev) (bd_evaluations b) @
     map (\<lambda>env. ''env:'' @ envelope_digest env) (bd_envelopes b) @
     map (\<lambda>r. ''receipt:'' @ rc_evidence_root r @ '':'' @ rc_signature r) (bd_receipts b) @
     map (\<lambda>(digest, content). ''blob:'' @ digest @ '':'' @ hex_encode (sha256 content)) (bd_blobs b)"

definition manifest_raw :: "airgap_bundle \<Rightarrow> string" where
  "manifest_raw b =
     join_str ''|'' [md_bundle_id (bd_metadata b), md_subject_uri (bd_metadata b),
       md_epoch_composite (bd_metadata b), md_generator (bd_metadata b),
       show_int (unix_nano (md_exported_at (bd_metadata b))),
       join_str nl (sort_strings (manifest_entries b))]"

definition compute_manifest_digest :: "airgap_bundle \<Rightarrow> string" where
  "compute_manifest_digest b = ''sha256:'' @ hex_encode (sha256 (manifest_raw b))"

interpretation manifest_dig: content_addressed manifest_raw compute_manifest_digest
  by unfold_locales (simp add: compute_manifest_digest_def compute_digest_def sha_prefix_def)

definition export_blobs :: "(evidence_ref \<Rightarrow> string result) option \<Rightarrow> envelope list \<Rightarrow> smap" where
  "export_blobs repo envs =
     foldl (\<lambda>m env. case repo of
         None \<Rightarrow> m
       | Some read \<Rightarrow>
           if e_digest (ev_artifact env) \<noteq> []
           then (case read (ev_artifact env) of Inl _ \<Rightarrow> m | Inr data \<Rightarrow> smap_put m (e_digest (ev_artifact env)) data)
           else m) [] envs"

definition export_bundle ::
  "(airgap_bundle \<Rightarrow> string result) \<Rightarrow> time \<Rightarrow> subject_ref \<Rightarrow> claim_evaluation list \<Rightarrow> control_receipt list \<Rightarrow> envelope list \<Rightarrow>
     (evidence_ref \<Rightarrow> string result) option \<Rightarrow> (airgap_bundle \<times> string) result" where
  "export_bundle enc now subject evaluations receipts envs repo =
     (let composite = (case evaluations of [] \<Rightarrow> [] | e # _ \<Rightarrow> composite_digest (ce_epoch e));
          b = \<lparr>bd_metadata = \<lparr>md_bundle_id = ''bundle-'' @ show_int (unix_nano now), md_exported_at = now,
                 md_subject_uri = subject_uri subject, md_epoch_composite = composite,
                 md_generator = ''oskal-airgap-packager:v0.2.0''\<rparr>,
               bd_evaluations = evaluations, bd_receipts = receipts, bd_envelopes = envs,
               bd_blobs = export_blobs repo envs, bd_manifest_digest = []\<rparr>;
          b = b\<lparr>bd_manifest_digest := compute_manifest_digest b\<rparr>
      in case enc b of
           Inl e \<Rightarrow> Err (''failed to encode air-gap bundle: '' @ e)
         | Inr data \<Rightarrow> Ok (b, data))"

fun check_receipts :: "(control_receipt \<Rightarrow> bool result) \<Rightarrow> int \<Rightarrow> control_receipt list \<Rightarrow> string option" where
  "check_receipts check i [] = None"
| "check_receipts check i (r # rs) =
     (let fail = (\<lambda>e. Some (''receipt['' @ show_int i @ ''] failed cryptographic verification: '' @ e))
      in case check r of
           Inl e \<Rightarrow> fail e
         | Inr valid \<Rightarrow> if \<not> valid then fail ''%!w(<nil>)'' else check_receipts check (i + 1) rs)"

fun import_envelopes ::
  "encoder \<Rightarrow> (string \<Rightarrow> bool) \<Rightarrow> smap \<Rightarrow> cas \<Rightarrow> envelope list \<Rightarrow> cas \<times> string option" where
  "import_envelopes enc ok content r [] = (r, None)"
| "import_envelopes enc ok content r (env # envs) =
     (case put enc ok r env (Some (Inr (smap_get content (e_digest (ev_artifact env))))) of
       (r', Inl e) \<Rightarrow> (r', Some (''failed to import envelope '' @ ev_id env @ '' into target repository: '' @ e))
     | (r', Inr _) \<Rightarrow> import_envelopes enc ok content r' envs)"

text \<open>The repository, if there is one, is returned with the result.\<close>

definition import_bundle ::
  "(string \<Rightarrow> airgap_bundle result) \<Rightarrow> encoder \<Rightarrow> (string \<Rightarrow> bool) \<Rightarrow> string \<Rightarrow> cas option \<Rightarrow>
     (control_receipt \<Rightarrow> bool result) option \<Rightarrow> cas option \<times> airgap_bundle result" where
  "import_bundle dec enc ok data target signer =
     (case dec data of
       Inl e \<Rightarrow> (target, Err (''invalid bundle JSON: '' @ e))
     | Inr b \<Rightarrow>
         let expected = compute_manifest_digest b
         in if bd_manifest_digest b \<noteq> expected
            then (target, Err (''bundle manifest digest mismatch: got '' @ bd_manifest_digest b @
                   '', expected '' @ expected))
            else (case (case signer of None \<Rightarrow> None | Some check \<Rightarrow> check_receipts check 0 (bd_receipts b)) of
                Some e \<Rightarrow> (target, Err e)
              | None \<Rightarrow>
                  (case target of
                    None \<Rightarrow> (target, Ok b)
                  | Some r \<Rightarrow>
                      (case import_envelopes enc ok (bd_blobs b) r (bd_envelopes b) of
                        (r', Some e) \<Rightarrow> (Some r', Err e)
                      | (r', None) \<Rightarrow> (Some r', Ok b)))))"

section \<open>Import\<close>

lemma check_receipts_none: "check_receipts check i rs = None \<longleftrightarrow> (\<forall>r\<in>set rs. check r = Ok True)"
  by (induction rs arbitrary: i) (auto simp: Let_def split: sum.splits)

text \<open>What an import puts: every envelope with the blob that the bundle has for its artifact, or the empty
  text. Put number k succeeds when the puts before it were made.\<close>

definition bundle_puts :: "airgap_bundle \<Rightarrow> (envelope \<times> string result option) list" where
  "bundle_puts b =
     map (\<lambda>env. (env, Some (Ok (smap_get (bd_blobs b) (e_digest (ev_artifact env)))))) (bd_envelopes b)"

definition nth_put ::
  "encoder \<Rightarrow> (string \<Rightarrow> bool) \<Rightarrow> cas \<Rightarrow> (envelope \<times> string result option) list \<Rightarrow> nat \<Rightarrow> evidence_ref result" where
  "nth_put enc ok r ps k = snd (put enc ok (store_all enc ok r (take k ps)) (fst (ps ! k)) (snd (ps ! k)))"

lemma store_all_simps [simp]:
  "store_all enc ok r [] = r" "store_all enc ok r (q # ps) = store_all enc ok (fst (put enc ok r (fst q) (snd q))) ps"
  by (simp_all add: store_all_def split: prod.split)

lemma nth_put_simps [simp]:
  "nth_put enc ok r (q # ps) 0 = snd (put enc ok r (fst q) (snd q))"
  "nth_put enc ok r (q # ps) (Suc k) = nth_put enc ok (fst (put enc ok r (fst q) (snd q))) ps k"
  by (simp_all add: nth_put_def)

lemma import_envelopes_puts:
  defines "ps m envs \<equiv> map (\<lambda>env. (env, Some (Inr (smap_get m (e_digest (ev_artifact env)))))) envs"
  shows "case import_envelopes enc ok m r envs of
      (r', None) \<Rightarrow> r' = store_all enc ok r (ps m envs) \<and> (\<forall>k<length envs. is_ok (nth_put enc ok r (ps m envs) k))
    | (r', Some e) \<Rightarrow> \<exists>k e'. k < length envs \<and> (\<forall>i<k. is_ok (nth_put enc ok r (ps m envs) i)) \<and>
        nth_put enc ok r (ps m envs) k = Inl e' \<and> r' = store_all enc ok r (take (Suc k) (ps m envs)) \<and>
        e = ''failed to import envelope '' @ ev_id (envs ! k) @ '' into target repository: '' @ e'"
proof (induction envs arbitrary: r)
  case (Cons env envs)
  let ?p = "Some (Inr (smap_get m (e_digest (ev_artifact env))))"
  obtain r1 res where put: "put enc ok r env ?p = (r1, res)" by (cases "put enc ok r env ?p")
  show ?case
  proof (cases res)
    case (Inl e)
    have "import_envelopes enc ok m r (env # envs) =
        (r1, Some (''failed to import envelope '' @ ev_id env @ '' into target repository: '' @ e))"
      by (simp add: put Inl)
    moreover have "nth_put enc ok r (ps m (env # envs)) 0 = Inl e \<and>
        r1 = store_all enc ok r (take (Suc 0) (ps m (env # envs)))"
      by (simp add: ps_def put Inl)
    ultimately show ?thesis by (simp only: prod.case option.case) (intro exI[of _ 0] exI[of _ e] conjI; simp)
  next
    case (Inr ref)
    obtain r2 fin where rest: "import_envelopes enc ok m r1 envs = (r2, fin)"
      by (cases "import_envelopes enc ok m r1 envs")
    show ?thesis
    proof (cases fin)
      case None
      then show ?thesis using Cons.IH[of r1] put rest Inr
        by (simp add: ps_def All_less_Suc2)
    next
      case (Some e)
      then obtain k e' where k: "k < length envs" "\<forall>i<k. is_ok (nth_put enc ok r1 (ps m envs) i)"
          "nth_put enc ok r1 (ps m envs) k = Inl e'" "r2 = store_all enc ok r1 (take (Suc k) (ps m envs))"
          "e = ''failed to import envelope '' @ ev_id (envs ! k) @ '' into target repository: '' @ e'"
        using Cons.IH[of r1] rest by (simp del: append_Cons append_Nil) blast
      have "\<forall>i<Suc k. is_ok (nth_put enc ok r (ps m (env # envs)) i)"
        using k(2) put Inr by (auto simp: ps_def less_Suc_eq_0_disj)
      moreover have "nth_put enc ok r (ps m (env # envs)) (Suc k) = Inl e'"
        "r2 = store_all enc ok r (take (Suc (Suc k)) (ps m (env # envs)))"
        using k(3,4) put by (simp_all add: ps_def)
      moreover have "import_envelopes enc ok m r (env # envs) = (r2, Some e)"
        using put rest Inr Some by simp
      ultimately show ?thesis using k(1,5)
        by (simp only: prod.case option.case) (intro exI[of _ "Suc k"] exI[of _ e'] conjI, simp_all)
    qed
  qed
qed (simp add: ps_def)

text \<open>The checks before the first put.\<close>

definition bundle_accepted ::
  "(string \<Rightarrow> airgap_bundle result) \<Rightarrow> string \<Rightarrow> (control_receipt \<Rightarrow> bool result) option \<Rightarrow> airgap_bundle \<Rightarrow> bool" where
  "bundle_accepted dec data signer b =
     (dec data = Ok b \<and> bd_manifest_digest b = compute_manifest_digest b \<and>
      (case signer of None \<Rightarrow> True | Some check \<Rightarrow> list_all (\<lambda>rc. check rc = Ok True) (bd_receipts b)))"

lemma import_accepted:
  assumes "bundle_accepted dec data signer b"
  shows "import_bundle dec enc ok data (Some r) signer =
    (case import_envelopes enc ok (bd_blobs b) r (bd_envelopes b) of
       (r', Some e) \<Rightarrow> (Some r', Err e) | (r', None) \<Rightarrow> (Some r', Ok b))"
proof -
  have "(case signer of None \<Rightarrow> None | Some check \<Rightarrow> check_receipts check 0 (bd_receipts b)) = None"
    using assms by (auto simp: bundle_accepted_def check_receipts_none list_all_iff split: option.splits)
  then show ?thesis using assms by (simp add: bundle_accepted_def import_bundle_def Let_def)
qed

lemma import_refused:
  assumes "\<nexists>b. bundle_accepted dec data signer b"
  shows "\<exists>e. import_bundle dec enc ok data target signer = (target, Err e)"
proof (cases "dec data")
  case (Inr b)
  show ?thesis
  proof (cases "bd_manifest_digest b = compute_manifest_digest b")
    case True
    with assms Inr obtain check where "signer = Some check" "\<not> list_all (\<lambda>rc. check rc = Ok True) (bd_receipts b)"
      by (auto simp: bundle_accepted_def split: option.splits)
    then show ?thesis using Inr True check_receipts_none[of check 0 "bd_receipts b"]
      by (auto simp: import_bundle_def Let_def list_all_iff)
  qed (simp add: Inr import_bundle_def Let_def)
qed (simp add: import_bundle_def)

lemma manifest_raw_unsealed [simp]:
  "compute_manifest_digest (b\<lparr>bd_manifest_digest := d\<rparr>) = compute_manifest_digest b"
  by (simp add: compute_manifest_digest_def manifest_raw_def manifest_entries_def)

lemma export_bundle_sealed:
  "export_bundle enc now s evs rs envs repo = Ok (b, data) \<Longrightarrow>
     enc b = Inr data \<and> bd_manifest_digest b = compute_manifest_digest b \<and> bd_receipts b = rs \<and>
     bd_envelopes b = envs \<and> bd_evaluations b = evs \<and> bd_blobs b = export_blobs repo envs"
  by (auto simp: export_bundle_def Let_def compute_manifest_digest_def manifest_raw_def
      manifest_entries_def split: sum.splits)

lemma manifest_order:
  assumes "mset (manifest_entries b) = mset (manifest_entries c)" and "bd_metadata b = bd_metadata c"
  shows "compute_manifest_digest b = compute_manifest_digest c"
  using sort_strings_perm[OF assms(1)] assms(2)
  by (intro manifest_dig.dig_cong) (simp add: manifest_raw_def)

section \<open>What an imported repository holds\<close>

lemma import_envelopes_ok:
  assumes "base_dir r = [] \<or> (\<forall>path. ok path)" and "\<forall>env\<in>set envs. is_ok (enc env)"
  shows "snd (import_envelopes enc ok m r envs) = None"
  using assms
proof (induction envs arbitrary: r)
  case (Cons env envs)
  let ?p = "put enc ok r env (Some (Inr (smap_get m (e_digest (ev_artifact env)))))"
  from Cons.prems obtain x where x: "enc env = Inr x" by (cases "enc env") auto
  with Cons.prems(1) have "\<exists>ref. snd ?p = Inr ref" by (auto simp: put_def Let_def)
  moreover have "base_dir (fst ?p) = base_dir r" by (simp add: put_def Let_def split: sum.split option.split)
  ultimately show ?case using Cons by (auto split: prod.split sum.split)
qed simp

lemma put_files_envelope:
  "envelopes (fst (put enc ok r env p)) =
     (case enc env of Inl _ \<Rightarrow> envelopes r | Inr x \<Rightarrow> (envelopes r)(compute_digest x \<mapsto> env))"
  by (auto simp: put_def Let_def compute_digest_def sha_prefix_def split: sum.split option.split)

definition texted :: "encoder \<Rightarrow> string \<Rightarrow> cas \<Rightarrow> bool" where
  "texted enc d r = (\<exists>env y. envelopes r d = Some env \<and> enc env = Ok y \<and> compute_digest y = d)"

lemma store_all_texted: "texted enc d r \<Longrightarrow> texted enc d (store_all enc ok r ps)"
proof (induction ps arbitrary: r)
  case (Cons q ps)
  then have "texted enc d (fst (put enc ok r (fst q) (snd q)))"
    by (auto simp: texted_def put_files_envelope split: sum.split)
  then show ?case using Cons.IH by simp
qed simp

lemma imported_envelope:
  assumes "\<forall>env\<in>set envs. is_ok (enc env)" and "env \<in> set envs"
  shows "\<exists>x env' y. enc env = Ok x \<and>
    envelopes (store_all enc ok r (map (\<lambda>env. (env, f env)) envs)) (compute_digest x) = Some env' \<and>
    enc env' = Ok y \<and> (y = x \<or> collides y x)"
proof -
  from assms obtain x where x: "enc env = Inr x" by (cases "enc env") auto
  obtain as bs where envs: "envs = as @ env # bs" using assms(2) by (meson split_list)
  have "texted enc (compute_digest x) (store_all enc ok r (map (\<lambda>env. (env, f env)) (as @ [env])))"
    by (simp add: store_all_def texted_def put_files_envelope x)
  from store_all_texted[OF this, of ok "map (\<lambda>env. (env, f env)) bs"]
  have "texted enc (compute_digest x) (store_all enc ok r (map (\<lambda>env. (env, f env)) envs))"
    by (simp add: envs store_all_def)
  then show ?thesis using x compute_digest_cases unfolding texted_def by blast
qed

lemma export_blobs_get:
  assumes "env \<in> set envs" and "get src (ev_artifact env) = Inr content" and "e_digest (ev_artifact env) \<noteq> []"
  shows "smap_get (export_blobs (Some (get src)) envs) (e_digest (ev_artifact env)) = content"
proof -
  let ?step = "\<lambda>m env. if e_digest (ev_artifact env) \<noteq> []
       then (case get src (ev_artifact env) of Inl _ \<Rightarrow> m | Inr data \<Rightarrow> smap_put m (e_digest (ev_artifact env)) data)
       else m"
  have same: "get src ref = Inr content" if "e_digest ref = e_digest (ev_artifact env)" for ref
    using assms(2) unfolding get_def that .
  have kept: "smap_get (foldl ?step m es) (e_digest (ev_artifact env)) = content"
    if "smap_get m (e_digest (ev_artifact env)) = content" for m es
    using that
  proof (induction es arbitrary: m)
    case (Cons e es)
    have "smap_get (?step m e) (e_digest (ev_artifact env)) = content"
      using Cons.prems same[of "ev_artifact e"] by (auto simp: smap_get_put split: sum.split)
    from Cons.IH[OF this] show ?case by simp
  qed simp
  obtain as bs where envs: "envs = as @ env # bs" using assms(1) by (meson split_list)
  have "smap_get (?step m env) (e_digest (ev_artifact env)) = content" for m
    using assms(2,3) by (simp add: smap_get_put)
  from kept[OF this] show ?thesis
    unfolding export_blobs_def envs foldl_append foldl_Cons option.case .
qed

lemma imported_artifact:
  assumes "\<forall>env\<in>set envs. is_ok (enc env)" and "base_dir r = [] \<or> (\<forall>path. ok path)" and "env \<in> set envs"
    and "get src (ev_artifact env) = Inr content" and "verify src (ev_artifact env) = Ok True"
  shows "\<exists>data. get (store_all enc ok r (map (\<lambda>env. (env, Some (Ok (smap_get (export_blobs (Some (get src)) envs)
      (e_digest (ev_artifact env)))))) envs)) (ev_artifact env) = Ok data \<and> (data = content \<or> collides data content)"
proof -
  let ?f = "\<lambda>env. (env, Some (Inr (smap_get (export_blobs (Some (get src)) envs) (e_digest (ev_artifact env)))))"
  have dig: "e_digest (ev_artifact env) = compute_digest content"
    using assms(4,5) by (auto simp: verify_def Let_def compute_digest_def sha_prefix_def split: if_splits)
  then have "e_digest (ev_artifact env) \<noteq> []" by (metis length_compute_digest list.size(3) zero_neq_numeral)
  then have blob: "smap_get (export_blobs (Some (get src)) envs) (e_digest (ev_artifact env)) = content"
    by (rule export_blobs_get[OF assms(3,4)])
  obtain as bs where envs: "envs = as @ env # bs" using assms(3) by (meson split_list)
  define q where "q = store_all enc ok r (map ?f as)"
  have base: "base_dir q = base_dir r"
    unfolding q_def by (induction as rule: rev_induct)
      (simp_all add: store_all_def put_def Let_def split: sum.split option.split)
  obtain x where "enc env = Inr x" using assms(1,3) by (cases "enc env") auto
  then obtain q' ref where put: "put enc ok q env (Some (Inr content)) = (q', Inr ref)"
    using assms(2) base by (cases "put enc ok q env (Some (Inr content))") (auto simp: put_def Let_def split: if_splits)
  then have "holds_digest q' (compute_digest content)" using put_holds[OF put] by blast
  then have "holds_digest (store_all enc ok q' (map ?f bs)) (compute_digest content)" by (rule store_all_holds)
  moreover have "store_all enc ok r (map ?f envs) = store_all enc ok q' (map ?f bs)"
    unfolding envs map_append list.map using put blob by (simp add: store_all_def q_def envs)
  ultimately show ?thesis using holds_digest_get[OF _ dig] by simp
qed

text \<open>A repository that holds one artifact, and an envelope that refers to it.\<close>

definition artifact_source :: cas where
  "artifact_source = (new_memory_repository Map.empty)\<lparr>blobs := [compute_digest ''raw'' \<mapsto> ''raw'']\<rparr>"

definition artifact_put :: envelope where
  "artifact_put = example_put\<lparr>ev_artifact := \<lparr>e_uri = [], e_digest = compute_digest ''raw'', e_media_type = []\<rparr>\<rparr>"

section \<open>Properties\<close>

text \<open>
  C34: a bundle is imported into a repository only if it parses, carries the digest of its own manifest and,
  where a signer is given, all of its receipts verify, and only if every put of an envelope with its blob
  succeeded, all in the order of the bundle. A bundle that fails a check leaves the repository as it was.
  When a put fails, the import stops there: the error names the envelope and the error of that put, the
  envelopes before it are stored, and no later one is attempted.
\<close>

lemma import_is_checked:
  "case import_bundle dec enc ok data (Some r) signer of
     (target, Inr b) \<Rightarrow> bundle_accepted dec data signer b \<and>
       list_all (\<lambda>k. is_ok (nth_put enc ok r (bundle_puts b) k)) [0..<length (bd_envelopes b)] \<and>
       target = Some (store_all enc ok r (bundle_puts b))
   | (target, Inl e) \<Rightarrow>
       ((\<nexists>b. bundle_accepted dec data signer b) \<and> target = Some r) \<or>
       (\<exists>b k e'. bundle_accepted dec data signer b \<and> k < length (bd_envelopes b) \<and>
          list_all (\<lambda>i. is_ok (nth_put enc ok r (bundle_puts b) i)) [0..<k] \<and>
          nth_put enc ok r (bundle_puts b) k = Err e' \<and>
          target = Some (store_all enc ok r (take (Suc k) (bundle_puts b))) \<and>
          e = ''failed to import envelope '' @ ev_id (bd_envelopes b ! k) @ '' into target repository: '' @ e')"
proof (cases "\<exists>b. bundle_accepted dec data signer b")
  case False
  with import_refused[OF this, of enc ok "Some r"] show ?thesis by fastforce
next
  case True
  then obtain b where b: "bundle_accepted dec data signer b" by blast
  obtain r' fin where imp: "import_envelopes enc ok (bd_blobs b) r (bd_envelopes b) = (r', fin)"
    by (cases "import_envelopes enc ok (bd_blobs b) r (bd_envelopes b)")
  note puts = import_envelopes_puts[where enc = enc and ok = ok and m = "bd_blobs b" and r = r and envs = "bd_envelopes b", folded bundle_puts_def, unfolded imp]
  show ?thesis
  proof (cases fin)
    case None
    with puts show ?thesis by (simp add: import_accepted[OF b] imp b list_all_iff)
  next
    case (Some e)
    from puts[unfolded Some prod.case option.case] obtain k e' where
      k: "k < length (bd_envelopes b) \<and> (\<forall>i<k. is_ok (nth_put enc ok r (bundle_puts b) i)) \<and>
        nth_put enc ok r (bundle_puts b) k = Inl e' \<and> r' = store_all enc ok r (take (Suc k) (bundle_puts b)) \<and>
        e = ''failed to import envelope '' @ ev_id (bd_envelopes b ! k) @ '' into target repository: '' @ e'"
      by (elim exE)
    then have before: "list_all (\<lambda>i. is_ok (nth_put enc ok r (bundle_puts b) i)) [0..<k]"
      by (simp add: list_all_iff)
    have "import_bundle dec enc ok data (Some r) signer = (Some r', Inl e)"
      by (simp add: import_accepted[OF b] imp Some)
    then show ?thesis
      unfolding prod.case sum.case
      by (simp only: prod.case sum.case)
        (intro disjI2 exI[of _ b] exI[of _ k] exI[of _ e'] conjI b before k[THEN conjunct1] k[THEN conjunct2, THEN conjunct2, THEN conjunct1]
          arg_cong[of _ _ Some] k[THEN conjunct2, THEN conjunct2, THEN conjunct2, THEN conjunct1]
          k[THEN conjunct2, THEN conjunct2, THEN conjunct2, THEN conjunct2])
  qed
qed

text \<open>
  C35: a bundle that is exported from a repository is imported whole into another one, in memory or with files that can
  be written, provided the decoder reads back the bundle that the encoder wrote, its envelopes can be encoded and,
  where a signer is given, its receipts verify. Afterwards the target holds every exported envelope under the digest
  of its text, and every artifact that verified in the source is readable in the target under the same reference;
  what is read is the same content, or another one with the same SHA-256 digest.
\<close>

lemma exported_bundle_is_imported:
  assumes "export_bundle encb now s evs rs envs (Some (get src)) = Ok (b, data)" and "dec data = Inr b"
    and "base_dir r = [] \<or> (\<forall>path. ok path)" and "\<forall>env\<in>set envs. is_ok (enc env)"
    and "case signer of None \<Rightarrow> True | Some check \<Rightarrow> list_all (\<lambda>rc. check rc = Ok True) rs"
  shows "\<exists>r'. import_bundle dec enc ok data (Some r) signer = (Some r', Ok b) \<and> bd_envelopes b = envs \<and>
    bd_receipts b = rs \<and> bd_evaluations b = evs \<and>
    list_all (\<lambda>env.
      (\<exists>x env' y. enc env = Ok x \<and> envelopes r' (compute_digest x) = Some env' \<and> enc env' = Ok y \<and> (y = x \<or> collides y x)) \<and>
      (case get src (ev_artifact env) of
         Inl _ \<Rightarrow> True
       | Inr content \<Rightarrow>
           if verify src (ev_artifact env) = Ok True
           then \<exists>data. get r' (ev_artifact env) = Ok data \<and> (data = content \<or> collides data content)
           else True)) envs"
proof -
  note sealed = export_bundle_sealed[OF assms(1)]
  have acc: "bundle_accepted dec data signer b"
    using assms(2,5) sealed by (simp add: bundle_accepted_def split: option.splits)
  have "snd (import_envelopes enc ok (bd_blobs b) r (bd_envelopes b)) = None"
    using import_envelopes_ok[OF assms(3)] assms(4) sealed by simp
  then obtain r' where imp: "import_envelopes enc ok (bd_blobs b) r (bd_envelopes b) = (r', None)"
    by (metis prod.collapse)
  then have r': "r' = store_all enc ok r (bundle_puts b)"
    using import_envelopes_puts[where enc = enc and ok = ok and m = "bd_blobs b" and r = r and envs = "bd_envelopes b", folded bundle_puts_def] by simp
  have puts: "bundle_puts b = map (\<lambda>env. (env, Some (Ok (smap_get (export_blobs (Some (get src)) envs) (e_digest (ev_artifact env)))))) envs"
    using sealed by (simp add: bundle_puts_def)
  have "import_bundle dec enc ok data (Some r) signer = (Some r', Ok b)"
    by (simp add: import_accepted[OF acc] imp)
  then show ?thesis
    using sealed imported_envelope[OF assms(4)] imported_artifact[OF assms(4,3)]
    by (intro exI[of _ r'] conjI) (simp_all add: list_all_iff r' puts split: sum.split)
qed

lemma exported_bundle_is_imported_witness:
  "\<exists>b data. export_bundle (\<lambda>b. Ok ''x'') 0 (ev_subject example_put) [] [example_receipt] [artifact_put]
       (Some (get artifact_source)) = Ok (b, data) \<and>
     (\<exists>r' raw. import_bundle (\<lambda>d. Ok b) (\<lambda>e. Ok ''e'') (\<lambda>p. True) data (Some (new_memory_repository Map.empty)) (Some (\<lambda>r. Ok True)) = (Some r', Ok b) \<and>
       get r' (ev_artifact artifact_put) = Ok raw)"
proof -
  have "\<exists>b data. export_bundle (\<lambda>b. Ok ''x'') 0 (ev_subject example_put) [] [example_receipt] [artifact_put]
      (Some (get artifact_source)) = Ok (b, data)"
    by (simp add: export_bundle_def Let_def)
  then obtain b data where
    e: "export_bundle (\<lambda>b. Ok ''x'') 0 (ev_subject example_put) [] [example_receipt] [artifact_put]
      (Some (get artifact_source)) = Ok (b, data)" by blast
  have src: "get artifact_source (ev_artifact artifact_put) = Ok ''raw''"
    "verify artifact_source (ev_artifact artifact_put) = Ok True"
    by (simp_all add: artifact_source_def artifact_put_def new_memory_repository_def get_def verify_def Let_def
        compute_digest_def sha_prefix_def)
  from exported_bundle_is_imported[OF e, of "\<lambda>d. Ok b" "new_memory_repository Map.empty" "\<lambda>p. True" "\<lambda>e. Ok ''e''" "Some (\<lambda>r. Ok True)"] e
  show ?thesis by (auto simp: src)
qed

text \<open>
  Further: two bundles with the same manifest digest have the same manifest text or collide explicitly; the text
  holds a receipt only by its evidence root and signature, so raising the state of a receipt leaves
  the manifest digest as it was.
\<close>

lemma manifest_binding:
  "(compute_manifest_digest b = compute_manifest_digest c \<longleftrightarrow>
      manifest_raw b = manifest_raw c \<or> collides (manifest_raw b) (manifest_raw c)) \<and>
   compute_manifest_digest (b\<lparr>bd_receipts := map (\<lambda>r. r\<lparr>rc_state := Assured\<rparr>) (bd_receipts b)\<rparr>) =
     compute_manifest_digest b"
proof
  show "compute_manifest_digest b = compute_manifest_digest c \<longleftrightarrow>
      manifest_raw b = manifest_raw c \<or> collides (manifest_raw b) (manifest_raw c)"
    by (auto simp: manifest_dig.dig_canon compute_digest_eq collides_def)
  show "compute_manifest_digest (b\<lparr>bd_receipts := map (\<lambda>r. r\<lparr>rc_state := Assured\<rparr>) (bd_receipts b)\<rparr>) =
     compute_manifest_digest b"
    by (rule manifest_dig.dig_cong) (simp add: manifest_raw_def manifest_entries_def comp_def)
qed

end
