(* ===== verification/Observers.thy ===== *)
theory Observers
  imports Claim Complex_Main
begin

text \<open>
  The adapters that turn what a collector saw into evidence: internal/adapters/cilium/network.go,
  tetragon/runtime.go, sigstore/supplychain.go, shield/shield.go and openreports/adapter.go, with
  the contract they share. An observer answers with evidence, or with an error and possibly a
  finding; the zero envelope the code returns beside an error is left out.
\<close>

type_synonym 'a observed = "(finding option \<times> string) + 'a"

definition default_identity :: "string \<Rightarrow> authority_ref \<Rightarrow> authority_ref" where
  "default_identity sub identity =
     (if a_scheme identity = []
      then \<lparr>a_scheme = ''spiffe'', a_subject = sub, a_trust_domain = ''prod''\<rparr> else identity)"

definition seal_evidence ::
  "string \<Rightarrow> string \<Rightarrow> string \<Rightarrow> evidence_ref \<Rightarrow> string \<Rightarrow> authority_ref \<Rightarrow> subject_ref \<Rightarrow> epoch \<Rightarrow> time \<Rightarrow> envelope" where
  "seal_evidence id_prefix otype ctrl artifact signature_ref observer subject ep now =
     \<lparr>ev_schema = evidence_schema, ev_id = id_prefix @ show_int (unix_nano now), ev_subject = subject,
      ev_observation_type = otype, ev_captured_at = now, ev_producer = observer, ev_artifact = artifact,
      ev_integrity_digest = e_digest artifact, ev_signature_ref = signature_ref, ev_epoch = ep,
      ev_control_refs = [control ''ckodex'' ctrl]\<rparr>"

definition new_finding ::
  "string \<Rightarrow> string \<Rightarrow> string \<Rightarrow> string \<Rightarrow> string \<Rightarrow> subject_ref \<Rightarrow> time \<Rightarrow> finding" where
  "new_finding id_prefix ctrl severity title description subject now =
     \<lparr>f_id = id_prefix @ show_int (unix_nano now), f_subject = subject, f_control = control ''ckodex'' ctrl,
      f_severity = severity, f_title = title, f_description = description, f_discovered_at = now,
      f_evidence_refs = []\<rparr>"

section \<open>Cilium\<close>

record network_flow_event =
  nf_source_pod :: string
  nf_destination_pod :: string
  nf_destination_port :: int
  nf_traffic_allowed :: bool
  nf_egress_isolated :: bool
  nf_applied_policy_ref :: string

definition new_cilium_observer :: "authority_ref \<Rightarrow> authority_ref" where
  "new_cilium_observer = default_identity ''prod/ns/ckodex-evidence/sa/cilium-collector''"

definition generate_network_evidence ::
  "authority_ref \<Rightarrow> subject_ref \<Rightarrow> network_flow_event \<Rightarrow> epoch \<Rightarrow> time \<Rightarrow> envelope observed" where
  "generate_network_evidence observer subject event ep now =
     (if \<not> nf_egress_isolated event
      then Inl (Some (new_finding ''find-net-'' ''network.isolated'' ''HIGH'' ''Unenforced egress isolation detected''
                  (''Workload '' @ subject_uri subject @ '' active without default-deny egress isolation policy'')
                  subject now),
                ''network policy violation: unisolated egress'')
      else
        let payload = ''net|'' @ subject_uri subject @ ''|policy='' @ nf_applied_policy_ref event @ ''|isolated=true|'' @
              show_int (unix_sec now);
            artifact_digest = compute_string_digest payload
        in Inr (seal_evidence ''ev-net-'' ''network.flow.isolation'' ''network.isolated''
             \<lparr>e_uri = ''cilium://flows/'' @ s_id subject, e_digest = artifact_digest,
              e_media_type = ''application/vnd.cilium.flow+json''\<rparr> [] observer subject ep now))"

section \<open>Tetragon\<close>

record process_event =
  pe_binary :: string
  pe_uid :: "32 word"
  pe_gid :: "32 word"
  pe_capabilities :: "string list"
  pe_pod_namespace :: string
  pe_pod_name :: string
  pe_container_name :: string
  pe_violation_found :: bool
  pe_violation_type :: string

definition new_tetragon_observer :: "authority_ref \<Rightarrow> authority_ref" where
  "new_tetragon_observer = default_identity ''prod/ns/ckodex-evidence/sa/tetragon-collector''"

definition runtime_prohibited :: "string \<Rightarrow> bool" where
  "runtime_prohibited c = (c = ''CAP_SYS_ADMIN'' \<or> c = ''CAP_NET_ADMIN'')"

definition generate_process_evidence ::
  "authority_ref \<Rightarrow> subject_ref \<Rightarrow> process_event \<Rightarrow> epoch \<Rightarrow> time \<Rightarrow> envelope observed" where
  "generate_process_evidence observer subject event ep now =
     (if pe_uid event = 0
      then Inl (Some (new_finding ''find-root-'' ''container.least-privilege'' ''CRITICAL''
                  ''Runtime root execution detected''
                  (''Process '' @ pe_binary event @ '' executed with UID 0 in container '' @ pe_container_name event)
                  subject now),
                ''runtime violation: UID 0 execution detected'')
      else case find runtime_prohibited (pe_capabilities event) of
          Some cap \<Rightarrow>
            Inl (Some (new_finding ''find-cap-'' ''container.least-privilege'' ''HIGH''
                   ''Prohibited capability exercise detected''
                   (''Process '' @ pe_binary event @ '' exercised prohibited capability '' @ cap) subject now),
                 ''runtime violation: '' @ cap @ '' exercised'')
        | None \<Rightarrow>
            let payload = ''proc|'' @ subject_uri subject @ ''|'' @ pe_binary event @ ''|uid='' @
                  show_int (uint (pe_uid event)) @ ''|'' @ show_int (unix_sec now);
                artifact_digest = compute_string_digest payload
            in Inr (seal_evidence ''ev-proc-'' ''workload.runtime.process'' ''container.least-privilege''
                 \<lparr>e_uri = ''tetragon://events/'' @ s_id subject, e_digest = artifact_digest,
                  e_media_type = ''application/vnd.tetragon.event+json''\<rparr> [] observer subject ep now))"

section \<open>Sigstore\<close>

record artifact_metadata =
  am_image_uri :: string
  am_digest :: string
  am_signature_ref :: string
  am_signer :: string
  am_sbom_digest :: string
  am_slsa_commit :: string

record sigstore_verifier =
  sv_trusted_signers :: "string list"
  sv_identity :: authority_ref

definition new_sigstore_verifier :: "string list \<Rightarrow> sigstore_verifier" where
  "new_sigstore_verifier trusted =
     \<lparr>sv_trusted_signers =
        (if length trusted = 0 then [''spiffe://prod/ns/ci/sa/dagger-builder'', ''signer@ckodex.io''] else trusted),
      sv_identity = \<lparr>a_scheme = ''spiffe'', a_subject = ''prod/ns/ckodex-evidence/sa/sigstore-verifier'',
        a_trust_domain = ''prod''\<rparr>\<rparr>"

definition verify_artifact :: "sigstore_verifier \<Rightarrow> artifact_metadata \<Rightarrow> bool result" where
  "verify_artifact v artifact =
     (if \<not> has_prefix (am_digest artifact) ''sha256:''
      then Err (''invalid artifact digest format: '' @ am_digest artifact)
      else if \<not> list_ex (\<lambda>s. s = am_signer artifact \<or> s = ''*'') (sv_trusted_signers v)
      then Err (''untrusted signer: '' @ am_signer artifact)
      else Ok True)"

definition generate_supply_chain_evidence ::
  "sigstore_verifier \<Rightarrow> subject_ref \<Rightarrow> artifact_metadata \<Rightarrow> epoch \<Rightarrow> time \<Rightarrow> envelope list observed" where
  "generate_supply_chain_evidence v subject artifact ep now =
     (case verify_artifact v artifact of
        Inl e \<Rightarrow> Inl (None, ''supply chain verification failed: '' @ e)
      | Inr ok \<Rightarrow>
          if \<not> ok then Inl (None, ''supply chain verification failed: %!w(<nil>)'')
          else
            let sig_payload = join_str ''|'' [''sig'', am_image_uri artifact, am_digest artifact, am_signer artifact,
                  show_int (unix_sec now)];
                prov_payload = join_str ''|'' [''prov'', am_digest artifact, am_sbom_digest artifact,
                  am_slsa_commit artifact, show_int (unix_sec now)]
            in Inr [seal_evidence ''ev-sig-'' ''supply-chain.signature'' ''artifact.signed''
                      \<lparr>e_uri = am_signature_ref artifact, e_digest = compute_string_digest sig_payload,
                       e_media_type = ''application/vnd.dev.cosign.simplesigning.v1+json''\<rparr>
                      (am_signature_ref artifact) (sv_identity v) subject ep now,
                    seal_evidence ''ev-prov-'' ''supply-chain.provenance'' ''artifact.provenance''
                      \<lparr>e_uri = ''oci://'' @ am_image_uri artifact @ ''.sbom'', e_digest = compute_string_digest prov_payload,
                       e_media_type = ''application/vnd.cyclonedx+json''\<rparr> [] (sv_identity v) subject ep now])"

definition verify_artifact_continuity :: "string \<Rightarrow> string \<Rightarrow> string \<Rightarrow> bool \<times> string" where
  "verify_artifact_continuity running admitted attested =
     (if running = [] \<or> admitted = [] \<or> attested = []
      then (False, ''missing digest in supply chain continuity evaluation'')
      else if running \<noteq> admitted
      then (False, ''running workload digest '' @ running @ '' diverged from admitted digest '' @ admitted)
      else if admitted \<noteq> attested
      then (False, ''admitted digest '' @ admitted @ '' diverged from signed digest '' @ attested)
      else (True, ''sha256:'' @ hex_encode (sha256 (join_str '':'' [running, admitted, attested]))))"

section \<open>Shield\<close>

text \<open>A float64 is NaN, an infinity or a rational; 0.80 is the nearest double.\<close>

datatype float64 = NaN | PosInf | NegInf | Fin rat

definition safety_minimum :: rat where
  "safety_minimum = Fract 3602879701896397 4503599627370496"

fun below :: "float64 \<Rightarrow> rat \<Rightarrow> bool" where
  "below NaN m = False"
| "below PosInf m = False"
| "below NegInf m = True"
| "below (Fin x) m = (x < m)"

definition round_half_even :: "rat \<Rightarrow> int" where
  "round_half_even x =
     (let f = \<lfloor>x\<rfloor>; d = x - of_int f
      in if d < 1 / 2 then f else if d > 1 / 2 then f + 1 else if even f then f else f + 1)"

fun show_fixed2 :: "float64 \<Rightarrow> string" where
  "show_fixed2 NaN = ''NaN''"
| "show_fixed2 PosInf = ''+Inf''"
| "show_fixed2 NegInf = ''-Inf''"
| "show_fixed2 (Fin x) =
     (let n = round_half_even (abs x * 100)
      in (if x < 0 then ''-'' else []) @ show_int (n div 100) @ ''.'' @ show_int (n mod 100 div 10) @ show_int (n mod 10))"

record model_forensics =
  mf_model_uri :: string
  mf_weights_digest :: string
  mf_format :: string
  mf_tamper_proof :: bool
  mf_aibom_digest :: string
  mf_safety_score :: float64

definition new_shield_observer :: "authority_ref \<Rightarrow> authority_ref" where
  "new_shield_observer = default_identity ''prod/ns/shield-system/sa/shield-admission-inspector''"

definition build_model_subject_ref :: "string \<Rightarrow> string \<Rightarrow> subject_ref" where
  "build_model_subject_ref model_uri digest =
     \<lparr>s_scheme = ''model'', s_id = model_uri @ ''@'' @ digest,
      s_attributes = [(''modelURI'', model_uri), (''digest'', digest), (''type'', ''foundation-model'')]\<rparr>"

definition build_agent_subject_ref :: "string \<Rightarrow> string \<Rightarrow> string \<Rightarrow> subject_ref" where
  "build_agent_subject_ref agent_id version prompt_digest =
     \<lparr>s_scheme = ''agent'', s_id = agent_id @ '':'' @ version,
      s_attributes = [(''agentID'', agent_id), (''version'', version), (''promptDigest'', prompt_digest),
        (''type'', ''autonomous-agent'')]\<rparr>"

definition generate_model_evidence ::
  "authority_ref \<Rightarrow> subject_ref \<Rightarrow> model_forensics \<Rightarrow> epoch \<Rightarrow> time \<Rightarrow> envelope list observed" where
  "generate_model_evidence observer subject forensics ep now =
     (if \<not> mf_tamper_proof forensics
      then Inl (Some (new_finding ''find-shield-tamper-'' ''ai.weight.integrity'' ''CRITICAL''
                  ''Model weight tampering detected''
                  (''Weights for '' @ subject_uri subject @ '' failed cryptographic integrity check'') subject now),
                ''shield security violation: weight tampering detected'')
      else if below (mf_safety_score forensics) safety_minimum
      then Inl (Some (new_finding ''find-shield-safety-'' ''ai.safety.guardrails'' ''HIGH''
                  ''Safety alignment score below threshold''
                  (''Safety alignment score '' @ show_fixed2 (mf_safety_score forensics) @
                   '' is below acceptable minimum 0.80'') subject now),
                ''shield security violation: safety alignment score insufficient'')
      else
        let weights_payload = ''weights|'' @ subject_uri subject @ ''|'' @ mf_weights_digest forensics @
              ''|tamperProof=true|'' @ show_int (unix_sec now);
            aibom_payload = ''aibom|'' @ subject_uri subject @ ''|'' @ mf_aibom_digest forensics @ ''|'' @
              show_int (unix_sec now)
        in Inr [seal_evidence ''ev-weights-'' ''model.weights.forensics'' ''ai.weight.integrity''
                  \<lparr>e_uri = ''shield://weights/'' @ mf_weights_digest forensics,
                   e_digest = ''sha256:'' @ hex_encode (sha256 weights_payload),
                   e_media_type = ''application/vnd.shield.weights+json''\<rparr> [] observer subject ep now,
                seal_evidence ''ev-aibom-'' ''model.aibom'' ''ai.provenance.aibom''
                  \<lparr>e_uri = ''shield://aibom/'' @ mf_aibom_digest forensics,
                   e_digest = ''sha256:'' @ hex_encode (sha256 aibom_payload),
                   e_media_type = ''application/vnd.cyclonedx.aibom+json''\<rparr> [] observer subject ep now])"

section \<open>The contract of an observer\<close>

definition evidence_for :: "authority_ref \<Rightarrow> subject_ref \<Rightarrow> epoch \<Rightarrow> time \<Rightarrow> envelope \<Rightarrow> bool" where
  "evidence_for observer subject ep now env =
     (ev_schema env = evidence_schema \<and> ev_subject env = subject \<and> ev_epoch env = ep \<and> ev_captured_at env = now \<and>
      ev_producer env = observer \<and> ev_integrity_digest env = e_digest (ev_artifact env) \<and> ev_control_refs env \<noteq> [])"

locale observer =
  fixes observe :: "subject_ref \<Rightarrow> 'e \<Rightarrow> epoch \<Rightarrow> time \<Rightarrow> envelope list observed"
    and conforming :: "'e \<Rightarrow> bool"
    and identity :: authority_ref
  assumes conforms: "conforming e \<longleftrightarrow> (\<exists>envs. observe s e ep now = Inr envs)"
    and sealed: "observe s e ep now = Inr envs \<Longrightarrow> list_all (evidence_for identity s ep now) envs \<and> envs \<noteq> []"
    and reported: "observe s e ep now = Inl (Some f, m) \<Longrightarrow> f_subject f = s \<and> f_discovered_at f = now"
begin

text \<open>Evidence supports the requirements of its type in its own epoch while it is fresh, and in no
  epoch that differs from it in a fixed dimension.\<close>

lemma observed_supports:
  assumes "observe s e ep now = Inr envs" and "env \<in> set envs"
  shows "supports req ep' t env \<longleftrightarrow>
    matches_evidence_type (ev_observation_type env) (r_evidence_type req) \<and>
    is_producer_accepted req (authority_canonical identity) \<and> epoch_matches ep ep' \<and> is_fresh req now t"
  using sealed[OF assms(1)] assms(2)
  by (auto simp: supports_def relevant_def evidence_for_def list_all_iff)

lemma observed_fresh:
  assumes "observe s e ep now = Inr envs" and "env \<in> set envs"
    and "relevant req env" and "now \<le> t" and "time_sub t now \<le> r_max_age req"
  shows "supports req ep t env"
  using sealed[OF assms(1)] assms(2-)
  by (auto simp: supports_def evidence_for_def list_all_iff is_fresh_def)

lemma violation_gives_no_evidence: "\<not> conforming e \<Longrightarrow> \<exists>f m. observe s e ep now = Inl (f, m)"
  using conforms by (metis sumE surj_pair)

end

definition one :: "envelope observed \<Rightarrow> envelope list observed" where
  "one r = (case r of Inl e \<Rightarrow> Inl e | Inr env \<Rightarrow> Inr [env])"

lemma seal_evidence_for: "evidence_for ob s ep now (seal_evidence i ty c a sg ob s ep now)"
  by (simp add: evidence_for_def seal_evidence_def)

lemma new_finding_simps [simp]:
  "f_subject (new_finding i c sev ti d s now) = s" "f_discovered_at (new_finding i c sev ti d s now) = now"
  by (simp_all add: new_finding_def)

interpretation cilium: observer "\<lambda>s e ep now. one (generate_network_evidence ob s e ep now)" nf_egress_isolated ob for ob
  by unfold_locales
    (auto simp: one_def generate_network_evidence_def Let_def seal_evidence_for split: if_splits)

lemma find_none: "find P xs = None \<longleftrightarrow> \<not> list_ex P xs"
  by (auto simp: find_None_iff list_ex_iff)

interpretation tetragon: observer "\<lambda>s e ep now. one (generate_process_evidence ob s e ep now)"
  "\<lambda>e. pe_uid e \<noteq> 0 \<and> \<not> list_ex runtime_prohibited (pe_capabilities e)" ob for ob
  by unfold_locales
    (auto simp: one_def generate_process_evidence_def Let_def seal_evidence_for find_none[symmetric]
      split: if_splits option.splits sum.splits)

interpretation sigstore: observer "generate_supply_chain_evidence v"
  "\<lambda>a. has_prefix (am_digest a) ''sha256:'' \<and> list_ex (\<lambda>s. s = am_signer a \<or> s = ''*'') (sv_trusted_signers v)"
  "sv_identity v" for v
  by unfold_locales
    (auto simp: generate_supply_chain_evidence_def verify_artifact_def Let_def seal_evidence_for
      split: if_splits sum.splits)

interpretation shield: observer "generate_model_evidence ob"
  "\<lambda>f. mf_tamper_proof f \<and> \<not> below (mf_safety_score f) safety_minimum" ob for ob
  by unfold_locales
    (auto simp: generate_model_evidence_def Let_def seal_evidence_for split: if_splits)

lemma continuity_true:
  "fst (verify_artifact_continuity r a s) \<longleftrightarrow> r \<noteq> [] \<and> r = a \<and> a = s"
  by (auto simp: verify_artifact_continuity_def)

section \<open>Properties\<close>

text \<open>
  Further: the runtime and network observers answer with evidence exactly for events without a violation, and
  otherwise with a finding about the subject; their evidence supports, in its own epoch, the
  requirements of its type that accept the observer, as long as it is fresh.
\<close>

lemma runtime_observers:
  "(case generate_process_evidence ob s e ep now of
      Inl (f, m) \<Rightarrow> (pe_uid e = 0 \<or> list_ex runtime_prohibited (pe_capabilities e)) \<and> (\<exists>g. f = Some g \<and> f_subject g = s)
    | Inr env \<Rightarrow> pe_uid e \<noteq> 0 \<and> \<not> list_ex runtime_prohibited (pe_capabilities e) \<and>
        (supports req ep t env \<longleftrightarrow> matches_evidence_type ''workload.runtime.process'' (r_evidence_type req) \<and>
           is_producer_accepted req (authority_canonical ob) \<and> is_fresh req now t)) \<and>
   (case generate_network_evidence ob s e' ep now of
      Inl (f, m) \<Rightarrow> \<not> nf_egress_isolated e' \<and> (\<exists>g. f = Some g \<and> f_subject g = s)
    | Inr env \<Rightarrow> nf_egress_isolated e' \<and>
        (supports req ep t env \<longleftrightarrow> matches_evidence_type ''network.flow.isolation'' (r_evidence_type req) \<and>
           is_producer_accepted req (authority_canonical ob) \<and> is_fresh req now t))"
proof (intro conjI)
  show "case generate_process_evidence ob s e ep now of
      Inl (f, m) \<Rightarrow> (pe_uid e = 0 \<or> list_ex runtime_prohibited (pe_capabilities e)) \<and> (\<exists>g. f = Some g \<and> f_subject g = s)
    | Inr env \<Rightarrow> pe_uid e \<noteq> 0 \<and> \<not> list_ex runtime_prohibited (pe_capabilities e) \<and>
        (supports req ep t env \<longleftrightarrow> matches_evidence_type ''workload.runtime.process'' (r_evidence_type req) \<and>
           is_producer_accepted req (authority_canonical ob) \<and> is_fresh req now t)"
  proof (cases "generate_process_evidence ob s e ep now")
    case (Inr env)
    have "ev_observation_type env = ''workload.runtime.process''"
      using Inr by (auto simp: generate_process_evidence_def seal_evidence_def Let_def split: if_splits option.splits)
    with Inr tetragon.conforms[of e ob s ep now] tetragon.observed_supports[of ob s e ep now "[env]" env req ep t]
    show ?thesis by (simp add: one_def)
  next
    case (Inl fm)
    then show ?thesis
      by (auto simp: generate_process_evidence_def find_none Let_def split: if_splits option.splits)
        (metis find_none option.distinct(1))
  qed
  show "case generate_network_evidence ob s e' ep now of
      Inl (f, m) \<Rightarrow> \<not> nf_egress_isolated e' \<and> (\<exists>g. f = Some g \<and> f_subject g = s)
    | Inr env \<Rightarrow> nf_egress_isolated e' \<and>
        (supports req ep t env \<longleftrightarrow> matches_evidence_type ''network.flow.isolation'' (r_evidence_type req) \<and>
           is_producer_accepted req (authority_canonical ob) \<and> is_fresh req now t)"
  proof (cases "generate_network_evidence ob s e' ep now")
    case (Inr env)
    have "ev_observation_type env = ''network.flow.isolation''"
      using Inr by (auto simp: generate_network_evidence_def seal_evidence_def Let_def split: if_splits)
    with Inr cilium.conforms[of e' ob s ep now] cilium.observed_supports[of ob s e' ep now "[env]" env req ep t]
    show ?thesis by (simp add: one_def)
  qed (auto simp: generate_network_evidence_def Let_def split: if_splits)
qed

text \<open>
  Further: supply-chain evidence is produced exactly for artifacts with a sha256 digest whose signer is trusted, and
  model evidence exactly for models that are tamper-proof and whose safety score is not below the
  minimum, which NaN is not; all of it is about the subject, in the given epoch.
\<close>

lemma supply_chain_and_model_observers:
  "(case generate_supply_chain_evidence v s a ep now of
      Inl (f, m) \<Rightarrow> f = None \<and> \<not> (has_prefix (am_digest a) ''sha256:'' \<and>
        list_ex (\<lambda>x. x = am_signer a \<or> x = ''*'') (sv_trusted_signers v))
    | Inr envs \<Rightarrow> has_prefix (am_digest a) ''sha256:'' \<and>
        list_ex (\<lambda>x. x = am_signer a \<or> x = ''*'') (sv_trusted_signers v) \<and>
        list_all (evidence_for (sv_identity v) s ep now) envs \<and>
        map ev_observation_type envs = [''supply-chain.signature'', ''supply-chain.provenance'']) \<and>
   (case generate_model_evidence ob s mf ep now of
      Inl (f, m) \<Rightarrow> \<not> (mf_tamper_proof mf \<and> \<not> below (mf_safety_score mf) safety_minimum) \<and> (\<exists>g. f = Some g \<and> f_subject g = s)
    | Inr envs \<Rightarrow> mf_tamper_proof mf \<and> \<not> below (mf_safety_score mf) safety_minimum \<and>
        list_all (evidence_for ob s ep now) envs \<and>
        map ev_observation_type envs = [''model.weights.forensics'', ''model.aibom'']) \<and>
   \<not> below NaN safety_minimum"
proof (intro conjI)
  show "case generate_supply_chain_evidence v s a ep now of
      Inl (f, m) \<Rightarrow> f = None \<and> \<not> (has_prefix (am_digest a) ''sha256:'' \<and>
        list_ex (\<lambda>x. x = am_signer a \<or> x = ''*'') (sv_trusted_signers v))
    | Inr envs \<Rightarrow> has_prefix (am_digest a) ''sha256:'' \<and>
        list_ex (\<lambda>x. x = am_signer a \<or> x = ''*'') (sv_trusted_signers v) \<and>
        list_all (evidence_for (sv_identity v) s ep now) envs \<and>
        map ev_observation_type envs = [''supply-chain.signature'', ''supply-chain.provenance'']"
    by (simp add: generate_supply_chain_evidence_def verify_artifact_def seal_evidence_for Let_def)
      (simp add: seal_evidence_def)
  show "case generate_model_evidence ob s mf ep now of
      Inl (f, m) \<Rightarrow> \<not> (mf_tamper_proof mf \<and> \<not> below (mf_safety_score mf) safety_minimum) \<and> (\<exists>g. f = Some g \<and> f_subject g = s)
    | Inr envs \<Rightarrow> mf_tamper_proof mf \<and> \<not> below (mf_safety_score mf) safety_minimum \<and>
        list_all (evidence_for ob s ep now) envs \<and>
        map ev_observation_type envs = [''model.weights.forensics'', ''model.aibom'']"
    by (simp add: generate_model_evidence_def seal_evidence_for Let_def) (simp add: seal_evidence_def)
qed simp

end
