(* ===== verification/Open_Reports.thy ===== *)
theory Open_Reports
  imports Observers
begin

text \<open>
  internal/adapters/openreports/adapter.go: reports of external scanners, normalised into
  observations, findings and evidence.
\<close>

record report_finding =
  rf_rule :: string
  rf_source :: string
  rf_result :: string
  rf_severity :: string
  rf_message :: string
  rf_timestamp :: time
  rf_properties :: smap

record report_subject =
  rs_api_version :: string
  rs_kind :: string
  rs_namespace :: string
  rs_name :: string
  rs_uid :: string

record open_report =
  rt_namespace :: string
  rt_name :: string
  rt_subject :: report_subject
  rt_findings :: "report_finding list"

definition new_adapter :: "authority_ref \<Rightarrow> authority_ref" where
  "new_adapter = default_identity ''prod/ns/ckodex-evidence/sa/openreports-normalizer''"

definition normalize_subject :: "report_subject \<Rightarrow> subject_ref" where
  "normalize_subject sub =
     \<lparr>s_scheme = ''k8s'',
      s_id = (if rs_namespace sub = [] then rs_kind sub @ ''/'' @ rs_name sub
              else rs_namespace sub @ ''/'' @ rs_kind sub @ ''/'' @ rs_name sub),
      s_attributes = [(''apiVersion'', rs_api_version sub), (''kind'', rs_kind sub),
        (''namespace'', rs_namespace sub), (''name'', rs_name sub), (''uid'', rs_uid sub)]\<rparr>"

definition normalize_severity :: "string \<Rightarrow> string" where
  "normalize_severity sev =
     (let s = to_upper sev
      in if s = ''CRITICAL'' then ''CRITICAL''
         else if s = ''HIGH'' then ''HIGH''
         else if s = ''MEDIUM'' \<or> s = ''MODERATE'' then ''MEDIUM''
         else if s = ''LOW'' then ''LOW''
         else ''INFORMATIONAL'')"

definition report_evidence_ref :: "open_report \<Rightarrow> int \<Rightarrow> report_finding \<Rightarrow> evidence_ref" where
  "report_evidence_ref report i f =
     \<lparr>e_uri = ''openreports://'' @ rt_namespace report @ ''/'' @ rt_name report @ ''/'' @ show_int i,
      e_digest = compute_string_digest (join_str ''|'' [rf_source f, rf_rule f, rf_result f, rf_message f,
        show_int (unix_sec (rf_timestamp f))]),
      e_media_type = ''application/vnd.openreports.finding+json''\<rparr>"

definition scanner_type :: "report_finding \<Rightarrow> string" where
  "scanner_type f = ''scanner.'' @ to_lower (rf_source f)"

definition report_observation :: "authority_ref \<Rightarrow> open_report \<Rightarrow> int \<Rightarrow> report_finding \<Rightarrow> observation" where
  "report_observation ident report i f =
     \<lparr>o_id = ''obs-openrep-'' @ rt_name report @ ''-'' @ show_int i,
      o_subject = normalize_subject (rt_subject report), o_type = scanner_type f,
      o_observed_at = rf_timestamp f, o_observer = ident, o_evidence = [report_evidence_ref report i f],
      o_attributes = [(''rule'', rf_rule f), (''source'', rf_source f), (''result'', rf_result f),
        (''severity'', rf_severity f)]\<rparr>"

definition report_violation :: "open_report \<Rightarrow> int \<Rightarrow> report_finding \<Rightarrow> finding" where
  "report_violation report i f =
     \<lparr>f_id = ''find-openrep-'' @ rt_name report @ ''-'' @ show_int i,
      f_subject = normalize_subject (rt_subject report), f_control = control ''external-scanner'' (rf_rule f),
      f_severity = normalize_severity (rf_severity f),
      f_title = ''['' @ rf_source f @ ''] '' @ rf_rule f, f_description = rf_message f,
      f_discovered_at = rf_timestamp f, f_evidence_refs = [report_evidence_ref report i f]\<rparr>"

definition report_envelope :: "authority_ref \<Rightarrow> open_report \<Rightarrow> epoch \<Rightarrow> int \<Rightarrow> report_finding \<Rightarrow> envelope" where
  "report_envelope ident report ep i f =
     \<lparr>ev_schema = evidence_schema, ev_id = ''ev-openrep-'' @ rt_name report @ ''-'' @ show_int i,
      ev_subject = normalize_subject (rt_subject report), ev_observation_type = scanner_type f,
      ev_captured_at = rf_timestamp f, ev_producer = ident, ev_artifact = report_evidence_ref report i f,
      ev_integrity_digest = e_digest (report_evidence_ref report i f), ev_signature_ref = [],
      ev_epoch = ep, ev_control_refs = [control ''external-scanner'' (rf_rule f)]\<rparr>"

text \<open>The loop over the findings, with its index and its three accumulated lists.\<close>

fun ingest_findings ::
  "authority_ref \<Rightarrow> open_report \<Rightarrow> epoch \<Rightarrow> int \<Rightarrow> report_finding list \<Rightarrow>
     observation list \<times> finding list \<times> envelope list \<Rightarrow> observation list \<times> finding list \<times> envelope list" where
  "ingest_findings ident report ep i [] acc = acc"
| "ingest_findings ident report ep i (f # fs) (observations, findings, envs) =
     (let observations = observations @ [report_observation ident report i f];
          result = to_lower (rf_result f);
          findings = (if result = ''fail'' \<or> result = ''error'' then findings @ [report_violation report i f] else findings);
          envs = (if result = ''pass'' then envs @ [report_envelope ident report ep i f] else envs)
      in ingest_findings ident report ep (i + 1) fs (observations, findings, envs))"

definition ingest_report ::
  "authority_ref \<Rightarrow> open_report \<Rightarrow> epoch \<Rightarrow> observation list \<times> finding list \<times> envelope list" where
  "ingest_report ident report ep = ingest_findings ident report ep 0 (rt_findings report) ([], [], [])"

definition report_raw :: "open_report \<Rightarrow> string" where
  "report_raw report =
     rt_name report @ ''|'' @ rs_kind (rt_subject report) @ ''|'' @ rs_name (rt_subject report) @ ''|'' @
     concat (map (\<lambda>f. rf_source f @ '':'' @ rf_rule f @ '':'' @ rf_result f @ '';'') (rt_findings report))"

definition compute_report_digest :: "open_report \<Rightarrow> string" where
  "compute_report_digest report = ''sha256:'' @ hex_encode (sha256 (report_raw report))"

interpretation report_dig: content_addressed report_raw compute_report_digest
  by unfold_locales (simp add: compute_report_digest_def compute_digest_def sha_prefix_def)

definition numbered :: "int \<Rightarrow> 'a list \<Rightarrow> (int \<times> 'a) list" where
  "numbered i xs = zip (map (\<lambda>k. i + int k) [0..<length xs]) xs"

lemma numbered_simps [simp]: "numbered i [] = []" "numbered i (x # xs) = (i, x) # numbered (i + 1) xs"
proof -
  have "map (\<lambda>k. i + int k) [0..<Suc n] = i # map (\<lambda>k. i + 1 + int k) [0..<n]" for n
    by (simp add: upt_conv_Cons map_Suc_upt[symmetric] comp_def algebra_simps del: upt_Suc)
  then show "numbered i [] = []" "numbered i (x # xs) = (i, x) # numbered (i + 1) xs"
    by (simp_all add: numbered_def)
qed

lemma ingest_findings_spec:
  "ingest_findings ob report ep i fs (os, vs, es) =
     (os @ map (\<lambda>(k, f). report_observation ob report k f) (numbered i fs),
      vs @ map (\<lambda>(k, f). report_violation report k f)
        (filter (\<lambda>(k, f). to_lower (rf_result f) \<in> {''fail'', ''error''}) (numbered i fs)),
      es @ map (\<lambda>(k, f). report_envelope ob report ep k f)
        (filter (\<lambda>(k, f). to_lower (rf_result f) = ''pass'') (numbered i fs)))"
proof (induction fs arbitrary: i os vs es)
  case (Cons f fs)
  show ?case
    unfolding ingest_findings.simps Let_def Cons.IH
    by (cases "to_lower (rf_result f) = ''pass''"; cases "to_lower (rf_result f) \<in> {''fail'', ''error''}") auto
qed simp

lemma normalize_severity_range:
  "normalize_severity s \<in> {''CRITICAL'', ''HIGH'', ''MEDIUM'', ''LOW'', ''INFORMATIONAL''}"
  by (simp add: normalize_severity_def Let_def)

section \<open>Properties\<close>

text \<open>
  Further: a report yields one observation for every finding, in order, a violation for exactly the findings that
  fail or err and evidence for exactly those that pass, whatever the case of their result; the rest
  is only observed. Severities fall into five canonical classes.
\<close>

lemma report_normalised:
  "ingest_report ob report ep =
     (map (\<lambda>(k, f). report_observation ob report k f) (numbered 0 (rt_findings report)),
      map (\<lambda>(k, f). report_violation report k f)
        (filter (\<lambda>(k, f). to_lower (rf_result f) \<in> {''fail'', ''error''}) (numbered 0 (rt_findings report))),
      map (\<lambda>(k, f). report_envelope ob report ep k f)
        (filter (\<lambda>(k, f). to_lower (rf_result f) = ''pass'') (numbered 0 (rt_findings report)))) \<and>
   normalize_severity sev \<in> {''CRITICAL'', ''HIGH'', ''MEDIUM'', ''LOW'', ''INFORMATIONAL''}"
  using normalize_severity_range by (simp add: ingest_report_def ingest_findings_spec)

end
