(* ===== verification/Spire.thy ===== *)
theory Spire
  imports Evidence
begin

text \<open>
  internal/adapters/spire/authority.go and svid.go: which producers may assert which evidence, the
  validation of X.509 SVIDs, and the attestation of a workload by its SVID. Certificates are the
  fields the code reads; decoding and parsing them, the verification of a chain (its error, for a
  pool, a time and whether the usages are restricted), the JSON text of the information and the
  format of times in messages are arguments.
\<close>

section \<open>Authorities\<close>

record authority_policy =
  pl_allowed_trust_domains :: "string list"
  pl_producer_permissions :: "string \<rightharpoonup> string list"

definition default_authority_policy :: authority_policy where
  "default_authority_policy =
     \<lparr>pl_allowed_trust_domains = [''prod'', ''ckodex.local''],
      pl_producer_permissions =
        [''spiffe://prod/ns/ckodex-assurance/sa/cel-admission-observer'' \<mapsto> [''kubernetes.admission''],
         ''spiffe://prod/ns/ckodex-evidence/sa/tetragon-collector'' \<mapsto>
           [''workload.runtime.process'', ''workload.runtime.capabilities''],
         ''spiffe://prod/ns/ckodex-evidence/sa/cilium-collector'' \<mapsto> [''network.flow.isolation''],
         ''spiffe://prod/ns/ckodex-evidence/sa/sigstore-verifier'' \<mapsto>
           [''supply-chain.signature'', ''supply-chain.provenance'']]\<rparr>"

definition new_authority_resolver :: "authority_policy option \<Rightarrow> authority_policy" where
  "new_authority_resolver policy = (case policy of None \<Rightarrow> default_authority_policy | Some p \<Rightarrow> p)"

definition trust_domain_of :: "string \<Rightarrow> string" where
  "trust_domain_of canonical = hd (split_on CHR ''/'' (trim_prefix canonical ''spiffe://''))"

definition validate_identity :: "authority_policy \<Rightarrow> authority_ref \<Rightarrow> string option" where
  "validate_identity policy auth =
     (if a_scheme auth \<noteq> ''spiffe''
      then Some (''unsupported identity scheme: '' @ a_scheme auth @ ''; expected spiffe'')
      else
        let canonical = authority_canonical auth; trust_domain = trust_domain_of canonical
        in if \<not> has_prefix canonical ''spiffe://''
           then Some (''invalid SPIFFE URI format: '' @ canonical)
           else if trust_domain = []
           then Some (''missing trust domain in SPIFFE ID: '' @ canonical)
           else if \<not> list_ex (\<lambda>td. td = trust_domain \<or> td = ''*'') (pl_allowed_trust_domains policy)
           then Some (''untrusted SPIFFE trust domain: '' @ trust_domain)
           else None)"

definition is_authorized_producer :: "authority_policy \<Rightarrow> authority_ref \<Rightarrow> string \<Rightarrow> bool result" where
  "is_authorized_producer policy producer evidence_type =
     (case validate_identity policy producer of
        Some e \<Rightarrow> Err e
      | None \<Rightarrow>
          let canonical = authority_canonical producer
          in case pl_producer_permissions policy canonical of
               None \<Rightarrow> Err (''producer identity '' @ canonical @ '' has no registered evidence authorities'')
             | Some types \<Rightarrow>
                 if list_ex (\<lambda>t. t = evidence_type \<or> t = ''*'') types then Ok True
                 else Err (''producer '' @ canonical @ '' is unauthorized to assert evidence type '' @ evidence_type))"

lemma validate_identity_none:
  "validate_identity policy auth = None \<longleftrightarrow>
     a_scheme auth = ''spiffe'' \<and> trust_domain_of (authority_canonical auth) \<noteq> [] \<and>
     (trust_domain_of (authority_canonical auth) \<in> set (pl_allowed_trust_domains policy) \<or>
      ''*'' \<in> set (pl_allowed_trust_domains policy))"
proof -
  have "has_prefix (authority_canonical auth) ''spiffe://''" if "a_scheme auth = ''spiffe''"
    using that by (simp add: authority_canonical_def has_prefix_def)
  then show ?thesis by (auto simp: validate_identity_def Let_def list_ex_iff)
qed

lemma authorized_iff:
  "is_authorized_producer policy producer ty = Ok True \<longleftrightarrow>
     validate_identity policy producer = None \<and>
     (\<exists>types. pl_producer_permissions policy (authority_canonical producer) = Some types \<and>
        (ty \<in> set types \<or> ''*'' \<in> set types))"
  "is_authorized_producer policy producer ty \<noteq> Ok False"
  by (auto simp: is_authorized_producer_def Let_def list_ex_iff split: option.splits)

section \<open>Trust bundles\<close>

record url =
  u_scheme :: string
  u_host :: string
  u_path :: string
  u_string :: string

record certificate =
  x5_not_before :: time
  x5_not_after :: time
  x5_uris :: "url list"
  x5_raw :: string
  x5_serial :: string

type_synonym cert_pool = "certificate list"
type_synonym trust_bundle = "string \<rightharpoonup> cert_pool"

definition add_root_ca ::
  "(string \<Rightarrow> string option) \<Rightarrow> (string \<Rightarrow> certificate result) \<Rightarrow> trust_bundle \<Rightarrow> string \<Rightarrow> string \<Rightarrow>
     trust_bundle \<times> string option" where
  "add_root_ca pem parse b trust_domain cert_pem =
     (let pool = (case b trust_domain of Some p \<Rightarrow> p | None \<Rightarrow> []);
          b = b(trust_domain \<mapsto> pool)
      in case pem cert_pem of
           None \<Rightarrow>
             (case parse cert_pem of
                Inl e \<Rightarrow> (b, Some (''failed to parse root CA for trust domain '' @ trust_domain @ '': '' @ e))
              | Inr cert \<Rightarrow> (b(trust_domain \<mapsto> pool @ [cert]), None))
         | Some bytes \<Rightarrow>
             (case parse bytes of
                Inl e \<Rightarrow> (b, Some (''failed to parse PEM root certificate: '' @ e))
              | Inr cert \<Rightarrow> (b(trust_domain \<mapsto> pool @ [cert]), None)))"

definition parse_certificate ::
  "(string \<Rightarrow> string option) \<Rightarrow> (string \<Rightarrow> certificate result) \<Rightarrow> string \<Rightarrow> certificate result" where
  "parse_certificate pem parse raw = (case pem raw of Some bytes \<Rightarrow> parse bytes | None \<Rightarrow> parse raw)"

section \<open>SVIDs\<close>

record svid_info =
  si_spiffe_id :: string
  si_trust_domain :: string
  si_namespace :: string
  si_service_acct :: string
  si_fingerprint :: string
  si_serial :: string
  si_not_before :: time
  si_not_after :: time
  si_selectors :: smap

record svid_validator =
  va_bundle :: trust_bundle
  va_auth :: authority_ref
  va_skew :: duration

definition new_svid_validator :: "trust_bundle option \<Rightarrow> authority_ref \<Rightarrow> svid_validator" where
  "new_svid_validator b auth =
     \<lparr>va_bundle = (case b of None \<Rightarrow> Map.empty | Some b \<Rightarrow> b),
      va_auth = (if a_scheme auth = []
        then \<lparr>a_scheme = ''spiffe'', a_subject = ''ckodex-assurance/spire-validator'', a_trust_domain = []\<rparr>
        else auth),
      va_skew = 30 * second\<rparr>"

fun path_selectors :: "string list \<Rightarrow> svid_info \<Rightarrow> svid_info" where
  "path_selectors (key # val # rest) info =
     path_selectors rest
       (if key = ''ns'' then info\<lparr>si_namespace := val, si_selectors := smap_put (si_selectors info) ''k8s:ns'' val\<rparr>
        else if key = ''sa'' then info\<lparr>si_service_acct := val, si_selectors := smap_put (si_selectors info) ''k8s:sa'' val\<rparr>
        else info\<lparr>si_selectors := smap_put (si_selectors info) key val\<rparr>)"
| "path_selectors _ info = info"

definition verify_time :: "time \<Rightarrow> certificate \<Rightarrow> time" where
  "verify_time now cert =
     (let t = (if now < x5_not_before cert then x5_not_before cert + second else now)
      in if x5_not_after cert < t then x5_not_after cert - second else t)"

definition validate_svid ::
  "(cert_pool \<Rightarrow> certificate \<Rightarrow> time \<Rightarrow> bool \<Rightarrow> string option) \<Rightarrow> (time \<Rightarrow> string) \<Rightarrow> svid_validator \<Rightarrow> time \<Rightarrow>
     certificate option \<Rightarrow> svid_info result" where
  "validate_svid chain fmt v now cert_opt =
     (case cert_opt of
        None \<Rightarrow> Err ''certificate is nil''
      | Some cert \<Rightarrow>
          if now + va_skew v < x5_not_before cert
          then Err (''SVID is not yet valid (notBefore: '' @ fmt (x5_not_before cert) @ '')'')
          else if x5_not_after cert < now - va_skew v
          then Err (''SVID is expired (notAfter: '' @ fmt (x5_not_after cert) @ '')'')
          else case find (\<lambda>u. u_scheme u = ''spiffe'') (x5_uris cert) of
              None \<Rightarrow> Err ''certificate does not contain a SPIFFE ID in URI SAN''
            | Some uri \<Rightarrow>
                if u_host uri = []
                then Err (''invalid SPIFFE URI (missing trust domain): '' @ u_string uri)
                else case va_bundle v (u_host uri) of
                    None \<Rightarrow> Err (''untrusted SPIFFE trust domain (no root CA registered): '' @ u_host uri)
                  | Some pool \<Rightarrow>
                      let t = verify_time now cert;
                          failure = (case chain pool cert t True of None \<Rightarrow> None | Some _ \<Rightarrow> chain pool cert t False);
                          info = \<lparr>si_spiffe_id = u_string uri, si_trust_domain = u_host uri, si_namespace = [],
                            si_service_acct = [], si_fingerprint = ''sha256:'' @ hex_encode (sha256 (x5_raw cert)),
                            si_serial = x5_serial cert, si_not_before = x5_not_before cert,
                            si_not_after = x5_not_after cert, si_selectors = []\<rparr>
                      in case failure of
                           Some e \<Rightarrow> Err (''X.509 SVID chain verification failed: '' @ e)
                         | None \<Rightarrow> Ok (path_selectors (split_on CHR ''/'' (trim_char CHR ''/'' (u_path uri))) info))"

section \<open>Attestation\<close>

text \<open>An error may come with the information of the SVID.\<close>

definition workload_identity_attestation ::
  "(cert_pool \<Rightarrow> certificate \<Rightarrow> time \<Rightarrow> bool \<Rightarrow> string option) \<Rightarrow> (time \<Rightarrow> string) \<Rightarrow> (svid_info \<Rightarrow> string result) \<Rightarrow>
     svid_validator \<Rightarrow> time \<Rightarrow> time \<Rightarrow> subject_ref \<Rightarrow> certificate option \<Rightarrow> string \<Rightarrow> string \<Rightarrow>
     (svid_info option \<times> string) + (envelope \<times> svid_info)" where
  "workload_identity_attestation chain fmt enc v now captured subject cert expected_ns expected_sa =
     (case validate_svid chain fmt v now cert of
        Inl e \<Rightarrow> Inl (None, ''workload SVID validation failed: '' @ e)
      | Inr info \<Rightarrow>
          if expected_ns \<noteq> [] \<and> si_namespace info \<noteq> [] \<and> si_namespace info \<noteq> expected_ns
          then Inl (Some info, ''workload namespace mismatch: expected '' @ expected_ns @ '', SVID asserts '' @ si_namespace info)
          else if expected_sa \<noteq> [] \<and> si_service_acct info \<noteq> [] \<and> si_service_acct info \<noteq> expected_sa
          then Inl (Some info, ''workload service account mismatch: expected '' @ expected_sa @ '', SVID asserts '' @
                 si_service_acct info)
          else case enc info of
              Inl e \<Rightarrow> Inl (Some info, ''failed to marshal SVID attestation payload: '' @ e)
            | Inr payload \<Rightarrow>
                let payload_digest = ''sha256:'' @ hex_encode (sha256 payload);
                    producer = \<lparr>a_scheme = ''spiffe'', a_subject = si_spiffe_id info, a_trust_domain = si_trust_domain info\<rparr>
                in Inr (\<lparr>ev_schema = evidence_schema, ev_id = ''ev-svid-'' @ show_int (unix_nano captured),
                         ev_subject = subject, ev_observation_type = ''workload.identity'', ev_captured_at = captured,
                         ev_producer = producer,
                         ev_artifact = \<lparr>e_uri = ''spiffe://'' @ si_trust_domain info @ ''/svid/'' @ si_serial info,
                           e_digest = payload_digest, e_media_type = ''application/vnd.spiffe.svid+json''\<rparr>,
                         ev_integrity_digest = payload_digest, ev_signature_ref = [],
                         ev_epoch = empty_epoch\<lparr>subject_digest := subject_ref_digest subject,
                           implementation_digest := payload_digest, authority_digest := authority_canonical producer\<rparr>,
                         ev_control_refs = [control ''ckodex'' ''workload.identity'', control ''nist-sp-800-53'' ''IA-2'']\<rparr>,
                        info))"

lemma verify_time_in_window:
  assumes "x5_not_before cert + second \<le> x5_not_after cert"
  shows "x5_not_before cert \<le> verify_time now cert \<and> verify_time now cert \<le> x5_not_after cert"
  using assms by (auto simp: verify_time_def Let_def time_units)

lemma path_selectors_same [simp]:
  "si_spiffe_id (path_selectors ps info) = si_spiffe_id info"
  "si_trust_domain (path_selectors ps info) = si_trust_domain info"
  "si_fingerprint (path_selectors ps info) = si_fingerprint info"
  "si_serial (path_selectors ps info) = si_serial info"
  by (induction ps info rule: path_selectors.induct) auto

text \<open>What the path of a SPIFFE identity says under a key: its segments are read in pairs, and the last pair with the key
  counts; nothing is said when there is none.\<close>

fun segment_pairs :: "string list \<Rightarrow> (string \<times> string) list" where
  "segment_pairs (key # val # rest) = (key, val) # segment_pairs rest"
| "segment_pairs _ = []"

definition path_value :: "string \<Rightarrow> string \<Rightarrow> string" where
  "path_value key path =
     (case map_of (rev (segment_pairs (split_on CHR ''/'' (trim_char CHR ''/'' path)))) key of None \<Rightarrow> [] | Some v \<Rightarrow> v)"

lemma path_selectors_values:
  "si_namespace (path_selectors segs info) =
     (case map_of (rev (segment_pairs segs)) ''ns'' of None \<Rightarrow> si_namespace info | Some v \<Rightarrow> v)"
  "si_service_acct (path_selectors segs info) =
     (case map_of (rev (segment_pairs segs)) ''sa'' of None \<Rightarrow> si_service_acct info | Some v \<Rightarrow> v)"
  by (induction segs info rule: path_selectors.induct) (auto simp: map_add_def split: option.split)

lemma validate_svid_ok:
  assumes "validate_svid chain fmt v now cert_opt = Ok info"
  shows "\<exists>cert uri pool. cert_opt = Some cert \<and> find (\<lambda>u. u_scheme u = ''spiffe'') (x5_uris cert) = Some uri \<and>
     x5_not_before cert - va_skew v \<le> now \<and> now \<le> x5_not_after cert + va_skew v \<and>
     u_host uri \<noteq> [] \<and> va_bundle v (u_host uri) = Some pool \<and>
     (\<exists>restricted. chain pool cert (verify_time now cert) restricted = None) \<and>
     si_spiffe_id info = u_string uri \<and> si_trust_domain info = u_host uri \<and>
     si_namespace info = path_value ''ns'' (u_path uri) \<and> si_service_acct info = path_value ''sa'' (u_path uri) \<and>
     si_fingerprint info = compute_digest (x5_raw cert)"
proof -
  from assms obtain cert where cert: "cert_opt = Some cert" by (auto simp: validate_svid_def split: option.splits)
  from assms obtain uri where uri: "find (\<lambda>u. u_scheme u = ''spiffe'') (x5_uris cert) = Some uri"
    by (auto simp: validate_svid_def cert split: option.splits if_splits)
  from assms uri obtain pool where "va_bundle v (u_host uri) = Some pool"
    by (auto simp: validate_svid_def cert split: option.splits if_splits)
  with assms uri show ?thesis
    by (intro exI[of _ cert] exI[of _ uri] exI[of _ pool])
      (auto simp: validate_svid_def cert path_selectors_values path_value_def Let_def compute_digest_def sha_prefix_def not_less algebra_simps
        split: option.splits if_splits)
qed

lemma attestation_ok:
  assumes "workload_identity_attestation chain fmt enc v now captured subject cert ns sa = Inr (env, info)"
  shows "validate_svid chain fmt v now cert = Ok info \<and>
     ev_producer env = \<lparr>a_scheme = ''spiffe'', a_subject = si_spiffe_id info, a_trust_domain = si_trust_domain info\<rparr> \<and>
     ev_subject env = subject \<and> ev_observation_type env = ''workload.identity'' \<and>
     (ns = [] \<or> si_namespace info = [] \<or> si_namespace info = ns) \<and>
     (sa = [] \<or> si_service_acct info = [] \<or> si_service_acct info = sa)"
  using assms
  by (auto simp: workload_identity_attestation_def Let_def split: sum.splits if_splits)

section \<open>Properties\<close>

text \<open>
  Further: a producer is authorised for a type of evidence exactly when it is a SPIFFE identity of an allowed
  trust domain and the policy grants it the type; under the default policy these are six pairs.
\<close>

lemma producer_authorisation:
  "(is_authorized_producer policy producer ty = Ok True \<longleftrightarrow>
      a_scheme producer = ''spiffe'' \<and> trust_domain_of (authority_canonical producer) \<noteq> [] \<and>
      (trust_domain_of (authority_canonical producer) \<in> set (pl_allowed_trust_domains policy) \<or>
       ''*'' \<in> set (pl_allowed_trust_domains policy)) \<and>
      (\<exists>types. pl_producer_permissions policy (authority_canonical producer) = Some types \<and>
         (ty \<in> set types \<or> ''*'' \<in> set types))) \<and>
   (is_authorized_producer default_authority_policy \<lparr>a_scheme = ''spiffe'', a_subject = sub, a_trust_domain = td\<rparr> ty = Ok True \<longleftrightarrow>
      (sub, ty) \<in> {(''prod/ns/ckodex-assurance/sa/cel-admission-observer'', ''kubernetes.admission''),
        (''prod/ns/ckodex-evidence/sa/tetragon-collector'', ''workload.runtime.process''),
        (''prod/ns/ckodex-evidence/sa/tetragon-collector'', ''workload.runtime.capabilities''),
        (''prod/ns/ckodex-evidence/sa/cilium-collector'', ''network.flow.isolation''),
        (''prod/ns/ckodex-evidence/sa/sigstore-verifier'', ''supply-chain.signature''),
        (''prod/ns/ckodex-evidence/sa/sigstore-verifier'', ''supply-chain.provenance'')})"
proof
  show "is_authorized_producer policy producer ty = Ok True \<longleftrightarrow>
      a_scheme producer = ''spiffe'' \<and> trust_domain_of (authority_canonical producer) \<noteq> [] \<and>
      (trust_domain_of (authority_canonical producer) \<in> set (pl_allowed_trust_domains policy) \<or>
       ''*'' \<in> set (pl_allowed_trust_domains policy)) \<and>
      (\<exists>types. pl_producer_permissions policy (authority_canonical producer) = Some types \<and>
         (ty \<in> set types \<or> ''*'' \<in> set types))"
    unfolding authorized_iff(1) validate_identity_none by blast
  have td: "trust_domain_of (''spiffe://'' @ ''prod/'' @ rest) = ''prod''" for rest
    unfolding trust_domain_of_def trim_prefix_append by (simp split: list.split)
  show "is_authorized_producer default_authority_policy \<lparr>a_scheme = ''spiffe'', a_subject = sub, a_trust_domain = td\<rparr> ty = Ok True \<longleftrightarrow>
      (sub, ty) \<in> {(''prod/ns/ckodex-assurance/sa/cel-admission-observer'', ''kubernetes.admission''),
        (''prod/ns/ckodex-evidence/sa/tetragon-collector'', ''workload.runtime.process''),
        (''prod/ns/ckodex-evidence/sa/tetragon-collector'', ''workload.runtime.capabilities''),
        (''prod/ns/ckodex-evidence/sa/cilium-collector'', ''network.flow.isolation''),
        (''prod/ns/ckodex-evidence/sa/sigstore-verifier'', ''supply-chain.signature''),
        (''prod/ns/ckodex-evidence/sa/sigstore-verifier'', ''supply-chain.provenance'')}"
    unfolding authorized_iff(1) validate_identity_none
    using td[of "''ns/ckodex-assurance/sa/cel-admission-observer''"] td[of "''ns/ckodex-evidence/sa/tetragon-collector''"]
      td[of "''ns/ckodex-evidence/sa/cilium-collector''"] td[of "''ns/ckodex-evidence/sa/sigstore-verifier''"]
    by (auto simp: default_authority_policy_def authority_canonical_def split: if_splits)
qed


definition example_certificate :: certificate where
  "example_certificate =
     \<lparr>x5_not_before = 0, x5_not_after = hour,
      x5_uris = [\<lparr>u_scheme = ''spiffe'', u_host = ''prod'', u_path = ''/ns/a/sa/b'', u_string = ''spiffe://prod/ns/a/sa/b''\<rparr>],
      x5_raw = [], x5_serial = ''1''\<rparr>"

definition example_validator :: svid_validator where
  "example_validator = \<lparr>va_bundle = [''prod'' \<mapsto> []], va_auth = empty_authority, va_skew = 30 * second\<rparr>"

abbreviation example_attestation :: "(svid_info option \<times> string) + (envelope \<times> svid_info)" where
  "example_attestation \<equiv> workload_identity_attestation (\<lambda>p c t r. None) (\<lambda>t. []) (\<lambda>i. Ok []) example_validator 1 1
     \<lparr>s_scheme = [], s_id = [], s_attributes = []\<rparr> (Some example_certificate) ''a'' ''b''"

lemma example_attestation_ok: "\<exists>env info. example_attestation = Inr (env, info) \<and> si_spiffe_id info = ''spiffe://prod/ns/a/sa/b''"
proof -
  have "split_on CHR ''/'' (trim_char CHR ''/'' ''/ns/a/sa/b'') = [''ns'', ''a'', ''sa'', ''b'']" by code_simp
  then show ?thesis
    by (simp add: workload_identity_attestation_def validate_svid_def example_certificate_def example_validator_def
        time_units Let_def)
qed


text \<open>
  Further: the evidence of an attestation names its producer by a URI inside a URI, so no policy that lists trust
  domains authorises that producer, not even for the identity of the workload.
\<close>

lemma attested_producer_is_refused:
  assumes "workload_identity_attestation chain fmt enc v now captured subject cert_opt ns sa = Inr (env, info)"
    and "has_prefix (si_spiffe_id info) ''spiffe://''"
    and "''*'' \<notin> set (pl_allowed_trust_domains policy)" and "''spiffe:'' \<notin> set (pl_allowed_trust_domains policy)"
  shows "is_authorized_producer policy (ev_producer env) ty = Err (''untrusted SPIFFE trust domain: spiffe:'')"
proof -
  obtain rest where rest: "si_spiffe_id info = ''spiffe://'' @ rest" using has_prefixE[OF assms(2)] by blast
  have p: "ev_producer env = \<lparr>a_scheme = ''spiffe'', a_subject = si_spiffe_id info, a_trust_domain = si_trust_domain info\<rparr>"
    using attestation_ok[OF assms(1)] by simp
  then have can: "authority_canonical (ev_producer env) = ''spiffe://'' @ ''spiffe://'' @ rest"
    by (simp add: authority_canonical_def rest)
  have td: "trust_domain_of (''spiffe://'' @ ''spiffe://'' @ rest) = ''spiffe:''"
    unfolding trust_domain_of_def trim_prefix_append by (simp split: list.split)
  have "validate_identity policy (ev_producer env) = Some (''untrusted SPIFFE trust domain: spiffe:'')"
    using assms(3,4) unfolding validate_identity_def Let_def can td
    by (auto simp: p list_ex_iff has_prefix_def)
  then show ?thesis by (simp add: is_authorized_producer_def)
qed

lemma attested_producer_is_refused_witness:
  "\<exists>env info. example_attestation = Inr (env, info) \<and>
     is_authorized_producer default_authority_policy (ev_producer env) ''workload.identity'' =
       Err (''untrusted SPIFFE trust domain: spiffe:'')"
proof -
  obtain env info where a: "example_attestation = Inr (env, info)" "si_spiffe_id info = ''spiffe://prod/ns/a/sa/b''"
    using example_attestation_ok by blast
  with attested_producer_is_refused[OF a(1), of default_authority_policy "''workload.identity''"] show ?thesis
    by (simp add: default_authority_policy_def has_prefix_def)
qed

end
