(* ===== verification/Go_Heap.thy ===== *)
theory Go_Heap
  imports Prelude
begin

text \<open>
  Memory with arrays, for the code that copies structures with slices and pointers: a heap maps
  addresses to cells, each the backing array of slices or of pointers to its elements. The locale
  of deep copies says what DeepCopyInto promises for a type; slices, pointers and the fields of a
  structure keep the promise.
\<close>

section \<open>Heaps\<close>

type_synonym addr = nat

record 'c heap =
  hp_cells :: "addr \<Rightarrow> 'c option"
  hp_next :: addr

text \<open>A slice is a window of an array; a pointer is an element of an array. Nil is None.\<close>

record slice =
  sl_addr :: addr
  sl_offset :: nat
  sl_len :: nat

type_synonym pointer = "addr \<times> nat"

definition reserve :: "'c heap \<Rightarrow> addr \<times> 'c heap" where
  "reserve h = (hp_next h, h\<lparr>hp_next := hp_next h + 1\<rparr>)"

definition store_at :: "addr \<Rightarrow> 'c \<Rightarrow> 'c heap \<Rightarrow> 'c heap" where
  "store_at a c h = h\<lparr>hp_cells := (hp_cells h)(a := Some c)\<rparr>"

definition same_on :: "addr set \<Rightarrow> 'c heap \<Rightarrow> 'c heap \<Rightarrow> bool" where
  "same_on A h h' = (\<forall>a\<in>A. hp_cells h' a = hp_cells h a)"

definition older :: "'c heap \<Rightarrow> addr set" where
  "older h = {..<hp_next h}"

definition newer :: "'c heap \<Rightarrow> 'c heap \<Rightarrow> addr set" where
  "newer h h' = {hp_next h..<hp_next h'}"

text \<open>Nothing that was allocated is changed.\<close>

definition keeps :: "'c heap \<Rightarrow> 'c heap \<Rightarrow> bool" where
  "keeps h h' = (hp_next h \<le> hp_next h' \<and> same_on (older h) h h')"

lemma keeps_refl [simp]: "keeps h h"
  by (simp add: keeps_def same_on_def)

lemma keeps_trans: "keeps h h1 \<Longrightarrow> keeps h1 h2 \<Longrightarrow> keeps h h2"
  by (auto simp: keeps_def same_on_def older_def)

lemma keeps_same: "keeps h h' \<Longrightarrow> A \<subseteq> older h \<Longrightarrow> same_on A h h'"
  by (auto simp: keeps_def same_on_def)

lemma keeps_older: "keeps h h' \<Longrightarrow> older h \<subseteq> older h'"
  by (auto simp: keeps_def older_def)

lemma newer_older: "newer h h' \<subseteq> older h'"
  by (auto simp: newer_def older_def)

lemma newer_mono: "keeps h h1 \<Longrightarrow> keeps h1 h2 \<Longrightarrow> newer h1 h2 \<union> newer h h1 \<subseteq> newer h h2"
  by (auto simp: keeps_def newer_def)

lemma same_onI: "(\<And>a. a \<in> A \<Longrightarrow> hp_cells h' a = hp_cells h a) \<Longrightarrow> same_on A h h'"
  by (simp add: same_on_def)

lemma same_on_mono: "same_on B h h' \<Longrightarrow> A \<subseteq> B \<Longrightarrow> same_on A h h'"
  by (auto simp: same_on_def)

section \<open>Copies\<close>

text \<open>A copier yields the new value and the heap afterwards; assign is *out = *in.\<close>

type_synonym ('a, 'c) copier = "'a \<Rightarrow> 'c heap \<Rightarrow> 'a \<times> 'c heap"

definition assign :: "('a, 'c) copier" where
  "assign x h = (x, h)"

fun copy_all :: "('a, 'c) copier \<Rightarrow> 'a list \<Rightarrow> 'c heap \<Rightarrow> 'a list \<times> 'c heap" where
  "copy_all copy [] h = ([], h)"
| "copy_all copy (x # xs) h =
     (case copy x h of (y, h1) \<Rightarrow> (case copy_all copy xs h1 of (ys, h2) \<Rightarrow> (y # ys, h2)))"

text \<open>
  The elements that a slice shows, and its copy: a new array, whose elements are copied one by one.
  The cells of arrays of a type are given by their constructor and its contents.
\<close>

definition elements :: "('c option \<Rightarrow> 'a list) \<Rightarrow> 'c heap \<Rightarrow> slice \<Rightarrow> 'a list" where
  "elements contents h s = take (sl_len s) (drop (sl_offset s) (contents (hp_cells h (sl_addr s))))"

definition copy_slice :: "('a list \<Rightarrow> 'c) \<Rightarrow> ('c option \<Rightarrow> 'a list) \<Rightarrow> ('a, 'c) copier \<Rightarrow> (slice option, 'c) copier" where
  "copy_slice cell contents copy s h =
     (case s of
        None \<Rightarrow> (None, h)
      | Some s \<Rightarrow>
          (case reserve h of
             (a, h1) \<Rightarrow>
               (case copy_all copy (elements contents h s) h1 of
                  (ys, h2) \<Rightarrow> (Some \<lparr>sl_addr = a, sl_offset = 0, sl_len = sl_len s\<rparr>, store_at a (cell ys) h2))))"

text \<open>The value that a pointer points to, and the copy of a pointer: a new value.\<close>

definition target :: "('c option \<Rightarrow> 'a list) \<Rightarrow> 'c heap \<Rightarrow> pointer \<Rightarrow> 'a option" where
  "target contents h p =
     (let xs = contents (hp_cells h (fst p)) in if snd p < length xs then Some (xs ! snd p) else None)"

definition copy_pointer :: "('a list \<Rightarrow> 'c) \<Rightarrow> ('c option \<Rightarrow> 'a list) \<Rightarrow> ('a, 'c) copier \<Rightarrow> (pointer option, 'c) copier" where
  "copy_pointer cell contents copy p h =
     (case p of
        None \<Rightarrow> (None, h)
      | Some p \<Rightarrow>
          (case reserve h of
             (a, h1) \<Rightarrow>
               (case target contents h p of
                  None \<Rightarrow> (Some (a, 0), store_at a (cell []) h1)
                | Some x \<Rightarrow> (case copy x h1 of (y, h2) \<Rightarrow> (Some (a, 0), store_at a (cell [y]) h2)))))"

text \<open>A structure is assigned first; then the fields with references are copied in their order.\<close>

definition field :: "('a \<Rightarrow> 'f) \<Rightarrow> (('f \<Rightarrow> 'f) \<Rightarrow> 'a \<Rightarrow> 'a) \<Rightarrow> ('f, 'c) copier \<Rightarrow> 'a \<Rightarrow> 'a \<times> 'c heap \<Rightarrow> 'a \<times> 'c heap" where
  "field get upd copy x s = (case copy (get x) (snd s) of (v, h) \<Rightarrow> (upd (\<lambda>_. v) (fst s), h))"

definition copy_fields :: "('a \<Rightarrow> 'a \<times> 'c heap \<Rightarrow> 'a \<times> 'c heap) list \<Rightarrow> ('a, 'c) copier" where
  "copy_fields steps x h = foldl (\<lambda>s step. step x s) (assign x h) steps"

lemma fst_field: "fst (field get upd copy x s) = upd (\<lambda>_. fst (copy (get x) (snd s))) (fst s)"
  by (simp add: field_def split: prod.split)

section \<open>Deep copies\<close>

text \<open>
  The addresses a value of the type reaches, and what it shows in a heap, which depends on these
  addresses only. A copy changes nothing that exists, shows the same and reaches new addresses only.
\<close>

locale deep_copy =
  fixes reach :: "'c heap \<Rightarrow> 'a \<Rightarrow> addr set" and view :: "'c heap \<Rightarrow> 'a \<Rightarrow> 'v" and copy :: "('a, 'c) copier"
  assumes frame: "same_on (reach h x) h h' \<Longrightarrow> reach h' x = reach h x \<and> view h' x = view h x"
    and copies: "copy x h = (y, h') \<Longrightarrow> reach h x \<subseteq> older h \<Longrightarrow>
      keeps h h' \<and> view h' y = view h x \<and> reach h' y \<subseteq> newer h h'"
begin

lemma kept: "keeps h h' \<Longrightarrow> reach h x \<subseteq> older h \<Longrightarrow> reach h' x = reach h x \<and> view h' x = view h x"
  by (rule frame) (rule keeps_same)

lemma copy_all_copies:
  "copy_all copy xs h = (ys, h') \<Longrightarrow> (\<And>x. x \<in> set xs \<Longrightarrow> reach h x \<subseteq> older h) \<Longrightarrow>
     keeps h h' \<and> map (view h') ys = map (view h) xs \<and> (\<Union>y\<in>set ys. reach h' y) \<subseteq> newer h h'"
proof (induction xs arbitrary: h ys)
  case (Cons x xs)
  obtain y h1 zs where c: "copy x h = (y, h1)" and r: "copy_all copy xs h1 = (zs, h')" and ys: "ys = y # zs"
    using Cons.prems(1) by (auto split: prod.splits)
  have 1: "keeps h h1" "view h1 y = view h x" "reach h1 y \<subseteq> newer h h1"
    using copies[OF c] Cons.prems(2)[of x] by auto
  have old: "reach h1 z = reach h z \<and> view h1 z = view h z \<and> reach h1 z \<subseteq> older h1" if "z \<in> set xs" for z
    using kept[OF 1(1), of z] Cons.prems(2)[of z] keeps_older[OF 1(1)] that by auto
  have 2: "keeps h1 h'" "map (view h') zs = map (view h1) xs" "(\<Union>y\<in>set zs. reach h' y) \<subseteq> newer h1 h'"
    using Cons.IH[OF r] old by blast+
  have y: "reach h' y = reach h1 y" "view h' y = view h1 y"
    using kept[OF 2(1), of y] 1(3) newer_older by blast+
  have "map (view h1) xs = map (view h) xs" using old by simp
  then show ?case
    using keeps_trans[OF 1(1) 2(1)] newer_mono[OF 1(1) 2(1)] 1 2 y ys by auto
qed simp

text \<open>What is written through one of the two values is not seen through the other.\<close>

lemma apart:
  assumes "copy x h = (y, h')" and "reach h x \<subseteq> older h"
  shows "view h' y = view h x" and "reach h' y \<inter> reach h x = {}"
    and "same_on (- reach h x) h' h2 \<Longrightarrow> view h2 y = view h x"
    and "same_on (- reach h' y) h' h2 \<Longrightarrow> view h2 x = view h x"
proof -
  have c: "keeps h h'" "view h' y = view h x" "reach h' y \<subseteq> newer h h'"
    using copies[OF assms] by auto
  then have disj: "reach h' y \<inter> reach h x = {}" using assms(2) by (fastforce simp: newer_def older_def)
  then show "view h' y = view h x" "reach h' y \<inter> reach h x = {}" using c by auto
  show "view h2 y = view h x" if "same_on (- reach h x) h' h2"
    using frame[of h' y h2] same_on_mono[OF that, of "reach h' y"] disj c by auto
  have x: "reach h' x = reach h x" "view h' x = view h x" using kept[OF c(1) assms(2)] by auto
  show "view h2 x = view h x" if "same_on (- reach h' y) h' h2"
    using frame[of h' x h2] same_on_mono[OF that, of "reach h' x"] disj x by auto
qed

end

section \<open>Fields, slices and pointers\<close>

text \<open>Values without references, and structures whose fields with references are still to be copied.\<close>

lemma deep_copy_assign: "deep_copy (\<lambda>h x. {}) (\<lambda>h x. value_part x) assign"
  by unfold_locales (simp_all add: assign_def)

lemma deep_copy_field:
  assumes "deep_copy reach view copy" and "deep_copy freach fview fcopy"
    and "\<And>h x v. reach h (upd (\<lambda>_. v) x) = reach h x" and "\<And>h x v. view h (upd (\<lambda>_. v) x) = view h x"
    and "\<And>x v. get (upd (\<lambda>_. v) x) = v"
  shows "deep_copy (\<lambda>h x. reach h x \<union> freach h (get x)) (\<lambda>h x. (view h x, fview h (get x)))
    (\<lambda>x h. field get upd fcopy x (copy x h))"
proof -
  note r = deep_copy.frame[OF assms(1)] deep_copy.copies[OF assms(1)] deep_copy.kept[OF assms(1)]
  note f = deep_copy.frame[OF assms(2)] deep_copy.copies[OF assms(2)] deep_copy.kept[OF assms(2)]
  show ?thesis
  proof
    fix h x h'
    assume "same_on (reach h x \<union> freach h (get x)) h h'"
    then show "reach h' x \<union> freach h' (get x) = reach h x \<union> freach h (get x) \<and>
        (view h' x, fview h' (get x)) = (view h x, fview h (get x))"
      using r(1)[of h x h'] f(1)[of h "get x" h'] by (auto simp: same_on_def)
  next
    fix x h y h'
    assume c: "field get upd fcopy x (copy x h) = (y, h')" and o: "reach h x \<union> freach h (get x) \<subseteq> older h"
    obtain x1 h1 v where x1: "copy x h = (x1, h1)" and v: "fcopy (get x) h1 = (v, h')" and y: "y = upd (\<lambda>_. v) x1"
      using c by (cases "copy x h") (auto simp: field_def split: prod.splits)
    have 1: "keeps h h1" "view h1 x1 = view h x" "reach h1 x1 \<subseteq> newer h h1"
      using r(2)[OF x1] o by auto
    have old: "freach h1 (get x) = freach h (get x)" "fview h1 (get x) = fview h (get x)"
      using f(3)[OF 1(1), of "get x"] o by auto
    have 2: "keeps h1 h'" "fview h' v = fview h1 (get x)" "freach h' v \<subseteq> newer h1 h'"
      using f(2)[OF v] old o keeps_older[OF 1(1)] by auto
    have y1: "reach h' x1 = reach h1 x1" "view h' x1 = view h1 x1"
      using r(3)[OF 2(1), of x1] 1(3) newer_older by blast+
    show "keeps h h' \<and> (view h' y, fview h' (get y)) = (view h x, fview h (get x)) \<and>
        reach h' y \<union> freach h' (get y) \<subseteq> newer h h'"
      using keeps_trans[OF 1(1) 2(1)] newer_mono[OF 1(1) 2(1)] 1 2 y1 old y assms(3-5) by auto
  qed
qed

definition slice_reach :: "('c option \<Rightarrow> 'a list) \<Rightarrow> ('c heap \<Rightarrow> 'a \<Rightarrow> addr set) \<Rightarrow> 'c heap \<Rightarrow> slice option \<Rightarrow> addr set" where
  "slice_reach contents reach h s =
     (case s of None \<Rightarrow> {} | Some s \<Rightarrow> insert (sl_addr s) (\<Union>x\<in>set (elements contents h s). reach h x))"

definition slice_view :: "('c option \<Rightarrow> 'a list) \<Rightarrow> ('c heap \<Rightarrow> 'a \<Rightarrow> 'v) \<Rightarrow> 'c heap \<Rightarrow> slice option \<Rightarrow> 'v list option" where
  "slice_view contents view h s =
     (case s of None \<Rightarrow> None | Some s \<Rightarrow> Some (map (view h) (elements contents h s)))"

definition pointer_reach :: "('c option \<Rightarrow> 'a list) \<Rightarrow> ('c heap \<Rightarrow> 'a \<Rightarrow> addr set) \<Rightarrow> 'c heap \<Rightarrow> pointer option \<Rightarrow> addr set" where
  "pointer_reach contents reach h p =
     (case p of None \<Rightarrow> {} | Some p \<Rightarrow> insert (fst p) (case target contents h p of None \<Rightarrow> {} | Some x \<Rightarrow> reach h x))"

definition pointer_view :: "('c option \<Rightarrow> 'a list) \<Rightarrow> ('c heap \<Rightarrow> 'a \<Rightarrow> 'v) \<Rightarrow> 'c heap \<Rightarrow> pointer option \<Rightarrow> 'v option option" where
  "pointer_view contents view h p =
     (case p of None \<Rightarrow> None | Some p \<Rightarrow> Some (map_option (view h) (target contents h p)))"

lemma reserved: "reserve h = (a, h1) \<Longrightarrow> a = hp_next h \<and> keeps h h1 \<and> hp_next h1 = Suc (hp_next h) \<and> hp_cells h1 = hp_cells h"
  by (auto simp: reserve_def keeps_def same_on_def)

lemma stored:
  assumes "reserve h = (a, h1)" and "keeps h1 h2"
  shows "keeps h (store_at a c h2)" and "hp_cells (store_at a c h2) a = Some c" and "a \<in> newer h (store_at a c h2)"
    and "newer h1 h2 \<subseteq> newer h (store_at a c h2)" and "same_on (newer h1 h2) h2 (store_at a c h2)"
  using reserved[OF assms(1)] assms(2)
  by (auto simp: keeps_def same_on_def store_at_def newer_def older_def)

context deep_copy
begin

lemma slice_copies:
  assumes contents: "\<And>xs. contents (Some (cell xs)) = xs"
    and c: "copy_slice cell contents copy s h = (t, h')" and o: "slice_reach contents reach h s \<subseteq> older h"
  shows "keeps h h' \<and> slice_view contents view h' t = slice_view contents view h s \<and>
    slice_reach contents reach h' t \<subseteq> newer h h'"
proof (cases s)
  case (Some s')
  obtain a h1 ys h2 where a: "reserve h = (a, h1)" and ys: "copy_all copy (elements contents h s') h1 = (ys, h2)"
    and t: "t = Some \<lparr>sl_addr = a, sl_offset = 0, sl_len = sl_len s'\<rparr>" and h': "h' = store_at a (cell ys) h2"
    using c Some by (auto simp: copy_slice_def split: prod.splits)
  note rs = reserved[OF a]
  have el: "reach h1 x = reach h x \<and> view h1 x = view h x \<and> reach h1 x \<subseteq> older h1" if "x \<in> set (elements contents h s')" for x
    using kept[of h h1 x] o that rs keeps_older[of h h1] by (auto simp: Some slice_reach_def)
  have k: "keeps h1 h2" "map (view h2) ys = map (view h1) (elements contents h s')" "(\<Union>y\<in>set ys. reach h2 y) \<subseteq> newer h1 h2"
    using copy_all_copies[OF ys] el by blast+
  note st = stored[OF a k(1), of "cell ys"]
  have same: "reach h' y = reach h2 y \<and> view h' y = view h2 y" if "y \<in> set ys" for y
    using frame[of h2 y h'] same_on_mono[OF st(5), of "reach h2 y"] k(3) that by (auto simp: h')
  have "length ys \<le> sl_len s'"
    using arg_cong[OF k(2), of length] by (simp add: elements_def)
  then have els: "elements contents h' \<lparr>sl_addr = a, sl_offset = 0, sl_len = sl_len s'\<rparr> = ys"
    by (simp add: elements_def h' st(2) contents)
  have "map (view h') ys = map (view h2) ys" "map (view h1) (elements contents h s') = map (view h) (elements contents h s')"
    using same el by simp_all
  then have "slice_view contents view h' t = slice_view contents view h s"
    by (simp add: slice_view_def t Some els k(2))
  moreover have "slice_reach contents reach h' t \<subseteq> newer h h'"
    using same k(3) st(3,4) els by (auto simp: slice_reach_def t els simp flip: h')
  ultimately show ?thesis using st(1) by (simp add: h')
qed (use c in \<open>simp add: copy_slice_def slice_view_def slice_reach_def\<close>)

lemma pointer_copies:
  assumes contents: "\<And>xs. contents (Some (cell xs)) = xs"
    and c: "copy_pointer cell contents copy p h = (q, h')" and o: "pointer_reach contents reach h p \<subseteq> older h"
  shows "keeps h h' \<and> pointer_view contents view h' q = pointer_view contents view h p \<and>
    pointer_reach contents reach h' q \<subseteq> newer h h'"
proof (cases p)
  case (Some p')
  obtain a h1 where a: "reserve h = (a, h1)" by (cases "reserve h")
  note rs = reserved[OF a]
  show ?thesis
  proof (cases "target contents h p'")
    case None
    have q: "q = Some (a, 0)" "h' = store_at a (cell []) h1" using c by (simp_all add: Some None a copy_pointer_def)
    note st = stored[OF a keeps_refl, of "cell []"]
    have t: "target contents h' (a, 0) = None" by (simp add: target_def q(2) st(2) contents)
    show ?thesis using st(1,3) t None
      by (simp add: Some q(1) pointer_view_def pointer_reach_def) (simp add: q(2))
  next
    case x: (Some x)
    obtain y h2 where y: "copy x h1 = (y, h2)" and q: "q = Some (a, 0)" "h' = store_at a (cell [y]) h2"
      using c by (auto simp: Some x a copy_pointer_def split: prod.splits)
    have el: "reach h1 x = reach h x" "view h1 x = view h x" "reach h1 x \<subseteq> older h1"
      using kept[of h h1 x] o rs keeps_older[of h h1] by (auto simp: Some x pointer_reach_def)
    have k: "keeps h1 h2" "view h2 y = view h1 x" "reach h2 y \<subseteq> newer h1 h2"
      using copies[OF y el(3)] by auto
    note st = stored[OF a k(1), of "cell [y]"]
    have same: "reach h' y = reach h2 y" "view h' y = view h2 y"
      using frame[of h2 y h'] same_on_mono[OF st(5) k(3)] by (auto simp: q)
    have t: "target contents h' (a, 0) = Some y" by (simp add: target_def q st(2) contents)
    have "pointer_view contents view h' q = pointer_view contents view h p"
      by (simp add: pointer_view_def q(1) Some x t same k(2) el(2))
    moreover have "pointer_reach contents reach h' q \<subseteq> newer h h'"
      using st(3,4) k(3) same by (auto simp: pointer_reach_def q(1) t) (auto simp: q(2))
    ultimately show ?thesis using st(1) by (simp add: q(2))
  qed
qed (use c in \<open>simp add: copy_pointer_def pointer_view_def pointer_reach_def\<close>)

lemma slice_frame:
  assumes "same_on (slice_reach contents reach h s) h h'"
  shows "slice_reach contents reach h' s = slice_reach contents reach h s \<and>
    slice_view contents view h' s = slice_view contents view h s"
proof (cases s)
  case (Some s')
  have el: "elements contents h' s' = elements contents h s'"
    using assms by (simp add: Some slice_reach_def elements_def same_on_def)
  have "reach h' x = reach h x \<and> view h' x = view h x" if "x \<in> set (elements contents h s')" for x
    using frame[of h x h'] same_on_mono[OF assms, of "reach h x"] that by (auto simp: Some slice_reach_def)
  then show ?thesis by (auto simp: Some slice_reach_def slice_view_def el)
qed (simp add: slice_reach_def slice_view_def)

lemma pointer_frame:
  assumes "same_on (pointer_reach contents reach h p) h h'"
  shows "pointer_reach contents reach h' p = pointer_reach contents reach h p \<and>
    pointer_view contents view h' p = pointer_view contents view h p"
proof (cases p)
  case (Some p')
  have t: "target contents h' p' = target contents h p'"
    using assms by (simp add: Some pointer_reach_def target_def same_on_def)
  show ?thesis
  proof (cases "target contents h p'")
    case x: (Some x)
    have "reach h' x = reach h x \<and> view h' x = view h x"
      using frame[of h x h'] same_on_mono[OF assms, of "reach h x"] by (auto simp: Some pointer_reach_def x)
    then show ?thesis by (simp add: Some pointer_reach_def pointer_view_def t x)
  qed (simp add: Some pointer_reach_def pointer_view_def t)
qed (simp add: pointer_reach_def pointer_view_def)

lemma slices: "(\<And>xs. contents (Some (cell xs)) = xs) \<Longrightarrow>
    deep_copy (slice_reach contents reach) (slice_view contents view) (copy_slice cell contents copy)"
  by unfold_locales (erule slice_frame, rule slice_copies)

lemma pointers: "(\<And>xs. contents (Some (cell xs)) = xs) \<Longrightarrow>
    deep_copy (pointer_reach contents reach) (pointer_view contents view) (copy_pointer cell contents copy)"
  by unfold_locales (erule pointer_frame, rule pointer_copies)

end

end
