(* ===== verification/Api_Memory.thy ===== *)
theory Api_Memory
  imports Go_Heap Ingest
begin

text \<open>
  The resources of api/assurance/v1alpha1 as they lie in memory: slices and pointers are addresses of
  the heap of Go_Heap, whose cells are the arrays of each type. ObjectMeta, ListMeta and LabelSelector
  are of the library; 'x stands for their values. Time, Duration and Condition have no references.
\<close>

section \<open>Structures\<close>

record condition_value =
  cv_type :: string
  cv_status :: string
  cv_generation :: int
  cv_transition :: time
  cv_reason :: string
  cv_message :: string

record ('x, 's, 't) api_object =
  ao_type :: "string \<times> string"
  ao_meta :: 'x
  ao_spec :: 's
  ao_status :: 't

record 'x api_list =
  al_type :: "string \<times> string"
  al_meta :: 'x
  al_items :: "slice option"

text \<open>controlbinding_types.go\<close>

record item_mem =
  im_canonical :: control_ref
  im_mappings :: "slice option"

record selector_mem =
  sm_api_groups :: "slice option"
  sm_kinds :: "slice option"
  sm_namespaces :: "pointer option"
  sm_labels :: "pointer option"

record requirement_mem =
  rm_id :: string
  rm_implementations :: "slice option"
  rm_contract :: string

record binding_spec_mem =
  bs_controls :: "slice option"
  bs_subjects :: selector_mem
  bs_requirements :: "slice option"

record binding_status_mem =
  bt_generation :: int
  bt_active :: int
  bt_conditions :: "slice option"

text \<open>evidencecontract_types.go\<close>

record contract_requirement_mem =
  qm_id :: string
  qm_type :: string
  qm_required :: bool
  qm_freshness :: duration
  qm_producers :: "slice option"

record contract_spec_mem =
  cs_requirements :: "slice option"
  cs_on_missing :: string

record contract_status_mem =
  cst_generation :: int
  cst_conditions :: "slice option"

text \<open>assurancestate_types.go\<close>

record control_status_value =
  tv_id :: string
  tv_state :: string
  tv_summary :: string

record state_epoch_value =
  te_subject :: string
  te_policy :: string
  te_implementation :: string
  te_authority :: string
  te_environment :: string
  te_composite :: string

record state_subject_value =
  tj_api_version :: string
  tj_kind :: string
  tj_namespace :: string
  tj_name :: string
  tj_uid :: string

record state_status_mem =
  ts_state :: string
  ts_epoch :: state_epoch_value
  ts_evidence_root :: string
  ts_controls :: "slice option"
  ts_evaluated_at :: "pointer option"
  ts_valid_until :: "pointer option"
  ts_conditions :: "slice option"

text \<open>assurancepolicy_types.go\<close>

record policy_spec_value =
  pv_required_state :: string
  pv_require_fresh :: bool
  pv_fail_on_violation :: bool
  pv_unknown_is_violation :: bool
  pv_max_evaluation_age :: duration
  pv_admission_enabled :: bool

record policy_status_mem =
  pm_generation :: int
  pm_conditions :: "slice option"

text \<open>controlexception_types.go\<close>

record exception_subject_value =
  xv_api_version :: string
  xv_kind :: string
  xv_namespace :: string
  xv_name :: string

record exception_authority_mem =
  xa_required_approvers :: "slice option"

record exception_spec_mem =
  xs_subject :: exception_subject_value
  xs_controls :: "slice option"
  xs_justification :: "string \<times> string"
  xs_authority :: exception_authority_mem
  xs_validity :: "time \<times> time"
  xs_compensating :: "slice option"

record exception_status_mem =
  xt_phase :: string
  xt_generation :: int
  xt_conditions :: "slice option"

text \<open>capabilitylease_types.go\<close>

record lease_spec_mem =
  ls_principal :: string
  ls_scope :: string
  ls_capabilities :: "slice option"
  ls_max_turns :: int
  ls_ttl :: duration

record lease_status_mem =
  lt_phase :: string
  lt_current_turn :: int
  lt_last_receipt_hash :: string
  lt_issued_at :: "pointer option"
  lt_expires_at :: "pointer option"
  lt_revocation_reason :: string
  lt_generation :: int
  lt_conditions :: "slice option"

type_synonym 'x binding_mem = "('x, binding_spec_mem, binding_status_mem) api_object"
type_synonym 'x contract_mem = "('x, contract_spec_mem, contract_status_mem) api_object"
type_synonym 'x state_mem = "('x, state_subject_value, state_status_mem) api_object"
type_synonym 'x policy_mem = "('x, policy_spec_value, policy_status_mem) api_object"
type_synonym 'x exception_mem = "('x, exception_spec_mem, exception_status_mem) api_object"
type_synonym 'x lease_mem = "('x, lease_spec_mem, lease_status_mem) api_object"

section \<open>Cells\<close>

datatype 'x cell =
    Strings "string list"
  | Times "time list"
  | Conditions "condition_value list"
  | Selectors "'x list"
  | Mappings "framework_mapping list"
  | Implementations "implementation_ref list"
  | ControlStates "control_status_value list"
  | Items "item_mem list"
  | SubjectSelectors "selector_mem list"
  | Requirements "requirement_mem list"
  | BindingSpecs "binding_spec_mem list"
  | BindingStatuses "binding_status_mem list"
  | Bindings "'x binding_mem list"
  | BindingLists "'x api_list list"
  | ContractRequirements "contract_requirement_mem list"
  | ContractSpecs "contract_spec_mem list"
  | ContractStatuses "contract_status_mem list"
  | Contracts "'x contract_mem list"
  | ContractLists "'x api_list list"
  | StateStatuses "state_status_mem list"
  | States "'x state_mem list"
  | StateLists "'x api_list list"
  | PolicyStatuses "policy_status_mem list"
  | Policies "'x policy_mem list"
  | PolicyLists "'x api_list list"
  | ExceptionSpecs "exception_spec_mem list"
  | ExceptionStatuses "exception_status_mem list"
  | ExceptionAuthorities "exception_authority_mem list"
  | Exceptions "'x exception_mem list"
  | ExceptionLists "'x api_list list"
  | LeaseSpecs "lease_spec_mem list"
  | LeaseStatuses "lease_status_mem list"
  | Leases "'x lease_mem list"
  | LeaseLists "'x api_list list"

definition strings_in :: "'x cell option \<Rightarrow> string list" where
  "strings_in c = (case c of Some (Strings xs) \<Rightarrow> xs | _ \<Rightarrow> [])"

definition times_in :: "'x cell option \<Rightarrow> time list" where
  "times_in c = (case c of Some (Times xs) \<Rightarrow> xs | _ \<Rightarrow> [])"

definition conditions_in :: "'x cell option \<Rightarrow> condition_value list" where
  "conditions_in c = (case c of Some (Conditions xs) \<Rightarrow> xs | _ \<Rightarrow> [])"

definition selectors_in :: "'x cell option \<Rightarrow> 'x list" where
  "selectors_in c = (case c of Some (Selectors xs) \<Rightarrow> xs | _ \<Rightarrow> [])"

definition mappings_in :: "'x cell option \<Rightarrow> framework_mapping list" where
  "mappings_in c = (case c of Some (Mappings xs) \<Rightarrow> xs | _ \<Rightarrow> [])"

definition implementations_in :: "'x cell option \<Rightarrow> implementation_ref list" where
  "implementations_in c = (case c of Some (Implementations xs) \<Rightarrow> xs | _ \<Rightarrow> [])"

definition control_states_in :: "'x cell option \<Rightarrow> control_status_value list" where
  "control_states_in c = (case c of Some (ControlStates xs) \<Rightarrow> xs | _ \<Rightarrow> [])"

definition items_in :: "'x cell option \<Rightarrow> item_mem list" where
  "items_in c = (case c of Some (Items xs) \<Rightarrow> xs | _ \<Rightarrow> [])"

definition subject_selectors_in :: "'x cell option \<Rightarrow> selector_mem list" where
  "subject_selectors_in c = (case c of Some (SubjectSelectors xs) \<Rightarrow> xs | _ \<Rightarrow> [])"

definition requirements_in :: "'x cell option \<Rightarrow> requirement_mem list" where
  "requirements_in c = (case c of Some (Requirements xs) \<Rightarrow> xs | _ \<Rightarrow> [])"

definition binding_specs_in :: "'x cell option \<Rightarrow> binding_spec_mem list" where
  "binding_specs_in c = (case c of Some (BindingSpecs xs) \<Rightarrow> xs | _ \<Rightarrow> [])"

definition binding_statuses_in :: "'x cell option \<Rightarrow> binding_status_mem list" where
  "binding_statuses_in c = (case c of Some (BindingStatuses xs) \<Rightarrow> xs | _ \<Rightarrow> [])"

definition bindings_in :: "'x cell option \<Rightarrow> 'x binding_mem list" where
  "bindings_in c = (case c of Some (Bindings xs) \<Rightarrow> xs | _ \<Rightarrow> [])"

definition binding_lists_in :: "'x cell option \<Rightarrow> 'x api_list list" where
  "binding_lists_in c = (case c of Some (BindingLists xs) \<Rightarrow> xs | _ \<Rightarrow> [])"

definition contract_requirements_in :: "'x cell option \<Rightarrow> contract_requirement_mem list" where
  "contract_requirements_in c = (case c of Some (ContractRequirements xs) \<Rightarrow> xs | _ \<Rightarrow> [])"

definition contract_specs_in :: "'x cell option \<Rightarrow> contract_spec_mem list" where
  "contract_specs_in c = (case c of Some (ContractSpecs xs) \<Rightarrow> xs | _ \<Rightarrow> [])"

definition contract_statuses_in :: "'x cell option \<Rightarrow> contract_status_mem list" where
  "contract_statuses_in c = (case c of Some (ContractStatuses xs) \<Rightarrow> xs | _ \<Rightarrow> [])"

definition contracts_in :: "'x cell option \<Rightarrow> 'x contract_mem list" where
  "contracts_in c = (case c of Some (Contracts xs) \<Rightarrow> xs | _ \<Rightarrow> [])"

definition contract_lists_in :: "'x cell option \<Rightarrow> 'x api_list list" where
  "contract_lists_in c = (case c of Some (ContractLists xs) \<Rightarrow> xs | _ \<Rightarrow> [])"

definition state_statuses_in :: "'x cell option \<Rightarrow> state_status_mem list" where
  "state_statuses_in c = (case c of Some (StateStatuses xs) \<Rightarrow> xs | _ \<Rightarrow> [])"

definition states_in :: "'x cell option \<Rightarrow> 'x state_mem list" where
  "states_in c = (case c of Some (States xs) \<Rightarrow> xs | _ \<Rightarrow> [])"

definition state_lists_in :: "'x cell option \<Rightarrow> 'x api_list list" where
  "state_lists_in c = (case c of Some (StateLists xs) \<Rightarrow> xs | _ \<Rightarrow> [])"

definition policy_statuses_in :: "'x cell option \<Rightarrow> policy_status_mem list" where
  "policy_statuses_in c = (case c of Some (PolicyStatuses xs) \<Rightarrow> xs | _ \<Rightarrow> [])"

definition policies_in :: "'x cell option \<Rightarrow> 'x policy_mem list" where
  "policies_in c = (case c of Some (Policies xs) \<Rightarrow> xs | _ \<Rightarrow> [])"

definition policy_lists_in :: "'x cell option \<Rightarrow> 'x api_list list" where
  "policy_lists_in c = (case c of Some (PolicyLists xs) \<Rightarrow> xs | _ \<Rightarrow> [])"

definition exception_specs_in :: "'x cell option \<Rightarrow> exception_spec_mem list" where
  "exception_specs_in c = (case c of Some (ExceptionSpecs xs) \<Rightarrow> xs | _ \<Rightarrow> [])"

definition exception_statuses_in :: "'x cell option \<Rightarrow> exception_status_mem list" where
  "exception_statuses_in c = (case c of Some (ExceptionStatuses xs) \<Rightarrow> xs | _ \<Rightarrow> [])"

definition exception_authorities_in :: "'x cell option \<Rightarrow> exception_authority_mem list" where
  "exception_authorities_in c = (case c of Some (ExceptionAuthorities xs) \<Rightarrow> xs | _ \<Rightarrow> [])"

definition exceptions_in :: "'x cell option \<Rightarrow> 'x exception_mem list" where
  "exceptions_in c = (case c of Some (Exceptions xs) \<Rightarrow> xs | _ \<Rightarrow> [])"

definition exception_lists_in :: "'x cell option \<Rightarrow> 'x api_list list" where
  "exception_lists_in c = (case c of Some (ExceptionLists xs) \<Rightarrow> xs | _ \<Rightarrow> [])"

definition lease_specs_in :: "'x cell option \<Rightarrow> lease_spec_mem list" where
  "lease_specs_in c = (case c of Some (LeaseSpecs xs) \<Rightarrow> xs | _ \<Rightarrow> [])"

definition lease_statuses_in :: "'x cell option \<Rightarrow> lease_status_mem list" where
  "lease_statuses_in c = (case c of Some (LeaseStatuses xs) \<Rightarrow> xs | _ \<Rightarrow> [])"

definition leases_in :: "'x cell option \<Rightarrow> 'x lease_mem list" where
  "leases_in c = (case c of Some (Leases xs) \<Rightarrow> xs | _ \<Rightarrow> [])"

definition lease_lists_in :: "'x cell option \<Rightarrow> 'x api_list list" where
  "lease_lists_in c = (case c of Some (LeaseLists xs) \<Rightarrow> xs | _ \<Rightarrow> [])"

lemmas contents_defs =
  strings_in_def times_in_def conditions_in_def selectors_in_def mappings_in_def
  implementations_in_def control_states_in_def items_in_def subject_selectors_in_def requirements_in_def
  binding_specs_in_def binding_statuses_in_def bindings_in_def binding_lists_in_def contract_requirements_in_def
  contract_specs_in_def contract_statuses_in_def contracts_in_def contract_lists_in_def state_statuses_in_def
  states_in_def state_lists_in_def policy_statuses_in_def policies_in_def policy_lists_in_def
  exception_specs_in_def exception_statuses_in_def exception_authorities_in_def exceptions_in_def exception_lists_in_def
  lease_specs_in_def lease_statuses_in_def leases_in_def lease_lists_in_def

lemma contents [simp]:
  "strings_in (Some (Strings x0)) = x0"
  "times_in (Some (Times x1)) = x1"
  "conditions_in (Some (Conditions x2)) = x2"
  "selectors_in (Some (Selectors x3)) = x3"
  "mappings_in (Some (Mappings x4)) = x4"
  "implementations_in (Some (Implementations x5)) = x5"
  "control_states_in (Some (ControlStates x6)) = x6"
  "items_in (Some (Items x7)) = x7"
  "subject_selectors_in (Some (SubjectSelectors x8)) = x8"
  "requirements_in (Some (Requirements x9)) = x9"
  "binding_specs_in (Some (BindingSpecs x10)) = x10"
  "binding_statuses_in (Some (BindingStatuses x11)) = x11"
  "bindings_in (Some (Bindings x12)) = x12"
  "binding_lists_in (Some (BindingLists x13)) = x13"
  "contract_requirements_in (Some (ContractRequirements x14)) = x14"
  "contract_specs_in (Some (ContractSpecs x15)) = x15"
  "contract_statuses_in (Some (ContractStatuses x16)) = x16"
  "contracts_in (Some (Contracts x17)) = x17"
  "contract_lists_in (Some (ContractLists x18)) = x18"
  "state_statuses_in (Some (StateStatuses x19)) = x19"
  "states_in (Some (States x20)) = x20"
  "state_lists_in (Some (StateLists x21)) = x21"
  "policy_statuses_in (Some (PolicyStatuses x22)) = x22"
  "policies_in (Some (Policies x23)) = x23"
  "policy_lists_in (Some (PolicyLists x24)) = x24"
  "exception_specs_in (Some (ExceptionSpecs x25)) = x25"
  "exception_statuses_in (Some (ExceptionStatuses x26)) = x26"
  "exception_authorities_in (Some (ExceptionAuthorities x27)) = x27"
  "exceptions_in (Some (Exceptions x28)) = x28"
  "exception_lists_in (Some (ExceptionLists x29)) = x29"
  "lease_specs_in (Some (LeaseSpecs x30)) = x30"
  "lease_statuses_in (Some (LeaseStatuses x31)) = x31"
  "leases_in (Some (Leases x32)) = x32"
  "lease_lists_in (Some (LeaseLists x33)) = x33"
  by (simp_all add: contents_defs)

end
