(* ===== verification/Api_Copies.thy ===== *)
theory Api_Copies
  imports Api_Memory
begin

text \<open>
  The deep copies of the resources of Api_Memory: the written ones of capabilitylease_types.go and
  the generated ones of zz_generated.deepcopy.go. DeepCopyInto of ObjectMeta, ListMeta and
  LabelSelector is the library's, an argument here. Structures without references are values, and
  their copies assignments; assignments of value fields, which repeat *out = *in, are left out.
\<close>

section \<open>Generic copies\<close>

text \<open>Values have no references: copying them is an assignment, element by element in a slice.\<close>

definition value_reach :: "'c heap \<Rightarrow> 'a \<Rightarrow> addr set" where
  "value_reach h x = {}"

definition value_view :: "'c heap \<Rightarrow> 'a \<Rightarrow> 'a" where
  "value_view h x = x"

definition copy_values :: "('a list \<Rightarrow> 'c) \<Rightarrow> ('c option \<Rightarrow> 'a list) \<Rightarrow> (slice option, 'c) copier" where
  "copy_values cell contents = copy_slice cell contents assign"

definition values_reach :: "('c option \<Rightarrow> 'a list) \<Rightarrow> 'c heap \<Rightarrow> slice option \<Rightarrow> addr set" where
  "values_reach contents = slice_reach contents value_reach"

definition values_view :: "('c option \<Rightarrow> 'a list) \<Rightarrow> 'c heap \<Rightarrow> slice option \<Rightarrow> 'a list option" where
  "values_view contents = slice_view contents value_view"

definition copy_time :: "(pointer option, 'x cell) copier" where
  "copy_time = copy_pointer Times times_in assign"

definition time_reach :: "'x cell heap \<Rightarrow> pointer option \<Rightarrow> addr set" where
  "time_reach = pointer_reach times_in value_reach"

definition time_view :: "'x cell heap \<Rightarrow> pointer option \<Rightarrow> time option option" where
  "time_view = pointer_view times_in value_view"

lemma value_copies: "deep_copy value_reach value_view assign"
  by unfold_locales (simp_all add: value_reach_def value_view_def assign_def)

interpretation value_deep: deep_copy value_reach value_view assign
  by (rule value_copies)

lemma values_copies: "(\<And>xs. contents (Some (cell xs)) = xs) \<Longrightarrow>
    deep_copy (values_reach contents) (values_view contents) (copy_values cell contents)"
  unfolding values_reach_def values_view_def copy_values_def by (rule value_deep.slices)

lemma time_copies: "deep_copy time_reach time_view copy_time"
  unfolding time_reach_def time_view_def copy_time_def by (rule value_deep.pointers) simp

lemma deep_copy_first:
  assumes "deep_copy freach fview fcopy" and "\<And>x v. value_part (upd (\<lambda>_. v) x) = value_part x" and "\<And>x v. get (upd (\<lambda>_. v) x) = v"
  shows "deep_copy (\<lambda>h x. freach h (get x)) (\<lambda>h x. (value_part x, fview h (get x))) (\<lambda>x h. field get upd fcopy x (assign x h))"
  using deep_copy_field[OF deep_copy_assign[of value_part] assms(1), of upd get] assms(2,3) by simp

lemma copy_fields_steps:
  "copy_fields [s1] = (\<lambda>x h. s1 x (assign x h))"
  "copy_fields [s1, s2] = (\<lambda>x h. s2 x (s1 x (assign x h)))"
  "copy_fields [s1, s2, s3] = (\<lambda>x h. s3 x (s2 x (s1 x (assign x h))))"
  "copy_fields [s1, s2, s3, s4] = (\<lambda>x h. s4 x (s3 x (s2 x (s1 x (assign x h)))))"
  by (simp_all add: copy_fields_def fun_eq_iff)

section \<open>DeepCopyInto\<close>

definition item_copy_into :: "(item_mem, 'x cell) copier" where
  "item_copy_into =
     copy_fields [field im_mappings im_mappings_update (copy_values Mappings mappings_in)]"

definition selector_copy_into :: "('x, 'x cell) copier \<Rightarrow> (selector_mem, 'x cell) copier" where
  "selector_copy_into meta =
     copy_fields [field sm_api_groups sm_api_groups_update (copy_values Strings strings_in),
      field sm_kinds sm_kinds_update (copy_values Strings strings_in),
      field sm_namespaces sm_namespaces_update (copy_pointer Selectors selectors_in meta),
      field sm_labels sm_labels_update (copy_pointer Selectors selectors_in meta)]"

definition requirement_copy_into :: "(requirement_mem, 'x cell) copier" where
  "requirement_copy_into =
     copy_fields [field rm_implementations rm_implementations_update (copy_values Implementations implementations_in)]"

definition binding_spec_copy_into :: "('x, 'x cell) copier \<Rightarrow> (binding_spec_mem, 'x cell) copier" where
  "binding_spec_copy_into meta =
     copy_fields [field bs_controls bs_controls_update (copy_slice Items items_in item_copy_into),
      field bs_subjects bs_subjects_update (selector_copy_into meta),
      field bs_requirements bs_requirements_update (copy_slice Requirements requirements_in requirement_copy_into)]"

definition binding_status_copy_into :: "(binding_status_mem, 'x cell) copier" where
  "binding_status_copy_into =
     copy_fields [field bt_conditions bt_conditions_update (copy_values Conditions conditions_in)]"

definition contract_requirement_copy_into :: "(contract_requirement_mem, 'x cell) copier" where
  "contract_requirement_copy_into =
     copy_fields [field qm_producers qm_producers_update (copy_values Strings strings_in)]"

definition contract_spec_copy_into :: "(contract_spec_mem, 'x cell) copier" where
  "contract_spec_copy_into =
     copy_fields [field cs_requirements cs_requirements_update (copy_slice ContractRequirements contract_requirements_in contract_requirement_copy_into)]"

definition contract_status_copy_into :: "(contract_status_mem, 'x cell) copier" where
  "contract_status_copy_into =
     copy_fields [field cst_conditions cst_conditions_update (copy_values Conditions conditions_in)]"

definition state_status_copy_into :: "(state_status_mem, 'x cell) copier" where
  "state_status_copy_into =
     copy_fields [field ts_controls ts_controls_update (copy_values ControlStates control_states_in),
      field ts_evaluated_at ts_evaluated_at_update copy_time,
      field ts_valid_until ts_valid_until_update copy_time,
      field ts_conditions ts_conditions_update (copy_values Conditions conditions_in)]"

definition policy_status_copy_into :: "(policy_status_mem, 'x cell) copier" where
  "policy_status_copy_into =
     copy_fields [field pm_conditions pm_conditions_update (copy_values Conditions conditions_in)]"

definition exception_authority_copy_into :: "(exception_authority_mem, 'x cell) copier" where
  "exception_authority_copy_into =
     copy_fields [field xa_required_approvers xa_required_approvers_update (copy_values Strings strings_in)]"

definition exception_spec_copy_into :: "(exception_spec_mem, 'x cell) copier" where
  "exception_spec_copy_into =
     copy_fields [field xs_controls xs_controls_update (copy_values Strings strings_in),
      field xs_authority xs_authority_update exception_authority_copy_into,
      field xs_compensating xs_compensating_update (copy_values Strings strings_in)]"

definition exception_status_copy_into :: "(exception_status_mem, 'x cell) copier" where
  "exception_status_copy_into =
     copy_fields [field xt_conditions xt_conditions_update (copy_values Conditions conditions_in)]"

definition lease_spec_copy_into :: "(lease_spec_mem, 'x cell) copier" where
  "lease_spec_copy_into =
     copy_fields [field ls_capabilities ls_capabilities_update (copy_values Strings strings_in)]"

definition lease_status_copy_into :: "(lease_status_mem, 'x cell) copier" where
  "lease_status_copy_into =
     copy_fields [field lt_issued_at lt_issued_at_update copy_time,
      field lt_expires_at lt_expires_at_update copy_time,
      field lt_conditions lt_conditions_update (copy_values Conditions conditions_in)]"

text \<open>An object and the list of its kind.\<close>

definition object_copy_into ::
  "('x, 'x cell) copier \<Rightarrow> ('s, 'x cell) copier \<Rightarrow> ('t, 'x cell) copier \<Rightarrow> (('x, 's, 't) api_object, 'x cell) copier" where
  "object_copy_into meta spec status =
     copy_fields [field ao_meta ao_meta_update meta, field ao_spec ao_spec_update spec, field ao_status ao_status_update status]"

definition list_copy_into :: "('x, 'x cell) copier \<Rightarrow> (slice option, 'x cell) copier \<Rightarrow> ('x api_list, 'x cell) copier" where
  "list_copy_into meta items = copy_fields [field al_meta al_meta_update meta, field al_items al_items_update items]"

definition binding_copy_into :: "('x, 'x cell) copier \<Rightarrow> ('x binding_mem, 'x cell) copier" where
  "binding_copy_into meta = object_copy_into meta (binding_spec_copy_into meta) binding_status_copy_into"

definition binding_list_copy_into :: "('x, 'x cell) copier \<Rightarrow> ('x api_list, 'x cell) copier" where
  "binding_list_copy_into meta = list_copy_into meta (copy_slice Bindings bindings_in (binding_copy_into meta))"

definition contract_copy_into :: "('x, 'x cell) copier \<Rightarrow> ('x contract_mem, 'x cell) copier" where
  "contract_copy_into meta = object_copy_into meta contract_spec_copy_into contract_status_copy_into"

definition contract_list_copy_into :: "('x, 'x cell) copier \<Rightarrow> ('x api_list, 'x cell) copier" where
  "contract_list_copy_into meta = list_copy_into meta (copy_slice Contracts contracts_in (contract_copy_into meta))"

definition state_copy_into :: "('x, 'x cell) copier \<Rightarrow> ('x state_mem, 'x cell) copier" where
  "state_copy_into meta = object_copy_into meta assign state_status_copy_into"

definition state_list_copy_into :: "('x, 'x cell) copier \<Rightarrow> ('x api_list, 'x cell) copier" where
  "state_list_copy_into meta = list_copy_into meta (copy_slice States states_in (state_copy_into meta))"

definition policy_copy_into :: "('x, 'x cell) copier \<Rightarrow> ('x policy_mem, 'x cell) copier" where
  "policy_copy_into meta = object_copy_into meta assign policy_status_copy_into"

definition policy_list_copy_into :: "('x, 'x cell) copier \<Rightarrow> ('x api_list, 'x cell) copier" where
  "policy_list_copy_into meta = list_copy_into meta (copy_slice Policies policies_in (policy_copy_into meta))"

definition exception_copy_into :: "('x, 'x cell) copier \<Rightarrow> ('x exception_mem, 'x cell) copier" where
  "exception_copy_into meta = object_copy_into meta exception_spec_copy_into exception_status_copy_into"

definition exception_list_copy_into :: "('x, 'x cell) copier \<Rightarrow> ('x api_list, 'x cell) copier" where
  "exception_list_copy_into meta = list_copy_into meta (copy_slice Exceptions exceptions_in (exception_copy_into meta))"

definition lease_copy_into :: "('x, 'x cell) copier \<Rightarrow> ('x lease_mem, 'x cell) copier" where
  "lease_copy_into meta = object_copy_into meta lease_spec_copy_into lease_status_copy_into"

definition lease_list_copy_into :: "('x, 'x cell) copier \<Rightarrow> ('x api_list, 'x cell) copier" where
  "lease_list_copy_into meta = list_copy_into meta (copy_slice Leases leases_in (lease_copy_into meta))"

section \<open>DeepCopy\<close>

text \<open>A nil receiver has a nil copy; otherwise a new structure is allocated.\<close>

definition item_deep_copy :: "(pointer option, 'x cell) copier" where
  "item_deep_copy = copy_pointer Items items_in item_copy_into"

definition selector_deep_copy :: "('x, 'x cell) copier \<Rightarrow> (pointer option, 'x cell) copier" where
  "selector_deep_copy meta = copy_pointer SubjectSelectors subject_selectors_in (selector_copy_into meta)"

definition requirement_deep_copy :: "(pointer option, 'x cell) copier" where
  "requirement_deep_copy = copy_pointer Requirements requirements_in requirement_copy_into"

definition binding_spec_deep_copy :: "('x, 'x cell) copier \<Rightarrow> (pointer option, 'x cell) copier" where
  "binding_spec_deep_copy meta = copy_pointer BindingSpecs binding_specs_in (binding_spec_copy_into meta)"

definition binding_status_deep_copy :: "(pointer option, 'x cell) copier" where
  "binding_status_deep_copy = copy_pointer BindingStatuses binding_statuses_in binding_status_copy_into"

definition contract_requirement_deep_copy :: "(pointer option, 'x cell) copier" where
  "contract_requirement_deep_copy = copy_pointer ContractRequirements contract_requirements_in contract_requirement_copy_into"

definition contract_spec_deep_copy :: "(pointer option, 'x cell) copier" where
  "contract_spec_deep_copy = copy_pointer ContractSpecs contract_specs_in contract_spec_copy_into"

definition contract_status_deep_copy :: "(pointer option, 'x cell) copier" where
  "contract_status_deep_copy = copy_pointer ContractStatuses contract_statuses_in contract_status_copy_into"

definition state_status_deep_copy :: "(pointer option, 'x cell) copier" where
  "state_status_deep_copy = copy_pointer StateStatuses state_statuses_in state_status_copy_into"

definition policy_status_deep_copy :: "(pointer option, 'x cell) copier" where
  "policy_status_deep_copy = copy_pointer PolicyStatuses policy_statuses_in policy_status_copy_into"

definition exception_authority_deep_copy :: "(pointer option, 'x cell) copier" where
  "exception_authority_deep_copy = copy_pointer ExceptionAuthorities exception_authorities_in exception_authority_copy_into"

definition exception_spec_deep_copy :: "(pointer option, 'x cell) copier" where
  "exception_spec_deep_copy = copy_pointer ExceptionSpecs exception_specs_in exception_spec_copy_into"

definition exception_status_deep_copy :: "(pointer option, 'x cell) copier" where
  "exception_status_deep_copy = copy_pointer ExceptionStatuses exception_statuses_in exception_status_copy_into"

definition lease_spec_deep_copy :: "(pointer option, 'x cell) copier" where
  "lease_spec_deep_copy = copy_pointer LeaseSpecs lease_specs_in lease_spec_copy_into"

definition lease_status_deep_copy :: "(pointer option, 'x cell) copier" where
  "lease_status_deep_copy = copy_pointer LeaseStatuses lease_statuses_in lease_status_copy_into"

text \<open>The objects of the scheme; nil stays a nil interface, not an interface with a nil pointer.\<close>

datatype runtime_object =
    BindingObject pointer
  | ContractObject pointer
  | StateObject pointer
  | PolicyObject pointer
  | ExceptionObject pointer
  | LeaseObject pointer
  | BindingListObject pointer
  | ContractListObject pointer
  | StateListObject pointer
  | PolicyListObject pointer
  | ExceptionListObject pointer
  | LeaseListObject pointer

definition copied_object :: "(pointer \<Rightarrow> runtime_object) \<Rightarrow> pointer option \<times> 'c heap \<Rightarrow> runtime_object option \<times> 'c heap" where
  "copied_object obj r = (case r of (None, h) \<Rightarrow> (None, h) | (Some p, h) \<Rightarrow> (Some (obj p), h))"

definition binding_deep_copy :: "('x, 'x cell) copier \<Rightarrow> (pointer option, 'x cell) copier" where
  "binding_deep_copy meta = copy_pointer Bindings bindings_in (binding_copy_into meta)"

definition binding_deep_copy_object :: "('x, 'x cell) copier \<Rightarrow> pointer option \<Rightarrow> 'x cell heap \<Rightarrow> runtime_object option \<times> 'x cell heap" where
  "binding_deep_copy_object meta p h = copied_object BindingObject (binding_deep_copy meta p h)"

definition binding_list_deep_copy :: "('x, 'x cell) copier \<Rightarrow> (pointer option, 'x cell) copier" where
  "binding_list_deep_copy meta = copy_pointer BindingLists binding_lists_in (binding_list_copy_into meta)"

definition binding_list_deep_copy_object :: "('x, 'x cell) copier \<Rightarrow> pointer option \<Rightarrow> 'x cell heap \<Rightarrow> runtime_object option \<times> 'x cell heap" where
  "binding_list_deep_copy_object meta p h = copied_object BindingListObject (binding_list_deep_copy meta p h)"

definition contract_deep_copy :: "('x, 'x cell) copier \<Rightarrow> (pointer option, 'x cell) copier" where
  "contract_deep_copy meta = copy_pointer Contracts contracts_in (contract_copy_into meta)"

definition contract_deep_copy_object :: "('x, 'x cell) copier \<Rightarrow> pointer option \<Rightarrow> 'x cell heap \<Rightarrow> runtime_object option \<times> 'x cell heap" where
  "contract_deep_copy_object meta p h = copied_object ContractObject (contract_deep_copy meta p h)"

definition contract_list_deep_copy :: "('x, 'x cell) copier \<Rightarrow> (pointer option, 'x cell) copier" where
  "contract_list_deep_copy meta = copy_pointer ContractLists contract_lists_in (contract_list_copy_into meta)"

definition contract_list_deep_copy_object :: "('x, 'x cell) copier \<Rightarrow> pointer option \<Rightarrow> 'x cell heap \<Rightarrow> runtime_object option \<times> 'x cell heap" where
  "contract_list_deep_copy_object meta p h = copied_object ContractListObject (contract_list_deep_copy meta p h)"

definition state_deep_copy :: "('x, 'x cell) copier \<Rightarrow> (pointer option, 'x cell) copier" where
  "state_deep_copy meta = copy_pointer States states_in (state_copy_into meta)"

definition state_deep_copy_object :: "('x, 'x cell) copier \<Rightarrow> pointer option \<Rightarrow> 'x cell heap \<Rightarrow> runtime_object option \<times> 'x cell heap" where
  "state_deep_copy_object meta p h = copied_object StateObject (state_deep_copy meta p h)"

definition state_list_deep_copy :: "('x, 'x cell) copier \<Rightarrow> (pointer option, 'x cell) copier" where
  "state_list_deep_copy meta = copy_pointer StateLists state_lists_in (state_list_copy_into meta)"

definition state_list_deep_copy_object :: "('x, 'x cell) copier \<Rightarrow> pointer option \<Rightarrow> 'x cell heap \<Rightarrow> runtime_object option \<times> 'x cell heap" where
  "state_list_deep_copy_object meta p h = copied_object StateListObject (state_list_deep_copy meta p h)"

definition policy_deep_copy :: "('x, 'x cell) copier \<Rightarrow> (pointer option, 'x cell) copier" where
  "policy_deep_copy meta = copy_pointer Policies policies_in (policy_copy_into meta)"

definition policy_deep_copy_object :: "('x, 'x cell) copier \<Rightarrow> pointer option \<Rightarrow> 'x cell heap \<Rightarrow> runtime_object option \<times> 'x cell heap" where
  "policy_deep_copy_object meta p h = copied_object PolicyObject (policy_deep_copy meta p h)"

definition policy_list_deep_copy :: "('x, 'x cell) copier \<Rightarrow> (pointer option, 'x cell) copier" where
  "policy_list_deep_copy meta = copy_pointer PolicyLists policy_lists_in (policy_list_copy_into meta)"

definition policy_list_deep_copy_object :: "('x, 'x cell) copier \<Rightarrow> pointer option \<Rightarrow> 'x cell heap \<Rightarrow> runtime_object option \<times> 'x cell heap" where
  "policy_list_deep_copy_object meta p h = copied_object PolicyListObject (policy_list_deep_copy meta p h)"

definition exception_deep_copy :: "('x, 'x cell) copier \<Rightarrow> (pointer option, 'x cell) copier" where
  "exception_deep_copy meta = copy_pointer Exceptions exceptions_in (exception_copy_into meta)"

definition exception_deep_copy_object :: "('x, 'x cell) copier \<Rightarrow> pointer option \<Rightarrow> 'x cell heap \<Rightarrow> runtime_object option \<times> 'x cell heap" where
  "exception_deep_copy_object meta p h = copied_object ExceptionObject (exception_deep_copy meta p h)"

definition exception_list_deep_copy :: "('x, 'x cell) copier \<Rightarrow> (pointer option, 'x cell) copier" where
  "exception_list_deep_copy meta = copy_pointer ExceptionLists exception_lists_in (exception_list_copy_into meta)"

definition exception_list_deep_copy_object :: "('x, 'x cell) copier \<Rightarrow> pointer option \<Rightarrow> 'x cell heap \<Rightarrow> runtime_object option \<times> 'x cell heap" where
  "exception_list_deep_copy_object meta p h = copied_object ExceptionListObject (exception_list_deep_copy meta p h)"

definition lease_deep_copy :: "('x, 'x cell) copier \<Rightarrow> (pointer option, 'x cell) copier" where
  "lease_deep_copy meta = copy_pointer Leases leases_in (lease_copy_into meta)"

definition lease_deep_copy_object :: "('x, 'x cell) copier \<Rightarrow> pointer option \<Rightarrow> 'x cell heap \<Rightarrow> runtime_object option \<times> 'x cell heap" where
  "lease_deep_copy_object meta p h = copied_object LeaseObject (lease_deep_copy meta p h)"

definition lease_list_deep_copy :: "('x, 'x cell) copier \<Rightarrow> (pointer option, 'x cell) copier" where
  "lease_list_deep_copy meta = copy_pointer LeaseLists lease_lists_in (lease_list_copy_into meta)"

definition lease_list_deep_copy_object :: "('x, 'x cell) copier \<Rightarrow> pointer option \<Rightarrow> 'x cell heap \<Rightarrow> runtime_object option \<times> 'x cell heap" where
  "lease_list_deep_copy_object meta p h = copied_object LeaseListObject (lease_list_deep_copy meta p h)"

section \<open>What structures reach and show\<close>

definition item_reach :: "'x cell heap \<Rightarrow> item_mem \<Rightarrow> addr set" where
  "item_reach =
     (\<lambda>h x. values_reach mappings_in h (im_mappings x))"

definition item_view where
  "item_view =
     (\<lambda>h x. (x\<lparr>im_mappings := None\<rparr>, values_view mappings_in h (im_mappings x)))"

definition selector_reach :: "('x cell heap \<Rightarrow> 'x \<Rightarrow> addr set) \<Rightarrow> 'x cell heap \<Rightarrow> selector_mem \<Rightarrow> addr set" where
  "selector_reach mreach =
     (\<lambda>h x. values_reach strings_in h (sm_api_groups x) \<union>
        values_reach strings_in h (sm_kinds x) \<union>
        pointer_reach selectors_in mreach h (sm_namespaces x) \<union>
        pointer_reach selectors_in mreach h (sm_labels x))"

definition selector_view where
  "selector_view mview =
     (\<lambda>h x. ((((x\<lparr>sm_api_groups := None, sm_kinds := None, sm_namespaces := None, sm_labels := None\<rparr>,
        values_view strings_in h (sm_api_groups x)),
        values_view strings_in h (sm_kinds x)),
        pointer_view selectors_in mview h (sm_namespaces x)),
        pointer_view selectors_in mview h (sm_labels x)))"

definition requirement_reach :: "'x cell heap \<Rightarrow> requirement_mem \<Rightarrow> addr set" where
  "requirement_reach =
     (\<lambda>h x. values_reach implementations_in h (rm_implementations x))"

definition requirement_view where
  "requirement_view =
     (\<lambda>h x. (x\<lparr>rm_implementations := None\<rparr>, values_view implementations_in h (rm_implementations x)))"

definition binding_spec_reach :: "('x cell heap \<Rightarrow> 'x \<Rightarrow> addr set) \<Rightarrow> 'x cell heap \<Rightarrow> binding_spec_mem \<Rightarrow> addr set" where
  "binding_spec_reach mreach =
     (\<lambda>h x. slice_reach items_in item_reach h (bs_controls x) \<union>
        selector_reach mreach h (bs_subjects x) \<union>
        slice_reach requirements_in requirement_reach h (bs_requirements x))"

definition binding_spec_view where
  "binding_spec_view mview =
     (\<lambda>h x. (((x\<lparr>bs_controls := None, bs_subjects := \<lparr>sm_api_groups = None, sm_kinds = None, sm_namespaces = None, sm_labels = None\<rparr>, bs_requirements := None\<rparr>,
        slice_view items_in item_view h (bs_controls x)),
        selector_view mview h (bs_subjects x)),
        slice_view requirements_in requirement_view h (bs_requirements x)))"

definition binding_status_reach :: "'x cell heap \<Rightarrow> binding_status_mem \<Rightarrow> addr set" where
  "binding_status_reach =
     (\<lambda>h x. values_reach conditions_in h (bt_conditions x))"

definition binding_status_view where
  "binding_status_view =
     (\<lambda>h x. (x\<lparr>bt_conditions := None\<rparr>, values_view conditions_in h (bt_conditions x)))"

definition contract_requirement_reach :: "'x cell heap \<Rightarrow> contract_requirement_mem \<Rightarrow> addr set" where
  "contract_requirement_reach =
     (\<lambda>h x. values_reach strings_in h (qm_producers x))"

definition contract_requirement_view where
  "contract_requirement_view =
     (\<lambda>h x. (x\<lparr>qm_producers := None\<rparr>, values_view strings_in h (qm_producers x)))"

definition contract_spec_reach :: "'x cell heap \<Rightarrow> contract_spec_mem \<Rightarrow> addr set" where
  "contract_spec_reach =
     (\<lambda>h x. slice_reach contract_requirements_in contract_requirement_reach h (cs_requirements x))"

definition contract_spec_view where
  "contract_spec_view =
     (\<lambda>h x. (x\<lparr>cs_requirements := None\<rparr>,
        slice_view contract_requirements_in contract_requirement_view h (cs_requirements x)))"

definition contract_status_reach :: "'x cell heap \<Rightarrow> contract_status_mem \<Rightarrow> addr set" where
  "contract_status_reach =
     (\<lambda>h x. values_reach conditions_in h (cst_conditions x))"

definition contract_status_view where
  "contract_status_view =
     (\<lambda>h x. (x\<lparr>cst_conditions := None\<rparr>, values_view conditions_in h (cst_conditions x)))"

definition state_status_reach :: "'x cell heap \<Rightarrow> state_status_mem \<Rightarrow> addr set" where
  "state_status_reach =
     (\<lambda>h x. values_reach control_states_in h (ts_controls x) \<union>
        time_reach h (ts_evaluated_at x) \<union>
        time_reach h (ts_valid_until x) \<union>
        values_reach conditions_in h (ts_conditions x))"

definition state_status_view where
  "state_status_view =
     (\<lambda>h x. ((((x\<lparr>ts_controls := None, ts_evaluated_at := None, ts_valid_until := None, ts_conditions := None\<rparr>,
        values_view control_states_in h (ts_controls x)),
        time_view h (ts_evaluated_at x)),
        time_view h (ts_valid_until x)),
        values_view conditions_in h (ts_conditions x)))"

definition policy_status_reach :: "'x cell heap \<Rightarrow> policy_status_mem \<Rightarrow> addr set" where
  "policy_status_reach =
     (\<lambda>h x. values_reach conditions_in h (pm_conditions x))"

definition policy_status_view where
  "policy_status_view =
     (\<lambda>h x. (x\<lparr>pm_conditions := None\<rparr>, values_view conditions_in h (pm_conditions x)))"

definition exception_authority_reach :: "'x cell heap \<Rightarrow> exception_authority_mem \<Rightarrow> addr set" where
  "exception_authority_reach =
     (\<lambda>h x. values_reach strings_in h (xa_required_approvers x))"

definition exception_authority_view where
  "exception_authority_view =
     (\<lambda>h x. (x\<lparr>xa_required_approvers := None\<rparr>, values_view strings_in h (xa_required_approvers x)))"

definition exception_spec_reach :: "'x cell heap \<Rightarrow> exception_spec_mem \<Rightarrow> addr set" where
  "exception_spec_reach =
     (\<lambda>h x. values_reach strings_in h (xs_controls x) \<union> exception_authority_reach h (xs_authority x) \<union>
        values_reach strings_in h (xs_compensating x))"

definition exception_spec_view where
  "exception_spec_view =
     (\<lambda>h x. (((x\<lparr>xs_controls := None, xs_authority := \<lparr>xa_required_approvers = None\<rparr>, xs_compensating := None\<rparr>,
        values_view strings_in h (xs_controls x)), exception_authority_view h (xs_authority x)),
        values_view strings_in h (xs_compensating x)))"

definition exception_status_reach :: "'x cell heap \<Rightarrow> exception_status_mem \<Rightarrow> addr set" where
  "exception_status_reach =
     (\<lambda>h x. values_reach conditions_in h (xt_conditions x))"

definition exception_status_view where
  "exception_status_view =
     (\<lambda>h x. (x\<lparr>xt_conditions := None\<rparr>, values_view conditions_in h (xt_conditions x)))"

definition lease_spec_reach :: "'x cell heap \<Rightarrow> lease_spec_mem \<Rightarrow> addr set" where
  "lease_spec_reach =
     (\<lambda>h x. values_reach strings_in h (ls_capabilities x))"

definition lease_spec_view where
  "lease_spec_view =
     (\<lambda>h x. (x\<lparr>ls_capabilities := None\<rparr>, values_view strings_in h (ls_capabilities x)))"

definition lease_status_reach :: "'x cell heap \<Rightarrow> lease_status_mem \<Rightarrow> addr set" where
  "lease_status_reach =
     (\<lambda>h x. time_reach h (lt_issued_at x) \<union>
        time_reach h (lt_expires_at x) \<union>
        values_reach conditions_in h (lt_conditions x))"

definition lease_status_view where
  "lease_status_view =
     (\<lambda>h x. (((x\<lparr>lt_issued_at := None, lt_expires_at := None, lt_conditions := None\<rparr>,
        time_view h (lt_issued_at x)),
        time_view h (lt_expires_at x)),
        values_view conditions_in h (lt_conditions x)))"

definition object_reach where
  "object_reach mreach sreach treach = (\<lambda>h x. mreach h (ao_meta x) \<union> sreach h (ao_spec x) \<union> treach h (ao_status x))"

definition object_view where
  "object_view mview sview tview = (\<lambda>h x. (((ao_type x, mview h (ao_meta x)), sview h (ao_spec x)), tview h (ao_status x)))"

definition list_reach where
  "list_reach mreach ireach = (\<lambda>h x. mreach h (al_meta x) \<union> ireach h (al_items x))"

definition list_view where
  "list_view mview iview = (\<lambda>h x. ((al_type x, mview h (al_meta x)), iview h (al_items x)))"

section \<open>Deep copies\<close>

lemma item_copies: "deep_copy item_reach item_view item_copy_into"
  unfolding item_reach_def item_view_def item_copy_into_def copy_fields_steps
  by (intro deep_copy_field deep_copy_first values_copies) simp_all

lemma requirement_copies: "deep_copy requirement_reach requirement_view requirement_copy_into"
  unfolding requirement_reach_def requirement_view_def requirement_copy_into_def copy_fields_steps
  by (intro deep_copy_field deep_copy_first values_copies) simp_all

lemma binding_status_copies: "deep_copy binding_status_reach binding_status_view binding_status_copy_into"
  unfolding binding_status_reach_def binding_status_view_def binding_status_copy_into_def copy_fields_steps
  by (intro deep_copy_field deep_copy_first values_copies) simp_all

lemma contract_requirement_copies: "deep_copy contract_requirement_reach contract_requirement_view contract_requirement_copy_into"
  unfolding contract_requirement_reach_def contract_requirement_view_def contract_requirement_copy_into_def copy_fields_steps
  by (intro deep_copy_field deep_copy_first values_copies) simp_all

lemma contract_spec_copies: "deep_copy contract_spec_reach contract_spec_view contract_spec_copy_into"
  unfolding contract_spec_reach_def contract_spec_view_def contract_spec_copy_into_def copy_fields_steps
  by (intro deep_copy_field deep_copy_first deep_copy.slices[OF contract_requirement_copies]) simp_all

lemma contract_status_copies: "deep_copy contract_status_reach contract_status_view contract_status_copy_into"
  unfolding contract_status_reach_def contract_status_view_def contract_status_copy_into_def copy_fields_steps
  by (intro deep_copy_field deep_copy_first values_copies) simp_all

lemma state_status_copies: "deep_copy state_status_reach state_status_view state_status_copy_into"
  unfolding state_status_reach_def state_status_view_def state_status_copy_into_def copy_fields_steps
  by (intro deep_copy_field deep_copy_first values_copies time_copies) simp_all

lemma policy_status_copies: "deep_copy policy_status_reach policy_status_view policy_status_copy_into"
  unfolding policy_status_reach_def policy_status_view_def policy_status_copy_into_def copy_fields_steps
  by (intro deep_copy_field deep_copy_first values_copies) simp_all

lemma exception_authority_copies: "deep_copy exception_authority_reach exception_authority_view exception_authority_copy_into"
  unfolding exception_authority_reach_def exception_authority_view_def exception_authority_copy_into_def copy_fields_steps
  by (intro deep_copy_field deep_copy_first values_copies) simp_all

lemma exception_spec_copies: "deep_copy exception_spec_reach exception_spec_view exception_spec_copy_into"
  unfolding exception_spec_reach_def exception_spec_view_def exception_spec_copy_into_def copy_fields_steps
  by (intro deep_copy_field deep_copy_first values_copies exception_authority_copies) simp_all

lemma exception_status_copies: "deep_copy exception_status_reach exception_status_view exception_status_copy_into"
  unfolding exception_status_reach_def exception_status_view_def exception_status_copy_into_def copy_fields_steps
  by (intro deep_copy_field deep_copy_first values_copies) simp_all

lemma lease_spec_copies: "deep_copy lease_spec_reach lease_spec_view lease_spec_copy_into"
  unfolding lease_spec_reach_def lease_spec_view_def lease_spec_copy_into_def copy_fields_steps
  by (intro deep_copy_field deep_copy_first values_copies) simp_all

lemma lease_status_copies: "deep_copy lease_status_reach lease_status_view lease_status_copy_into"
  unfolding lease_status_reach_def lease_status_view_def lease_status_copy_into_def copy_fields_steps
  by (intro deep_copy_field deep_copy_first time_copies values_copies) simp_all

definition binding_reach :: "('x cell heap \<Rightarrow> 'x \<Rightarrow> addr set) \<Rightarrow> 'x cell heap \<Rightarrow> 'x binding_mem \<Rightarrow> addr set" where
  "binding_reach mreach = object_reach mreach (binding_spec_reach mreach) binding_status_reach"

definition binding_view where
  "binding_view mview = object_view mview (binding_spec_view mview) binding_status_view"

definition binding_list_reach :: "('x cell heap \<Rightarrow> 'x \<Rightarrow> addr set) \<Rightarrow> 'x cell heap \<Rightarrow> 'x api_list \<Rightarrow> addr set" where
  "binding_list_reach mreach = list_reach mreach (slice_reach bindings_in (binding_reach mreach))"

definition binding_list_view where
  "binding_list_view mview = list_view mview (slice_view bindings_in (binding_view mview))"

definition contract_reach :: "('x cell heap \<Rightarrow> 'x \<Rightarrow> addr set) \<Rightarrow> 'x cell heap \<Rightarrow> 'x contract_mem \<Rightarrow> addr set" where
  "contract_reach mreach = object_reach mreach contract_spec_reach contract_status_reach"

definition contract_view where
  "contract_view mview = object_view mview contract_spec_view contract_status_view"

definition contract_list_reach :: "('x cell heap \<Rightarrow> 'x \<Rightarrow> addr set) \<Rightarrow> 'x cell heap \<Rightarrow> 'x api_list \<Rightarrow> addr set" where
  "contract_list_reach mreach = list_reach mreach (slice_reach contracts_in (contract_reach mreach))"

definition contract_list_view where
  "contract_list_view mview = list_view mview (slice_view contracts_in (contract_view mview))"

definition state_reach :: "('x cell heap \<Rightarrow> 'x \<Rightarrow> addr set) \<Rightarrow> 'x cell heap \<Rightarrow> 'x state_mem \<Rightarrow> addr set" where
  "state_reach mreach = object_reach mreach value_reach state_status_reach"

definition state_view where
  "state_view mview = object_view mview value_view state_status_view"

definition state_list_reach :: "('x cell heap \<Rightarrow> 'x \<Rightarrow> addr set) \<Rightarrow> 'x cell heap \<Rightarrow> 'x api_list \<Rightarrow> addr set" where
  "state_list_reach mreach = list_reach mreach (slice_reach states_in (state_reach mreach))"

definition state_list_view where
  "state_list_view mview = list_view mview (slice_view states_in (state_view mview))"

definition policy_reach :: "('x cell heap \<Rightarrow> 'x \<Rightarrow> addr set) \<Rightarrow> 'x cell heap \<Rightarrow> 'x policy_mem \<Rightarrow> addr set" where
  "policy_reach mreach = object_reach mreach value_reach policy_status_reach"

definition policy_view where
  "policy_view mview = object_view mview value_view policy_status_view"

definition policy_list_reach :: "('x cell heap \<Rightarrow> 'x \<Rightarrow> addr set) \<Rightarrow> 'x cell heap \<Rightarrow> 'x api_list \<Rightarrow> addr set" where
  "policy_list_reach mreach = list_reach mreach (slice_reach policies_in (policy_reach mreach))"

definition policy_list_view where
  "policy_list_view mview = list_view mview (slice_view policies_in (policy_view mview))"

definition exception_reach :: "('x cell heap \<Rightarrow> 'x \<Rightarrow> addr set) \<Rightarrow> 'x cell heap \<Rightarrow> 'x exception_mem \<Rightarrow> addr set" where
  "exception_reach mreach = object_reach mreach exception_spec_reach exception_status_reach"

definition exception_view where
  "exception_view mview = object_view mview exception_spec_view exception_status_view"

definition exception_list_reach :: "('x cell heap \<Rightarrow> 'x \<Rightarrow> addr set) \<Rightarrow> 'x cell heap \<Rightarrow> 'x api_list \<Rightarrow> addr set" where
  "exception_list_reach mreach = list_reach mreach (slice_reach exceptions_in (exception_reach mreach))"

definition exception_list_view where
  "exception_list_view mview = list_view mview (slice_view exceptions_in (exception_view mview))"

definition lease_reach :: "('x cell heap \<Rightarrow> 'x \<Rightarrow> addr set) \<Rightarrow> 'x cell heap \<Rightarrow> 'x lease_mem \<Rightarrow> addr set" where
  "lease_reach mreach = object_reach mreach lease_spec_reach lease_status_reach"

definition lease_view where
  "lease_view mview = object_view mview lease_spec_view lease_status_view"

definition lease_list_reach :: "('x cell heap \<Rightarrow> 'x \<Rightarrow> addr set) \<Rightarrow> 'x cell heap \<Rightarrow> 'x api_list \<Rightarrow> addr set" where
  "lease_list_reach mreach = list_reach mreach (slice_reach leases_in (lease_reach mreach))"

definition lease_list_view where
  "lease_list_view mview = list_view mview (slice_view leases_in (lease_view mview))"

text \<open>The library's copy of its metadata is one of the parts.\<close>

locale library_types = deep_copy mreach mview meta
  for mreach :: "'x cell heap \<Rightarrow> 'x \<Rightarrow> addr set" and mview :: "'x cell heap \<Rightarrow> 'x \<Rightarrow> 'w" and meta :: "('x, 'x cell) copier"
begin

lemma selector_copies: "deep_copy (selector_reach mreach) (selector_view mview) (selector_copy_into meta)"
  unfolding selector_reach_def selector_view_def selector_copy_into_def copy_fields_steps
  by (intro deep_copy_field deep_copy_first values_copies pointers) simp_all

lemma binding_spec_copies: "deep_copy (binding_spec_reach mreach) (binding_spec_view mview) (binding_spec_copy_into meta)"
  unfolding binding_spec_reach_def binding_spec_view_def binding_spec_copy_into_def copy_fields_steps
  by (intro deep_copy_field deep_copy_first selector_copies deep_copy.slices[OF item_copies] deep_copy.slices[OF requirement_copies])
    simp_all

lemma objects:
  assumes "deep_copy sreach sview spec" and "deep_copy treach tview status"
  shows "deep_copy (object_reach mreach sreach treach) (object_view mview sview tview) (object_copy_into meta spec status)"
  unfolding object_reach_def object_view_def object_copy_into_def copy_fields_steps
  by (intro deep_copy_field deep_copy_first deep_copy_axioms assms) simp_all

lemma lists:
  assumes "deep_copy ireach iview items"
  shows "deep_copy (list_reach mreach ireach) (list_view mview iview) (list_copy_into meta items)"
  unfolding list_reach_def list_view_def list_copy_into_def copy_fields_steps
  by (intro deep_copy_field deep_copy_first deep_copy_axioms assms) simp_all

lemma binding_copies: "deep_copy (binding_reach mreach) (binding_view mview) (binding_copy_into meta)"
  unfolding binding_reach_def binding_view_def binding_copy_into_def by (rule objects) (rule binding_spec_copies binding_status_copies)+

lemma binding_list_copies: "deep_copy (binding_list_reach mreach) (binding_list_view mview) (binding_list_copy_into meta)"
  unfolding binding_list_reach_def binding_list_view_def binding_list_copy_into_def by (intro lists deep_copy.slices[OF binding_copies]) simp

lemma contract_copies: "deep_copy (contract_reach mreach) (contract_view mview) (contract_copy_into meta)"
  unfolding contract_reach_def contract_view_def contract_copy_into_def by (rule objects) (rule contract_spec_copies contract_status_copies)+

lemma contract_list_copies: "deep_copy (contract_list_reach mreach) (contract_list_view mview) (contract_list_copy_into meta)"
  unfolding contract_list_reach_def contract_list_view_def contract_list_copy_into_def by (intro lists deep_copy.slices[OF contract_copies]) simp

lemma state_copies: "deep_copy (state_reach mreach) (state_view mview) (state_copy_into meta)"
  unfolding state_reach_def state_view_def state_copy_into_def by (rule objects) (rule value_copies state_status_copies)+

lemma state_list_copies: "deep_copy (state_list_reach mreach) (state_list_view mview) (state_list_copy_into meta)"
  unfolding state_list_reach_def state_list_view_def state_list_copy_into_def by (intro lists deep_copy.slices[OF state_copies]) simp

lemma policy_copies: "deep_copy (policy_reach mreach) (policy_view mview) (policy_copy_into meta)"
  unfolding policy_reach_def policy_view_def policy_copy_into_def by (rule objects) (rule value_copies policy_status_copies)+

lemma policy_list_copies: "deep_copy (policy_list_reach mreach) (policy_list_view mview) (policy_list_copy_into meta)"
  unfolding policy_list_reach_def policy_list_view_def policy_list_copy_into_def by (intro lists deep_copy.slices[OF policy_copies]) simp

lemma exception_copies: "deep_copy (exception_reach mreach) (exception_view mview) (exception_copy_into meta)"
  unfolding exception_reach_def exception_view_def exception_copy_into_def by (rule objects) (rule exception_spec_copies exception_status_copies)+

lemma exception_list_copies: "deep_copy (exception_list_reach mreach) (exception_list_view mview) (exception_list_copy_into meta)"
  unfolding exception_list_reach_def exception_list_view_def exception_list_copy_into_def by (intro lists deep_copy.slices[OF exception_copies]) simp

lemma lease_copies: "deep_copy (lease_reach mreach) (lease_view mview) (lease_copy_into meta)"
  unfolding lease_reach_def lease_view_def lease_copy_into_def by (rule objects) (rule lease_spec_copies lease_status_copies)+

lemma lease_list_copies: "deep_copy (lease_list_reach mreach) (lease_list_view mview) (lease_list_copy_into meta)"
  unfolding lease_list_reach_def lease_list_view_def lease_list_copy_into_def by (intro lists deep_copy.slices[OF lease_copies]) simp

end

section \<open>Copies of objects\<close>

text \<open>
  The copy of an object of the scheme: nil for nil; otherwise a new pointer that shows what the
  original shows, and that shares no memory with it, so that neither sees what is written through
  the other.
\<close>

definition copied_apart ::
  "('c heap \<Rightarrow> pointer option \<Rightarrow> addr set) \<Rightarrow> ('c heap \<Rightarrow> pointer option \<Rightarrow> 'v) \<Rightarrow> pointer option \<Rightarrow> 'c heap \<Rightarrow> pointer option \<Rightarrow>
     'c heap \<Rightarrow> bool" where
  "copied_apart reach view p h q h' =
     ((p = None \<longleftrightarrow> q = None) \<and> keeps h h' \<and> view h' q = view h p \<and> reach h' q \<inter> reach h' p = {} \<and>
      (\<forall>h2. same_on (- reach h p) h' h2 \<longrightarrow> view h2 q = view h p) \<and>
      (\<forall>h2. same_on (- reach h' q) h' h2 \<longrightarrow> view h2 p = view h p))"

lemma copied_pointer_apart:
  assumes "deep_copy reach view copy" and "\<And>xs. contents (Some (cell xs)) = xs"
    and c: "copy_pointer cell contents copy p h = (q, h')" and o: "pointer_reach contents reach h p \<subseteq> older h"
  shows "copied_apart (pointer_reach contents reach) (pointer_view contents view) p h q h'"
proof -
  note deep = deep_copy.pointers[OF assms(1), of contents cell, OF assms(2)]
  have "p = None \<longleftrightarrow> q = None"
    using c by (auto simp: copy_pointer_def split: option.splits prod.splits)
  moreover have "keeps h h'" using deep_copy.copies[OF deep c o] by simp
  ultimately show ?thesis
    using deep_copy.apart[OF deep c o] deep_copy.kept[OF deep \<open>keeps h h'\<close> o] by (simp add: copied_apart_def)
qed

lemma copied_object_cases:
  assumes "copied_object obj (copy_pointer cell contents copy p h) = (ob, h')"
  obtains q where "copy_pointer cell contents copy p h = (q, h')" and "ob = map_option obj q"
  using assms by (cases "copy_pointer cell contents copy p h") (auto simp: copied_object_def split: option.splits)

text \<open>Metadata with its finalizers, as a library.\<close>

interpretation finalizers: library_types "values_reach strings_in" "values_view strings_in"
    "copy_values Strings strings_in :: (slice option, slice option cell) copier"
  unfolding library_types_def by (rule values_copies) simp

section \<open>Properties\<close>

text \<open>
  C12: a deep copy of a list of capability leases, by the written functions, shows the same leases, nil and empty slices
  told apart, and shares no memory with the original, down to the times and conditions of each status: writes through
  one are never seen through the other, provided the library's copy of metadata does the same.
\<close>

lemma lease_lists_copied_apart:
  assumes "library_types mreach mview meta" and "lease_list_deep_copy_object meta p h = (ob, h')"
    and "pointer_reach lease_lists_in (lease_list_reach mreach) h p \<subseteq> older h"
  shows "\<exists>q. ob = map_option LeaseListObject q \<and>
    copied_apart (pointer_reach lease_lists_in (lease_list_reach mreach)) (pointer_view lease_lists_in (lease_list_view mview)) p h q h'"
proof -
  obtain q where q: "copy_pointer LeaseLists lease_lists_in (lease_list_copy_into meta) p h = (q, h')" and ob: "ob = map_option LeaseListObject q"
    using assms(2) unfolding lease_list_deep_copy_object_def lease_list_deep_copy_def by (rule copied_object_cases)
  have "copied_apart (pointer_reach lease_lists_in (lease_list_reach mreach)) (pointer_view lease_lists_in (lease_list_view mview)) p h q h'"
    by (rule copied_pointer_apart[OF library_types.lease_list_copies[OF assms(1)] _ q assms(3)]) simp
  with ob show ?thesis by blast
qed

text \<open>A list with one lease that has a capability, a time, a condition and a finalizer.\<close>

definition example_leases :: "slice option cell heap" where
  "example_leases =
     (let one = (\<lambda>a. Some \<lparr>sl_addr = a, sl_offset = 0, sl_len = 1\<rparr>);
          ls = \<lparr>ao_type = (''v1'', ''CapabilityLease''), ao_meta = one 0,
            ao_spec = \<lparr>ls_principal = ''agent'', ls_scope = ''repo'', ls_capabilities = one 1, ls_max_turns = 2, ls_ttl = 0\<rparr>,
            ao_status = \<lparr>lt_phase = ''Active'', lt_current_turn = 0, lt_last_receipt_hash = [], lt_issued_at = Some (2, 0),
              lt_expires_at = None, lt_revocation_reason = [], lt_generation = 1, lt_conditions = one 3\<rparr>\<rparr>
      in \<lparr>hp_cells = (\<lambda>a. if a = 0 then Some (Strings [''f'']) else if a = 1 then Some (Strings [''read'']) else if a = 2 then Some (Times [7])
            else if a = 3 then Some (Conditions [\<lparr>cv_type = ''Ready'', cv_status = ''True'', cv_generation = 1, cv_transition = 7,
              cv_reason = [], cv_message = []\<rparr>])
            else if a = 4 then Some (Leases [ls])
            else if a = 5 then Some (LeaseLists [\<lparr>al_type = (''v1'', ''CapabilityLeaseList''), al_meta = None, al_items = one 4\<rparr>]) else None),
          hp_next = 6\<rparr>)"

lemma lease_lists_copied_apart_witness:
  "\<exists>ob q h'. lease_list_deep_copy_object (copy_values Strings strings_in) (Some (5, 0)) example_leases = (ob, h') \<and>
     ob = map_option LeaseListObject q \<and>
     copied_apart (pointer_reach lease_lists_in (lease_list_reach (values_reach strings_in)))
       (pointer_view lease_lists_in (lease_list_view (values_view strings_in))) (Some (5, 0)) example_leases q h'"
proof -
  obtain ob h' where c: "lease_list_deep_copy_object (copy_values Strings strings_in) (Some (5, 0)) example_leases = (ob, h')"
    by (cases "lease_list_deep_copy_object (copy_values Strings strings_in) (Some (5, 0)) example_leases")
  have "pointer_reach lease_lists_in (lease_list_reach (values_reach strings_in)) example_leases (Some (5, 0)) \<subseteq> older example_leases"
    by (simp add: pointer_reach_def target_def example_leases_def Let_def older_def lease_list_reach_def list_reach_def values_reach_def
        slice_reach_def lease_reach_def object_reach_def elements_def contents_defs lease_spec_reach_def lease_status_reach_def
        time_reach_def value_reach_def)
  from lease_lists_copied_apart[OF finalizers.library_types_axioms c this] c show ?thesis by blast
qed

text \<open>
  Further: the same for the generated functions, on the deepest of their types: a deep copy of a list of control bindings
  shares no memory with it, through the items and their mappings, the selectors and the requirements.
\<close>

lemma binding_lists_copied_apart:
  assumes "library_types mreach mview meta" and "binding_list_deep_copy_object meta p h = (ob, h')"
    and "pointer_reach binding_lists_in (binding_list_reach mreach) h p \<subseteq> older h"
  shows "\<exists>q. ob = map_option BindingListObject q \<and>
    copied_apart (pointer_reach binding_lists_in (binding_list_reach mreach)) (pointer_view binding_lists_in (binding_list_view mview)) p h q h'"
proof -
  obtain q where q: "copy_pointer BindingLists binding_lists_in (binding_list_copy_into meta) p h = (q, h')" and ob: "ob = map_option BindingListObject q"
    using assms(2) unfolding binding_list_deep_copy_object_def binding_list_deep_copy_def by (rule copied_object_cases)
  have "copied_apart (pointer_reach binding_lists_in (binding_list_reach mreach)) (pointer_view binding_lists_in (binding_list_view mview)) p h q h'"
    by (rule copied_pointer_apart[OF library_types.binding_list_copies[OF assms(1)] _ q assms(3)]) simp
  with ob show ?thesis by blast
qed

text \<open>A list with one binding that has an item with a mapping, kinds, a label selector and a requirement.\<close>

definition example_bindings :: "slice option cell heap" where
  "example_bindings =
     (let one = (\<lambda>a. Some \<lparr>sl_addr = a, sl_offset = 0, sl_len = 1\<rparr>);
          it = \<lparr>im_canonical = \<lparr>c_namespace = ''nist'', c_id = ''AC-6'', c_version = []\<rparr>, im_mappings = one 0\<rparr>;
          kb = \<lparr>ao_type = (''v1'', ''ControlBinding''), ao_meta = None,
            ao_spec = \<lparr>bs_controls = one 1, bs_subjects = \<lparr>sm_api_groups = None, sm_kinds = one 2, sm_namespaces = None, sm_labels = Some (3, 0)\<rparr>,
              bs_requirements = one 5\<rparr>,
            ao_status = \<lparr>bt_generation = 1, bt_active = 0, bt_conditions = None\<rparr>\<rparr>
      in \<lparr>hp_cells = (\<lambda>a. if a = 0 then Some (Mappings [\<lparr>fm_framework = ''NIST'', fm_control = ''AC-6'', fm_version = []\<rparr>])
            else if a = 1 then Some (Items [it]) else if a = 2 then Some (Strings [''Deployment'']) else if a = 3 then Some (Selectors [one 4])
            else if a = 4 then Some (Strings [''app'']) else if a = 5 then Some (Requirements [\<lparr>rm_id = ''r'', rm_implementations = None, rm_contract = ''c''\<rparr>])
            else if a = 6 then Some (Bindings [kb])
            else if a = 7 then Some (BindingLists [\<lparr>al_type = (''v1'', ''ControlBindingList''), al_meta = None, al_items = one 6\<rparr>]) else None),
          hp_next = 8\<rparr>)"

lemma binding_lists_copied_apart_witness:
  "\<exists>ob q h'. binding_list_deep_copy_object (copy_values Strings strings_in) (Some (7, 0)) example_bindings = (ob, h') \<and>
     ob = map_option BindingListObject q \<and>
     copied_apart (pointer_reach binding_lists_in (binding_list_reach (values_reach strings_in)))
       (pointer_view binding_lists_in (binding_list_view (values_view strings_in))) (Some (7, 0)) example_bindings q h'"
proof -
  obtain ob h' where c: "binding_list_deep_copy_object (copy_values Strings strings_in) (Some (7, 0)) example_bindings = (ob, h')"
    by (cases "binding_list_deep_copy_object (copy_values Strings strings_in) (Some (7, 0)) example_bindings")
  have "pointer_reach binding_lists_in (binding_list_reach (values_reach strings_in)) example_bindings (Some (7, 0)) \<subseteq> older example_bindings"
    by (simp add: pointer_reach_def target_def example_bindings_def Let_def older_def binding_list_reach_def list_reach_def values_reach_def
        slice_reach_def binding_reach_def object_reach_def elements_def contents_defs binding_spec_reach_def binding_status_reach_def
        selector_reach_def item_reach_def requirement_reach_def value_reach_def)
  from binding_lists_copied_apart[OF finalizers.library_types_axioms c this] c show ?thesis by blast
qed

end
