(* ===== verification/Api_Values.thy ===== *)
theory Api_Values
  imports Api_Copies
begin

text \<open>
  The deep copies of the structures of api/assurance/v1alpha1 without references, generated in
  zz_generated.deepcopy.go: their DeepCopyInto assigns the structure, then its fields that are
  structures again; their DeepCopy allocates. Times and durations of the library are values.
\<close>

section \<open>Structures\<close>

text \<open>assurancepolicy_types.go\<close>

record evidence_config =
  ev_require_fresh :: bool

record behavior_config =
  bc_fail_on_violation :: bool
  bc_unknown_is_violation :: bool

record freshness_config =
  fc_max_age :: duration

record admission_config =
  ac_enabled :: bool

record enforcement_config =
  ec_admission :: admission_config

record policy_spec =
  ps_required_state :: string
  ps_evidence :: evidence_config
  ps_behavior :: behavior_config
  ps_freshness :: freshness_config
  ps_enforcement :: enforcement_config

text \<open>The other files of types\<close>

record state_spec =
  ss_subject :: state_subject_value

record missing_policy =
  mp_state :: string

record implementation_target =
  it_name :: string
  it_namespace :: string

record implementation_binding =
  ib_purpose :: string
  ib_provider :: string
  ib_ref :: implementation_target

record justification =
  jf_ticket :: string
  jf_notes :: string

record exception_validity =
  vd_not_before :: time
  vd_not_after :: time

datatype value_cell =
    AdmissionConfigs "admission_config list"
  | PolicySpecs "policy_spec list"
  | StateSpecs "state_spec list"
  | CanonicalRefs "control_ref list"
  | ControlStatusValues "control_status_value list"
  | Justifications "justification list"
  | ExceptionSubjects "exception_subject_value list"
  | Validities "exception_validity list"
  | FrameworkMappings "framework_mapping list"
  | ImplementationBindings "implementation_binding list"
  | ImplementationTargets "implementation_target list"
  | MissingPolicies "missing_policy list"
  | BehaviorConfigs "behavior_config list"
  | EnforcementConfigs "enforcement_config list"
  | EvidenceConfigs "evidence_config list"
  | FreshnessConfigs "freshness_config list"
  | StateEpochs "state_epoch_value list"
  | StateSubjects "state_subject_value list"

definition admission_config_in :: "value_cell option \<Rightarrow> admission_config list" where
  "admission_config_in c = (case c of Some (AdmissionConfigs xs) \<Rightarrow> xs | _ \<Rightarrow> [])"

definition policy_spec_in :: "value_cell option \<Rightarrow> policy_spec list" where
  "policy_spec_in c = (case c of Some (PolicySpecs xs) \<Rightarrow> xs | _ \<Rightarrow> [])"

definition state_spec_in :: "value_cell option \<Rightarrow> state_spec list" where
  "state_spec_in c = (case c of Some (StateSpecs xs) \<Rightarrow> xs | _ \<Rightarrow> [])"

definition canonical_ref_in :: "value_cell option \<Rightarrow> control_ref list" where
  "canonical_ref_in c = (case c of Some (CanonicalRefs xs) \<Rightarrow> xs | _ \<Rightarrow> [])"

definition control_status_value_in :: "value_cell option \<Rightarrow> control_status_value list" where
  "control_status_value_in c = (case c of Some (ControlStatusValues xs) \<Rightarrow> xs | _ \<Rightarrow> [])"

definition justification_in :: "value_cell option \<Rightarrow> justification list" where
  "justification_in c = (case c of Some (Justifications xs) \<Rightarrow> xs | _ \<Rightarrow> [])"

definition exception_subject_in :: "value_cell option \<Rightarrow> exception_subject_value list" where
  "exception_subject_in c = (case c of Some (ExceptionSubjects xs) \<Rightarrow> xs | _ \<Rightarrow> [])"

definition exception_validity_in :: "value_cell option \<Rightarrow> exception_validity list" where
  "exception_validity_in c = (case c of Some (Validities xs) \<Rightarrow> xs | _ \<Rightarrow> [])"

definition framework_mapping_in :: "value_cell option \<Rightarrow> framework_mapping list" where
  "framework_mapping_in c = (case c of Some (FrameworkMappings xs) \<Rightarrow> xs | _ \<Rightarrow> [])"

definition implementation_binding_in :: "value_cell option \<Rightarrow> implementation_binding list" where
  "implementation_binding_in c = (case c of Some (ImplementationBindings xs) \<Rightarrow> xs | _ \<Rightarrow> [])"

definition implementation_target_in :: "value_cell option \<Rightarrow> implementation_target list" where
  "implementation_target_in c = (case c of Some (ImplementationTargets xs) \<Rightarrow> xs | _ \<Rightarrow> [])"

definition missing_policy_in :: "value_cell option \<Rightarrow> missing_policy list" where
  "missing_policy_in c = (case c of Some (MissingPolicies xs) \<Rightarrow> xs | _ \<Rightarrow> [])"

definition behavior_config_in :: "value_cell option \<Rightarrow> behavior_config list" where
  "behavior_config_in c = (case c of Some (BehaviorConfigs xs) \<Rightarrow> xs | _ \<Rightarrow> [])"

definition enforcement_config_in :: "value_cell option \<Rightarrow> enforcement_config list" where
  "enforcement_config_in c = (case c of Some (EnforcementConfigs xs) \<Rightarrow> xs | _ \<Rightarrow> [])"

definition evidence_config_in :: "value_cell option \<Rightarrow> evidence_config list" where
  "evidence_config_in c = (case c of Some (EvidenceConfigs xs) \<Rightarrow> xs | _ \<Rightarrow> [])"

definition freshness_config_in :: "value_cell option \<Rightarrow> freshness_config list" where
  "freshness_config_in c = (case c of Some (FreshnessConfigs xs) \<Rightarrow> xs | _ \<Rightarrow> [])"

definition state_epoch_value_in :: "value_cell option \<Rightarrow> state_epoch_value list" where
  "state_epoch_value_in c = (case c of Some (StateEpochs xs) \<Rightarrow> xs | _ \<Rightarrow> [])"

definition state_subject_in :: "value_cell option \<Rightarrow> state_subject_value list" where
  "state_subject_in c = (case c of Some (StateSubjects xs) \<Rightarrow> xs | _ \<Rightarrow> [])"

section \<open>DeepCopyInto and DeepCopy\<close>

definition admission_config_copy_into :: "(admission_config, value_cell) copier" where
  "admission_config_copy_into = copy_fields []"

definition admission_config_deep_copy :: "(pointer option, value_cell) copier" where
  "admission_config_deep_copy = copy_pointer AdmissionConfigs admission_config_in admission_config_copy_into"

definition policy_spec_copy_into :: "(policy_spec, value_cell) copier" where
  "policy_spec_copy_into = copy_fields [field ps_evidence ps_evidence_update assign, field ps_behavior ps_behavior_update assign, field ps_freshness ps_freshness_update assign, field ps_enforcement ps_enforcement_update assign]"

definition policy_spec_deep_copy :: "(pointer option, value_cell) copier" where
  "policy_spec_deep_copy = copy_pointer PolicySpecs policy_spec_in policy_spec_copy_into"

definition state_spec_copy_into :: "(state_spec, value_cell) copier" where
  "state_spec_copy_into = copy_fields [field ss_subject ss_subject_update assign]"

definition state_spec_deep_copy :: "(pointer option, value_cell) copier" where
  "state_spec_deep_copy = copy_pointer StateSpecs state_spec_in state_spec_copy_into"

definition canonical_ref_copy_into :: "(control_ref, value_cell) copier" where
  "canonical_ref_copy_into = copy_fields []"

definition canonical_ref_deep_copy :: "(pointer option, value_cell) copier" where
  "canonical_ref_deep_copy = copy_pointer CanonicalRefs canonical_ref_in canonical_ref_copy_into"

definition control_status_value_copy_into :: "(control_status_value, value_cell) copier" where
  "control_status_value_copy_into = copy_fields []"

definition control_status_value_deep_copy :: "(pointer option, value_cell) copier" where
  "control_status_value_deep_copy = copy_pointer ControlStatusValues control_status_value_in control_status_value_copy_into"

definition justification_copy_into :: "(justification, value_cell) copier" where
  "justification_copy_into = copy_fields []"

definition justification_deep_copy :: "(pointer option, value_cell) copier" where
  "justification_deep_copy = copy_pointer Justifications justification_in justification_copy_into"

definition exception_subject_copy_into :: "(exception_subject_value, value_cell) copier" where
  "exception_subject_copy_into = copy_fields []"

definition exception_subject_deep_copy :: "(pointer option, value_cell) copier" where
  "exception_subject_deep_copy = copy_pointer ExceptionSubjects exception_subject_in exception_subject_copy_into"

definition exception_validity_copy_into :: "(exception_validity, value_cell) copier" where
  "exception_validity_copy_into = copy_fields [field vd_not_before vd_not_before_update assign, field vd_not_after vd_not_after_update assign]"

definition exception_validity_deep_copy :: "(pointer option, value_cell) copier" where
  "exception_validity_deep_copy = copy_pointer Validities exception_validity_in exception_validity_copy_into"

definition framework_mapping_copy_into :: "(framework_mapping, value_cell) copier" where
  "framework_mapping_copy_into = copy_fields []"

definition framework_mapping_deep_copy :: "(pointer option, value_cell) copier" where
  "framework_mapping_deep_copy = copy_pointer FrameworkMappings framework_mapping_in framework_mapping_copy_into"

definition implementation_binding_copy_into :: "(implementation_binding, value_cell) copier" where
  "implementation_binding_copy_into = copy_fields [field ib_ref ib_ref_update assign]"

definition implementation_binding_deep_copy :: "(pointer option, value_cell) copier" where
  "implementation_binding_deep_copy = copy_pointer ImplementationBindings implementation_binding_in implementation_binding_copy_into"

definition implementation_target_copy_into :: "(implementation_target, value_cell) copier" where
  "implementation_target_copy_into = copy_fields []"

definition implementation_target_deep_copy :: "(pointer option, value_cell) copier" where
  "implementation_target_deep_copy = copy_pointer ImplementationTargets implementation_target_in implementation_target_copy_into"

definition missing_policy_copy_into :: "(missing_policy, value_cell) copier" where
  "missing_policy_copy_into = copy_fields []"

definition missing_policy_deep_copy :: "(pointer option, value_cell) copier" where
  "missing_policy_deep_copy = copy_pointer MissingPolicies missing_policy_in missing_policy_copy_into"

definition behavior_config_copy_into :: "(behavior_config, value_cell) copier" where
  "behavior_config_copy_into = copy_fields []"

definition behavior_config_deep_copy :: "(pointer option, value_cell) copier" where
  "behavior_config_deep_copy = copy_pointer BehaviorConfigs behavior_config_in behavior_config_copy_into"

definition enforcement_config_copy_into :: "(enforcement_config, value_cell) copier" where
  "enforcement_config_copy_into = copy_fields [field ec_admission ec_admission_update assign]"

definition enforcement_config_deep_copy :: "(pointer option, value_cell) copier" where
  "enforcement_config_deep_copy = copy_pointer EnforcementConfigs enforcement_config_in enforcement_config_copy_into"

definition evidence_config_copy_into :: "(evidence_config, value_cell) copier" where
  "evidence_config_copy_into = copy_fields []"

definition evidence_config_deep_copy :: "(pointer option, value_cell) copier" where
  "evidence_config_deep_copy = copy_pointer EvidenceConfigs evidence_config_in evidence_config_copy_into"

definition freshness_config_copy_into :: "(freshness_config, value_cell) copier" where
  "freshness_config_copy_into = copy_fields [field fc_max_age fc_max_age_update assign]"

definition freshness_config_deep_copy :: "(pointer option, value_cell) copier" where
  "freshness_config_deep_copy = copy_pointer FreshnessConfigs freshness_config_in freshness_config_copy_into"

definition state_epoch_value_copy_into :: "(state_epoch_value, value_cell) copier" where
  "state_epoch_value_copy_into = copy_fields []"

definition state_epoch_value_deep_copy :: "(pointer option, value_cell) copier" where
  "state_epoch_value_deep_copy = copy_pointer StateEpochs state_epoch_value_in state_epoch_value_copy_into"

definition state_subject_copy_into :: "(state_subject_value, value_cell) copier" where
  "state_subject_copy_into = copy_fields []"

definition state_subject_deep_copy :: "(pointer option, value_cell) copier" where
  "state_subject_deep_copy = copy_pointer StateSubjects state_subject_in state_subject_copy_into"

section \<open>Lemmas\<close>

text \<open>Whatever fields are assigned once more, a copy is an assignment.\<close>

lemma copy_fields_nil: "copy_fields [] = assign"
  by (simp add: copy_fields_def fun_eq_iff)

lemma assigned_field: "get (upd (\<lambda>_. get x) x) = get x \<Longrightarrow> upd (\<lambda>_. get x) x = x \<Longrightarrow>
    field get upd assign x (x, h) = (x, h)"
  by (simp add: field_def assign_def)

lemma value_copy_intos:
  "admission_config_copy_into = assign"
  "policy_spec_copy_into = assign"
  "state_spec_copy_into = assign"
  "canonical_ref_copy_into = assign"
  "control_status_value_copy_into = assign"
  "justification_copy_into = assign"
  "exception_subject_copy_into = assign"
  "exception_validity_copy_into = assign"
  "framework_mapping_copy_into = assign"
  "implementation_binding_copy_into = assign"
  "implementation_target_copy_into = assign"
  "missing_policy_copy_into = assign"
  "behavior_config_copy_into = assign"
  "enforcement_config_copy_into = assign"
  "evidence_config_copy_into = assign"
  "freshness_config_copy_into = assign"
  "state_epoch_value_copy_into = assign"
  "state_subject_copy_into = assign"
  by (simp_all add: copy_fields_def field_def assign_def fun_eq_iff
      admission_config_copy_into_def policy_spec_copy_into_def state_spec_copy_into_def canonical_ref_copy_into_def control_status_value_copy_into_def justification_copy_into_def exception_subject_copy_into_def exception_validity_copy_into_def framework_mapping_copy_into_def implementation_binding_copy_into_def implementation_target_copy_into_def missing_policy_copy_into_def behavior_config_copy_into_def enforcement_config_copy_into_def evidence_config_copy_into_def freshness_config_copy_into_def state_epoch_value_copy_into_def state_subject_copy_into_def)

text \<open>The copies of pointers to values, whatever the type.\<close>

lemma value_pointers:
  assumes "copy = assign" and "\<And>xs. contents (Some (cell xs)) = xs"
    and "copy_pointer cell contents copy p h = (q, h')" and "p \<noteq> None \<Longrightarrow> fst (the p) \<in> older h"
  shows "copied_apart (pointer_reach contents value_reach) (pointer_view contents value_view) p h q h'"
proof -
  have "pointer_reach contents value_reach h p \<subseteq> older h"
    using assms(4) by (auto simp: pointer_reach_def value_reach_def split: option.splits)
  with assms(1-3) show ?thesis
    by (intro copied_pointer_apart[of value_reach value_view copy contents cell p h q h']) (simp_all add: value_copies)
qed

section \<open>Properties\<close>

text \<open>
  Further: the deep copy of the specification of a policy, down to its nested configurations, is a new structure that shows
  the same as the original, and writes through one are not seen through the other; it is nil exactly for nil.
\<close>

lemma policy_spec_copied_apart:
  assumes "policy_spec_deep_copy p h = (q, h')" and "p \<noteq> None \<longrightarrow> fst (the p) \<in> older h"
  shows "copied_apart (pointer_reach policy_spec_in value_reach) (pointer_view policy_spec_in value_view) p h q h'"
  using value_pointers[OF value_copy_intos(2) _ assms(1)[unfolded policy_spec_deep_copy_def]] assms(2)
  by (simp add: policy_spec_in_def)

definition example_policy :: "value_cell heap" where
  "example_policy =
     \<lparr>hp_cells = [0 \<mapsto> PolicySpecs [\<lparr>ps_required_state = ''Assured'', ps_evidence = \<lparr>ev_require_fresh = True\<rparr>,
        ps_behavior = \<lparr>bc_fail_on_violation = True, bc_unknown_is_violation = False\<rparr>, ps_freshness = \<lparr>fc_max_age = minute\<rparr>,
        ps_enforcement = \<lparr>ec_admission = \<lparr>ac_enabled = True\<rparr>\<rparr>\<rparr>]], hp_next = 1\<rparr>"

lemma policy_spec_copied_apart_witness:
  "\<exists>q h'. policy_spec_deep_copy (Some (0, 0)) example_policy = (q, h') \<and>
     copied_apart (pointer_reach policy_spec_in value_reach) (pointer_view policy_spec_in value_view) (Some (0, 0)) example_policy q h'"
proof -
  obtain q h' where c: "policy_spec_deep_copy (Some (0, 0)) example_policy = (q, h')"
    by (cases "policy_spec_deep_copy (Some (0, 0)) example_policy")
  from policy_spec_copied_apart[OF c] c show ?thesis by (auto simp: older_def example_policy_def)
qed

end
