(* ===== verification/Simulation.thy ===== *)
theory Simulation
  imports Main
begin

text \<open>
  Refinement of one labelled step relation by another. A label is a call with its reply. The locale
  simulation relates the states of an implementation to those of its specification; refinement_map
  is the case where an invariant holds and the specification's state is a function of the
  implementation's, and where every admitted call gets a reply.
\<close>

section \<open>Runs\<close>

inductive run :: "('s \<Rightarrow> 'op \<Rightarrow> 'r \<Rightarrow> 's \<Rightarrow> bool) \<Rightarrow> 's \<Rightarrow> ('op \<times> 'r) list \<Rightarrow> 's \<Rightarrow> bool"
  for step where
  run_Nil: "run step s [] s"
| run_Cons: "step s call reply t \<Longrightarrow> run step t tr u \<Longrightarrow> run step s ((call, reply) # tr) u"

inductive_simps run_Nil_iff [simp]: "run step s [] t"
inductive_simps run_Cons_iff: "run step s (e # tr) u"

lemma run_single: "step s call reply t \<Longrightarrow> run step s [(call, reply)] t"
  by (simp add: run_Cons_iff)

lemma run_append:
  "run step s (tr @ tr') u \<longleftrightarrow> (\<exists>t. run step s tr t \<and> run step t tr' u)"
proof (induction tr arbitrary: s)
  case (Cons e tr)
  obtain call reply where "e = (call, reply)" by (cases e)
  with Cons.IH show ?case by (auto simp: run_Cons_iff)
qed simp

section \<open>Simulations\<close>

locale simulation =
  fixes cstep :: "'c \<Rightarrow> 'op \<Rightarrow> 'r \<Rightarrow> 'c \<Rightarrow> bool"
    and astep :: "'a \<Rightarrow> 'op \<Rightarrow> 'r \<Rightarrow> 'a \<Rightarrow> bool"
    and related :: "'c \<Rightarrow> 'a \<Rightarrow> bool"
    and admitted :: "'op \<Rightarrow> bool"
  assumes forward: "related c a \<Longrightarrow> admitted call \<Longrightarrow> cstep c call reply c' \<Longrightarrow>
    \<exists>a'. astep a call reply a' \<and> related c' a'"
begin

lemma run_forward:
  "run cstep c tr c' \<Longrightarrow> related c a \<Longrightarrow> list_all (\<lambda>(call, _). admitted call) tr \<Longrightarrow>
     \<exists>a'. run astep a tr a' \<and> related c' a'"
proof (induction arbitrary: a rule: run.induct)
  case (run_Nil s)
  then show ?case by (intro exI[of _ a]) simp
next
  case (run_Cons s call reply t tr u)
  from run_Cons.prems have "admitted call" and tr: "list_all (\<lambda>(call, _). admitted call) tr" by simp_all
  with forward run_Cons.hyps(1) run_Cons.prems(1) obtain b where "astep a call reply b" "related t b" by blast
  with run_Cons.IH[OF _ tr] show ?case by (blast intro: run.run_Cons)
qed

end

locale refinement_map =
  fixes cstep :: "'c \<Rightarrow> 'op \<Rightarrow> 'r \<Rightarrow> 'c \<Rightarrow> bool"
    and astep :: "'a \<Rightarrow> 'op \<Rightarrow> 'r \<Rightarrow> 'a \<Rightarrow> bool"
    and abs :: "'c \<Rightarrow> 'a"
    and inv :: "'c \<Rightarrow> bool"
    and admitted :: "'op \<Rightarrow> bool"
  assumes keeps: "inv c \<Longrightarrow> admitted call \<Longrightarrow> cstep c call reply c' \<Longrightarrow> inv c'"
    and refines: "inv c \<Longrightarrow> admitted call \<Longrightarrow> cstep c call reply c' \<Longrightarrow> astep (abs c) call reply (abs c')"
    and replies: "inv c \<Longrightarrow> admitted call \<Longrightarrow> \<exists>reply c'. cstep c call reply c'"

sublocale refinement_map \<subseteq> simulation cstep astep "\<lambda>c a. inv c \<and> a = abs c" admitted
  by unfold_locales (blast intro: keeps refines)

context refinement_map
begin

lemma run_refines:
  "run cstep c tr c' \<Longrightarrow> inv c \<Longrightarrow> list_all (\<lambda>(call, _). admitted call) tr \<Longrightarrow>
     run astep (abs c) tr (abs c') \<and> inv c'"
  using run_forward[of c tr c' "abs c"] by blast

lemma run_exists:
  "inv c \<Longrightarrow> list_all admitted calls \<Longrightarrow> \<exists>tr c'. map fst tr = calls \<and> run cstep c tr c'"
proof (induction calls arbitrary: c)
  case (Cons call calls)
  then obtain reply t where step: "cstep c call reply t" using replies by fastforce
  with keeps Cons.prems have "inv t" by auto
  with Cons obtain tr c' where "map fst tr = calls" "run cstep t tr c'" by fastforce
  with step show ?case
    by (intro exI[of _ "(call, reply) # tr"] exI[of _ c']) (simp add: run.run_Cons)
qed (intro exI[of _ "[]"], simp)

end

end
