(* ===== verification/Evidence_Store.thy ===== *)
theory Evidence_Store
  imports Cas Simulation
begin

text \<open>
  What the evidence repository promises, apart from how it keeps it: a shelf of envelopes and of
  texts, both filed under the digest of their text. The repository in memory
  (internal/adapters/storage/cas.go) refines it, call by call, whatever order its maps are iterated
  in: its index by subject, which a prune rebuilds, is invisible to its clients.
\<close>

section \<open>The calls of the repository\<close>

datatype store_call =
    Put_Envelope envelope "string result option"
  | Fetch evidence_ref
  | Check evidence_ref
  | List_Subject subject_ref
  | Prune_Older time duration duration bool

datatype store_reply =
    Stored "evidence_ref result"
  | Fetched "string result"
  | Checked "bool result"
  | Listed "envelope list result"
  | Pruned prune_report

inductive repository_step ::
  "encoder \<Rightarrow> (string \<Rightarrow> bool) \<Rightarrow> cas \<Rightarrow> store_call \<Rightarrow> store_reply \<Rightarrow> cas \<Rightarrow> bool" for enc ok where
  rs_put: "put enc ok r env p = (r', reply) \<Longrightarrow> repository_step enc ok r (Put_Envelope env p) (Stored reply) r'"
| rs_get: "repository_step enc ok r (Fetch ref) (Fetched (get r ref)) r"
| rs_verify: "repository_step enc ok r (Check ref) (Checked (verify r ref)) r"
| rs_list: "enumerates ks (envelopes r) \<Longrightarrow>
    repository_step enc ok r (List_Subject subject) (Listed (list_by_subject ks r subject)) r"
| rs_prune: "enumerates ks (envelopes r) \<Longrightarrow> prune ks ks' start elapsed r max_age dry_run = (r', rep) \<Longrightarrow>
    enumerates ks' (envelopes r') \<Longrightarrow>
    repository_step enc ok r (Prune_Older start elapsed max_age dry_run) (Pruned rep) r'"

section \<open>The shelf\<close>

record shelf =
  sh_envelopes :: "string \<rightharpoonup> envelope"
  sh_texts :: "string \<rightharpoonup> string"

definition empty_shelf :: shelf where
  "empty_shelf = \<lparr>sh_envelopes = Map.empty, sh_texts = Map.empty\<rparr>"

definition shelve_text :: "string \<Rightarrow> shelf \<Rightarrow> shelf" where
  "shelve_text t s = s\<lparr>sh_texts := (sh_texts s)(compute_digest t \<mapsto> t)\<rparr>"

definition shelve :: "envelope \<Rightarrow> string \<Rightarrow> shelf \<Rightarrow> shelf" where
  "shelve env t s = shelve_text t (s\<lparr>sh_envelopes := (sh_envelopes s)(compute_digest t \<mapsto> env)\<rparr>)"

definition shelf_ref :: "string \<Rightarrow> evidence_ref" where
  "shelf_ref t = \<lparr>e_uri = ''cas://sha256/'' @ hex_encode (sha256 t), e_digest = compute_digest t,
     e_media_type = ''application/vnd.ckodex.evidence+json''\<rparr>"

definition missing :: "evidence_ref \<Rightarrow> 'a result" where
  "missing ref = Err (''evidence blob not found for digest: '' @ e_digest ref)"

definition matching :: "shelf \<Rightarrow> subject_ref \<Rightarrow> envelope set" where
  "matching s subject =
     {env \<in> ran (sh_envelopes s). match_subject (ev_subject env) subject (leaf (s_id subject))}"

definition old :: "shelf \<Rightarrow> time \<Rightarrow> string set" where
  "old s cutoff = {d. \<exists>env. sh_envelopes s d = Some env \<and> ev_captured_at env < cutoff}"

definition old_bytes :: "shelf \<Rightarrow> time \<Rightarrow> nat" where
  "old_bytes s cutoff = (\<Sum>d\<in>old s cutoff. case sh_texts s d of None \<Rightarrow> 0 | Some t \<Rightarrow> length t)"

definition discard :: "string set \<Rightarrow> shelf \<Rightarrow> shelf" where
  "discard D s = \<lparr>sh_envelopes = sh_envelopes s |` (- D), sh_texts = sh_texts s |` (- D)\<rparr>"

inductive shelf_step :: "encoder \<Rightarrow> shelf \<Rightarrow> store_call \<Rightarrow> store_reply \<Rightarrow> shelf \<Rightarrow> bool" for enc where
  sh_unencodable: "enc env = Inl e \<Longrightarrow>
    shelf_step enc s (Put_Envelope env p) (Stored (Err (''failed to serialize evidence envelope: '' @ e))) s"
| sh_put: "enc env = Inr t \<Longrightarrow> shelf_step enc s (Put_Envelope env None) (Stored (Ok (shelf_ref t))) (shelve env t s)"
| sh_put_payload: "enc env = Inr t \<Longrightarrow>
    shelf_step enc s (Put_Envelope env (Some (Inr raw))) (Stored (Ok (shelf_ref t))) (shelve_text raw (shelve env t s))"
| sh_put_unread: "enc env = Inr t \<Longrightarrow>
    shelf_step enc s (Put_Envelope env (Some (Inl e)))
      (Stored (Err (''failed to read raw evidence payload: '' @ e))) (shelve env t s)"
| sh_fetch: "sh_texts s (e_digest ref) = Some t \<Longrightarrow> shelf_step enc s (Fetch ref) (Fetched (Ok t)) s"
| sh_fetch_missing: "sh_texts s (e_digest ref) = None \<Longrightarrow> shelf_step enc s (Fetch ref) (Fetched (missing ref)) s"
| sh_check: "sh_texts s (e_digest ref) = Some t \<Longrightarrow> shelf_step enc s (Check ref) (Checked (Ok True)) s"
| sh_check_missing: "sh_texts s (e_digest ref) = None \<Longrightarrow> shelf_step enc s (Check ref) (Checked (missing ref)) s"
| sh_list_nobody: "s_id subject = [] \<Longrightarrow> s_scheme subject = [] \<Longrightarrow>
    shelf_step enc s (List_Subject subject) (Listed (Err ''subject reference cannot be empty'')) s"
| sh_list: "s_id subject \<noteq> [] \<or> s_scheme subject \<noteq> [] \<Longrightarrow> set rs \<subseteq> matching s subject \<Longrightarrow>
    distinct (map ev_id rs) \<Longrightarrow> ev_id ` matching s subject \<subseteq> ev_id ` set rs \<Longrightarrow>
    shelf_step enc s (List_Subject subject) (Listed (Ok rs)) s"
| sh_prune: "shelf_step enc s (Prune_Older start elapsed max_age dry_run)
    (Pruned \<lparr>p_pruned_count = int (card (old s (start - max_age))),
             p_pruned_bytes = int (old_bytes s (start - max_age)),
             p_retained_count = int (card (dom (sh_envelopes s))) - int (card (old s (start - max_age))),
             p_duration = elapsed\<rparr>)
    (if dry_run then s else discard (old s (start - max_age)) s)"

section \<open>The repository keeps a shelf\<close>

definition shelf_of :: "cas \<Rightarrow> shelf" where
  "shelf_of r = \<lparr>sh_envelopes = envelopes r, sh_texts = blobs r\<rparr>"

definition storable :: "encoder \<Rightarrow> envelope set \<Rightarrow> store_call \<Rightarrow> bool" where
  "storable enc E call = (case call of Put_Envelope env p \<Rightarrow> env \<in> E \<or> \<not> is_ok (enc env) | _ \<Rightarrow> True)"

definition shelved :: "encoder \<Rightarrow> envelope set \<Rightarrow> cas \<Rightarrow> bool" where
  "shelved enc E r = (addressed r \<and> filed enc E r \<and> finite (dom (envelopes r)))"

lemma shelved_base: "shelved enc E r \<Longrightarrow> base_dir r = []"
  by (simp add: shelved_def addressed_def)

lemma put_unencodable: "enc env = Inl e \<Longrightarrow> fst (put enc ok r env p) = r"
  by (simp add: put_def)

lemma put_shelved:
  assumes "shelved enc E r" and "env \<in> E \<or> \<not> is_ok (enc env)"
  shows "shelved enc E (fst (put enc ok r env p))"
proof (cases "enc env")
  case (Inl e)
  with assms show ?thesis by (simp add: put_unencodable)
next
  case (Inr x)
  with assms have E: "env \<in> E" by simp
  have a: "addressed r" "filed enc E r" "finite (dom (envelopes r))"
    using assms(1) by (simp_all add: shelved_def)
  from memory.put_inv[OF a(1), of enc ok env p] put_filed[OF a(2) E, of ok p] a(3) Inr
    put_memory_envelopes(1)[OF shelved_base[OF assms(1)], of enc ok env p]
  show ?thesis by (simp add: shelved_def)
qed

text \<open>The index that a prune rebuilds files each remaining envelope under its subject.\<close>

definition reindex :: "(string \<rightharpoonup> envelope) \<Rightarrow> (string \<rightharpoonup> string list) \<Rightarrow> string list \<Rightarrow> (string \<rightharpoonup> string list)" where
  "reindex m = foldl (\<lambda>idx d. case m d of
     Some env \<Rightarrow> index_append idx (subject_uri (ev_subject env)) d | None \<Rightarrow> idx)"

lemma reindex_mem:
  "reindex m idx ks u = Some ds \<Longrightarrow> d \<in> set ds \<Longrightarrow>
     (\<exists>env. m d = Some env \<and> subject_uri (ev_subject env) = u) \<or> (\<exists>ds'. idx u = Some ds' \<and> d \<in> set ds')"
proof (induction ks arbitrary: idx)
  case (Cons k ks)
  show ?case
  proof (cases "m k")
    case None
    with Cons show ?thesis by (simp add: reindex_def)
  next
    case (Some env)
    with Cons have "(\<exists>env. m d = Some env \<and> subject_uri (ev_subject env) = u) \<or>
        (\<exists>ds'. index_append idx (subject_uri (ev_subject env)) k u = Some ds' \<and> d \<in> set ds')"
      by (simp add: reindex_def)
    with Some index_append_mem show ?thesis by blast
  qed
qed (simp add: reindex_def)

lemma prune_dry: "fst (prune ks ks' start elapsed r max_age True) = r"
  by (simp add: prune_def Let_def)

lemma prune_index:
  "subject_index (fst (prune ks ks' start elapsed r max_age False)) =
     reindex (envelopes (fst (prune ks ks' start elapsed r max_age False))) Map.empty ks'"
  "base_dir (fst (prune ks ks' start elapsed r max_age False)) = base_dir r"
  by (simp_all add: prune_def Let_def reindex_def drop_digests)

lemma prune_shelved:
  assumes "shelved enc E r" and "enumerates ks (envelopes r)"
  shows "shelved enc E (fst (prune ks ks' start elapsed r max_age dry))"
proof (cases dry)
  case True
  with assms show ?thesis by (simp add: prune_dry)
next
  case False
  let ?r = "fst (prune ks ks' start elapsed r max_age False)"
  note pe = prune_envelopes[OF assms(2), of ks' start elapsed max_age]
  have sub: "envelopes ?r d = Some env \<Longrightarrow> envelopes r d = Some env"
    "blobs ?r d = Some t \<Longrightarrow> blobs r d = Some t" for d env t
    by (simp_all add: pe split: if_splits)
  have base: "base_dir ?r = []" using shelved_base[OF assms(1)] by (simp add: prune_index)
  have old: "env \<in> E \<and> (\<exists>x. enc env = Inr x \<and> d = compute_digest x)" if "envelopes r d = Some env" for d env
    using assms(1) that by (simp add: shelved_def filed_def)
  have "addressed ?r" using assms(1) base sub(2) by (auto simp: shelved_def addressed_def)
  moreover have "finite (dom (envelopes ?r))"
    using assms(1) sub(1) by (auto simp: shelved_def elim!: finite_subset[rotated])
  moreover have "filed enc E ?r"
    unfolding filed_def
  proof (intro conjI allI impI)
    fix u ds d
    assume "subject_index ?r u = Some ds" "d \<in> set ds"
    then obtain env where "envelopes ?r d = Some env" "subject_uri (ev_subject env) = u"
      using reindex_mem[of "envelopes ?r" Map.empty ks' u ds d] by (auto simp: prune_index)
    with old sub(1) show "\<exists>env\<in>E. \<exists>x. enc env = Inr x \<and> d = compute_digest x \<and> subject_uri (ev_subject env) = u"
      by blast
  qed (use old sub(1) base in blast)+
  ultimately show ?thesis using False by (simp add: shelved_def)
qed


lemma put_shelf:
  assumes "base_dir r = []" and "put enc ok r env p = (r', reply)"
  shows "shelf_step enc (shelf_of r) (Put_Envelope env p) (Stored reply) (shelf_of r')"
proof (cases "enc env")
  case (Inl e)
  with assms(2) have "r' = r" "reply = Err (''failed to serialize evidence envelope: '' @ e)"
    by (simp_all add: put_def)
  with sh_unencodable[of enc env, OF Inl] show ?thesis by simp
next
  case (Inr t)
  note pe = put_memory_envelopes(1)[OF assms(1), of enc ok env p] put_memory_blobs(1)[OF assms(1), of enc ok env p]
  note put = assms(2)[unfolded put_def] assms(1)
  have ref: "\<lparr>e_uri = ''cas://sha256/'' @ hex_encode (sha256 t), e_digest = ''sha256:'' @ hex_encode (sha256 t),
     e_media_type = ''application/vnd.ckodex.evidence+json''\<rparr> = shelf_ref t"
    by (simp only: shelf_ref_def prefix_digest)
  show ?thesis
  proof (cases p)
    case None
    have "reply = Ok (shelf_ref t)" using put Inr None ref by (simp add: Let_def)
    moreover have "shelf_of r' = shelve env t (shelf_of r)"
      using pe assms(2) Inr None by (simp add: shelf_of_def shelve_def shelve_text_def Let_def)
    ultimately show ?thesis using sh_put[of enc env, OF Inr] None by simp
  next
    case (Some q)
    show ?thesis
    proof (cases q)
      case (Inl e)
      have "reply = Err (''failed to read raw evidence payload: '' @ e)" using put Inr Some Inl by (simp add: Let_def)
      moreover have "shelf_of r' = shelve env t (shelf_of r)"
        using pe assms(2) Inr Some Inl by (simp add: shelf_of_def shelve_def shelve_text_def Let_def)
      ultimately show ?thesis using sh_put_unread[of enc env, OF Inr] Some Inl by simp
    next
      case raw: (Inr raw)
      have "reply = Ok (shelf_ref t)" using put Inr Some raw ref by (simp add: Let_def)
      moreover have "shelf_of r' = shelve_text raw (shelve env t (shelf_of r))"
        using pe assms(2) Inr Some raw by (simp add: shelf_of_def shelve_def shelve_text_def Let_def)
      ultimately show ?thesis using sh_put_payload[of enc env, OF Inr] Some raw by simp
    qed
  qed
qed

lemma get_shelf:
  assumes "shelved enc E r"
  shows "get r ref = (case sh_texts (shelf_of r) (e_digest ref) of Some t \<Rightarrow> Ok t | None \<Rightarrow> missing ref)"
    "verify r ref = (case sh_texts (shelf_of r) (e_digest ref) of Some t \<Rightarrow> Ok True | None \<Rightarrow> missing ref)"
proof -
  show g: "get r ref = (case sh_texts (shelf_of r) (e_digest ref) of Some t \<Rightarrow> Ok t | None \<Rightarrow> missing ref)"
    using shelved_base[OF assms]
    by (simp add: get_def shelf_of_def missing_def Let_def split: option.split)
  have "compute_digest t = e_digest ref" if "sh_texts (shelf_of r) (e_digest ref) = Some t" for t
    using assms that by (simp add: shelved_def addressed_def shelf_of_def)
  then show "verify r ref = (case sh_texts (shelf_of r) (e_digest ref) of Some t \<Rightarrow> Ok True | None \<Rightarrow> missing ref)"
    by (auto simp: verify_def g Let_def prefix_digest missing_def simp del: append_Cons append_Nil split: option.split)
qed

lemma list_shelf:
  assumes "tells_apart enc E" and "shelved enc E r" and "enumerates ks (envelopes r)"
  shows "shelf_step enc (shelf_of r) (List_Subject subject) (Listed (list_by_subject ks r subject)) (shelf_of r)"
proof (cases "s_id subject = [] \<and> s_scheme subject = []")
  case True
  then have "list_by_subject ks r subject = Err ''subject reference cannot be empty''"
    by (simp add: list_by_subject_def)
  with True show ?thesis by (simp only: sh_list_nobody)
next
  case False
  then obtain rs where rs: "list_by_subject ks r subject = Ok rs" by (auto simp: list_by_subject_def Let_def)
  have filed: "filed enc E r" using assms(2) by (simp add: shelved_def)
  note spec = list_by_subject_filed[OF filed assms(3) rs]
  have "env \<in> matching (shelf_of r) subject"
    if "envelopes r d = Some env" "e \<in> E" "enc e = Inr x" "d = compute_digest x"
      "subject_uri (ev_subject e) = subject_uri subject" for d env e x
  proof -
    from filed that(1) obtain y where "env \<in> E" "enc env = Inr y" "d = compute_digest y"
      unfolding filed_def by blast
    with that assms(1) have "env = e" unfolding tells_apart_def by metis
    with that(1,5) show ?thesis by (auto simp: matching_def shelf_of_def match_subject_uri ran_def)
  qed
  with spec(1) have "set rs \<subseteq> matching (shelf_of r) subject"
    by (fastforce simp: matching_def shelf_of_def)
  moreover have "ev_id ` matching (shelf_of r) subject \<subseteq> ev_id ` set rs"
    using spec(3) by (auto simp: matching_def shelf_of_def)
  ultimately show ?thesis
    unfolding rs using False spec(2) by (intro sh_list) auto
qed

lemma expired_old: "expired cutoff r d \<longleftrightarrow> d \<in> old (shelf_of r) cutoff"
  by (simp add: expired_def old_def shelf_of_def split: option.split)

lemma foldl_bytes:
  "foldl (\<lambda>n d. case m d of Some b \<Rightarrow> n + int (length b) | None \<Rightarrow> n) n0 ds =
     n0 + int (\<Sum>d\<leftarrow>ds. case m d of None \<Rightarrow> 0 | Some b \<Rightarrow> length b)"
  by (induction ds arbitrary: n0) (simp_all split: option.split)

lemma prune_shelf:
  assumes ks: "enumerates ks (envelopes r)" and pr: "prune ks ks' start elapsed r max_age dry = (r', rep)"
    and ks': "enumerates ks' (envelopes r')"
  shows "shelf_step enc (shelf_of r) (Prune_Older start elapsed max_age dry) (Pruned rep) (shelf_of r')"
proof -
  let ?c = "start - max_age"
  let ?del = "filter (expired ?c r) ks"
  have del: "distinct ?del" "set ?del = old (shelf_of r) ?c"
    using ks by (auto simp: enumerates_def expired_old) (auto simp: old_def shelf_of_def)
  then have card: "length ?del = card (old (shelf_of r) ?c)" by (metis distinct_card)
  have "length ks = card (dom (sh_envelopes (shelf_of r)))"
    using ks by (simp add: enumerates_def shelf_of_def distinct_card[symmetric])
  moreover have "p_pruned_bytes rep = int (old_bytes (shelf_of r) ?c)"
  proof -
    have "p_pruned_bytes rep = foldl (\<lambda>n d. case blobs r d of Some b \<Rightarrow> n + int (length b) | None \<Rightarrow> n) 0 ?del"
      using pr by (auto simp: prune_def Let_def split: if_splits)
    then show ?thesis
      using del by (simp add: foldl_bytes old_bytes_def sum_list_distinct_conv_sum_set shelf_of_def)
  qed
  moreover have "p_pruned_count rep = int (length ?del)" "p_duration rep = elapsed"
    using pr by (auto simp: prune_def Let_def split: if_splits)
  moreover have "p_retained_count rep = int (length ks) - int (length ?del)"
  proof (cases dry)
    case True
    with pr show ?thesis by (auto simp: prune_def Let_def)
  next
    case False
    with pr ks' have "enumerates ks' (envelopes (fst (prune ks ks' start elapsed r max_age False)))" by simp
    from prune_counts(2)[OF ks this, of dry] pr show ?thesis by simp
  qed
  ultimately have "rep = \<lparr>p_pruned_count = int (card (old (shelf_of r) ?c)), p_pruned_bytes = int (old_bytes (shelf_of r) ?c),
      p_retained_count = int (card (dom (sh_envelopes (shelf_of r)))) - int (card (old (shelf_of r) ?c)), p_duration = elapsed\<rparr>"
    by (cases rep) (simp add: card)
  moreover have "shelf_of r' = (if dry then shelf_of r else discard (old (shelf_of r) ?c) (shelf_of r))"
  proof (cases dry)
    case True
    then show ?thesis using pr prune_dry[of ks ks' start elapsed r max_age] by simp
  next
    case False
    with pr have "r' = fst (prune ks ks' start elapsed r max_age False)" by simp
    then show ?thesis
      using prune_envelopes[OF ks, of ks' start elapsed max_age] False
      by (auto simp: shelf_of_def discard_def restrict_map_def expired_old)
  qed
  ultimately show ?thesis using sh_prune[of enc "shelf_of r" start elapsed max_age dry] by simp
qed


section \<open>Refinement\<close>

lemma step_shelved:
  assumes "shelved enc E r" and "storable enc E call" and "repository_step enc ok r call reply r'"
  shows "shelved enc E r'"
  using assms(3,1,2)
proof cases
  case (rs_put env p reply')
  with assms(1,2) put_shelved[of enc E r env ok p] show ?thesis by (simp add: storable_def)
next
  case (rs_prune ks ks' start elapsed max_age dry rep)
  with assms(1) prune_shelved[of enc E r ks ks' start elapsed max_age dry] show ?thesis by simp
qed simp_all

lemma step_refines:
  assumes "tells_apart enc E" and "shelved enc E r" and "repository_step enc ok r call reply r'"
  shows "shelf_step enc (shelf_of r) call reply (shelf_of r')"
  using assms(3)
proof cases
  case (rs_put env p reply')
  with put_shelf[OF shelved_base[OF assms(2)]] show ?thesis by simp
next
  case (rs_get ref)
  then show ?thesis
    using get_shelf(1)[OF assms(2), of ref]
    by (cases "sh_texts (shelf_of r) (e_digest ref)") (simp_all add: sh_fetch sh_fetch_missing)
next
  case (rs_verify ref)
  then show ?thesis
    using get_shelf(2)[OF assms(2), of ref]
    by (cases "sh_texts (shelf_of r) (e_digest ref)") (simp_all add: sh_check sh_check_missing)
next
  case (rs_list ks subject)
  with list_shelf[OF assms(1,2)] show ?thesis by simp
next
  case (rs_prune ks ks' start elapsed max_age dry rep)
  with prune_shelf show ?thesis by simp
qed

lemma enumeration: "finite (dom m) \<Longrightarrow> \<exists>ks. enumerates ks m"
  using finite_distinct_list[of "dom m"] by (auto simp: enumerates_def)

lemma step_replies:
  assumes "shelved enc E r"
  shows "\<exists>reply r'. repository_step enc ok r call reply r'"
proof -
  obtain ks where ks: "enumerates ks (envelopes r)"
    using enumeration assms by (auto simp: shelved_def)
  show ?thesis
  proof (cases call)
    case (Put_Envelope env p)
    obtain r' reply where "put enc ok r env p = (r', reply)" by (cases "put enc ok r env p")
    with Put_Envelope show ?thesis by (blast intro: repository_step.rs_put)
  next
    case (Prune_Older start elapsed max_age dry)
    let ?r = "fst (prune ks [] start elapsed r max_age dry)"
    have same: "envelopes (fst (prune ks ks' start elapsed r max_age dry)) = envelopes ?r" for ks'
      by (simp add: prune_def Let_def)
    have "finite (dom (envelopes ?r))"
      using prune_shelved[OF assms ks] by (simp add: shelved_def)
    then obtain ks' where "enumerates ks' (envelopes (fst (prune ks ks' start elapsed r max_age dry)))"
      using enumeration same by metis
    then show ?thesis
      using rs_prune[OF ks, of ks' start elapsed max_age dry] Prune_Older by (meson prod.exhaust_sel)
  qed (use ks in \<open>blast intro: repository_step.intros\<close>)+
qed

text \<open>The envelopes that may be put are those of a set whose texts the encoder tells apart; of any
  other set, none may.\<close>

definition distinguished :: "encoder \<Rightarrow> envelope set \<Rightarrow> envelope set" where
  "distinguished enc E = (if tells_apart enc E then E else {})"

lemma distinguished_apart: "tells_apart enc (distinguished enc E)"
  by (simp add: distinguished_def tells_apart_def)

interpretation store: refinement_map "repository_step enc ok" "shelf_step enc" shelf_of
    "shelved enc (distinguished enc E)" "storable enc (distinguished enc E)" for enc ok E
  by unfold_locales (blast intro: step_shelved step_refines distinguished_apart step_replies)+

lemma shelved_new: "shelved enc E (new_memory_repository fs)"
  using filed_new by (simp add: shelved_def addressed_def) (simp add: new_memory_repository_def)

lemma shelf_of_new: "shelf_of (new_memory_repository fs) = empty_shelf"
  by (simp add: shelf_of_def new_memory_repository_def empty_shelf_def)

section \<open>Properties\<close>

text \<open>
  C2: the repository in memory refines the shelf: for envelopes whose texts the encoder tells apart, every
  sequence of calls with their replies (stores with any payload, reads, checks, listings, prunes and
  dry runs, in any order and with any iteration order of its maps) is one of the shelf, which ends
  with the same envelopes and texts; and the repository then answers every further call.
\<close>

lemma repository_refines_shelf:
  assumes "tells_apart enc E" and "list_all (\<lambda>(call, _). storable enc E call) tr"
    and "run (repository_step enc ok) (new_memory_repository fs) tr r"
  shows "run (shelf_step enc) empty_shelf tr (shelf_of r) \<and>
    (\<forall>call. \<exists>reply r'. repository_step enc ok r call reply r')"
proof -
  have E: "distinguished enc E = E" using assms(1) by (simp add: distinguished_def)
  from store.run_refines[OF assms(3), where E = E, unfolded E, OF shelved_new assms(2)]
  have "run (shelf_step enc) empty_shelf tr (shelf_of r)" "shelved enc E r"
    by (simp_all add: shelf_of_new)
  with step_replies show ?thesis by blast
qed

lemma repository_refines_shelf_witness:
  "\<exists>r reply. run (repository_step (\<lambda>e. Ok ''x'') (\<lambda>p. True)) (new_memory_repository Map.empty)
       [(Put_Envelope example_put None, Stored reply), (Prune_Older 0 0 5 True, Pruned \<lparr>p_pruned_count = 0,
          p_pruned_bytes = 0, p_retained_count = 1, p_duration = 0\<rparr>)] r \<and>
     run (shelf_step (\<lambda>e. Ok ''x'')) empty_shelf
       [(Put_Envelope example_put None, Stored reply), (Prune_Older 0 0 5 True, Pruned \<lparr>p_pruned_count = 0,
          p_pruned_bytes = 0, p_retained_count = 1, p_duration = 0\<rparr>)] (shelf_of r)"
proof -
  let ?enc = "\<lambda>e::envelope. Ok ''x'' :: string result"
  let ?ok = "\<lambda>p::string. True"
  obtain r reply where p: "put ?enc ?ok (new_memory_repository Map.empty) example_put None = (r, reply)"
    by (cases "put ?enc ?ok (new_memory_repository Map.empty) example_put None")
  let ?tr = "[(Put_Envelope example_put None, Stored reply), (Prune_Older 0 0 5 True, Pruned \<lparr>p_pruned_count = 0,
          p_pruned_bytes = 0, p_retained_count = 1, p_duration = 0\<rparr>)]"
  have env: "envelopes r = [compute_digest ''x'' \<mapsto> example_put]"
    using put_memory_envelopes(1)[of "new_memory_repository Map.empty" ?enc ?ok example_put None] p
    by (simp add: new_memory_repository_def)
  have "prune [compute_digest ''x''] [compute_digest ''x''] 0 0 r 5 True =
      (r, \<lparr>p_pruned_count = 0, p_pruned_bytes = 0, p_retained_count = 1, p_duration = 0\<rparr>)"
    by (simp add: prune_def expired_def env example_put_def)
  then have "repository_step ?enc ?ok r (Prune_Older 0 0 5 True)
      (Pruned \<lparr>p_pruned_count = 0, p_pruned_bytes = 0, p_retained_count = 1, p_duration = 0\<rparr>) r"
    by (rule rs_prune[rotated]) (simp_all add: enumerates_def env)
  with rs_put[OF p] have run: "run (repository_step ?enc ?ok) (new_memory_repository Map.empty) ?tr r"
    by (simp add: run_Cons_iff) blast
  have "tells_apart ?enc {example_put}" by (simp add: tells_apart_def)
  from repository_refines_shelf[OF this _ run] run show ?thesis
    by (intro exI conjI) (auto simp: storable_def)
qed

end
