(* ===== verification/Ports.thy ===== *)
theory Ports
  imports Evidence_Store State_Repo Reconcile Spire Validator
begin

text \<open>
  internal/ports/ports.go: the interfaces between the core and its adapters, each a record of its
  operations, and the adapters of the repository as values of them. Contexts are left out. The state
  of an adapter with one is an argument of its operations, which return it changed. The last part
  wires the evaluator to the repository in memory through its port.
\<close>

section \<open>The interfaces\<close>

record control_resolver =
  pt_resolve_controls :: "subject_ref \<Rightarrow> control_ref list result"

record subject_resolver =
  pt_resolve_subject :: "string \<Rightarrow> subject_ref result"
  pt_compute_subject_digest :: "subject_ref \<Rightarrow> string result"

record 's evidence_store =
  pt_put :: "'s \<Rightarrow> envelope \<Rightarrow> string result option \<Rightarrow> 's \<times> evidence_ref result"
  pt_get :: "'s \<Rightarrow> evidence_ref \<Rightarrow> string result"
  pt_verify :: "'s \<Rightarrow> evidence_ref \<Rightarrow> bool result"
  pt_list_by_subject :: "'s \<Rightarrow> subject_ref \<Rightarrow> envelope list result"

record observation_source =
  pt_list_observations :: "subject_ref \<Rightarrow> time \<Rightarrow> observation list result"

record evidence_verifier =
  pt_verify_signature :: "envelope \<Rightarrow> bool result"
  pt_verify_epoch :: "envelope \<Rightarrow> epoch \<Rightarrow> bool"

record claim_evaluator =
  pt_evaluate :: "claim \<Rightarrow> contract \<Rightarrow> epoch \<Rightarrow> claim_evaluation result"

record 's state_store =
  pt_get_state :: "'s \<Rightarrow> subject_ref \<Rightarrow> astate \<times> epoch \<times> string option"
  pt_save_state :: "'s \<Rightarrow> subject_ref \<Rightarrow> astate \<Rightarrow> epoch \<Rightarrow> string \<Rightarrow> 's \<times> string option"

record receipt_signer =
  pt_sign_receipt :: "control_receipt \<Rightarrow> control_receipt result"
  pt_verify_receipt :: "control_receipt \<Rightarrow> bool result"

record oscal_projector =
  pt_assessment_results :: "subject_ref \<Rightarrow> claim_evaluation list \<Rightarrow> finding list \<Rightarrow> string result"
  pt_component_definition :: "string \<Rightarrow> claim_evaluation list \<Rightarrow> string result"
  pt_ssp :: "string \<Rightarrow> claim_evaluation list \<Rightarrow> string result"
  pt_assessment_plan :: "subject_ref \<Rightarrow> contract \<Rightarrow> control_ref list \<Rightarrow> string result"
  pt_poam :: "subject_ref \<Rightarrow> finding list \<Rightarrow> string result"

record authority_resolver =
  pt_is_authorized_producer :: "authority_ref \<Rightarrow> string \<Rightarrow> bool result"

section \<open>The adapters\<close>

definition kubernetes_controls :: "(string option \<Rightarrow> control_binding list result) option \<Rightarrow> control_resolver" where
  "kubernetes_controls client = \<lparr>pt_resolve_controls = resolve_controls client\<rparr>"

definition kubernetes_subjects :: "cluster option \<Rightarrow> subject_resolver" where
  "kubernetes_subjects client =
     \<lparr>pt_resolve_subject = (\<lambda>uri. Ok (resolve_subject client uri)),
      pt_compute_subject_digest = (\<lambda>s. Ok (compute_subject_digest client s))\<rparr>"

definition content_addressed_store :: "encoder \<Rightarrow> (string \<Rightarrow> bool) \<Rightarrow> string list \<Rightarrow> cas evidence_store" where
  "content_addressed_store enc ok ks =
     \<lparr>pt_put = put enc ok, pt_get = get, pt_verify = verify, pt_list_by_subject = list_by_subject ks\<rparr>"

definition repository_observations :: "'s evidence_store \<Rightarrow> 's \<Rightarrow> observation_source" where
  "repository_observations es s =
     \<lparr>pt_list_observations = list_observations (Some (pt_list_by_subject es s))\<rparr>"

definition default_verifier :: "verify_fun \<Rightarrow> known_keys \<Rightarrow> evidence_verifier" where
  "default_verifier v keys = \<lparr>pt_verify_signature = verify_signature v keys, pt_verify_epoch = verify_epoch\<rparr>"

text \<open>An evaluator with a repository and without a source of its own.\<close>

definition wired_evaluator :: "'s evidence_store \<Rightarrow> 's \<Rightarrow> time \<Rightarrow> claim_evaluator" where
  "wired_evaluator es s now =
     \<lparr>pt_evaluate = contract_evaluate \<lparr>evidence_source = [], evidence_repo = Some (pt_list_by_subject es s)\<rparr> now\<rparr>"

definition state_files :: "(state_map \<Rightarrow> string result) \<Rightarrow> (string \<Rightarrow> bool) \<Rightarrow> state_repo state_store" where
  "state_files enc ok = \<lparr>pt_get_state = get_state, pt_save_state = save_state enc ok\<rparr>"

definition manager_signer :: "sign_fun \<Rightarrow> verify_fun \<Rightarrow> receipt_manager \<Rightarrow> time \<Rightarrow> receipt_signer" where
  "manager_signer s v m now =
     \<lparr>pt_sign_receipt = (\<lambda>r. Ok (sign_receipt s m now r)), pt_verify_receipt = verify_receipt v m\<rparr>"

text \<open>The projector's documents are written by the JSON library, an argument.\<close>

definition json_projector :: "(json \<Rightarrow> string result) \<Rightarrow> (nat \<Rightarrow> string) \<Rightarrow> string list \<Rightarrow> time \<Rightarrow> oscal_projector" where
  "json_projector enc u ks now =
     (let out = (\<lambda>d. case document_json d of Inl e \<Rightarrow> Err e | Inr j \<Rightarrow> enc j) in
      \<lparr>pt_assessment_results = (\<lambda>s evals fs. out (DocResults (project_assessment_results u ks now now s evals fs))),
       pt_component_definition = (\<lambda>name evals. out (DocComponents (project_component_definition u now name evals))),
       pt_ssp = (\<lambda>name evals. out (DocPlan (project_ssp u now name evals))),
       pt_assessment_plan = (\<lambda>s c cs. out (DocAssessment (project_assessment_plan u now s c cs))),
       pt_poam = (\<lambda>s fs. out (DocActions (project_poam u now s fs)))\<rparr>)"

definition spire_authority :: "authority_policy \<Rightarrow> authority_resolver" where
  "spire_authority p = \<lparr>pt_is_authorized_producer = is_authorized_producer p\<rparr>"

section \<open>What the evaluator sees through the port\<close>

text \<open>A run of the repository ends with what its shelf holds; a listing is then the matching part of it.\<close>

lemma run_shelved:
  assumes "tells_apart enc E" and "list_all (\<lambda>(call, _). storable enc E call) tr"
    and "run (repository_step enc ok) (new_memory_repository fs) tr r"
  shows "shelved enc E r" and "run (shelf_step enc) empty_shelf tr (shelf_of r)"
proof -
  have E: "distinguished enc E = E" using assms(1) by (simp add: distinguished_def)
  from store.run_refines[OF assms(3), where E = E, unfolded E, OF shelved_new assms(2)]
  show "shelved enc E r" and "run (shelf_step enc) empty_shelf tr (shelf_of r)"
    by (simp_all add: shelf_of_new)
qed

lemma listing_matches:
  assumes "tells_apart enc E" and "inj_on ev_id E" and "shelved enc E r" and "enumerates ks (envelopes r)"
    and "s_id subject \<noteq> [] \<or> s_scheme subject \<noteq> []"
  shows "\<exists>rs. list_by_subject ks r subject = Ok rs \<and> set rs = matching (shelf_of r) subject \<and> distinct rs"
proof -
  obtain rs where rs: "list_by_subject ks r subject = Ok rs" "set rs \<subseteq> matching (shelf_of r) subject"
    "distinct (map ev_id rs)" "ev_id ` matching (shelf_of r) subject \<subseteq> ev_id ` set rs"
    using list_shelf[OF assms(1,3,4), of subject] assms(5) by cases auto
  have E: "matching (shelf_of r) subject \<subseteq> E"
    using assms(3) by (auto simp: matching_def shelf_of_def shelved_def filed_def ran_def)
  have "matching (shelf_of r) subject \<subseteq> set rs"
  proof
    fix env
    assume env: "env \<in> matching (shelf_of r) subject"
    with rs(4) obtain e where "e \<in> set rs" "ev_id e = ev_id env" by force
    moreover from this(1) rs(2) E have "e \<in> E" by blast
    ultimately show "env \<in> set rs" using assms(2) env E by (metis inj_onD subsetD)
  qed
  with rs show ?thesis by (auto simp: distinct_map)
qed

section \<open>Properties\<close>

text \<open>
  C3: the evaluator wired to the repository in memory gives the verdict of the contract's specification over exactly the
  envelopes that the shelf holds for the subject of the claim, after any sequence of stores, reads, listings and
  prunes, whatever order the maps are iterated in; and the observations listed through the port since
  a time are those of the same envelopes captured since then. This holds for a subject with a scheme or an identifier
  (the repository refuses to list any other), for stored envelopes that the encoder encodes to texts of distinct digests, and when
  no two of them share their identifier: a listing keeps one envelope of each identifier only.
\<close>

lemma verdict_over_store:
  assumes "tells_apart enc E" and "inj_on ev_id E" and "list_all (\<lambda>(call, _). storable enc E call) tr"
    and "run (repository_step enc ok) (new_memory_repository fs) tr r" and "enumerates ks (envelopes r)"
    and "s_id (cl_subject cl) \<noteq> [] \<or> s_scheme (cl_subject cl) \<noteq> []"
  shows "\<exists>shelf ev obs. run (shelf_step enc) empty_shelf tr shelf \<and>
    pt_evaluate (wired_evaluator (content_addressed_store enc ok ks) r now) cl c ep = Ok ev \<and>
    ce_state ev = contract_spec c (matching shelf (cl_subject cl)) ep now \<and>
    pt_list_observations (repository_observations (content_addressed_store enc ok ks) r) (cl_subject cl) since = Ok obs \<and>
    set obs = observation_of ` {env \<in> matching shelf (cl_subject cl). is_zero_time since \<or> since \<le> ev_captured_at env}"
proof -
  note sh = run_shelved[OF assms(1,3,4)]
  obtain rs where rs: "list_by_subject ks r (cl_subject cl) = Ok rs" "set rs = matching (shelf_of r) (cl_subject cl)"
    using listing_matches[OF assms(1,2) sh(1) assms(5,6)] by blast
  obtain ev where ev: "pt_evaluate (wired_evaluator (content_addressed_store enc ok ks) r now) cl c ep = Ok ev"
    and st: "ce_state ev = cr_state (evaluate_contract c rs ep now)"
    by (simp add: wired_evaluator_def content_addressed_store_def contract_evaluate_def default_source_def rs(1) Let_def)
  have "ce_state ev = contract_spec c (matching (shelf_of r) (cl_subject cl)) ep now"
    unfolding st rs(2)[symmetric] by (rule evaluate_state_spec)
  moreover obtain obs where obs: "pt_list_observations (repository_observations (content_addressed_store enc ok ks) r)
      (cl_subject cl) since = Ok obs"
    and "obs = map observation_of (filter (\<lambda>env. \<not> (\<not> is_zero_time since \<and> ev_captured_at env < since)) rs)"
    by (simp add: repository_observations_def content_addressed_store_def list_observations_def rs(1))
  then have "set obs = observation_of ` {env \<in> matching (shelf_of r) (cl_subject cl). is_zero_time since \<or> since \<le> ev_captured_at env}"
    using rs(2) by (auto simp: not_less)
  ultimately show ?thesis using sh(2) ev obs by (intro exI conjI)
qed

definition example_claim :: claim where
  "example_claim =
     \<lparr>cl_id = ''c'', cl_subject = ev_subject example_put, cl_control = \<lparr>c_namespace = ''n'', c_id = ''AC-6'', c_version = []\<rparr>,
      cl_target_state = Verified\<rparr>"

lemma verdict_over_store_witness:
  "\<exists>r ev. fst (put (\<lambda>e. Ok ''x'') (\<lambda>p. True) (new_memory_repository Map.empty) example_put None) = r \<and>
     pt_evaluate (wired_evaluator (content_addressed_store (\<lambda>e. Ok ''x'') (\<lambda>p. True) [compute_digest ''x'']) r 0)
       example_claim example_contract empty_epoch = Ok ev \<and>
     ce_state ev = contract_spec example_contract {example_put} empty_epoch 0"
proof -
  let ?enc = "\<lambda>e::envelope. Ok ''x'' :: string result"
  let ?ok = "\<lambda>p::string. True"
  obtain r reply where p: "put ?enc ?ok (new_memory_repository Map.empty) example_put None = (r, reply)"
    by (cases "put ?enc ?ok (new_memory_repository Map.empty) example_put None")
  let ?tr = "[(Put_Envelope example_put None, Stored reply)]"
  have env: "envelopes r = [compute_digest ''x'' \<mapsto> example_put]"
    using put_memory_envelopes(1)[of "new_memory_repository Map.empty" ?enc ?ok example_put None] p
    by (simp add: new_memory_repository_def)
  have run: "run (repository_step ?enc ?ok) (new_memory_repository Map.empty) ?tr r"
    using rs_put[OF p] by (rule run_single)
  have hyps: "tells_apart ?enc {example_put}" "inj_on ev_id {example_put}"
    "list_all (\<lambda>(call, _). storable ?enc {example_put} call) ?tr" "enumerates [compute_digest ''x''] (envelopes r)"
    "s_id (cl_subject example_claim) \<noteq> [] \<or> s_scheme (cl_subject example_claim) \<noteq> []"
    by (simp_all add: tells_apart_def storable_def enumerates_def env example_claim_def example_put_def)
  obtain shelf ev where shelf: "run (shelf_step ?enc) empty_shelf ?tr shelf"
    and ev: "pt_evaluate (wired_evaluator (content_addressed_store ?enc ?ok [compute_digest ''x'']) r 0)
       example_claim example_contract empty_epoch = Ok ev"
    and st: "ce_state ev = contract_spec example_contract (matching shelf (cl_subject example_claim)) empty_epoch 0"
    using verdict_over_store[OF hyps(1-3) run hyps(4,5)] by blast
  have "sh_envelopes shelf = [compute_digest ''x'' \<mapsto> example_put]"
  proof -
    from shelf have "shelf_step ?enc empty_shelf (Put_Envelope example_put None) (Stored reply) shelf"
      by (simp add: run_Cons_iff)
    then show ?thesis by cases (simp_all add: shelve_def shelve_text_def empty_shelf_def)
  qed
  then have "matching shelf (cl_subject example_claim) = {example_put}"
    by (auto simp: matching_def example_claim_def match_subject_uri)
  with p ev st show ?thesis by auto
qed

text \<open>
  C21: the verdict of an evaluation does not depend on the signatures of the evidence: with every signature
  dropped, a contract evaluates to the same state, although the verifier refuses every envelope
  without a signature.
\<close>

lemma signatures_are_not_consulted:
  "let unsigned = map (\<lambda>env. env\<lparr>ev_signature_ref := []\<rparr>) envs in
   cr_state (evaluate_contract c unsigned ep now) = cr_state (evaluate_contract c envs ep now) \<and>
   list_all (\<lambda>env. pt_verify_signature (default_verifier v keys) env = Ok False) unsigned"
proof -
  let ?u = "\<lambda>env :: envelope. env\<lparr>ev_signature_ref := []\<rparr>"
  have "req_status (?u ` set envs) ep now = req_status (set envs) ep now"
  proof (rule ext)
    fix req
    have "supports req ep now (?u env) = supports req ep now env" "relevant req (?u env) = relevant req env" for env
      by (simp_all add: supports_def relevant_def)
    then show "req_status (?u ` set envs) ep now req = req_status (set envs) ep now req"
      by (simp add: req_status_def)
  qed
  then have "contract_spec c (set (map ?u envs)) ep now = contract_spec c (set envs) ep now"
    by (simp add: contract_spec_def)
  then show ?thesis
    by (simp add: Let_def evaluate_state_spec default_verifier_def verify_signature_def list_all_iff)
qed

end
