(* ===== verification/Lease_Account.thy ===== *)
theory Lease_Account
  imports Lease Simulation
begin

text \<open>
  What the effect broker promises, apart from how it counts: an account per lease, with what it
  grants, until when, how many turns are left of it (none if it is not bounded) and the tip of its
  chain of receipts. The broker (internal/adapters/workcell/broker.go) with its 64-bit counters
  (core/assurance/lease.go) refines the accounts, call by call. Registering a lease again opens its
  account again.
\<close>

section \<open>The calls of the broker\<close>

datatype account_call =
    Register lease
  | Execute string string string string time
  | Withdraw string string

datatype account_reply =
    Done
  | Executed "check_receipt option" "string option"
  | Withdrawn "string option"

inductive broker_action :: "broker \<Rightarrow> account_call \<Rightarrow> account_reply \<Rightarrow> broker \<Rightarrow> bool" where
  ba_register: "broker_action b (Register l) Done (register_lease b l)"
| ba_execute: "request_execution b i c payload prev_hash now = (b', rcpt, err) \<Longrightarrow>
    broker_action b (Execute i c payload prev_hash now) (Executed rcpt err) b'"
| ba_withdraw: "broker_revoke b i reason = (b', err) \<Longrightarrow> broker_action b (Withdraw i reason) (Withdrawn err) b'"

section \<open>Accounts\<close>

record account =
  ac_grants :: "string list"
  ac_until :: time
  ac_left :: "nat option"
  ac_tip :: string
  ac_open :: bool

definition granted :: "account \<Rightarrow> string \<Rightarrow> string \<Rightarrow> time \<Rightarrow> bool" where
  "granted a c prev_hash now =
     (prev_hash = ac_tip a \<and> ac_open a \<and> now \<le> ac_until a \<and> ac_left a \<noteq> Some 0 \<and>
      (c \<in> set (ac_grants a) \<or> ''*'' \<in> set (ac_grants a)))"

definition spend :: "string \<Rightarrow> account \<Rightarrow> account" where
  "spend tip a = a\<lparr>ac_left := map_option (\<lambda>n. n - 1) (ac_left a), ac_tip := tip\<rparr>"

definition account_of :: "lease \<Rightarrow> account" where
  "account_of l =
     \<lparr>ac_grants = l_allowed l, ac_until = l_expires_at l,
      ac_left = (if 0 < sint (l_max_turns l) then Some (nat (sint (l_max_turns l) - sint (l_current_turn l))) else None),
      ac_tip = l_last_hash l, ac_open = (\<not> l_revoked l)\<rparr>"

inductive account_step ::
  "(string \<rightharpoonup> account) \<Rightarrow> account_call \<Rightarrow> account_reply \<Rightarrow> (string \<rightharpoonup> account) \<Rightarrow> bool" where
  as_register: "account_step s (Register l) Done (s(l_id l \<mapsto> account_of l))"
| as_unknown: "s i = None \<Longrightarrow>
    account_step s (Execute i c payload prev_hash now)
      (Executed None (Some (''no capability lease found with id '' @ quote1 @ i @ quote1))) s"
| as_admitted: "s i = Some a \<Longrightarrow> granted a c prev_hash now \<Longrightarrow>
    rp_disposition r = ''ADMIT'' \<Longrightarrow> rp_lease_id r = i \<Longrightarrow> rp_capability r = c \<Longrightarrow> rp_prev_hash r = ac_tip a \<Longrightarrow>
    account_step s (Execute i c payload prev_hash now) (Executed (Some r) None) (s(i \<mapsto> spend (rp_hash r) a))"
| as_denied: "s i = Some a \<Longrightarrow> \<not> granted a c prev_hash now \<Longrightarrow> rp_disposition r = ''DENY'' \<Longrightarrow>
    account_step s (Execute i c payload prev_hash now) (Executed (Some r) (Some m)) s"
| as_stranger: "s i = None \<Longrightarrow>
    account_step s (Withdraw i reason) (Withdrawn (Some (''lease '' @ quote1 @ i @ quote1 @ '' not found''))) s"
| as_withdrawn: "s i = Some a \<Longrightarrow>
    account_step s (Withdraw i reason) (Withdrawn None) (s(i \<mapsto> a\<lparr>ac_open := False\<rparr>))"

section \<open>The broker keeps accounts\<close>

definition accounts :: "broker \<Rightarrow> (string \<rightharpoonup> account)" where
  "accounts b = (\<lambda>i. map_option account_of (b_leases b i))"

definition broker_inv :: "broker \<Rightarrow> bool" where
  "broker_inv b = (broker_ok b \<and> broker_bounded b)"

text \<open>A bounded lease is registered with a counter within its bound.\<close>

definition registrable :: "account_call \<Rightarrow> bool" where
  "registrable call = (case call of Register l \<Rightarrow> 0 < sint (l_max_turns l) \<longrightarrow> turns_bounded l | _ \<Rightarrow> True)"

lemma account_tip: "ac_tip (account_of l) = l_last_hash l"
  by (simp add: account_of_def)

lemma revoked_account: "account_of (revoke l reason) = (account_of l)\<lparr>ac_open := False\<rparr>"
  by (simp add: account_of_def revoke_def)

lemma granted_account:
  "granted (account_of l) c prev_hash now \<longleftrightarrow> admissible l c prev_hash now"
  by (auto simp: granted_def account_of_def admissible_def phase_def capability_allowed_def list_ex_iff)

lemma spend_account:
  assumes "phase l now = LeaseActive" and "0 < sint (l_max_turns l) \<Longrightarrow> turns_bounded l"
  shows "account_of (l\<lparr>l_current_turn := l_current_turn l + 1, l_last_hash := h\<rparr>) = spend h (account_of l)"
proof (cases "0 < sint (l_max_turns l)")
  case True
  with admit_bounded[OF assms(2)[OF True] assms(1) True] show ?thesis
    by (simp add: account_of_def spend_def)
qed (simp add: account_of_def spend_def)

lemma action_inv:
  assumes "broker_inv b" and "registrable call" and "broker_action b call reply b'"
  shows "broker_inv b'"
  using assms(3)
proof cases
  case (ba_register l)
  with assms(1,2) show ?thesis
    by (auto simp: broker_inv_def registrable_def register_lease_ok)
      (auto simp: broker_bounded_def register_lease_def split: if_splits)
next
  case (ba_execute i c payload prev_hash now rcpt err)
  then have "b' = broker_step b (Request i c payload prev_hash now)" by simp
  with assms(1) broker_step_ok broker_step_bounded show ?thesis unfolding broker_inv_def by blast
next
  case (ba_withdraw i reason err)
  then have "b' = broker_step b (Revoke i reason)" by simp
  with assms(1) broker_step_ok broker_step_bounded show ?thesis unfolding broker_inv_def by blast
qed

lemma execute_refines:
  assumes "broker_inv b" and "request_execution b i c payload prev_hash now = (b', rcpt, err)"
  shows "account_step (accounts b) (Execute i c payload prev_hash now) (Executed rcpt err) (accounts b')"
proof (cases "b_leases b i")
  case None
  with assms(2) have "accounts b' = accounts b" "rcpt = None"
    "err = Some (''no capability lease found with id '' @ quote1 @ i @ quote1)"
    by (auto simp: request_execution_def accounts_def)
  moreover have "accounts b i = None" using None by (simp add: accounts_def)
  ultimately show ?thesis using as_unknown[of "accounts b" i c payload prev_hash now] by simp
next
  case (Some l)
  then have acc: "accounts b i = Some (account_of l)" by (simp add: accounts_def)
  have l: "l_id l = i" "0 < sint (l_max_turns l) \<Longrightarrow> turns_bounded l"
    using assms(1) Some by (auto simp: broker_inv_def broker_ok_def broker_bounded_def)
  have out: "rcpt = Some (fst (snd (evaluate_turn l c payload prev_hash now)))"
    "err = snd (snd (evaluate_turn l c payload prev_hash now))"
    "b_leases b' = (b_leases b)(i \<mapsto> fst (evaluate_turn l c payload prev_hash now))"
    using assms(2) Some by (auto simp: request_execution_def split: prod.splits)
  show ?thesis
  proof (cases "admissible l c prev_hash now")
    case True
    let ?r = "admitted_receipt l c payload now"
    let ?l = "l\<lparr>l_current_turn := l_current_turn l + 1, l_last_hash := rp_hash ?r\<rparr>"
    note ev = evaluate_turn_admit[OF True, of payload]
    have "account_of ?l = spend (rp_hash ?r) (account_of l)"
      using True by (intro spend_account[OF _ l(2)]) (auto simp: admissible_def)
    then have "accounts b' = (accounts b)(i \<mapsto> spend (rp_hash ?r) (account_of l))"
      using out(3) ev by (simp add: accounts_def fun_eq_iff)
    moreover have "account_step (accounts b) (Execute i c payload prev_hash now) (Executed (Some ?r) None)
        ((accounts b)(i \<mapsto> spend (rp_hash ?r) (account_of l)))"
      using True l(1) by (intro as_admitted[where s = "accounts b", OF acc]) (simp_all add: granted_account account_tip)
    ultimately show ?thesis using out ev by simp
  next
    case False
    obtain r m where ev: "evaluate_turn l c payload prev_hash now = (l, r, Some m)" and r: "rp_disposition r = ''DENY''"
      using evaluate_turn_deny[OF False] by blast
    have "accounts b' = accounts b" using out(3) ev Some by (simp add: accounts_def fun_eq_iff)
    with as_denied[where s = "accounts b", OF acc _ r, of c prev_hash now payload m] False out ev show ?thesis
      by (simp add: granted_account)
  qed
qed

lemma withdraw_refines:
  assumes "broker_revoke b i reason = (b', err)"
  shows "account_step (accounts b) (Withdraw i reason) (Withdrawn err) (accounts b')"
proof (cases "b_leases b i")
  case None
  with assms have "accounts b' = accounts b" "err = Some (''lease '' @ quote1 @ i @ quote1 @ '' not found'')"
    by (auto simp: broker_revoke_def accounts_def)
  moreover have "accounts b i = None" using None by (simp add: accounts_def)
  ultimately show ?thesis using as_stranger[of "accounts b" i reason] by simp
next
  case (Some l)
  then have acc: "accounts b i = Some (account_of l)" by (simp add: accounts_def)
  have "b_leases b' = (b_leases b)(i \<mapsto> revoke l reason)" "err = None"
    using assms Some by (auto simp: broker_revoke_def)
  then have "accounts b' = (accounts b)(i \<mapsto> (account_of l)\<lparr>ac_open := False\<rparr>)" "err = None"
    by (simp_all add: accounts_def fun_eq_iff revoked_account)
  with as_withdrawn[where s = "accounts b", OF acc] show ?thesis by simp
qed

lemma action_refines:
  assumes "broker_inv b" and "broker_action b call reply b'"
  shows "account_step (accounts b) call reply (accounts b')"
  using assms(2)
proof cases
  case (ba_register l)
  have "accounts (register_lease b l) = (accounts b)(l_id l \<mapsto> account_of l)"
    by (simp add: accounts_def register_lease_def fun_eq_iff)
  with ba_register as_register[of "accounts b" l] show ?thesis by simp
qed (use assms(1) execute_refines withdraw_refines in auto)

lemma action_replies: "\<exists>reply b'. broker_action b call reply b'"
proof (cases call)
  case (Execute i c payload prev_hash now)
  obtain b' rcpt err where "request_execution b i c payload prev_hash now = (b', rcpt, err)"
    by (cases "request_execution b i c payload prev_hash now")
  with Execute show ?thesis by (blast intro: ba_execute)
next
  case (Withdraw i reason)
  obtain b' err where "broker_revoke b i reason = (b', err)" by (cases "broker_revoke b i reason")
  with Withdraw show ?thesis by (blast intro: ba_withdraw)
qed (blast intro: ba_register)

interpretation broker_accounts: refinement_map broker_action account_step accounts broker_inv registrable
  by unfold_locales (blast intro: action_inv action_refines action_replies)+

section \<open>Properties\<close>

text \<open>
  C7: the broker refines the accounts: every sequence of registrations, requests and revocations with its replies
  is one of the accounts, where a request is admitted exactly when the account is open, current, has
  turns left, grants the capability and is asked with the tip of its chain; the 64-bit counters of
  the broker count like the numbers of turns that are left.
\<close>

lemma broker_refines_accounts:
  assumes "list_all (\<lambda>(call, _). registrable call) tr" and "run broker_action new_broker tr b"
  shows "run account_step Map.empty tr (accounts b)"
proof -
  have "broker_inv new_broker" by (simp add: broker_inv_def broker_ok_def broker_bounded_def new_broker_def)
  moreover have "accounts new_broker = Map.empty" by (simp add: accounts_def new_broker_def)
  ultimately show ?thesis using broker_accounts.run_refines[OF assms(2) _ assms(1)] by simp
qed

lemma broker_refines_accounts_witness:
  "\<exists>b r. run account_step Map.empty
       [(Register example_lease, Done), (Execute ''l'' ''read'' [] genesis_hash 1, Executed (Some r) None),
        (Withdraw ''l'' ''r'', Withdrawn None)] (accounts b) \<and>
     accounts b ''l'' = Some ((spend (rp_hash r) (account_of example_lease))\<lparr>ac_open := False\<rparr>)"
proof -
  let ?opened = "register_lease new_broker example_lease"
  let ?r = "admitted_receipt example_lease ''read'' [] 1"
  let ?l = "example_lease\<lparr>l_current_turn := l_current_turn example_lease + 1, l_last_hash := rp_hash ?r\<rparr>"
  let ?asked = "fst (request_execution ?opened ''l'' ''read'' [] genesis_hash 1)"
  let ?b = "fst (broker_revoke ?asked ''l'' ''r'')"
  let ?tr = "[(Register example_lease, Done), (Execute ''l'' ''read'' [] genesis_hash 1, Executed (Some ?r) None),
        (Withdraw ''l'' ''r'', Withdrawn None)]"
  have l0: "b_leases ?opened ''l'' = Some example_lease"
    by (simp add: register_lease_def example_lease_def new_lease_def)
  have adm: "admissible example_lease ''read'' genesis_hash 1"
    by (simp add: admissible_def phase_def capability_allowed_def example_lease_def new_lease_def time_units)
  note ev = evaluate_turn_admit[OF adm, of "[]"]
  have req: "request_execution ?opened ''l'' ''read'' [] genesis_hash 1 = (?asked, Some ?r, None)"
    using l0 ev by (simp add: request_execution_def)
  have l1: "b_leases ?asked ''l'' = Some ?l"
    using request_some(1)[OF l0, of "''read''" "[]" genesis_hash 1] ev by simp
  have rev: "broker_revoke ?asked ''l'' ''r'' = (?b, None)"
    using l1 by (simp add: broker_revoke_def)
  have "list_all (\<lambda>(call, _). registrable call) ?tr"
    by (simp add: registrable_def turns_bounded_def example_lease_def new_lease_def)
  moreover have "run broker_action new_broker ?tr ?b"
    by (rule run_Cons[of broker_action, OF ba_register run_Cons[of broker_action, OF ba_execute[OF req]
          run_single[of broker_action, OF ba_withdraw[OF rev]]]])
  ultimately have "run account_step Map.empty ?tr (accounts ?b)" by (rule broker_refines_accounts)
  moreover have "accounts ?b ''l'' = Some ((spend (rp_hash ?r) (account_of example_lease))\<lparr>ac_open := False\<rparr>)"
  proof -
    have "account_of ?l = spend (rp_hash ?r) (account_of example_lease)"
      using adm by (intro spend_account) (auto simp: admissible_def turns_bounded_def example_lease_def new_lease_def)
    then show ?thesis using l1 by (simp add: accounts_def revoke_leases revoked_account)
  qed
  ultimately show ?thesis by blast
qed

end
