(* ===== verification/Tracing.thy ===== *)
theory Tracing
  imports Telemetry
begin

text \<open>
  internal/telemetry/tracing.go and the histogram of metrics.go: the spans that the program opens,
  with their attributes, and the durations observed by label. The exporters and the buckets are the
  libraries'. Of the four kinds of spans the program opens only those of reconciliations.
\<close>

section \<open>Spans\<close>

definition tracer_name :: string where
  "tracer_name = ''github.com/ckodex-labs/ckodex-oskal''"

datatype span_attribute = StringAttribute string string | IntAttribute string int

record span =
  sp_tracer :: string
  sp_name :: string
  sp_attributes :: "span_attribute list"

definition get_tracer :: "string \<Rightarrow> span_attribute list \<Rightarrow> span" where
  "get_tracer name attributes = \<lparr>sp_tracer = tracer_name, sp_name = name, sp_attributes = attributes\<rparr>"

definition start_evaluation_span :: "string \<Rightarrow> string \<Rightarrow> span" where
  "start_evaluation_span contract_id subject_id =
     get_tracer ''AssuranceContract.Evaluate''
       [StringAttribute ''oskal.contract_id'' contract_id, StringAttribute ''oskal.subject_id'' subject_id]"

definition start_evidence_span :: "string \<Rightarrow> string \<Rightarrow> span" where
  "start_evidence_span source evidence_type =
     get_tracer ''Evidence.Ingest''
       [StringAttribute ''oskal.evidence_source'' source, StringAttribute ''oskal.evidence_type'' evidence_type]"

definition start_merkle_span :: "int \<Rightarrow> span" where
  "start_merkle_span leaf_count =
     get_tracer ''Merkle.DeriveTree'' [IntAttribute ''oskal.merkle_leaf_count'' leaf_count]"

definition start_receipt_span :: "string \<Rightarrow> string \<Rightarrow> span" where
  "start_receipt_span receipt_id signer =
     get_tracer ''Receipt.Sign''
       [StringAttribute ''oskal.receipt_id'' receipt_id, StringAttribute ''oskal.signer'' signer]"

section \<open>Traced reconciliations\<close>

text \<open>The durations of the histogram's series, in the order they were observed.\<close>

record trace_log =
  tl_spans :: "span list"
  tl_durations :: "string \<Rightarrow> duration list"

definition no_trace :: trace_log where
  "no_trace = \<lparr>tl_spans = [], tl_durations = (\<lambda>_. [])\<rparr>"

definition observe_duration :: "string \<Rightarrow> duration \<Rightarrow> trace_log \<Rightarrow> trace_log" where
  "observe_duration label d l = l\<lparr>tl_durations := (tl_durations l)(label := tl_durations l label @ [d])\<rparr>"

definition traced_reconcile ::
  "reconciler \<Rightarrow> (nat \<Rightarrow> time) \<Rightarrow> time \<Rightarrow> time \<Rightarrow> time \<Rightarrow> string \<Rightarrow> string \<Rightarrow> trace_log \<Rightarrow>
     trace_log \<times> effect list \<times> duration option result" where
  "traced_reconcile r clock now start stop ns name l =
     (let l = l\<lparr>tl_spans := tl_spans l @ [start_evaluation_span name ns]\<rparr>;
          res = reconcile r clock now ns name
      in (observe_duration name (stop - start) l, res))"

text \<open>A request of the manager: the binding's namespace and name, when it starts and when it ends.\<close>

type_synonym traced_request = "string \<times> string \<times> time \<times> time"

definition traced_run :: "reconciler \<Rightarrow> (nat \<Rightarrow> time) \<Rightarrow> trace_log \<Rightarrow> traced_request list \<Rightarrow> trace_log" where
  "traced_run r clock = foldl (\<lambda>l (ns, name, start, stop). fst (traced_reconcile r clock start start stop ns name l))"

section \<open>Properties\<close>

lemma traced_run_spans:
  "tl_spans (traced_run r clock l reqs) =
     tl_spans l @ map (\<lambda>(ns, name, start, stop). start_evaluation_span name ns) reqs"
  "tl_durations (traced_run r clock l reqs) i =
     tl_durations l i @ map (\<lambda>(ns, name, start, stop). stop - start) (filter (\<lambda>(ns, name, start, stop). name = i) reqs)"
  by (induction reqs arbitrary: l)
    (auto simp: traced_run_def traced_reconcile_def observe_duration_def Let_def)

text \<open>
  Further: every reconciliation, whether it finds its binding, fails or succeeds, opens one span and adds
  one duration, and its outcome is that of an untraced one; what the span calls the contract is the
  name of the binding and what it calls the subject is its namespace, so bindings of one name in two
  namespaces share a series of durations.
\<close>

lemma reconciliations_are_traced:
  "tl_spans (traced_run r clock no_trace reqs) = map (\<lambda>(ns, name, start, stop). start_evaluation_span name ns) reqs \<and>
   length (tl_durations (traced_run r clock no_trace reqs) i) =
     length (filter (\<lambda>(ns, name, start, stop). name = i) reqs) \<and>
   snd (traced_reconcile r clock now start stop ns name l) = reconcile r clock now ns name"
  by (simp add: traced_run_spans no_trace_def traced_reconcile_def Let_def)

end
