(* ===== verification/Pipeline.thy ===== *)
theory Pipeline
  imports Prelude
begin

text \<open>
  dagger/main.go: the pipeline that checks, builds and attests the repository. A container is the
  list of steps that makes it, a directory or a file is where it comes from; making them runs
  nothing. Syncing runs the commands of what is synced: that is the engine's, an argument of the
  pipeline that yields an error or none. The pipeline's own functions cannot fail, but the code
  checks their errors, and so does the model.
\<close>

section \<open>Containers, directories and files\<close>

datatype build_container =
    Scratch
  | With_From build_container string
  | With_Mounted_Directory build_container string directory
  | With_Workdir build_container string
  | With_Mounted_Cache build_container string string
  | With_File build_container string made_file "nat option"
  | With_Env build_container string string
  | With_Exec build_container "string list"
and directory =
    Host_Directory string
  | Container_Directory build_container string
  | Empty_Directory
  | With_Directory directory string directory
  | With_Dir_File directory string made_file
and made_file =
    Container_File build_container string

definition golang_version :: string where "golang_version = ''1.27''"

definition golangci_version :: string where "golangci_version = ''v2.14.0''"

definition syft_image :: string where "syft_image = ''anchore/syft:v1.52.0''"

definition grype_image :: string where "grype_image = ''anchore/grype:v0.119.0''"

definition buf_image :: string where "buf_image = ''bufbuild/buf:1.50.0''"

definition cosign_image :: string where "cosign_image = ''gcr.io/projectsigstore/cosign:v2.4.1''"

section \<open>The stages\<close>

definition pipeline_lint :: "directory \<Rightarrow> build_container result" where
  "pipeline_lint source =
     Ok (With_Exec (With_Mounted_Cache (With_Mounted_Cache (With_Workdir (With_Mounted_Directory
       (With_From Scratch (''golangci/golangci-lint:'' @ golangci_version)) ''/src'' source) ''/src'')
       ''/root/.cache/golangci-lint'' ''golangci-lint-cache'') ''/root/.cache/go-build'' ''go-build-cache'')
       [''golangci-lint'', ''run'', ''./...''])"

definition proto_check :: "directory \<Rightarrow> build_container result" where
  "proto_check source =
     Ok (With_Exec (With_Workdir (With_Mounted_Directory (With_From Scratch buf_image) ''/src'' source) ''/src'')
       [''buf'', ''lint''])"

text \<open>The container with the sources and the Go caches, from which the tests and the build start.\<close>

definition go_container :: "directory \<Rightarrow> build_container" where
  "go_container source =
     With_Mounted_Cache (With_Mounted_Cache (With_Workdir (With_Mounted_Directory
       (With_From Scratch (''golang:'' @ golang_version)) ''/src'' source) ''/src'')
       ''/root/.cache/go-build'' ''go-build-cache'') ''/go/pkg/mod'' ''go-mod-cache''"

definition pipeline_test :: "directory \<Rightarrow> build_container result" where
  "pipeline_test source =
     Ok (With_Exec (go_container source)
       [''go'', ''test'', ''-v'', ''-race'', ''-coverprofile=coverage.out'', ''./core/...'', ''./pkg/...'',
        ''./internal/...'', ''./tests/...''])"

definition pipeline_scan :: "directory \<Rightarrow> made_file result" where
  "pipeline_scan source =
     Ok (Container_File (With_Exec (With_Workdir (With_Mounted_Directory (With_From Scratch syft_image) ''/src'' source) ''/src'')
       [''/syft'', ''dir:.'', ''--exclude'', ''./dagger'', ''-o'', ''cyclonedx-json=/tmp/sbom.cdx.json''])
       ''/tmp/sbom.cdx.json'')"

definition vuln_check :: "directory \<Rightarrow> build_container result" where
  "vuln_check source =
     (case pipeline_scan source of
       Inl e \<Rightarrow> Err e
     | Inr sbom \<Rightarrow>
         Ok (With_Exec (With_File (With_From Scratch grype_image) ''/tmp/sbom.cdx.json'' sbom None)
           [''/grype'', ''sbom:/tmp/sbom.cdx.json'', ''--fail-on'', ''critical'']))"

definition pipeline_build :: "directory \<Rightarrow> directory result" where
  "pipeline_build source =
     Ok (Container_Directory
       (With_Exec (With_Exec (With_Exec (With_Env (go_container source) ''CGO_ENABLED'' ''0'')
         [''go'', ''build'', ''-trimpath'', ''-ldflags'', ''-s -w'', ''-o'', ''/out/bin/oskal'', ''./cmd/oskal''])
         [''go'', ''build'', ''-trimpath'', ''-ldflags'', ''-s -w'', ''-o'', ''/out/bin/oskal-controller'', ''./cmd/oskal-controller''])
         [''sh'', ''-c'', ''cd /out/bin && sha256sum * > SHA256SUMS''])
       ''/out/bin'')"

text \<open>The lines of the shell script of Attest; a double quote is the byte 0x22, a single one 0x27. The
  permissions of cosign, 0755 in octal, are 493.\<close>

definition dq :: "string \<Rightarrow> string" where
  "dq s = [CHR 0x22] @ s @ [CHR 0x22]"

definition provenance_script :: string where
  "provenance_script =
     join_str [CHR 0x0A]
       [[],
        ''OSKAL_HASH=$(sha256sum /out/bin/oskal | awk '' @ [CHR 0x27] @ ''{print $1}'' @ [CHR 0x27] @ '')'',
        ''CTRL_HASH=$(sha256sum /out/bin/oskal-controller | awk '' @ [CHR 0x27] @ ''{print $1}'' @ [CHR 0x27] @ '')'',
        [],
        ''cat <<EOF > /out/attestations/provenance.json'',
        ''{'',
        ''  '' @ dq ''buildDefinition'' @ '': {'',
        ''    '' @ dq ''buildType'' @ '': '' @ dq ''https://dagger.io/module/ckodex/oskal@v1'' @ '','',
        ''    '' @ dq ''externalParameters'' @ '': {'',
        ''      '' @ dq ''repository'' @ '': '' @ dq ''https://github.com/ckodex-labs/ckodex-oskal'',
        ''    }'',
        ''  },'',
        ''  '' @ dq ''runDetails'' @ '': {'',
        ''    '' @ dq ''builder'' @ '': {'',
        ''      '' @ dq ''id'' @ '': '' @ dq ''https://dagger.io/engine'',
        ''    }'',
        ''  }'',
        ''}'',
        ''EOF'',
        []]"

definition sign_blob :: "string \<Rightarrow> string \<Rightarrow> string list" where
  "sign_blob sig path =
     [''cosign'', ''sign-blob'', ''--yes'', ''--key'', ''cosign.key'', ''--output-signature'', sig, path]"

definition verify_blob :: "string \<Rightarrow> string \<Rightarrow> string list" where
  "verify_blob sig path = [''cosign'', ''verify-blob'', ''--key'', ''cosign.pub'', ''--signature'', sig, path]"

definition attest_commands :: "string list list" where
  "attest_commands =
     [[''cosign'', ''generate-key-pair''], [''sh'', ''-c'', provenance_script],
      sign_blob ''oskal.sig'' ''/out/bin/oskal'', sign_blob ''oskal-controller.sig'' ''/out/bin/oskal-controller'',
      [''cosign'', ''attest-blob'', ''--yes'', ''--key'', ''cosign.key'', ''--predicate'', ''provenance.json'',
       ''--type'', ''slsaprovenance1'', ''--output-attestation'', ''in-toto-attestation.json'', ''/out/bin/oskal''],
      verify_blob ''oskal.sig'' ''/out/bin/oskal'', verify_blob ''oskal-controller.sig'' ''/out/bin/oskal-controller'']"

definition attest :: "directory \<Rightarrow> directory result" where
  "attest source =
     (case pipeline_build source of
       Inl e \<Rightarrow> Err e
     | Inr bin_dir \<Rightarrow>
         let cosign_bin = Container_File (With_From Scratch cosign_image) ''/ko-app/cosign'';
             base = With_Env (With_Workdir (With_Mounted_Directory
               (With_File (With_From Scratch ''alpine:3.20'') ''/usr/local/bin/cosign'' cosign_bin (Some 493))
               ''/out/bin'' bin_dir) ''/out/attestations'') ''COSIGN_PASSWORD'' []
         in Ok (Container_Directory (foldl With_Exec base attest_commands) ''/out/attestations''))"

definition pipeline_evidence :: "directory \<Rightarrow> directory result" where
  "pipeline_evidence source =
     (case pipeline_build source of
       Inl e \<Rightarrow> Err e
     | Inr bin_dir \<Rightarrow>
         (case pipeline_scan source of
           Inl e \<Rightarrow> Err e
         | Inr sbom \<Rightarrow>
             (case attest source of
               Inl e \<Rightarrow> Err e
             | Inr attest_dir \<Rightarrow>
                 Ok (With_Directory (With_Dir_File (With_Directory Empty_Directory ''bin'' bin_dir)
                   ''sbom.cdx.json'' sbom) ''attestations'' attest_dir))))"

section \<open>The whole pipeline\<close>

text \<open>The engine, asked to sync a container or a directory, yields an error or none.\<close>

type_synonym 'a sync_engine = "'a \<Rightarrow> string option"

definition check_stage :: "string \<Rightarrow> string \<Rightarrow> 'a sync_engine \<Rightarrow> 'a result \<Rightarrow> unit result" where
  "check_stage setup failed sync made =
     (case made of
       Inl e \<Rightarrow> Err (setup @ '': '' @ e)
     | Inr c \<Rightarrow> (case sync c of Some e \<Rightarrow> Err (failed @ '': '' @ e) | None \<Rightarrow> Ok ()))"

definition pass_message :: string where
  "pass_message = ''[PASS] OSKAL SSDLC Pipeline passed: lint, test, scan, build, and evidence verified''"

definition pipeline_all :: "build_container sync_engine \<Rightarrow> directory sync_engine \<Rightarrow> directory \<Rightarrow> string result" where
  "pipeline_all sync sync_dir source =
     (case check_stage ''lint setup failed'' ''lint check failed'' sync (pipeline_lint source) of
       Inl e \<Rightarrow> Err e
     | Inr _ \<Rightarrow>
     (case check_stage ''proto check setup failed'' ''proto check failed'' sync (proto_check source) of
       Inl e \<Rightarrow> Err e
     | Inr _ \<Rightarrow>
     (case check_stage ''test setup failed'' ''tests failed'' sync (pipeline_test source) of
       Inl e \<Rightarrow> Err e
     | Inr _ \<Rightarrow>
     (case check_stage ''vuln check setup failed'' ''vulnerability check failed'' sync (vuln_check source) of
       Inl e \<Rightarrow> Err e
     | Inr _ \<Rightarrow>
     (case check_stage ''evidence generation failed'' ''evidence sync failed'' sync_dir (pipeline_evidence source) of
       Inl e \<Rightarrow> Err e
     | Inr _ \<Rightarrow> Ok pass_message)))))"

section \<open>What a sync runs\<close>

text \<open>The commands that make a container, a directory or a file, in the order they depend on each other.\<close>

fun container_commands :: "build_container \<Rightarrow> string list list"
  and directory_commands :: "directory \<Rightarrow> string list list"
  and file_commands :: "made_file \<Rightarrow> string list list" where
  "container_commands Scratch = []"
| "container_commands (With_From c img) = container_commands c"
| "container_commands (With_Mounted_Directory c path d) = container_commands c @ directory_commands d"
| "container_commands (With_Workdir c path) = container_commands c"
| "container_commands (With_Mounted_Cache c path key) = container_commands c"
| "container_commands (With_File c path f perm) = container_commands c @ file_commands f"
| "container_commands (With_Env c name val) = container_commands c"
| "container_commands (With_Exec c args) = container_commands c @ [args]"
| "directory_commands (Host_Directory path) = []"
| "directory_commands (Container_Directory c path) = container_commands c"
| "directory_commands Empty_Directory = []"
| "directory_commands (With_Directory d path d') = directory_commands d @ directory_commands d'"
| "directory_commands (With_Dir_File d path f) = directory_commands d @ file_commands f"
| "file_commands (Container_File c path) = container_commands c"

text \<open>An engine that syncs only what it could make: every command of it has succeeded.\<close>

definition honest_engine :: "(string list \<Rightarrow> bool) \<Rightarrow> build_container sync_engine \<Rightarrow> directory sync_engine \<Rightarrow> bool" where
  "honest_engine succeeds sync sync_dir =
     ((\<forall>c. sync c = None \<longrightarrow> list_all succeeds (container_commands c)) \<and>
      (\<forall>d. sync_dir d = None \<longrightarrow> list_all succeeds (directory_commands d)))"

definition build_commands :: "string list list" where
  "build_commands =
     [[''go'', ''build'', ''-trimpath'', ''-ldflags'', ''-s -w'', ''-o'', ''/out/bin/oskal'', ''./cmd/oskal''],
      [''go'', ''build'', ''-trimpath'', ''-ldflags'', ''-s -w'', ''-o'', ''/out/bin/oskal-controller'', ''./cmd/oskal-controller''],
      [''sh'', ''-c'', ''cd /out/bin && sha256sum * > SHA256SUMS'']]"

definition syft_command :: "string list" where
  "syft_command = [''/syft'', ''dir:.'', ''--exclude'', ''./dagger'', ''-o'', ''cyclonedx-json=/tmp/sbom.cdx.json'']"

lemma foldl_exec_commands:
  "container_commands (foldl With_Exec c cmds) = container_commands c @ cmds"
  by (induction cmds arbitrary: c) simp_all


lemma evidence_made:
  "pipeline_evidence source = Ok d \<Longrightarrow> \<exists>b f a. pipeline_build source = Ok b \<and> pipeline_scan source = Ok f \<and>
     attest source = Ok a \<and>
     d = With_Directory (With_Dir_File (With_Directory Empty_Directory ''bin'' b) ''sbom.cdx.json'' f) ''attestations'' a"
  by (auto simp: pipeline_evidence_def split: sum.splits)

section \<open>Properties\<close>

lemma check_stage_ok: "check_stage setup failed sync made = Ok () \<longleftrightarrow> (\<exists>c. made = Ok c \<and> sync c = None)"
  by (auto simp: check_stage_def split: sum.split option.split)

lemma check_stage_some:
  "check_stage setup failed sync (Ok c) = (case sync c of None \<Rightarrow> Ok () | Some e \<Rightarrow> Err (failed @ '': '' @ e))"
  by (simp add: check_stage_def split: option.split)

lemma stages_made:
  "\<exists>l p t v e. pipeline_lint source = Ok l \<and> proto_check source = Ok p \<and> pipeline_test source = Ok t \<and>
     vuln_check source = Ok v \<and> pipeline_evidence source = Ok e"
  by (simp add: pipeline_lint_def proto_check_def pipeline_test_def vuln_check_def pipeline_scan_def
      pipeline_evidence_def pipeline_build_def attest_def Let_def)

lemma pipeline_passes:
  "pipeline_all sync sync_dir source = Ok msg \<longleftrightarrow>
     msg = pass_message \<and>
     check_stage ''lint setup failed'' ''lint check failed'' sync (pipeline_lint source) = Ok () \<and>
     check_stage ''proto check setup failed'' ''proto check failed'' sync (proto_check source) = Ok () \<and>
     check_stage ''test setup failed'' ''tests failed'' sync (pipeline_test source) = Ok () \<and>
     check_stage ''vuln check setup failed'' ''vulnerability check failed'' sync (vuln_check source) = Ok () \<and>
     check_stage ''evidence generation failed'' ''evidence sync failed'' sync_dir (pipeline_evidence source) = Ok ()"
  by (auto simp: pipeline_all_def split: sum.split)

text \<open>What a pass has run, in the order in which the stages come.\<close>

definition pipeline_commands :: "string list list" where
  "pipeline_commands =
     [[''golangci-lint'', ''run'', ''./...''], [''buf'', ''lint''],
      [''go'', ''test'', ''-v'', ''-race'', ''-coverprofile=coverage.out'', ''./core/...'', ''./pkg/...'', ''./internal/...'', ''./tests/...''],
      syft_command, [''/grype'', ''sbom:/tmp/sbom.cdx.json'', ''--fail-on'', ''critical'']] @
     build_commands @ attest_commands"

lemma made_commands:
  "pipeline_lint source = Ok l \<Longrightarrow> container_commands l = directory_commands source @ [pipeline_commands ! 0]"
  "proto_check source = Ok p \<Longrightarrow> container_commands p = directory_commands source @ [pipeline_commands ! 1]"
  "pipeline_test source = Ok t \<Longrightarrow> container_commands t = directory_commands source @ [pipeline_commands ! 2]"
  "pipeline_scan source = Ok f \<Longrightarrow> file_commands f = directory_commands source @ [syft_command]"
  "vuln_check source = Ok v \<Longrightarrow> container_commands v = directory_commands source @ [syft_command, pipeline_commands ! 4]"
  "pipeline_build source = Ok b \<Longrightarrow> directory_commands b = directory_commands source @ build_commands"
  "attest source = Ok a \<Longrightarrow> directory_commands a = directory_commands source @ build_commands @ attest_commands"
  by (auto simp: pipeline_lint_def proto_check_def pipeline_test_def pipeline_scan_def vuln_check_def pipeline_build_def
      attest_def go_container_def pipeline_commands_def syft_command_def build_commands_def Let_def foldl_exec_commands)

lemma evidence_commands:
  assumes "pipeline_evidence source = Ok d"
  shows "directory_commands d = directory_commands source @ build_commands @ directory_commands source @ [syft_command] @
    directory_commands source @ build_commands @ attest_commands"
proof -
  from evidence_made[OF assms] obtain b f a where
    "pipeline_build source = Ok b" "pipeline_scan source = Ok f" "attest source = Ok a"
    and "d = With_Directory (With_Dir_File (With_Directory Empty_Directory ''bin'' b) ''sbom.cdx.json'' f) ''attestations'' a"
    by blast
  then show ?thesis by (simp only: directory_commands.simps made_commands append_Nil append_assoc)
qed

text \<open>
  C40: when the pipeline passes under an engine that syncs only what it could make, every command
  of it has succeeded: the linters, the tests, the scan of the sources and the check of its result,
  both builds, and the signing and the verification of both binaries.
\<close>

lemma pass_means_everything_ran:
  assumes "honest_engine succeeds sync sync_dir" and "pipeline_all sync sync_dir source = Ok msg"
  shows "list_all succeeds pipeline_commands"
proof -
  from assms(2) obtain l p t v e where made:
    "pipeline_lint source = Ok l" "proto_check source = Ok p" "pipeline_test source = Ok t"
    "vuln_check source = Ok v" "pipeline_evidence source = Ok e"
    and synced: "sync l = None" "sync p = None" "sync t = None" "sync v = None" "sync_dir e = None"
    unfolding pipeline_passes check_stage_ok by blast
  have "list_all succeeds (container_commands l)" "list_all succeeds (container_commands p)"
    "list_all succeeds (container_commands t)" "list_all succeeds (container_commands v)"
    using assms(1) synced by (simp_all add: honest_engine_def)
  moreover have "list_all succeeds (directory_commands e)"
    using assms(1) synced by (simp add: honest_engine_def)
  ultimately have "succeeds (pipeline_commands ! 0)" "succeeds (pipeline_commands ! 1)" "succeeds (pipeline_commands ! 2)"
    "succeeds syft_command" "succeeds (pipeline_commands ! 4)" "list_all succeeds (build_commands @ attest_commands)"
    using made by (simp_all add: made_commands evidence_commands)
  then show ?thesis by (simp add: pipeline_commands_def)
qed

lemma pass_means_everything_ran_witness:
  "list_all (\<lambda>args. args \<noteq> []) pipeline_commands"
proof -
  let ?ok = "\<lambda>args :: string list. args \<noteq> []"
  let ?sync = "\<lambda>c. if list_all ?ok (container_commands c) then None else Some ''exit code 1''"
  let ?sync_dir = "\<lambda>d. if list_all ?ok (directory_commands d) then None else Some ''exit code 1''"
  have honest: "honest_engine ?ok ?sync ?sync_dir" by (simp add: honest_engine_def)
  have cmds: "list_all ?ok (build_commands @ attest_commands @ [syft_command])"
    by (simp add: build_commands_def attest_commands_def syft_command_def sign_blob_def verify_blob_def)
  obtain l p t v e where made: "pipeline_lint (Host_Directory ''.'') = Ok l" "proto_check (Host_Directory ''.'') = Ok p"
    "pipeline_test (Host_Directory ''.'') = Ok t" "vuln_check (Host_Directory ''.'') = Ok v"
    "pipeline_evidence (Host_Directory ''.'') = Ok e"
    using stages_made by blast
  have "pipeline_all ?sync ?sync_dir (Host_Directory ''.'') = Ok pass_message"
    unfolding pipeline_passes check_stage_ok
    using made cmds by (simp add: made_commands evidence_commands) (simp add: pipeline_commands_def)
  from pass_means_everything_ran[OF honest this] show ?thesis .
qed

text \<open>
  Further: the pipeline always passes or reports the first stage whose sync fails, and asks for no later one:
  the stages are the linters, the protocol's linter, the tests, the vulnerability check and the
  evidence, in this order.
\<close>

lemma first_failure_is_reported:
  "\<exists>l p t v e. pipeline_lint source = Ok l \<and> proto_check source = Ok p \<and> pipeline_test source = Ok t \<and>
     vuln_check source = Ok v \<and> pipeline_evidence source = Ok e \<and>
     pipeline_all sync sync_dir source =
       (case sync l of Some m \<Rightarrow> Err (''lint check failed: '' @ m)
        | None \<Rightarrow> (case sync p of Some m \<Rightarrow> Err (''proto check failed: '' @ m)
        | None \<Rightarrow> (case sync t of Some m \<Rightarrow> Err (''tests failed: '' @ m)
        | None \<Rightarrow> (case sync v of Some m \<Rightarrow> Err (''vulnerability check failed: '' @ m)
        | None \<Rightarrow> (case sync_dir e of Some m \<Rightarrow> Err (''evidence sync failed: '' @ m)
        | None \<Rightarrow> Ok pass_message)))))"
proof -
  obtain l p t v e where made: "pipeline_lint source = Ok l" "proto_check source = Ok p" "pipeline_test source = Ok t"
    "vuln_check source = Ok v" "pipeline_evidence source = Ok e"
    using stages_made by blast
  have "pipeline_all sync sync_dir source =
       (case sync l of Some m \<Rightarrow> Err (''lint check failed: '' @ m)
        | None \<Rightarrow> (case sync p of Some m \<Rightarrow> Err (''proto check failed: '' @ m)
        | None \<Rightarrow> (case sync t of Some m \<Rightarrow> Err (''tests failed: '' @ m)
        | None \<Rightarrow> (case sync v of Some m \<Rightarrow> Err (''vulnerability check failed: '' @ m)
        | None \<Rightarrow> (case sync_dir e of Some m \<Rightarrow> Err (''evidence sync failed: '' @ m)
        | None \<Rightarrow> Ok pass_message)))))"
    unfolding pipeline_all_def made check_stage_some
    by (simp split: option.split)
  with made show ?thesis by blast
qed

end
