(* ===== verification/Cli_Tree.thy ===== *)
theory Cli_Tree
  imports Cli_Main
begin

text \<open>
  cmd/oskal/main.go, the command tree as it is built: each command with its usage line, its help and
  how many arguments it takes, and the groups. The library names a command by the first word of its
  usage line; a group that is run prints its help, which is the library's too.
\<close>

section \<open>Commands and groups\<close>

datatype arg_rule = AnyArgs | MaximumArgs nat | ExactArgs nat

record command_info =
  ci_use :: string
  ci_short :: string
  ci_long :: "string list"
  ci_args :: arg_rule

datatype command_node =
    Leaf command_info cli_command
  | Group command_info "command_node list"

fun info_of :: "command_node \<Rightarrow> command_info" where
  "info_of (Leaf i cmd) = i"
| "info_of (Group i ns) = i"

definition state_node :: command_node where
  "state_node =
     Leaf
       \<lparr>ci_use = ''state [<subject-uri>]'',
        ci_short = ''Show the current continuous assurance state for a subject'',
        ci_long = [],
        ci_args = MaximumArgs 1\<rparr>
       StateCmd"

definition explain_node :: command_node where
  "explain_node =
     Leaf
       \<lparr>ci_use = ''explain [<subject-uri>]'',
        ci_short = ''Explain why an assurance claim is justified or failing (Section 51)'',
        ci_long = [],
        ci_args = MaximumArgs 1\<rparr>
       ExplainCmd"

definition evidence_node :: command_node where
  "evidence_node =
     Leaf
       \<lparr>ci_use = ''evidence [<subject-uri>]'',
        ci_short = ''List verified evidence envelopes for a subject'',
        ci_long = [],
        ci_args = MaximumArgs 1\<rparr>
       EvidenceCmd"

definition drift_node :: command_node where
  "drift_node =
     Leaf
       \<lparr>ci_use = ''drift [<subject-uri>]'',
        ci_short = ''Detect semantic drift between observed runtime and recorded epoch'',
        ci_long = [],
        ci_args = MaximumArgs 1\<rparr>
       DriftCmd"

definition verify_receipt_node :: command_node where
  "verify_receipt_node =
     Leaf
       \<lparr>ci_use = ''verify'',
        ci_short = ''Verify an Ed25519-signed ControlReceipt and its Merkle evidence root'',
        ci_long = [],
        ci_args = AnyArgs\<rparr>
       VerifyReceiptCmd"

definition receipt_node :: command_node where
  "receipt_node =
     Group
       \<lparr>ci_use = ''receipt'',
        ci_short = ''Cryptographic receipt inspection and verification'',
        ci_long = [],
        ci_args = AnyArgs\<rparr>
       [verify_receipt_node]"

definition assurance_node :: command_node where
  "assurance_node =
     Group
       \<lparr>ci_use = ''assurance'',
        ci_short = ''Assurance state, evaluation, and explainability commands'',
        ci_long = [],
        ci_args = AnyArgs\<rparr>
       [state_node, explain_node, evidence_node, drift_node, receipt_node]"

definition record_admission_node :: command_node where
  "record_admission_node =
     Leaf
       \<lparr>ci_use = ''admission'',
        ci_short = ''Record admission control evidence for a Kubernetes manifest'',
        ci_long = [],
        ci_args = AnyArgs\<rparr>
       RecordAdmissionCmd"

definition record_node :: command_node where
  "record_node =
     Group
       \<lparr>ci_use = ''record'',
        ci_short = ''Record evaluation evidence from local manifests or runtime checks'',
        ci_long = [],
        ci_args = AnyArgs\<rparr>
       [record_admission_node]"

definition export_ar_node :: command_node where
  "export_ar_node =
     Leaf
       \<lparr>ci_use = ''assessment-results'',
        ci_short = ''Export to NIST OSCAL v1.2.3 Assessment Results JSON'',
        ci_long = [],
        ci_args = AnyArgs\<rparr>
       (ExportCmd AssessmentResults)"

definition export_comp_def_node :: command_node where
  "export_comp_def_node =
     Leaf
       \<lparr>ci_use = ''component-definition'',
        ci_short = ''Export to NIST OSCAL v1.2.3 Component Definition JSON'',
        ci_long = [],
        ci_args = AnyArgs\<rparr>
       (ExportCmd ComponentDefinition)"

definition export_ap_node :: command_node where
  "export_ap_node =
     Leaf
       \<lparr>ci_use = ''assessment-plan'',
        ci_short = ''Export to NIST OSCAL v1.2.3 Assessment Plan JSON'',
        ci_long = [],
        ci_args = AnyArgs\<rparr>
       (ExportCmd AssessmentPlan)"

definition export_ssp_node :: command_node where
  "export_ssp_node =
     Leaf
       \<lparr>ci_use = ''ssp'',
        ci_short = ''Export to NIST OSCAL v1.2.3 System Security Plan JSON'',
        ci_long = [],
        ci_args = AnyArgs\<rparr>
       (ExportCmd SecurityPlan)"

definition export_poam_node :: command_node where
  "export_poam_node =
     Leaf
       \<lparr>ci_use = ''poam'',
        ci_short = ''Export to NIST OSCAL v1.2.3 Plan of Action and Milestones JSON'',
        ci_long = [],
        ci_args = AnyArgs\<rparr>
       (ExportCmd ActionPlan)"

definition export_node :: command_node where
  "export_node =
     Group
       \<lparr>ci_use = ''export'',
        ci_short = ''Export continuous assurance data to standard OSCAL formats'',
        ci_long = [],
        ci_args = AnyArgs\<rparr>
       [export_ar_node, export_comp_def_node, export_ap_node, export_ssp_node, export_poam_node]"

definition import_oscal_node :: command_node where
  "import_oscal_node =
     Leaf
       \<lparr>ci_use = ''oscal'',
        ci_short = ''Import NIST OSCAL v1.2.3 Component Definition or SSP and output Kubernetes manifests'',
        ci_long = [],
        ci_args = AnyArgs\<rparr>
       ImportCmd"

definition import_node :: command_node where
  "import_node =
     Group
       \<lparr>ci_use = ''import'',
        ci_short = ''Import external compliance artifacts into Kubernetes CRDs'',
        ci_long = [],
        ci_args = AnyArgs\<rparr>
       [import_oscal_node]"

definition serve_node :: command_node where
  "serve_node =
     Leaf
       \<lparr>ci_use = ''serve'',
        ci_short = ''Start the gRPC AssuranceService daemon'',
        ci_long = [],
        ci_args = AnyArgs\<rparr>
       ServeCmd"

definition webhook_node :: command_node where
  "webhook_node =
     Leaf
       \<lparr>ci_use = ''webhook'',
        ci_short = ''Start the Kubernetes Validating Admission Webhook with in-flight attestation'',
        ci_long = [],
        ci_args = AnyArgs\<rparr>
       WebhookCmd"

definition validate_node :: command_node where
  "validate_node =
     Leaf
       \<lparr>ci_use = ''validate <file-path-or-dash>'',
        ci_short = ''Validate an OSCAL document against strict NIST v1.2.3 schemas'',
        ci_long = [''Validate any NIST OSCAL v1.2.3 document (JSON or YAML) with sub-millisecond execution.'',
          ''Auto-detects document type (Assessment Results, Component Definition, SSP, Assessment Plan, POAM)'',
          ''and provides exact JSON path error diagnostics.''],
        ci_args = ExactArgs 1\<rparr>
       ValidateCmd"

definition scaffold_node :: command_node where
  "scaffold_node =
     Leaf
       \<lparr>ci_use = ''scaffold [profile]'',
        ci_short = ''Scaffold Kubernetes ControlBinding, EvidenceContract, and OSCAL manifests'',
        ci_long = [''Generate baseline Kubernetes compliance artifacts and NIST OSCAL v1.2.3 Component Definitions.'',
          ''Supported profiles: nist-sp-800-53, pci-dss, soc-2, iso-27001.''],
        ci_args = MaximumArgs 1\<rparr>
       ScaffoldCmd"

definition doctor_node :: command_node where
  "doctor_node =
     Leaf
       \<lparr>ci_use = ''doctor'',
        ci_short = ''Run deep system preflight diagnostics (Constitution Section 36 & 37)'',
        ci_long = [''Examines runtime substrate, Kubernetes connectivity, SPIFFE/SPIRE Workload API socket,'',
          ''Sigstore trust root, local CAS evidence directory, and embedded NIST OSCAL v1.2.3 schemas.''],
        ci_args = AnyArgs\<rparr>
       DoctorCmd"

definition inspect_node :: command_node where
  "inspect_node =
     Leaf
       \<lparr>ci_use = ''inspect <subject-uri>'',
        ci_short = ''Inspect a workload and reconstruct the 4 Truth Channels (Constitution Section 13)'',
        ci_long = [''Reconstructs Telemetry trace, Execution trace, Decision trace, and Evidence trace'',
          ''for a governed workload subject without collapsing them into generic logs.''],
        ci_args = ExactArgs 1\<rparr>
       InspectCmd"

definition mcp_node :: command_node where
  "mcp_node =
     Leaf
       \<lparr>ci_use = ''mcp'',
        ci_short = ''Start native Model Context Protocol (stdio JSON-RPC 2.0) server'',
        ci_long = [''Exposes OSKAL continuous assurance capabilities as native MCP tools'',
          ''for Claude Code, Cursor, OpenCode, and AI developer environments over stdio.''],
        ci_args = AnyArgs\<rparr>
       McpCmd"

definition cockpit_node :: command_node where
  "cockpit_node =
     Leaf
       \<lparr>ci_use = ''cockpit'',
        ci_short = ''Interactive ASCII continuous assurance monitoring dashboard'',
        ci_long = [''Displays a live pure-ASCII terminal dashboard of workload vector states,'',
          ''Merkle roots, drift alerts, and reconciliation loops.''],
        ci_args = AnyArgs\<rparr>
       CockpitCmd"

definition config_view_node :: command_node where
  "config_view_node =
     Leaf
       \<lparr>ci_use = ''view'',
        ci_short = ''View active OSKAL configuration and source file'',
        ci_long = [],
        ci_args = AnyArgs\<rparr>
       ConfigViewCmd"

definition config_init_node :: command_node where
  "config_init_node =
     Leaf
       \<lparr>ci_use = ''init [path]'',
        ci_short = ''Initialize a default .oskal.yaml configuration file'',
        ci_long = [],
        ci_args = AnyArgs\<rparr>
       ConfigInitCmd"

definition config_node :: command_node where
  "config_node =
     Group
       \<lparr>ci_use = ''config'',
        ci_short = ''Manage persistent OSKAL configuration (.oskal.yaml)'',
        ci_long = [],
        ci_args = AnyArgs\<rparr>
       [config_view_node, config_init_node]"

definition prune_node :: command_node where
  "prune_node =
     Leaf
       \<lparr>ci_use = ''prune'',
        ci_short = ''Prune expired evidence envelopes from local CAS storage (bounded retention)'',
        ci_long = [''Prunes verified evidence envelopes older than the specified retention window'',
          ''from the local Content-Addressable Storage (CAS) directory to prevent unbounded disk growth.''],
        ci_args = AnyArgs\<rparr>
       PruneCmd"

definition root_node :: command_node where
  "root_node =
     Group
       \<lparr>ci_use = ''oskal'',
        ci_short = ''OSKAL -- Continuous Kubernetes Assurance CLI'',
        ci_long = [''OSKAL is the Continuous Kubernetes Assurance Runtime for CKODEX.'',
          ''It evaluates continuous evidence contracts, tracks semantic drift,'',
          ''and projects defensible results into standard OSCAL artifacts.''],
        ci_args = AnyArgs\<rparr>
       [assurance_node, record_node, export_node, import_node, serve_node, webhook_node, validate_node, scaffold_node, doctor_node, inspect_node, mcp_node, cockpit_node, config_node, prune_node]"

section \<open>Names, paths and arguments\<close>

definition command_name :: "command_info \<Rightarrow> string" where
  "command_name i = takeWhile (\<lambda>c. c \<noteq> CHR '' '') (ci_use i)"

fun leaves :: "string list \<Rightarrow> command_node \<Rightarrow> (string list \<times> command_info \<times> cli_command) list" where
  "leaves path (Leaf i cmd) = [(path @ [command_name i], i, cmd)]"
| "leaves path (Group i ns) = concat (map (leaves (path @ [command_name i])) ns)"

text \<open>The paths below the root, without its name.\<close>

definition tree_commands :: "(string list \<times> command_info \<times> cli_command) list" where
  "tree_commands = map (\<lambda>(path, i, cmd). (tl path, i, cmd)) (leaves [] root_node)"

fun rule_error :: "arg_rule \<Rightarrow> nat \<Rightarrow> string option" where
  "rule_error AnyArgs n = None"
| "rule_error (MaximumArgs m) n =
     (if n > m then Some (''accepts at most '' @ show_nat m @ '' arg(s), received '' @ show_nat n) else None)"
| "rule_error (ExactArgs m) n =
     (if n \<noteq> m then Some (''accepts '' @ show_nat m @ '' arg(s), received '' @ show_nat n) else None)"

section \<open>Properties\<close>

lemmas node_defs = root_node_def assurance_node_def state_node_def explain_node_def evidence_node_def drift_node_def receipt_node_def verify_receipt_node_def record_node_def record_admission_node_def export_node_def export_ar_node_def export_comp_def_node_def export_ap_node_def export_poam_node_def export_ssp_node_def import_node_def import_oscal_node_def serve_node_def webhook_node_def validate_node_def scaffold_node_def doctor_node_def inspect_node_def mcp_node_def cockpit_node_def config_node_def config_view_node_def config_init_node_def prune_node_def

text \<open>
  Further: the tree that the program builds is the table by which commands are run: its paths, in order, are those of
  the table, no path occurs twice, every command of the program occurs in it, and the rule for the arguments of each
  command is the one that is checked.
\<close>

lemma tree_is_the_table:
  "map (\<lambda>(path, i, cmd). (path, cmd)) tree_commands = command_table \<and> distinct (map fst tree_commands) \<and>
   cmd \<in> snd ` set command_table \<and>
   list_all (\<lambda>(path, i, cmd). rule_error (ci_args i) n = args_error cmd n) tree_commands"
proof -
  have paths: "map (\<lambda>(path, i, cmd). (path, cmd)) tree_commands = command_table"
    by (simp add: tree_commands_def node_defs command_name_def command_table_def)
  then have "map fst tree_commands = map fst command_table"
    by (metis (no_types, lifting) case_prod_conv fst_conv list.map_comp map_eq_conv comp_apply prod.exhaust_sel)
  moreover have "distinct (map fst command_table)" by (simp add: command_table_def)
  moreover have "cmd \<in> snd ` set command_table"
  proof (cases cmd)
    case (ExportCmd t)
    then show ?thesis by (cases t) (simp_all add: command_table_def)
  qed (simp_all add: command_table_def)
  moreover have one: "show_nat (Suc 0) = ''1''" by code_simp
  then have "list_all (\<lambda>(path, i, cmd). rule_error (ci_args i) n = args_error cmd n) tree_commands"
    by (simp add: tree_commands_def node_defs command_name_def args_error_def)
  ultimately show ?thesis using paths by simp
qed

end
