(* ===== verification/Spec2Isabelle.thy ===== *)
theory Spec2Isabelle
  imports Client Cli_Main Controller Reconcile Lease State_Repo Airgap Webhook Observers Open_Reports Spire Kubernetes Api_Copies
    Api_Values Ports Lease_Account Tracing Pipeline Cli_Tree
begin

text \<open>
  A verification library for OSKAL, the continuous assurance engine for Kubernetes workloads.

  The program. Observers at the edge (an admission webhook, Cilium, Tetragon, Sigstore, a model
  shield, an importer of OpenReports, SPIRE) turn what they see into evidence envelopes. An envelope
  names its subject, its producer, an artifact and the epoch it belongs to, and goes to a content
  addressed store. The reconciler of control bindings resolves the subject and the controls of a
  binding, evaluates each control against an evidence contract at the current epoch, writes the
  state to the API server and has receipts signed. The gRPC service ingests observations, evaluates
  and explains subjects and accepts receipts. Bundles carry evidence to air-gapped sites, and a
  broker admits the turns of an agent under a capability lease, chained by hashes. OSCAL documents are
  ingested into bindings and contracts, and evaluations are projected into OSCAL documents. The
  command line, an MCP server for agents, a client library and the controller process put these
  parts together.

  Theories and sources (paths under src).

    Prelude          Go strings, decimal numbers, 64-bit and 32-bit integers, times and durations,
                     maps with an unspecified iteration order, runs of step functions.
    Sha256           crypto/sha256 and encoding/hex at 32-bit words: the digests of all components.
    Assurance_State  core/assurance/state.go: states, the life cycle, the vector and its resolution.
    Epoch            core/assurance/epoch.go.
    Evidence         core/assurance/evidence.go, first half: references, envelopes, type matching.
    Contract         core/assurance/evidence.go, second half: the evaluation of a contract and its
                     specification over the set of envelopes.
    Claim            core/assurance/claim.go: evaluations, exceptions, receipts, explanations.
    Receipts         internal/receipts/receipt.go, pkg/oskal/receipt.go, internal/verifier/verifier.go.
    Cas              internal/adapters/storage/cas.go.
    State_Repo       internal/adapters/storage/assurance_repo.go and observation_source.go.
    Lease            core/assurance/lease.go and internal/adapters/workcell/broker.go.
    Airgap           internal/adapters/airgap/bundle.go.
    Webhook          internal/adapters/cel/admission.go and internal/adapters/webhook/server.go.
    Observers        internal/adapters/cilium, tetragon, sigstore and shield.
    Open_Reports     internal/adapters/openreports/adapter.go.
    Spire            internal/adapters/spire/authority.go and svid.go.
    Kubernetes       internal/adapters/kubernetes/discovery.go and control_resolver.go.
    Reconcile        internal/application/reconcile/controller.go.
    Explain          internal/application/explain/explainer.go.
    Service          internal/service/server.go.
    Client           pkg/oskal: the gRPC client, the in-process engine, the builders.
    Json, Oscal      JSON values; the OSCAL documents of internal/projection/oscal/projector.go.
    Projector        internal/projection/oscal/projector.go.
    Validator        internal/projection/oscal/validator.go.
    Ingest           internal/reconciler/oscal/ingest.go.
    Scaffold         internal/scaffold/scaffold.go.
    Diagnostics      internal/application/diagnostics.
    Mcp              internal/adapters/mcp/server.go.
    Config           internal/config/config.go.
    Terminal         internal/ui/format/format.go.
    Cockpit          internal/ui/cockpit/cockpit.go.
    Telemetry        internal/telemetry/metrics.go and what the reconcilers and the broker record.
    Tracing          internal/telemetry/tracing.go and the histogram of durations.
    Webhook_Server   internal/adapters/webhook/tls.go and the start of server.go.
    Controller       cmd/oskal-controller/main.go: a run of the controller as events.
    Commands         cmd/oskal/main.go: assurance and record.
    Cli_Reports      cmd/oskal/main.go: export, import, validate, scaffold, doctor, inspect, config, prune.
    Cli_Main         cmd/oskal/main.go: the daemons, the command tree, flags, exit status.
    Cli_Tree         cmd/oskal/main.go: the tree of commands as it is built, with their help.
    Go_Heap          memory with slices and pointers, and the locale of deep copies.
    Api_Memory       api/assurance/v1alpha1/*_types.go as they lie in memory.
    Api_Copies       the deep copies of capabilitylease_types.go and zz_generated.deepcopy.go.
    Api_Values       the deep copies of the structures without references.
    Simulation       runs of labelled steps; simulations and refinement maps, as locales.
    Evidence_Store   the shelf of envelopes and texts that the repository of Cas refines.
    Lease_Account    the accounts that the broker of Lease refines.
    Ports            internal/ports/ports.go and the adapters as values of its interfaces; the
                     evaluator wired to the repository.
    Pipeline         dagger/main.go: the stages of the pipeline and what a pass has run.

  How state and operations correspond. A struct is a record with the fields of the code under a
  short prefix; an enumeration is a datatype with an extra constructor for undeclared values. An
  operation takes the state and returns the new one with its result; a method under a lock is one
  step. An error is the left summand of a result, with the text of the code up to the wrapped
  error; a nil pointer that is dereferenced is the reply Panicked. What the reconciler writes and
  what the broker reports is a list of effects in order. A process that runs on is
  a fold over the events it meets. Loops are structural recursions or folds, or end by a measure
  (duration_parts in Json), so every function is total and there is no fuel. Only where aliasing
  matters, in the deep copies, is memory explicit: a heap of arrays.

  Arguments of the model. Code that is not in the repository is an argument: Ed25519 (sign, verify
  and key generation), the JSON encoder and decoder, X.509 parsing and chain verification, the API
  server, the file system, the clock. A range loop over a map takes an enumeration of its keys;
  the properties hold for every enumeration. What is assumed of an argument is a hypothesis of the
  property (for instance that a key pair verifies its own signatures), and each such property has
  a witness. Security properties are not stated under an assumption that hashing is injective:
  they name the two inputs that would have to collide, or the forged signature.

  Integers. Turn counters of leases are 64-bit words and the counters of messages are wrapped to 32
  bits; UnixNano wraps at 64 bits and Sub saturates. Counters that are lengths of lists in memory
  are unbounded integers.

  Interfaces. Digests by content (content_addressed, in Sha256), invariants of runs (step_invariant, in Prelude),
  evidence repositories (evidence_repository, in Cas), assurance repositories
  (assurance_repository, in State_Repo), observers (observer, in Observers), simulations and refinement
  maps (simulation and refinement_map, in Simulation), deep copies (deep_copy, in Go_Heap) and the library's copies of metadata (library_types, in Api_Copies) are locales; each
  is interpreted on the definitions of the code, the last on metadata with its finalizers, and the
  properties rest on the facts of the interpretations.

  Groups of lemmas. Contract: the fold over the requirements refines a specification that speaks of
  sets of envelopes only, counters account for every requirement. Lease: an invariant of the
  broker over all runs, from which the receipt chain, the turn budget and the finality of a
  revocation follow. Cas: what is stored stays readable under its digest, listings are exact for
  every iteration order, pruning removes exactly what expired. Claim and Receipts: the signed bytes
  determine a receipt whose fields hold no line breaks, so that an altered receipt needs a forged
  signature; with line breaks they do not, and one signature serves two receipts. Reconcile: the state
  of a binding is the worst of its controls, an ASSURED binding has fresh supporting evidence
  for every required requirement, and exactly what a pass writes and records. Service: ASSURED means
  supporting evidence, what one submitted observation makes of its subject, and where the calls of the
  service disagree. Airgap: a bundle is imported only when it passes its checks and every put succeeds,
  and what was exported is readable in the target. Spire: an attestation speaks of the identity that the
  certificate's URI and its path name.

  Client: the engine and the service agree after the same observations. Projector, Validator, Ingest:
  every link of a document leads somewhere, a projected document is detected and validated as what it
  is, and what is exported is imported again, without its state. Scaffold: the evidence that a scaffolded
  binding needs to become ASSURED, which two of the four profiles never do. Controller: no binding is
  ASSURED by the evidence of the controller's own webhook. Mcp: every request is answered once, in
  order, by a result or the error of its kind, until the context is cancelled. Commands, Cli_Reports,
  Cli_Main: what the commands print and write, their exit status, and how the webhook daemon ends.
  Go_Heap and Api_Copies: a deep copy shows the same and shares no memory with its original; the
  fields of a structure, slices and pointers keep this, so that each type is a few lines.

  Evidence_Store, Lease_Account: abstract specifications by steps with replies, and refinement maps
  to them: every run of the repository in memory is a run of the shelf, every run of the broker one
  of the accounts. Ports: the verdict of the evaluator wired to the repository is that of the
  contract's specification over what the shelf holds. Pipeline: a pass means that every command has
  succeeded.

  Left out of modelled functions: the reconciler hands its evidence repository to its evaluator, which
  is wired to its source in the model already; and the fields of an explanation that the service never
  sends (identifiers, locations, media types, epochs) are not read by the client.

  Not modelled: logging; the exporters of metrics and spans; the transport of gRPC and TLS listeners;
  parsing of command lines; case folding and white space beyond ASCII; the registration of types in
  the scheme and of controllers with the manager; the engine of Dagger, which the pipeline only
  describes its containers to; protoc's output.
\<close>

end
